(* ===== verification/Prelude.thy ===== *)
theory Prelude
  imports Main "HOL-Library.AList"
begin

text \<open>
  Shared vocabulary of the development: the outcome of a Go function that may return an
  error or panic, programs over an explicit state, the error values of the repository and
  the standard library's walk along their chain, JSON values, instants, and Go maps as
  association lists with distinct keys.  The locale
  \<^verbatim>\<open>step_rel\<close> carries invariants and frame conditions through the program combinators.
\<close>

section \<open>Errors\<close>

text \<open>
  The error values the code builds.  \<^verbatim>\<open>EWrap\<close> is \<^verbatim>\<open>pkgerr.Wrap/WithMessage\<close> (their
  results have an \<^verbatim>\<open>Unwrap\<close> method), \<^verbatim>\<open>EProtocol\<close> and \<^verbatim>\<open>ETx\<close> are the repository's
  own types over \<^verbatim>\<open>errs.WithMessage\<close>, \<^verbatim>\<open>EHttp\<close> is \<^verbatim>\<open>httputil.HttpError\<close>, \<^verbatim>\<open>EAdmin\<close>
  is \<^verbatim>\<open>janus_admin.ErrorAMResponse\<close> with its code.  \<^verbatim>\<open>pkgerr.WithStack\<close> only adds a stack
  trace and is not recorded.
\<close>

datatype gerr =
    EText string
  | ENoRows
  | EDb string
  | EAdmin int string
  | EWrap string gerr
  | EProtocol string "gerr option"
  | ETx string gerr
  | EHttp int "gerr option" string

text \<open>
  \<^verbatim>\<open>errors.As\<close> and \<^verbatim>\<open>errors.Is\<close> follow \<^verbatim>\<open>Unwrap\<close> only.  \<^verbatim>\<open>errs.WithMessage\<close> and
  \<^verbatim>\<open>HttpError\<close> have no \<^verbatim>\<open>Unwrap\<close>, so the walk stops at them.
\<close>

fun as_protocol :: "gerr \<Rightarrow> bool" where
  "as_protocol (EProtocol m e) = True"
| "as_protocol (EWrap m e) = as_protocol e"
| "as_protocol e = False"

fun as_http :: "gerr \<Rightarrow> (int \<times> gerr option \<times> string) option" where
  "as_http (EHttp c e m) = Some (c, e, m)"
| "as_http (EWrap m e) = as_http e"
| "as_http e = None"

fun as_admin :: "gerr \<Rightarrow> int option" where
  "as_admin (EAdmin c m) = Some c"
| "as_admin (EWrap m e) = as_admin e"
| "as_admin e = None"

fun is_no_rows :: "gerr \<Rightarrow> bool" where
  "is_no_rows ENoRows = True"
| "is_no_rows (EWrap m e) = is_no_rows e"
| "is_no_rows e = False"

section \<open>Outcomes and programs\<close>

datatype 'a res = Ok 'a | Err gerr | Panic gerr

definition is_ok :: "'a res \<Rightarrow> bool" where
  "is_ok r = (case r of Ok x \<Rightarrow> True | _ \<Rightarrow> False)"

lemma is_ok_run: "is_ok (fst p) \<Longrightarrow> \<exists>x. p = (Ok x, snd p)"
  by (cases p; cases "fst p") (auto simp: is_ok_def)

lemma fst_run: "fst p = r \<Longrightarrow> p = (r, snd p)"
  by (cases p) simp

type_synonym ('w, 'a) prog = "'w \<Rightarrow> 'a res \<times> 'w"

definition returnP :: "'a \<Rightarrow> ('w, 'a) prog" where
  "returnP x = (\<lambda>w. (Ok x, w))"

definition errP :: "gerr \<Rightarrow> ('w, 'a) prog" where
  "errP e = (\<lambda>w. (Err e, w))"

definition panicP :: "gerr \<Rightarrow> ('w, 'a) prog" where
  "panicP e = (\<lambda>w. (Panic e, w))"

definition bindP :: "('w, 'a) prog \<Rightarrow> ('a \<Rightarrow> ('w, 'b) prog) \<Rightarrow> ('w, 'b) prog" where
  "bindP m f = (\<lambda>w. case m w of
       (Ok x, w') \<Rightarrow> f x w'
     | (Err e, w') \<Rightarrow> (Err e, w')
     | (Panic e, w') \<Rightarrow> (Panic e, w'))"

text \<open>\<^verbatim>\<open>if err != nil { return pkgerr.Wrap(err, msg) }\<close>\<close>

definition wrapP :: "string \<Rightarrow> ('w, 'a) prog \<Rightarrow> ('w, 'a) prog" where
  "wrapP msg m = (\<lambda>w. case m w of
       (Ok x, w') \<Rightarrow> (Ok x, w')
     | (Err e, w') \<Rightarrow> (Err (EWrap msg e), w')
     | (Panic e, w') \<Rightarrow> (Panic e, w'))"

text \<open>\<^verbatim>\<open>x, err := m\<close> with the error inspected by the caller; a panic still unwinds.\<close>

definition tryP :: "('w, 'a) prog \<Rightarrow> (gerr + 'a \<Rightarrow> ('w, 'b) prog) \<Rightarrow> ('w, 'b) prog" where
  "tryP m f = (\<lambda>w. case m w of
       (Ok x, w') \<Rightarrow> f (Inr x) w'
     | (Err e, w') \<Rightarrow> f (Inl e) w'
     | (Panic e, w') \<Rightarrow> (Panic e, w'))"

definition getsP :: "('w \<Rightarrow> 'a) \<Rightarrow> ('w, 'a) prog" where
  "getsP f = (\<lambda>w. (Ok (f w), w))"

definition modifyP :: "('w \<Rightarrow> 'w) \<Rightarrow> ('w, unit) prog" where
  "modifyP f = (\<lambda>w. (Ok (), f w))"

text \<open>A \<^verbatim>\<open>for _, x := range xs\<close> loop whose body may return an error.\<close>

fun foreachP :: "'a list \<Rightarrow> ('a \<Rightarrow> ('w, unit) prog) \<Rightarrow> ('w, unit) prog" where
  "foreachP [] f = returnP ()"
| "foreachP (x # xs) f = bindP (f x) (\<lambda>_. foreachP xs f)"

lemmas prog_defs = returnP_def errP_def panicP_def bindP_def wrapP_def tryP_def getsP_def
  modifyP_def

lemma bindP_return [simp]: "bindP (returnP x) f = f x"
  by (simp add: bindP_def returnP_def)

lemma bindP_err [simp]: "bindP (errP e) f = errP e"
  by (simp add: bindP_def errP_def)

lemma bindP_panic [simp]: "bindP (panicP e) f = panicP e"
  by (simp add: bindP_def panicP_def)

lemma bindP_returnP_right [simp]: "bindP m returnP = m"
  by (rule ext) (simp add: bindP_def returnP_def split: prod.split res.split)

lemma bindP_assoc: "bindP (bindP m f) g = bindP m (\<lambda>x. bindP (f x) g)"
  by (rule ext) (simp add: bindP_def split: prod.split res.split)

lemma bindP_Ok [simp]: "m w = (Ok x, w') \<Longrightarrow> bindP m f w = f x w'"
  by (simp add: bindP_def)

lemma bindP_Err [simp]: "m w = (Err e, w') \<Longrightarrow> bindP m f w = (Err e, w')"
  by (simp add: bindP_def)

lemma bindP_Panic [simp]: "m w = (Panic e, w') \<Longrightarrow> bindP m f w = (Panic e, w')"
  by (simp add: bindP_def)

lemma bindP_Ok_iff:
  "bindP m f w = (Ok y, w2) \<longleftrightarrow> (\<exists>x w1. m w = (Ok x, w1) \<and> f x w1 = (Ok y, w2))"
  by (auto simp: bindP_def split: prod.splits res.splits)

lemma wrapP_Ok_iff [simp]: "wrapP s m w = (Ok y, w2) \<longleftrightarrow> m w = (Ok y, w2)"
  by (auto simp: wrapP_def split: prod.splits res.splits)

lemma bindP_OkE:
  assumes "bindP m f w = (Ok y, w2)"
  obtains x w1 where "m w = (Ok x, w1)" and "f x w1 = (Ok y, w2)"
  using assms by (auto simp: bindP_Ok_iff)

lemma foreachP_ConsE:
  assumes "foreachP (x # xs) f w = (Ok (), w')"
  obtains w1 where "f x w = (Ok (), w1)" and "foreachP xs f w1 = (Ok (), w')"
  using assms by (auto simp: bindP_Ok_iff)

lemma returnP_apply [simp]: "returnP x w = (Ok x, w)"
  by (simp add: returnP_def)

lemma errP_apply [simp]: "errP e w = (Err e, w)"
  by (simp add: errP_def)

lemma panicP_apply [simp]: "panicP e w = (Panic e, w)"
  by (simp add: panicP_def)

lemma getsP_apply [simp]: "getsP f w = (Ok (f w), w)"
  by (simp add: getsP_def)

lemma modifyP_apply [simp]: "modifyP f w = (Ok (), f w)"
  by (simp add: modifyP_def)

subsection \<open>Relations kept by every step of a program\<close>

text \<open>
  \<^verbatim>\<open>within R m\<close>: the state before and the state after \<^verbatim>\<open>m\<close> are related by
  \<^verbatim>\<open>R\<close>, whatever the outcome.  For a reflexive and transitive relation (an invariant, a
  frame condition, a monotone counter) the combinators inherit it from their parts; the locale
  proves this once and its interpretations feed \<^verbatim>\<open>within_rules\<close>.
\<close>

named_theorems within_rules "programs whose steps stay in a relation"

definition within :: "('w \<Rightarrow> 'w \<Rightarrow> bool) \<Rightarrow> ('w, 'a) prog \<Rightarrow> bool" where
  "within R m \<longleftrightarrow> (\<forall>w. R w (snd (m w)))"

lemma withinI: "(\<And>w. R w (snd (m w))) \<Longrightarrow> within R m"
  by (simp add: within_def)

lemma withinD: "within R m \<Longrightarrow> R w (snd (m w))"
  by (simp add: within_def)

lemma withinD': "within R m \<Longrightarrow> m w = (r, w') \<Longrightarrow> R w w'"
  by (metis withinD snd_conv)

lemma within_case_option [within_rules]:
  "(x = None \<Longrightarrow> within R m) \<Longrightarrow> (\<And>y. x = Some y \<Longrightarrow> within R (n y)) \<Longrightarrow>
   within R (case x of None \<Rightarrow> m | Some y \<Rightarrow> n y)"
  by (cases x) simp_all

lemma within_case_sum [within_rules]:
  "(\<And>y. x = Inl y \<Longrightarrow> within R (m y)) \<Longrightarrow> (\<And>y. x = Inr y \<Longrightarrow> within R (n y)) \<Longrightarrow>
   within R (case x of Inl y \<Rightarrow> m y | Inr y \<Rightarrow> n y)"
  by (cases x) simp_all

lemma within_case_res [within_rules]:
  "(\<And>y. x = Ok y \<Longrightarrow> within R (f y)) \<Longrightarrow> (\<And>e. x = Err e \<Longrightarrow> within R (g e)) \<Longrightarrow>
   (\<And>e. x = Panic e \<Longrightarrow> within R (h e)) \<Longrightarrow>
   within R (case x of Ok y \<Rightarrow> f y | Err e \<Rightarrow> g e | Panic e \<Rightarrow> h e)"
  by (cases x) simp_all

lemma within_if [within_rules]:
  "(b \<Longrightarrow> within R m) \<Longrightarrow> (\<not> b \<Longrightarrow> within R n) \<Longrightarrow> within R (if b then m else n)"
  by simp

lemma within_let [within_rules]:
  "(\<And>y. within R (f y)) \<Longrightarrow> within R (let x = v in f x)"
  by (simp add: Let_def)

locale step_rel =
  fixes R :: "'w \<Rightarrow> 'w \<Rightarrow> bool"
  assumes R_refl: "R w w"
    and R_trans: "R u v \<Longrightarrow> R v w \<Longrightarrow> R u w"
begin

lemma within_returnP [within_rules]: "within R (returnP x)"
  by (simp add: within_def R_refl)

lemma within_errP [within_rules]: "within R (errP e)"
  by (simp add: within_def R_refl)

lemma within_panicP [within_rules]: "within R (panicP e)"
  by (simp add: within_def R_refl)

lemma within_getsP [within_rules]: "within R (getsP f)"
  by (simp add: within_def R_refl)

lemma within_Pair [within_rules]: "within R (Pair r)"
  by (simp add: within_def R_refl)

lemma within_bindP [within_rules]:
  assumes m: "within R m" and f: "\<And>x. within R (f x)"
  shows "within R (bindP m f)"
proof (rule withinI)
  fix w
  obtain r w' where r: "m w = (r, w')" by fastforce
  with m have "R w w'" by (rule withinD')
  with f r show "R w (snd (bindP m f w))"
    by (cases r) (auto simp: bindP_def intro: R_trans dest: withinD)
qed

lemma within_wrapP [within_rules]:
  assumes m: "within R m" shows "within R (wrapP s m)"
proof (rule withinI)
  fix w
  obtain r w' where r: "m w = (r, w')" by fastforce
  with m have "R w w'" by (rule withinD')
  with r show "R w (snd (wrapP s m w))" by (cases r) (auto simp: wrapP_def)
qed

lemma within_tryP [within_rules]:
  assumes m: "within R m" and f: "\<And>x. within R (f x)"
  shows "within R (tryP m f)"
proof (rule withinI)
  fix w
  obtain r w' where r: "m w = (r, w')" by fastforce
  with m have "R w w'" by (rule withinD')
  with f r show "R w (snd (tryP m f w))"
    by (cases r) (auto simp: tryP_def intro: R_trans dest: withinD)
qed

lemma within_foreachP [within_rules]:
  "(\<And>x. x \<in> set xs \<Longrightarrow> within R (f x)) \<Longrightarrow> within R (foreachP xs f)"
  by (induction xs) (auto intro: within_returnP within_bindP)

end

section \<open>JSON values and instants\<close>

text \<open>
  Instants are nanoseconds since the Unix epoch; Go's zero \<^verbatim>\<open>time.Time\<close> is the first of
  January of year 1.  A JSON value is what \<^verbatim>\<open>encoding/json\<close> and \<^verbatim>\<open>jsonb\<close> exchange;
  \<^verbatim>\<open>JTime\<close> is the string that renders an instant (RFC 3339), \<^verbatim>\<open>JFrac\<close> the literal of
  a number with a fraction or an exponent.
\<close>

type_synonym time = int

definition second :: time where "second = 1000000000"

definition zero_time :: time where "zero_time = - 62135596800 * second"

definition unix_seconds :: "time \<Rightarrow> int" where "unix_seconds t = t div second"

datatype json =
    JNull
  | JBool bool
  | JNum int
  | JFrac string
  | JStr string
  | JTime time
  | JArr "json list"
  | JObj "(string \<times> json) list"

text \<open>The \<^verbatim>\<open>||\<close> operator of \<^verbatim>\<open>jsonb\<close>: objects merge with the right side winning.\<close>

fun jsonb_concat :: "json \<Rightarrow> json \<Rightarrow> json" where
  "jsonb_concat (JObj a) (JObj b) = JObj (fold (\<lambda>(k, v) m. AList.update k v m) b a)"
| "jsonb_concat (JArr a) (JArr b) = JArr (a @ b)"
| "jsonb_concat (JArr a) y = JArr (a @ [y])"
| "jsonb_concat x (JArr b) = JArr (x # b)"
| "jsonb_concat x y = JArr [x, y]"

section \<open>Go maps\<close>

text \<open>
  A Go map is an association list: \<^verbatim>\<open>m[k]\<close> is \<^verbatim>\<open>map_of m k\<close>, \<^verbatim>\<open>m[k] = v\<close> is
  \<^verbatim>\<open>AList.update k v m\<close>.  Go leaves the order of a \<^verbatim>\<open>range\<close> over a map open; the
  properties are stated on sets or on keys, not on that order.
\<close>

type_synonym ('k, 'v) gomap = "('k \<times> 'v) list"

definition mvalues :: "('k, 'v) gomap \<Rightarrow> 'v list" where
  "mvalues m = map snd m"

definition wf_map :: "('k, 'v) gomap \<Rightarrow> bool" where
  "wf_map m \<longleftrightarrow> distinct (map fst m)"

lemma wf_map_Nil [simp]: "wf_map []"
  by (simp add: wf_map_def)

lemma wf_map_update [simp]: "wf_map m \<Longrightarrow> wf_map (AList.update k v m)"
  by (simp add: wf_map_def distinct_update)

lemma map_of_update_other [simp]: "k' \<noteq> k \<Longrightarrow> map_of (AList.update k v m) k' = map_of m k'"
  by (simp add: update_conv')

lemma map_of_update_same [simp]: "map_of (AList.update k v m) k = Some v"
  by (simp add: update_conv')

lemma mvalues_map_of: "wf_map m \<Longrightarrow> set (mvalues m) = {v. \<exists>k. map_of m k = Some v}"
  by (force simp: wf_map_def mvalues_def image_iff)

lemma find_Some_in: "find P xs = Some x \<Longrightarrow> x \<in> set xs \<and> P x"
  by (auto simp: find_Some_iff)

lemma find_None_all: "find P xs = None \<longleftrightarrow> (\<forall>x \<in> set xs. \<not> P x)"
  by (auto simp: find_None_iff)

end
