(* ===== verification/Schema.thy ===== *)
theory Schema
  imports Prelude
begin

text \<open>
  The data model (\<^verbatim>\<open>models/*.go\<close>, \<^verbatim>\<open>migrations/*.sql\<close>): one record per table row, the
  database as a record of tables with the sequences of the \<^verbatim>\<open>BIGSERIAL\<close> keys, and the
  statements the generated model code sends.  A statement returns an error or a value and the
  new database; a violated constraint leaves the tables as they were.  Sequence values are
  consumed even by a failing insert, as \<^verbatim>\<open>nextval\<close> is.

  Columns that may be null are options (\<^verbatim>\<open>null.String\<close> and the like).  The packages \<^verbatim>\<open>api\<close>
  and \<^verbatim>\<open>models\<close> of this tree disagree on two columns: \<^verbatim>\<open>api\<close> treats \<^verbatim>\<open>rooms.gateway_uid\<close> and
  \<^verbatim>\<open>sessions.gateway_feed\<close> as strings, \<^verbatim>\<open>models\<close> as integers.  The rows here have the type
  the handlers of \<^verbatim>\<open>api\<close> use.

  \<^verbatim>\<open>schema_ok\<close> collects the keys, uniqueness constraints and references of the migrations; the
  lemmas show that every statement keeps it.
\<close>

section \<open>Rows\<close>

record gateway =
  gw_id :: int
  gw_name :: string
  gw_description :: "string option"
  gw_url :: string
  gw_admin_url :: string
  gw_admin_password :: string
  gw_disabled :: bool
  gw_properties :: "json option"
  gw_created_at :: time
  gw_updated_at :: "time option"
  gw_removed_at :: "time option"
  gw_events_password :: string
  gw_type :: string

record room =
  rm_id :: int
  rm_name :: string
  rm_default_gateway_id :: int
  rm_gateway_uid :: string
  rm_disabled :: bool
  rm_properties :: "json option"
  rm_created_at :: time
  rm_updated_at :: "time option"
  rm_removed_at :: "time option"
  rm_extra :: "json option"
  rm_region :: "string option"

record user =
  us_id :: int
  us_accounts_id :: string
  us_email :: "string option"
  us_first_name :: "string option"
  us_last_name :: "string option"
  us_username :: "string option"
  us_disabled :: bool
  us_properties :: "json option"
  us_created_at :: time
  us_updated_at :: "time option"
  us_removed_at :: "time option"

record session =
  ss_id :: int
  ss_user_id :: int
  ss_room_id :: "int option"
  ss_gateway_id :: "int option"
  ss_gateway_session :: "int option"
  ss_gateway_handle :: "int option"
  ss_gateway_feed :: "string option"
  ss_display :: "string option"
  ss_camera :: bool
  ss_question :: bool
  ss_self_test :: bool
  ss_sound_test :: bool
  ss_user_agent :: "string option"
  ss_ip_address :: "string option"
  ss_properties :: "json option"
  ss_created_at :: time
  ss_updated_at :: "time option"
  ss_removed_at :: "time option"
  ss_extra :: "json option"
  ss_gateway_handle_textroom :: "int option"

record composite =
  cp_id :: int
  cp_name :: string
  cp_description :: "string option"

record composites_room =
  cr_composite_id :: int
  cr_room_id :: int
  cr_gateway_id :: int
  cr_position :: int

record room_statistic =
  rs_room_id :: int
  rs_on_air :: int

record dynamic_config =
  dc_id :: int
  dc_key :: string
  dc_value :: string
  dc_updated_at :: time

record db =
  gateways :: "gateway list"
  users :: "user list"
  rooms :: "room list"
  sessions :: "session list"
  composites :: "composite list"
  composites_rooms :: "composites_room list"
  room_statistics :: "room_statistic list"
  dynamic_configs :: "dynamic_config list"
  seq_user :: int
  seq_room :: int
  seq_session :: int
  seq_dynamic_config :: int

type_synonym 'a stmt = "db \<Rightarrow> (gerr + 'a) \<times> db"

section \<open>Row updates by key\<close>

definition tupdate :: "('r \<Rightarrow> int) \<Rightarrow> int \<Rightarrow> ('r \<Rightarrow> 'r) \<Rightarrow> 'r list \<Rightarrow> 'r list" where
  "tupdate key i f rs = map (\<lambda>r. if key r = i then f r else r) rs"

definition has_key :: "('r \<Rightarrow> int) \<Rightarrow> int \<Rightarrow> 'r list \<Rightarrow> bool" where
  "has_key key i rs = list_ex (\<lambda>r. key r = i) rs"

lemma has_key_iff: "has_key key i rs \<longleftrightarrow> i \<in> key ` set rs"
  by (auto simp: has_key_def list_ex_iff)

lemma map_tupdate: "(\<And>r. key r = i \<Longrightarrow> g (f r) = g r) \<Longrightarrow> map g (tupdate key i f rs) = map g rs"
  by (auto simp: tupdate_def)

lemma set_tupdate: "set (tupdate key i f rs) = (\<lambda>r. if key r = i then f r else r) ` set rs"
  by (simp add: tupdate_def)

lemma image_tupdate:
  "(\<And>r. key r = i \<Longrightarrow> g (f r) = g r) \<Longrightarrow> g ` set (tupdate key i f rs) = g ` set rs"
  by (metis map_tupdate list.set_map)

lemma in_tupdateE:
  assumes "x \<in> set (tupdate key i f rs)"
  obtains "x \<in> set rs" and "key x \<noteq> i" | r where "r \<in> set rs" and "key r = i" and "x = f r"
  using assms by (auto simp: set_tupdate split: if_splits)

lemma distinct_key_eq:
  "distinct (map key rs) \<Longrightarrow> a \<in> set rs \<Longrightarrow> b \<in> set rs \<Longrightarrow> key a = key b \<Longrightarrow> a = b"
  by (auto simp: distinct_map inj_on_def)

section \<open>Column widths\<close>

definition fits :: "nat \<Rightarrow> string \<Rightarrow> bool" where "fits n s \<longleftrightarrow> length s \<le> n"

definition ofits :: "nat \<Rightarrow> string option \<Rightarrow> bool" where
  "ofits n s = (case s of None \<Rightarrow> True | Some t \<Rightarrow> fits n t)"

definition too_long :: gerr where "too_long = EDb ''value too long for type character varying''"
definition unique_violation :: gerr where "unique_violation = EDb ''unique_violation''"
definition fk_violation :: gerr where "fk_violation = EDb ''foreign_key_violation''"
definition out_of_range :: gerr where "out_of_range = EDb ''integer out of range''"

section \<open>Constraints\<close>

definition gateways_ok :: "db \<Rightarrow> bool" where
  "gateways_ok d \<longleftrightarrow> distinct (map gw_id (gateways d)) \<and> distinct (map gw_name (gateways d))"

definition users_ok :: "db \<Rightarrow> bool" where
  "users_ok d \<longleftrightarrow>
     distinct (map us_id (users d)) \<and> distinct (map us_accounts_id (users d)) \<and>
     (\<forall>u \<in> set (users d). 0 < us_id u \<and> us_id u < seq_user d) \<and> 0 < seq_user d"

definition rooms_ok :: "db \<Rightarrow> bool" where
  "rooms_ok d \<longleftrightarrow>
     distinct (map rm_id (rooms d)) \<and> distinct (map rm_name (rooms d)) \<and>
     distinct (map rm_gateway_uid (rooms d)) \<and>
     (\<forall>r \<in> set (rooms d). 0 < rm_id r \<and> rm_id r < seq_room d \<and>
        has_key gw_id (rm_default_gateway_id r) (gateways d)) \<and> 0 < seq_room d"

text \<open>The key of \<^verbatim>\<open>UNIQUE (user_id, gateway_id, gateway_session)\<close>; nulls never collide.\<close>

definition same_session :: "session \<Rightarrow> session \<Rightarrow> bool" where
  "same_session a b \<longleftrightarrow>
     ss_user_id a = ss_user_id b \<and>
     ss_gateway_id a = ss_gateway_id b \<and> ss_gateway_id a \<noteq> None \<and>
     ss_gateway_session a = ss_gateway_session b \<and> ss_gateway_session a \<noteq> None"

definition session_refs :: "db \<Rightarrow> session \<Rightarrow> bool" where
  "session_refs d s \<longleftrightarrow>
     has_key us_id (ss_user_id s) (users d) \<and>
     (case ss_room_id s of None \<Rightarrow> True | Some r \<Rightarrow> has_key rm_id r (rooms d)) \<and>
     (case ss_gateway_id s of None \<Rightarrow> True | Some g \<Rightarrow> has_key gw_id g (gateways d))"

definition sessions_ok :: "db \<Rightarrow> bool" where
  "sessions_ok d \<longleftrightarrow>
     distinct (map ss_id (sessions d)) \<and>
     (\<forall>a \<in> set (sessions d). \<forall>b \<in> set (sessions d). same_session a b \<longrightarrow> a = b) \<and>
     (\<forall>s \<in> set (sessions d). 0 < ss_id s \<and> ss_id s < seq_session d \<and> session_refs d s) \<and>
     0 < seq_session d"

definition composites_ok :: "db \<Rightarrow> bool" where
  "composites_ok d \<longleftrightarrow>
     distinct (map cp_id (composites d)) \<and> distinct (map cp_name (composites d)) \<and>
     distinct (composites_rooms d) \<and>
     (\<forall>c \<in> set (composites_rooms d). has_key cp_id (cr_composite_id c) (composites d) \<and>
        has_key rm_id (cr_room_id c) (rooms d) \<and> has_key gw_id (cr_gateway_id c) (gateways d))"

definition statistics_ok :: "db \<Rightarrow> bool" where
  "statistics_ok d \<longleftrightarrow>
     distinct (map rs_room_id (room_statistics d)) \<and>
     (\<forall>s \<in> set (room_statistics d). has_key rm_id (rs_room_id s) (rooms d) \<and>
        rs_on_air s \<le> 2147483647)"

definition configs_ok :: "db \<Rightarrow> bool" where
  "configs_ok d \<longleftrightarrow>
     distinct (map dc_id (dynamic_configs d)) \<and> distinct (map dc_key (dynamic_configs d)) \<and>
     (\<forall>c \<in> set (dynamic_configs d). 0 < dc_id c \<and> dc_id c < seq_dynamic_config d) \<and>
     0 < seq_dynamic_config d"

definition schema_ok :: "db \<Rightarrow> bool" where
  "schema_ok d \<longleftrightarrow> gateways_ok d \<and> users_ok d \<and> rooms_ok d \<and> sessions_ok d \<and>
     composites_ok d \<and> statistics_ok d \<and> configs_ok d"

lemmas table_ok_defs = gateways_ok_def users_ok_def rooms_ok_def sessions_ok_def
  composites_ok_def statistics_ok_def configs_ok_def session_refs_def

lemmas schema_defs = schema_ok_def table_ok_defs

text \<open>What a rollback restores: the tables, not the sequences.\<close>

definition rollback_to :: "db \<Rightarrow> db \<Rightarrow> db" where
  "rollback_to snap cur = snap\<lparr>seq_user := seq_user cur, seq_room := seq_room cur,
     seq_session := seq_session cur, seq_dynamic_config := seq_dynamic_config cur\<rparr>"

definition same_tables :: "db \<Rightarrow> db \<Rightarrow> bool" where
  "same_tables a b \<longleftrightarrow> gateways a = gateways b \<and> users a = users b \<and> rooms a = rooms b \<and>
     sessions a = sessions b \<and> composites a = composites b \<and>
     composites_rooms a = composites_rooms b \<and> room_statistics a = room_statistics b \<and>
     dynamic_configs a = dynamic_configs b"

definition seqs_le :: "db \<Rightarrow> db \<Rightarrow> bool" where
  "seqs_le a b \<longleftrightarrow> seq_user a \<le> seq_user b \<and> seq_room a \<le> seq_room b \<and>
     seq_session a \<le> seq_session b \<and> seq_dynamic_config a \<le> seq_dynamic_config b"

lemma same_tables_refl [simp]: "same_tables d d"
  by (simp add: same_tables_def)

lemma same_tables_rollback [simp]: "same_tables snap (rollback_to snap cur)"
  by (simp add: same_tables_def rollback_to_def)

lemma seqs_le_refl [simp]: "seqs_le d d"
  by (simp add: seqs_le_def)

lemma seqs_le_trans: "seqs_le a b \<Longrightarrow> seqs_le b c \<Longrightarrow> seqs_le a c"
  by (simp add: seqs_le_def)

lemma seqs_le_rollback: "seqs_le a b \<Longrightarrow> seqs_le a (rollback_to a b)"
  by (simp add: seqs_le_def rollback_to_def)

lemma rollback_to_tables [simp]:
  "gateways (rollback_to a b) = gateways a" "users (rollback_to a b) = users a"
  "rooms (rollback_to a b) = rooms a" "sessions (rollback_to a b) = sessions a"
  "composites (rollback_to a b) = composites a"
  "composites_rooms (rollback_to a b) = composites_rooms a"
  "room_statistics (rollback_to a b) = room_statistics a"
  "dynamic_configs (rollback_to a b) = dynamic_configs a"
  "seq_user (rollback_to a b) = seq_user b" "seq_room (rollback_to a b) = seq_room b"
  "seq_session (rollback_to a b) = seq_session b"
  "seq_dynamic_config (rollback_to a b) = seq_dynamic_config b"
  by (simp_all add: rollback_to_def)

text \<open>References depend only on the keys of the tables they point to.\<close>

lemma session_refs_keys:
  "us_id ` set (users a) = us_id ` set (users b) \<Longrightarrow> rm_id ` set (rooms a) = rm_id ` set (rooms b) \<Longrightarrow>
   gw_id ` set (gateways a) = gw_id ` set (gateways b) \<Longrightarrow> session_refs a = session_refs b"
  by (rule ext) (simp add: session_refs_def has_key_iff split: option.split)

lemma session_refs_rollback [simp]: "session_refs (rollback_to a b) = session_refs a"
  by (rule session_refs_keys) simp_all

text \<open>
  The checks of one table survive when the tables they read stay and the sequence grows.
\<close>

lemma users_ok_mono:
  "users_ok a \<Longrightarrow> users b = users a \<Longrightarrow> seq_user a \<le> seq_user b \<Longrightarrow> users_ok b"
  by (auto simp: users_ok_def)

lemma rooms_ok_mono:
  "rooms_ok a \<Longrightarrow> rooms b = rooms a \<Longrightarrow> gateways b = gateways a \<Longrightarrow> seq_room a \<le> seq_room b \<Longrightarrow>
   rooms_ok b"
  unfolding rooms_ok_def by (auto dest: less_le_trans)

lemma sessions_ok_mono:
  "sessions_ok a \<Longrightarrow> sessions b = sessions a \<Longrightarrow> session_refs b = session_refs a \<Longrightarrow>
   seq_session a \<le> seq_session b \<Longrightarrow> sessions_ok b"
  unfolding sessions_ok_def by (auto dest: less_le_trans)

lemma configs_ok_mono:
  "configs_ok a \<Longrightarrow> dynamic_configs b = dynamic_configs a \<Longrightarrow>
   seq_dynamic_config a \<le> seq_dynamic_config b \<Longrightarrow> configs_ok b"
  unfolding configs_ok_def by (auto dest: less_le_trans)

lemma schema_ok_rollback:
  assumes "schema_ok snap" and "seqs_le snap cur"
  shows "schema_ok (rollback_to snap cur)"
proof -
  have "gateways_ok (rollback_to snap cur)" "composites_ok (rollback_to snap cur)"
    "statistics_ok (rollback_to snap cur)"
    using assms(1) by (simp_all add: schema_ok_def gateways_ok_def composites_ok_def statistics_ok_def)
  moreover have "users_ok (rollback_to snap cur)" "rooms_ok (rollback_to snap cur)"
    "sessions_ok (rollback_to snap cur)" "configs_ok (rollback_to snap cur)"
    using assms users_ok_mono [of snap] rooms_ok_mono [of snap] sessions_ok_mono [of snap]
      configs_ok_mono [of snap]
    by (simp_all add: schema_ok_def seqs_le_def)
  ultimately show ?thesis by (simp add: schema_ok_def)
qed

section \<open>Gateways\<close>

definition gateway_find :: "int \<Rightarrow> db \<Rightarrow> gateway option" where
  "gateway_find i d = find (\<lambda>g. gw_id g = i) (gateways d)"

text \<open>\<^verbatim>\<open>models.Gateways(Disabled.EQ(false), RemovedAt.IsNull()).All\<close>\<close>

definition gateways_active :: "db \<Rightarrow> gateway list" where
  "gateways_active d = filter (\<lambda>g. \<not> gw_disabled g \<and> gw_removed_at g = None) (gateways d)"

text \<open>\<^verbatim>\<open>gateway.Update(tx, boil.Whitelist("properties"))\<close>\<close>

definition gateway_update_properties :: "gateway \<Rightarrow> int stmt" where
  "gateway_update_properties g d =
     (Inr (int (length (filter (\<lambda>r. gw_id r = gw_id g) (gateways d)))),
      d\<lparr>gateways := tupdate gw_id (gw_id g) (\<lambda>r. r\<lparr>gw_properties := gw_properties g\<rparr>)
          (gateways d)\<rparr>)"

section \<open>Users\<close>

definition user_by_accounts_id :: "string \<Rightarrow> db \<Rightarrow> user option" where
  "user_by_accounts_id a d = find (\<lambda>u. us_accounts_id u = a) (users d)"

text \<open>\<^verbatim>\<open>u.Insert(tx, boil.Infer())\<close>: zero-valued columns with a default take the default.\<close>

definition user_row :: "time \<Rightarrow> user \<Rightarrow> db \<Rightarrow> user" where
  "user_row now u d = u\<lparr>us_id := (if us_id u = 0 then seq_user d else us_id u),
     us_created_at := (if us_created_at u = zero_time then now else us_created_at u)\<rparr>"

definition user_insert :: "time \<Rightarrow> user \<Rightarrow> user stmt" where
  "user_insert now u d =
     (if \<not> (fits 36 (us_accounts_id u) \<and> ofits 255 (us_email u) \<and> ofits 255 (us_first_name u) \<and>
            ofits 255 (us_last_name u) \<and> ofits 255 (us_username u)) then (Inl too_long, d)
      else
        let row = user_row now u d;
            d1 = (if us_id u = 0 then d\<lparr>seq_user := seq_user d + 1\<rparr> else d)
        in if has_key us_id (us_id row) (users d) \<or>
              list_ex (\<lambda>r. us_accounts_id r = us_accounts_id row) (users d)
           then (Inl unique_violation, d1)
           else (Inr row, d1\<lparr>users := users d @ [row]\<rparr>))"

section \<open>Sessions\<close>

text \<open>
  \<^verbatim>\<open>session.Upsert(tx, true, [user_id, gateway_id, gateway_session], update, boil.Infer())\<close>.
  The argument \<^verbatim>\<open>upd\<close> is the \<^verbatim>\<open>DO UPDATE SET\<close> list: it takes the stored row and
  \<^verbatim>\<open>EXCLUDED\<close>.
\<close>

definition set_infer :: "session \<Rightarrow> session \<Rightarrow> session" where
  "set_infer old new = new\<lparr>ss_id := ss_id old\<rparr>"

definition set_but_created_properties :: "session \<Rightarrow> session \<Rightarrow> session" where
  "set_but_created_properties old new = new\<lparr>ss_id := ss_id old,
     ss_created_at := ss_created_at old, ss_properties := ss_properties old\<rparr>"

definition session_row :: "time \<Rightarrow> session \<Rightarrow> db \<Rightarrow> session" where
  "session_row now s d = s\<lparr>ss_id := (if ss_id s = 0 then seq_session d else ss_id s),
     ss_created_at := (if ss_created_at s = zero_time then now else ss_created_at s)\<rparr>"

definition session_upsert ::
    "time \<Rightarrow> (session \<Rightarrow> session \<Rightarrow> session) \<Rightarrow> session \<Rightarrow> session stmt" where
  "session_upsert now upd s d =
     (if \<not> ofits 512 (ss_display s) then (Inl too_long, d)
      else
        let row = session_row now s d;
            d1 = (if ss_id s = 0 then d\<lparr>seq_session := seq_session d + 1\<rparr> else d)
        in if \<not> session_refs d row then (Inl fk_violation, d1)
           else case find (same_session row) (sessions d) of
             Some old \<Rightarrow>
               (Inr (upd old row),
                d1\<lparr>sessions := tupdate ss_id (ss_id old) (\<lambda>r. upd r row) (sessions d)\<rparr>)
           | None \<Rightarrow>
               if has_key ss_id (ss_id row) (sessions d) then (Inl unique_violation, d1)
               else (Inr row, d1\<lparr>sessions := sessions d @ [row]\<rparr>))"

text \<open>
  \<^verbatim>\<open>update sessions set properties = coalesce(properties, '{}') || $1, removed_at = $2 where P\<close>;
  the value is the number of rows.
\<close>

definition sessions_mark :: "json \<Rightarrow> time \<Rightarrow> (session \<Rightarrow> bool) \<Rightarrow> int stmt" where
  "sessions_mark b t P d =
     (Inr (int (length (filter P (sessions d)))),
      d\<lparr>sessions := map (\<lambda>s. if P s then
           s\<lparr>ss_properties := Some (jsonb_concat (case ss_properties s of None \<Rightarrow> JObj []
                                       | Some p \<Rightarrow> p) b),
             ss_removed_at := Some t\<rparr> else s) (sessions d)\<rparr>)"

section \<open>Rooms\<close>

definition room_find :: "int \<Rightarrow> db \<Rightarrow> room option" where
  "room_find i d = find (\<lambda>r. rm_id r = i) (rooms d)"

text \<open>\<^verbatim>\<open>models.Rooms(Disabled.EQ(false), RemovedAt.IsNull()).All\<close>\<close>

definition rooms_active :: "db \<Rightarrow> room list" where
  "rooms_active d = filter (\<lambda>r. \<not> rm_disabled r \<and> rm_removed_at r = None) (rooms d)"

definition room_fits :: "room \<Rightarrow> bool" where
  "room_fits r \<longleftrightarrow> fits 64 (rm_name r) \<and> ofits 32 (rm_region r)"

text \<open>Does a row collide with another row of the table (not counting the row \<^verbatim>\<open>i\<close>)?\<close>

definition room_clash :: "int \<Rightarrow> room \<Rightarrow> db \<Rightarrow> bool" where
  "room_clash i r d = list_ex (\<lambda>x. rm_id x \<noteq> i \<and>
     (rm_id x = rm_id r \<or> rm_name x = rm_name r \<or> rm_gateway_uid x = rm_gateway_uid r)) (rooms d)"

definition room_row :: "time \<Rightarrow> room \<Rightarrow> db \<Rightarrow> room" where
  "room_row now r d = r\<lparr>rm_id := (if rm_id r = 0 then seq_room d else rm_id r),
     rm_created_at := (if rm_created_at r = zero_time then now else rm_created_at r)\<rparr>"

definition room_insert :: "time \<Rightarrow> room \<Rightarrow> room stmt" where
  "room_insert now r d =
     (if \<not> room_fits r then (Inl too_long, d)
      else
        let row = room_row now r d;
            d1 = (if rm_id r = 0 then d\<lparr>seq_room := seq_room d + 1\<rparr> else d)
        in if list_ex (\<lambda>x. rm_id x = rm_id row \<or> rm_name x = rm_name row \<or>
                           rm_gateway_uid x = rm_gateway_uid row) (rooms d)
           then (Inl unique_violation, d1)
           else if \<not> has_key gw_id (rm_default_gateway_id row) (gateways d)
           then (Inl fk_violation, d1)
           else (Inr row, d1\<lparr>rooms := rooms d @ [row]\<rparr>))"

text \<open>\<^verbatim>\<open>room.Update(tx, boil.Whitelist(cols))\<close>: \<^verbatim>\<open>f\<close> sets the listed columns.\<close>

definition room_update :: "int \<Rightarrow> (room \<Rightarrow> room) \<Rightarrow> int stmt" where
  "room_update i f d =
     (case room_find i d of
        None \<Rightarrow> (Inr 0, d)
      | Some old \<Rightarrow>
          let new = f old in
          if \<not> room_fits new then (Inl too_long, d)
          else if room_clash i new d then (Inl unique_violation, d)
          else if \<not> has_key gw_id (rm_default_gateway_id new) (gateways d) then (Inl fk_violation, d)
          else (Inr 1, d\<lparr>rooms := tupdate rm_id i f (rooms d)\<rparr>))"

text \<open>
  \<^verbatim>\<open>room.Upsert(tx, true, [gateway_uid], boil.Infer(), boil.Infer())\<close>: on a conflict every
  column but the primary key is overwritten.
\<close>

definition room_upsert :: "time \<Rightarrow> room \<Rightarrow> room stmt" where
  "room_upsert now r d =
     (if \<not> room_fits r then (Inl too_long, d)
      else
        let row = room_row now r d;
            d1 = (if rm_id r = 0 then d\<lparr>seq_room := seq_room d + 1\<rparr> else d)
        in if \<not> has_key gw_id (rm_default_gateway_id row) (gateways d) then (Inl fk_violation, d1)
           else case find (\<lambda>x. rm_gateway_uid x = rm_gateway_uid row) (rooms d) of
             Some old \<Rightarrow>
               let new = row\<lparr>rm_id := rm_id old\<rparr> in
               if room_clash (rm_id old) new d then (Inl unique_violation, d1)
               else (Inr new, d1\<lparr>rooms := tupdate rm_id (rm_id old) (\<lambda>_. new) (rooms d)\<rparr>)
           | None \<Rightarrow>
               if list_ex (\<lambda>x. rm_id x = rm_id row \<or> rm_name x = rm_name row) (rooms d)
               then (Inl unique_violation, d1)
               else (Inr row, d1\<lparr>rooms := rooms d @ [row]\<rparr>))"

section \<open>Composites\<close>

definition composite_by_name :: "string \<Rightarrow> db \<Rightarrow> composite option" where
  "composite_by_name n d = find (\<lambda>c. cp_name c = n) (composites d)"

text \<open>\<^verbatim>\<open>composite.CompositesRooms().DeleteAll(tx)\<close>\<close>

definition composites_rooms_delete :: "int \<Rightarrow> int stmt" where
  "composites_rooms_delete i d =
     (Inr (int (length (filter (\<lambda>c. cr_composite_id c = i) (composites_rooms d)))),
      d\<lparr>composites_rooms := filter (\<lambda>c. cr_composite_id c \<noteq> i) (composites_rooms d)\<rparr>)"

text \<open>The primary key of the table is the whole row.\<close>

definition composites_room_insert :: "composites_room \<Rightarrow> unit stmt" where
  "composites_room_insert c d =
     (if c \<in> set (composites_rooms d) then (Inl unique_violation, d)
      else if \<not> (has_key cp_id (cr_composite_id c) (composites d) \<and>
                 has_key rm_id (cr_room_id c) (rooms d) \<and>
                 has_key gw_id (cr_gateway_id c) (gateways d)) then (Inl fk_violation, d)
      else (Inr (), d\<lparr>composites_rooms := composites_rooms d @ [c]\<rparr>))"

section \<open>Room statistics\<close>

definition room_statistic_find :: "int \<Rightarrow> db \<Rightarrow> room_statistic option" where
  "room_statistic_find i d = find (\<lambda>s. rs_room_id s = i) (room_statistics d)"

definition room_statistic_insert :: "room_statistic \<Rightarrow> room_statistic stmt" where
  "room_statistic_insert s d =
     (if rs_on_air s > 2147483647 then (Inl out_of_range, d)
      else if has_key rs_room_id (rs_room_id s) (room_statistics d) then (Inl unique_violation, d)
      else if \<not> has_key rm_id (rs_room_id s) (rooms d) then (Inl fk_violation, d)
      else (Inr s, d\<lparr>room_statistics := room_statistics d @ [s]\<rparr>))"

text \<open>\<^verbatim>\<open>roomStats.Update(tx, boil.Infer())\<close> on an \<^verbatim>\<open>INTEGER\<close> column.\<close>

definition room_statistic_update :: "room_statistic \<Rightarrow> int stmt" where
  "room_statistic_update s d =
     (if rs_on_air s > 2147483647 then (Inl out_of_range, d)
      else (Inr (int (length (filter (\<lambda>r. rs_room_id r = rs_room_id s) (room_statistics d)))),
            d\<lparr>room_statistics := tupdate rs_room_id (rs_room_id s)
                (\<lambda>r. r\<lparr>rs_on_air := rs_on_air s\<rparr>) (room_statistics d)\<rparr>))"

definition room_statistics_delete_all :: "int stmt" where
  "room_statistics_delete_all d =
     (Inr (int (length (room_statistics d))), d\<lparr>room_statistics := []\<rparr>)"

section \<open>Dynamic configuration\<close>

definition dynamic_config_find :: "int \<Rightarrow> db \<Rightarrow> dynamic_config option" where
  "dynamic_config_find i d = find (\<lambda>c. dc_id c = i) (dynamic_configs d)"

definition dynamic_config_exists :: "string \<Rightarrow> db \<Rightarrow> bool" where
  "dynamic_config_exists k d = list_ex (\<lambda>c. dc_key c = k) (dynamic_configs d)"

text \<open>\<^verbatim>\<open>data.Insert(tx, boil.Whitelist("key", "value", "updated_at"))\<close>\<close>

definition dynamic_config_insert :: "dynamic_config \<Rightarrow> dynamic_config stmt" where
  "dynamic_config_insert c d =
     (if \<not> fits 255 (dc_key c) then (Inl too_long, d)
      else
        let row = c\<lparr>dc_id := seq_dynamic_config d\<rparr>;
            d1 = d\<lparr>seq_dynamic_config := seq_dynamic_config d + 1\<rparr>
        in if list_ex (\<lambda>r. dc_id r = dc_id row \<or> dc_key r = dc_key row) (dynamic_configs d)
           then (Inl unique_violation, d1)
           else (Inr row, d1\<lparr>dynamic_configs := dynamic_configs d @ [row]\<rparr>))"

definition dynamic_config_update ::
    "int \<Rightarrow> (dynamic_config \<Rightarrow> dynamic_config) \<Rightarrow> int stmt" where
  "dynamic_config_update i f d =
     (case dynamic_config_find i d of
        None \<Rightarrow> (Inr 0, d)
      | Some old \<Rightarrow>
          if \<not> fits 255 (dc_key (f old)) then (Inl too_long, d)
          else if list_ex (\<lambda>r. dc_id r \<noteq> i \<and> dc_key r = dc_key (f old)) (dynamic_configs d)
          then (Inl unique_violation, d)
          else (Inr 1, d\<lparr>dynamic_configs := tupdate dc_id i f (dynamic_configs d)\<rparr>))"

definition dynamic_config_delete :: "int \<Rightarrow> int stmt" where
  "dynamic_config_delete i d =
     (Inr (int (length (filter (\<lambda>c. dc_id c = i) (dynamic_configs d)))),
      d\<lparr>dynamic_configs := filter (\<lambda>c. dc_id c \<noteq> i) (dynamic_configs d)\<rparr>)"

end
