(* ===== verification/Schema_Laws.thy ===== *)
theory Schema_Laws
  imports Schema
begin

text \<open>
  Every statement of the model code keeps the constraints of the schema and never moves a
  sequence backwards (\<^verbatim>\<open>keeps_schema\<close>); the collection \<^verbatim>\<open>stmt_rules\<close> holds one fact
  per statement.
\<close>

named_theorems stmt_rules "statements that keep the schema constraints"

definition keeps_schema :: "'a stmt \<Rightarrow> bool" where
  "keeps_schema st \<longleftrightarrow> (\<forall>d. schema_ok d \<longrightarrow> schema_ok (snd (st d)) \<and> seqs_le d (snd (st d)))"

lemma keeps_schemaI:
  "(\<And>d. schema_ok d \<Longrightarrow> schema_ok (snd (st d)) \<and> seqs_le d (snd (st d))) \<Longrightarrow> keeps_schema st"
  by (simp add: keeps_schema_def)

lemma has_key_mono: "has_key key i rs \<Longrightarrow> set rs \<subseteq> set rs' \<Longrightarrow> has_key key i rs'"
  by (auto simp: has_key_iff)

lemma session_refs_mono:
  "session_refs a s \<Longrightarrow> set (users a) \<subseteq> set (users b) \<Longrightarrow> set (rooms a) \<subseteq> set (rooms b) \<Longrightarrow>
   set (gateways a) \<subseteq> set (gateways b) \<Longrightarrow> session_refs b s"
  by (auto simp: session_refs_def elim!: has_key_mono split: option.splits)

lemma seq_bump_ok:
  assumes "schema_ok d"
  shows "schema_ok (d\<lparr>seq_user := seq_user d + 1\<rparr>)" "schema_ok (d\<lparr>seq_room := seq_room d + 1\<rparr>)"
    "schema_ok (d\<lparr>seq_session := seq_session d + 1\<rparr>)"
    "schema_ok (d\<lparr>seq_dynamic_config := seq_dynamic_config d + 1\<rparr>)"
proof -
  have "seqs_le d (d\<lparr>seq_user := seq_user d + 1\<rparr>)" "seqs_le d (d\<lparr>seq_room := seq_room d + 1\<rparr>)"
    "seqs_le d (d\<lparr>seq_session := seq_session d + 1\<rparr>)"
    "seqs_le d (d\<lparr>seq_dynamic_config := seq_dynamic_config d + 1\<rparr>)"
    by (simp_all add: seqs_le_def)
  from this [THEN schema_ok_rollback [OF assms]] show
    "schema_ok (d\<lparr>seq_user := seq_user d + 1\<rparr>)" "schema_ok (d\<lparr>seq_room := seq_room d + 1\<rparr>)"
    "schema_ok (d\<lparr>seq_session := seq_session d + 1\<rparr>)"
    "schema_ok (d\<lparr>seq_dynamic_config := seq_dynamic_config d + 1\<rparr>)"
    by (simp_all add: rollback_to_def)
qed

section \<open>Gateways\<close>

lemma gateway_update_properties_keeps [stmt_rules]: "keeps_schema (gateway_update_properties g)"
proof (rule keeps_schemaI)
  fix d :: db assume ok: "schema_ok d"
  let ?d = "snd (gateway_update_properties g d)"
  have keys: "map gw_id (gateways ?d) = map gw_id (gateways d)"
    "map gw_name (gateways ?d) = map gw_name (gateways d)"
    by (simp_all add: gateway_update_properties_def map_tupdate)
  have ids: "gw_id ` set (gateways ?d) = gw_id ` set (gateways d)"
    using keys(1) by (metis list.set_map)
  have refs: "session_refs ?d = session_refs d"
    using ids by (intro session_refs_keys) (simp_all add: gateway_update_properties_def)
  show "schema_ok ?d \<and> seqs_le d ?d"
    using ok keys ids refs
    by (simp add: schema_ok_def gateways_ok_def users_ok_def rooms_ok_def sessions_ok_def
        composites_ok_def statistics_ok_def configs_ok_def has_key_iff seqs_le_def
        gateway_update_properties_def)
qed

section \<open>Users\<close>

lemma schema_ok_add_user:
  assumes "schema_ok d" "0 < us_id u" "us_id u < seq_user d"
    "\<not> has_key us_id (us_id u) (users d)"
    "\<forall>r \<in> set (users d). us_accounts_id r \<noteq> us_accounts_id u"
  shows "schema_ok (d\<lparr>users := users d @ [u]\<rparr>)"
proof -
  let ?d = "d\<lparr>users := users d @ [u]\<rparr>"
  have "users_ok ?d" using assms by (auto simp: schema_ok_def users_ok_def has_key_iff)
  moreover have "sessions_ok ?d"
    using assms(1) unfolding schema_ok_def sessions_ok_def
    by (auto elim!: session_refs_mono)
  ultimately show ?thesis
    using assms(1)
    by (simp add: schema_ok_def gateways_ok_def rooms_ok_def composites_ok_def statistics_ok_def
        configs_ok_def)
qed

lemma user_row_simps [simp]:
  "us_accounts_id (user_row now u d) = us_accounts_id u"
  "us_disabled (user_row now u d) = us_disabled u"
  "us_id (user_row now u d) = (if us_id u = 0 then seq_user d else us_id u)"
  by (simp_all add: user_row_def)

lemma user_insert_keeps [stmt_rules]:
  assumes "us_id u = 0" shows "keeps_schema (user_insert now u)"
proof (rule keeps_schemaI)
  fix d :: db assume ok: "schema_ok d"
  let ?d1 = "d\<lparr>seq_user := seq_user d + 1\<rparr>"
  have "schema_ok ?d1" using ok by (rule seq_bump_ok)
  moreover have "0 < seq_user d" using ok by (simp add: schema_ok_def users_ok_def)
  ultimately have "schema_ok (?d1\<lparr>users := users d @ [user_row now u d]\<rparr>)"
    if "\<not> has_key us_id (seq_user d) (users d)"
      "\<forall>r \<in> set (users d). us_accounts_id r \<noteq> us_accounts_id u"
    using that assms schema_ok_add_user [of ?d1 "user_row now u d"] by simp
  with ok \<open>schema_ok ?d1\<close> assms show "schema_ok (snd (user_insert now u d)) \<and>
      seqs_le d (snd (user_insert now u d))"
    by (auto simp: user_insert_def Let_def seqs_le_def list_ex_iff)
qed

section \<open>Sessions\<close>

lemma same_session_sym: "same_session a b \<longleftrightarrow> same_session b a"
  unfolding same_session_def by metis

lemma same_session_trans: "same_session a b \<Longrightarrow> same_session b c \<Longrightarrow> same_session a c"
  unfolding same_session_def by metis

lemma same_session_eqI:
  "ss_user_id a = ss_user_id b \<Longrightarrow> ss_gateway_id a = ss_gateway_id b \<Longrightarrow>
   ss_gateway_session a = ss_gateway_session b \<Longrightarrow> same_session a = same_session b"
  by (rule ext) (simp add: same_session_def)

lemma session_refs_eqI:
  "ss_user_id a = ss_user_id b \<Longrightarrow> ss_gateway_id a = ss_gateway_id b \<Longrightarrow>
   ss_room_id a = ss_room_id b \<Longrightarrow> session_refs d a = session_refs d b"
  by (simp add: session_refs_def)

text \<open>Replacing one row by a row with the same keys, or with the keys of no row.\<close>

lemma schema_ok_with_sessions:
  assumes "schema_ok d" "sessions_ok (d\<lparr>sessions := ss\<rparr>)"
  shows "schema_ok (d\<lparr>sessions := ss\<rparr>)"
  using assms
  by (simp add: schema_ok_def gateways_ok_def rooms_ok_def composites_ok_def statistics_ok_def
      configs_ok_def users_ok_def)

lemma session_refs_sessions [simp]: "session_refs (d\<lparr>sessions := ss\<rparr>) = session_refs d"
  by (rule session_refs_keys) simp_all

lemma schema_ok_add_session:
  assumes "schema_ok d" "0 < ss_id s" "ss_id s < seq_session d" "session_refs d s"
    "\<not> has_key ss_id (ss_id s) (sessions d)" "\<forall>x \<in> set (sessions d). \<not> same_session s x"
  shows "schema_ok (d\<lparr>sessions := sessions d @ [s]\<rparr>)"
proof (rule schema_ok_with_sessions)
  show "sessions_ok (d\<lparr>sessions := sessions d @ [s]\<rparr>)"
    using assms same_session_sym
    by (auto simp: schema_ok_def sessions_ok_def has_key_iff)
qed (fact assms(1))

lemma schema_ok_map_sessions:
  assumes "schema_ok d"
    and f: "\<And>s. s \<in> set (sessions d) \<Longrightarrow>
       ss_id (f s) = ss_id s \<and> same_session (f s) = same_session s \<and> session_refs d (f s)"
  shows "schema_ok (d\<lparr>sessions := map f (sessions d)\<rparr>)"
proof (rule schema_ok_with_sessions)
  have ids: "map ss_id (map f (sessions d)) = map ss_id (sessions d)" using f by simp
  have "\<forall>a \<in> set (sessions d). \<forall>b \<in> set (sessions d). same_session (f a) (f b) \<longrightarrow> a = b"
  proof (intro ballI impI)
    fix a b assume ab: "a \<in> set (sessions d)" "b \<in> set (sessions d)" "same_session (f a) (f b)"
    then have "same_session a (f b)" using f by metis
    then have "same_session b a" using f ab(2) same_session_sym by metis
    then show "a = b" using assms(1) ab same_session_sym by (auto simp: schema_ok_def sessions_ok_def)
  qed
  then show "sessions_ok (d\<lparr>sessions := map f (sessions d)\<rparr>)"
    using assms(1) f ids by (auto simp: schema_ok_def sessions_ok_def simp del: map_map)
qed (fact assms(1))

lemma sessions_mark_keeps [stmt_rules]: "keeps_schema (sessions_mark b t P)"
proof (rule keeps_schemaI)
  fix d :: db assume ok: "schema_ok d"
  have refs: "session_refs d s" if "s \<in> set (sessions d)" for s
    using ok that by (simp add: schema_ok_def sessions_ok_def)
  have same: "same_session (s\<lparr>ss_properties := p, ss_removed_at := r\<rparr>) = same_session s" for s p r
    by (rule ext) (simp add: same_session_def)
  have refs': "session_refs d (s\<lparr>ss_properties := p, ss_removed_at := r\<rparr>) = session_refs d s" for s p r
    by (simp add: session_refs_def)
  show "schema_ok (snd (sessions_mark b t P d)) \<and> seqs_le d (snd (sessions_mark b t P d))"
    unfolding sessions_mark_def
    using schema_ok_map_sessions [OF ok] by (simp add: seqs_le_def same refs refs')
qed

text \<open>The update lists of the code keep the keys of the row.\<close>

definition upd_keeps_keys :: "(session \<Rightarrow> session \<Rightarrow> session) \<Rightarrow> bool" where
  "upd_keeps_keys upd \<longleftrightarrow> (\<forall>old new. ss_id (upd old new) = ss_id old \<and>
     ss_user_id (upd old new) = ss_user_id new \<and> ss_room_id (upd old new) = ss_room_id new \<and>
     ss_gateway_id (upd old new) = ss_gateway_id new \<and>
     ss_gateway_session (upd old new) = ss_gateway_session new)"

lemma upd_keeps_keys_infer [simp]: "upd_keeps_keys set_infer"
  by (simp add: upd_keeps_keys_def set_infer_def)

lemma upd_keeps_keys_blacklist [simp]: "upd_keeps_keys set_but_created_properties"
  by (simp add: upd_keeps_keys_def set_but_created_properties_def)

lemma session_row_simps [simp]:
  "ss_user_id (session_row now s d) = ss_user_id s"
  "ss_room_id (session_row now s d) = ss_room_id s"
  "ss_gateway_id (session_row now s d) = ss_gateway_id s"
  "ss_gateway_session (session_row now s d) = ss_gateway_session s"
  "ss_removed_at (session_row now s d) = ss_removed_at s"
  "ss_id (session_row now s d) = (if ss_id s = 0 then seq_session d else ss_id s)"
  by (simp_all add: session_row_def)

lemma schema_ok_replace_session:
  assumes ok: "schema_ok d" and old: "old \<in> set (sessions d)" "same_session row old"
    and row: "session_refs d row" and upd: "upd_keeps_keys upd"
  shows "schema_ok (d\<lparr>sessions := tupdate ss_id (ss_id old) (\<lambda>r. upd r row) (sessions d)\<rparr>)"
  unfolding tupdate_def
proof (rule schema_ok_map_sessions [OF ok])
  fix x assume x: "x \<in> set (sessions d)"
  have "session_refs d x" using ok x by (simp add: schema_ok_def sessions_ok_def)
  moreover have "x = old" if "ss_id x = ss_id old"
    using ok old x that by (auto simp: schema_ok_def sessions_ok_def intro: distinct_key_eq)
  moreover have "same_session row = same_session old"
    using old(2) by (intro same_session_eqI) (simp_all add: same_session_def)
  moreover have "ss_id (upd x row) = ss_id x" using upd by (simp add: upd_keeps_keys_def)
  moreover have "same_session (upd x row) = same_session row"
    using upd by (intro same_session_eqI) (simp_all add: upd_keeps_keys_def)
  moreover have "session_refs d (upd x row) = session_refs d row"
    using upd by (intro session_refs_eqI) (simp_all add: upd_keeps_keys_def)
  ultimately show "ss_id (if ss_id x = ss_id old then upd x row else x) = ss_id x \<and>
      same_session (if ss_id x = ss_id old then upd x row else x) = same_session x \<and>
      session_refs d (if ss_id x = ss_id old then upd x row else x)"
    using row by auto
qed

lemma session_upsert_keeps [stmt_rules]:
  assumes "ss_id s = 0" "upd_keeps_keys upd"
  shows "keeps_schema (session_upsert now upd s)"
proof (rule keeps_schemaI)
  fix d :: db assume ok: "schema_ok d"
  let ?row = "session_row now s d"
  let ?d1 = "d\<lparr>seq_session := seq_session d + 1\<rparr>"
  have ok1: "schema_ok ?d1" using ok by (rule seq_bump_ok)
  have refs1: "session_refs ?d1 = session_refs d" by (rule session_refs_keys) simp_all
  have pos: "0 < seq_session d" using ok by (simp add: schema_ok_def sessions_ok_def)
  have new: "schema_ok (?d1\<lparr>sessions := sessions d @ [?row]\<rparr>)"
    if "session_refs d ?row" "\<not> has_key ss_id (seq_session d) (sessions d)"
      "find (same_session ?row) (sessions d) = None"
    using that pos assms schema_ok_add_session [OF ok1, of ?row] by (simp add: refs1 find_None_all)
  have old: "schema_ok (?d1\<lparr>sessions := tupdate ss_id (ss_id old) (\<lambda>r. upd r ?row) (sessions d)\<rparr>)"
    if "session_refs d ?row" "find (same_session ?row) (sessions d) = Some old" for old
    using that assms(2) schema_ok_replace_session [OF ok1, of old ?row upd]
    by (auto simp: refs1 dest: find_Some_in)
  show "schema_ok (snd (session_upsert now upd s d)) \<and> seqs_le d (snd (session_upsert now upd s d))"
    using ok ok1 new old assms(1)
    by (auto simp: session_upsert_def Let_def seqs_le_def split: option.split)
qed

section \<open>Rooms\<close>

lemma distinct_map_tupdate:
  assumes "distinct (map key rs)" "distinct (map g rs)"
    and "\<And>r x. r \<in> set rs \<Longrightarrow> key r = i \<Longrightarrow> x \<in> set rs \<Longrightarrow> key x \<noteq> i \<Longrightarrow> g x \<noteq> g (f r)"
  shows "distinct (map g (tupdate key i f rs))"
proof -
  have "inj_on (\<lambda>r. g (if key r = i then f r else r)) (set rs)"
  proof (rule inj_onI)
    fix x y assume xy: "x \<in> set rs" "y \<in> set rs"
      and eq: "g (if key x = i then f x else x) = g (if key y = i then f y else y)"
    show "x = y"
    proof (cases "key x = i")
      case True
      then have "key y = i" using eq assms(3) [of x y] xy by (auto split: if_splits)
      with True assms(1) xy show ?thesis by (metis distinct_key_eq)
    next
      case False
      then have "key y \<noteq> i" using eq assms(3) [of y x] xy by (auto split: if_splits)
      with False eq have "g x = g y" by simp
      with assms(2) xy show ?thesis by (metis distinct_key_eq)
    qed
  qed
  with assms(1) show ?thesis by (simp add: tupdate_def distinct_map comp_def)
qed

lemma schema_ok_with_rooms:
  assumes "schema_ok d" "rooms_ok (d\<lparr>rooms := rs\<rparr>)"
    and ids: "rm_id ` set (rooms d) \<subseteq> rm_id ` set rs"
  shows "schema_ok (d\<lparr>rooms := rs\<rparr>)"
proof -
  have "session_refs (d\<lparr>rooms := rs\<rparr>) s" if "session_refs d s" for s
    using that ids by (auto simp: session_refs_def has_key_iff split: option.splits)
  with assms show ?thesis
    by (auto simp: schema_ok_def gateways_ok_def sessions_ok_def composites_ok_def statistics_ok_def
        configs_ok_def users_ok_def has_key_iff)
qed

lemma schema_ok_add_room:
  assumes "schema_ok d" "0 < rm_id r" "rm_id r < seq_room d"
    "has_key gw_id (rm_default_gateway_id r) (gateways d)"
    "\<forall>x \<in> set (rooms d). rm_id x \<noteq> rm_id r \<and> rm_name x \<noteq> rm_name r \<and>
       rm_gateway_uid x \<noteq> rm_gateway_uid r"
  shows "schema_ok (d\<lparr>rooms := rooms d @ [r]\<rparr>)"
  using assms by (intro schema_ok_with_rooms) (auto simp: schema_ok_def rooms_ok_def)

lemma schema_ok_replace_room:
  assumes ok: "schema_ok d" and f: "\<And>x. x \<in> set (rooms d) \<Longrightarrow> rm_id x = i \<Longrightarrow> f x = new"
    and i: "rm_id new = i" "has_key rm_id i (rooms d)" and clash: "\<not> room_clash i new d"
    and gw: "has_key gw_id (rm_default_gateway_id new) (gateways d)"
  shows "schema_ok (d\<lparr>rooms := tupdate rm_id i f (rooms d)\<rparr>)"
proof (rule schema_ok_with_rooms [OF ok])
  have ids: "map rm_id (tupdate rm_id i f (rooms d)) = map rm_id (rooms d)"
    using f i(1) by (auto simp: tupdate_def)
  then show "rm_id ` set (rooms d) \<subseteq> rm_id ` set (tupdate rm_id i f (rooms d))"
    by (metis list.set_map order_refl)
  have bounds: "0 < i \<and> i < seq_room d"
    using ok i(2) by (auto simp: schema_ok_def rooms_ok_def has_key_iff)
  have "distinct (map g (tupdate rm_id i f (rooms d)))"
    if "distinct (map g (rooms d))" "\<And>x. x \<in> set (rooms d) \<Longrightarrow> rm_id x \<noteq> i \<Longrightarrow> g x \<noteq> g new"
    for g :: "room \<Rightarrow> string"
    using ok that f by (intro distinct_map_tupdate) (auto simp: schema_ok_def rooms_ok_def)
  from this [of rm_name] this [of rm_gateway_uid]
  have "distinct (map rm_name (tupdate rm_id i f (rooms d)))"
    "distinct (map rm_gateway_uid (tupdate rm_id i f (rooms d)))"
    using ok clash by (auto simp: schema_ok_def rooms_ok_def room_clash_def list_ex_iff)
  then show "rooms_ok (d\<lparr>rooms := tupdate rm_id i f (rooms d)\<rparr>)"
    using ok ids f i(1) gw bounds
    by (auto simp: schema_ok_def rooms_ok_def elim!: in_tupdateE)
qed

lemma room_row_simps [simp]:
  "rm_name (room_row now r d) = rm_name r" "rm_gateway_uid (room_row now r d) = rm_gateway_uid r"
  "rm_default_gateway_id (room_row now r d) = rm_default_gateway_id r"
  "rm_disabled (room_row now r d) = rm_disabled r"
  "rm_removed_at (room_row now r d) = rm_removed_at r"
  "rm_id (room_row now r d) = (if rm_id r = 0 then seq_room d else rm_id r)"
  by (simp_all add: room_row_def)

lemma room_insert_keeps [stmt_rules]:
  assumes "rm_id r = 0" shows "keeps_schema (room_insert now r)"
proof (rule keeps_schemaI)
  fix d :: db assume ok: "schema_ok d"
  let ?d1 = "d\<lparr>seq_room := seq_room d + 1\<rparr>"
  have ok1: "schema_ok ?d1" using ok by (rule seq_bump_ok)
  have "0 < seq_room d" using ok by (simp add: schema_ok_def rooms_ok_def)
  with assms have "schema_ok (?d1\<lparr>rooms := rooms d @ [room_row now r d]\<rparr>)"
    if "has_key gw_id (rm_default_gateway_id r) (gateways d)"
      "\<forall>x \<in> set (rooms d). rm_id x \<noteq> seq_room d \<and> rm_name x \<noteq> rm_name r \<and>
         rm_gateway_uid x \<noteq> rm_gateway_uid r"
    using that schema_ok_add_room [OF ok1, of "room_row now r d"] by simp
  with ok ok1 assms show "schema_ok (snd (room_insert now r d)) \<and> seqs_le d (snd (room_insert now r d))"
    by (auto simp: room_insert_def Let_def seqs_le_def list_ex_iff)
qed

lemma room_update_keeps [stmt_rules]:
  assumes "\<And>r. rm_id (f r) = rm_id r" shows "keeps_schema (room_update i f)"
proof (rule keeps_schemaI)
  fix d :: db assume ok: "schema_ok d"
  have "schema_ok (d\<lparr>rooms := tupdate rm_id i f (rooms d)\<rparr>)"
    if "room_find i d = Some old" "\<not> room_clash i (f old) d"
      "has_key gw_id (rm_default_gateway_id (f old)) (gateways d)" for old
  proof (rule schema_ok_replace_room [OF ok])
    have old: "old \<in> set (rooms d)" "rm_id old = i"
      using that(1) by (auto simp: room_find_def dest: find_Some_in)
    show "f x = f old" if "x \<in> set (rooms d)" "rm_id x = i" for x
      using ok old that by (metis distinct_key_eq rooms_ok_def schema_ok_def)
    show "rm_id (f old) = i" "has_key rm_id i (rooms d)"
      using old assms by (auto simp: has_key_iff)
  qed (fact that)+
  with ok show "schema_ok (snd (room_update i f d)) \<and> seqs_le d (snd (room_update i f d))"
    by (auto simp: room_update_def Let_def seqs_le_def split: option.split)
qed

lemma room_upsert_keeps [stmt_rules]:
  assumes "rm_id r = 0" shows "keeps_schema (room_upsert now r)"
proof (rule keeps_schemaI)
  fix d :: db assume ok: "schema_ok d"
  let ?d1 = "d\<lparr>seq_room := seq_room d + 1\<rparr>" and ?row = "room_row now r d"
  have ok1: "schema_ok ?d1" using ok by (rule seq_bump_ok)
  have pos: "0 < seq_room d" using ok by (simp add: schema_ok_def rooms_ok_def)
  have new: "schema_ok (?d1\<lparr>rooms := rooms d @ [?row]\<rparr>)"
    if "has_key gw_id (rm_default_gateway_id r) (gateways d)"
      "find (\<lambda>x. rm_gateway_uid x = rm_gateway_uid r) (rooms d) = None"
      "\<forall>x \<in> set (rooms d). rm_id x \<noteq> seq_room d \<and> rm_name x \<noteq> rm_name r"
    using that assms pos schema_ok_add_room [OF ok1, of ?row] by (simp add: find_None_all)
  have upd: "schema_ok (?d1\<lparr>rooms := tupdate rm_id (rm_id old) (\<lambda>_. ?row\<lparr>rm_id := rm_id old\<rparr>)
      (rooms d)\<rparr>)"
    if "has_key gw_id (rm_default_gateway_id r) (gateways d)"
      "find (\<lambda>x. rm_gateway_uid x = rm_gateway_uid r) (rooms d) = Some old"
      "\<not> room_clash (rm_id old) (?row\<lparr>rm_id := rm_id old\<rparr>) d" for old
    using that schema_ok_replace_room [OF ok1, of "rm_id old" "\<lambda>_. ?row\<lparr>rm_id := rm_id old\<rparr>"
        "?row\<lparr>rm_id := rm_id old\<rparr>"]
    by (auto simp: has_key_iff room_clash_def dest: find_Some_in)
  from ok ok1 new upd assms
  show "schema_ok (snd (room_upsert now r d)) \<and> seqs_le d (snd (room_upsert now r d))"
    by (auto simp: room_upsert_def Let_def seqs_le_def list_ex_iff split: option.split)
qed

section \<open>Composites, statistics, dynamic configuration\<close>

lemma session_refs_other [simp]:
  "session_refs (d\<lparr>composites_rooms := c\<rparr>) = session_refs d"
  "session_refs (d\<lparr>room_statistics := s\<rparr>) = session_refs d"
  "session_refs (d\<lparr>dynamic_configs := k\<rparr>) = session_refs d"
  "session_refs (d\<lparr>seq_dynamic_config := n\<rparr>) = session_refs d"
  by (rule session_refs_keys, simp_all)+

lemma schema_ok_with_composites:
  "schema_ok d \<Longrightarrow> composites_ok (d\<lparr>composites_rooms := c\<rparr>) \<Longrightarrow> schema_ok (d\<lparr>composites_rooms := c\<rparr>)"
  by (simp add: schema_ok_def gateways_ok_def users_ok_def rooms_ok_def sessions_ok_def
      statistics_ok_def configs_ok_def)

lemma schema_ok_with_statistics:
  "schema_ok d \<Longrightarrow> statistics_ok (d\<lparr>room_statistics := s\<rparr>) \<Longrightarrow> schema_ok (d\<lparr>room_statistics := s\<rparr>)"
  by (simp add: schema_ok_def gateways_ok_def users_ok_def rooms_ok_def sessions_ok_def
      composites_ok_def configs_ok_def)

lemma schema_ok_with_configs:
  "schema_ok d \<Longrightarrow> configs_ok (d\<lparr>dynamic_configs := k\<rparr>) \<Longrightarrow> schema_ok (d\<lparr>dynamic_configs := k\<rparr>)"
  by (simp add: schema_ok_def gateways_ok_def users_ok_def rooms_ok_def sessions_ok_def
      composites_ok_def statistics_ok_def)

lemma composites_rooms_delete_keeps [stmt_rules]: "keeps_schema (composites_rooms_delete i)"
  by (rule keeps_schemaI) (auto simp: composites_rooms_delete_def seqs_le_def
      intro!: schema_ok_with_composites, auto simp: schema_ok_def composites_ok_def)

lemma composites_room_insert_keeps [stmt_rules]: "keeps_schema (composites_room_insert c)"
  by (rule keeps_schemaI) (auto simp: composites_room_insert_def seqs_le_def
      intro!: schema_ok_with_composites, auto simp: schema_ok_def composites_ok_def)

lemma room_statistic_insert_keeps [stmt_rules]: "keeps_schema (room_statistic_insert s)"
  by (rule keeps_schemaI) (auto simp: room_statistic_insert_def seqs_le_def
      intro!: schema_ok_with_statistics, auto simp: schema_ok_def statistics_ok_def has_key_iff)

lemma room_statistic_update_keeps [stmt_rules]: "keeps_schema (room_statistic_update s)"
proof (rule keeps_schemaI)
  fix d :: db assume ok: "schema_ok d"
  have "map rs_room_id (tupdate rs_room_id (rs_room_id s) (rs_on_air_update (\<lambda>_. rs_on_air s))
      (room_statistics d)) = map rs_room_id (room_statistics d)"
    by (rule map_tupdate) simp
  with ok show "schema_ok (snd (room_statistic_update s d)) \<and> seqs_le d (snd (room_statistic_update s d))"
    by (auto simp: room_statistic_update_def seqs_le_def intro!: schema_ok_with_statistics)
      (auto simp: schema_ok_def statistics_ok_def elim!: in_tupdateE)
qed

lemma room_statistics_delete_all_keeps [stmt_rules]: "keeps_schema room_statistics_delete_all"
  by (rule keeps_schemaI) (auto simp: room_statistics_delete_all_def seqs_le_def
      intro!: schema_ok_with_statistics, auto simp: schema_ok_def statistics_ok_def)

lemma dynamic_config_insert_keeps [stmt_rules]: "keeps_schema (dynamic_config_insert c)"
proof (rule keeps_schemaI)
  fix d :: db assume ok: "schema_ok d"
  let ?d1 = "d\<lparr>seq_dynamic_config := seq_dynamic_config d + 1\<rparr>"
  let ?row = "c\<lparr>dc_id := seq_dynamic_config d\<rparr>"
  have ok1: "schema_ok ?d1" using ok by (rule seq_bump_ok)
  have "0 < seq_dynamic_config d" using ok by (simp add: schema_ok_def configs_ok_def)
  then have "schema_ok (?d1\<lparr>dynamic_configs := dynamic_configs d @ [?row]\<rparr>)"
    if "\<forall>r \<in> set (dynamic_configs d). dc_id r \<noteq> seq_dynamic_config d \<and> dc_key r \<noteq> dc_key c"
    using that ok1 by (intro schema_ok_with_configs) (auto simp: schema_ok_def configs_ok_def)
  with ok ok1 show "schema_ok (snd (dynamic_config_insert c d)) \<and> seqs_le d (snd (dynamic_config_insert c d))"
    by (auto simp: dynamic_config_insert_def Let_def seqs_le_def list_ex_iff)
qed

lemma dynamic_config_update_keeps [stmt_rules]:
  assumes "\<And>r. dc_id (f r) = dc_id r" shows "keeps_schema (dynamic_config_update i f)"
proof (rule keeps_schemaI)
  fix d :: db assume ok: "schema_ok d"
  have "schema_ok (d\<lparr>dynamic_configs := tupdate dc_id i f (dynamic_configs d)\<rparr>)"
    if old: "dynamic_config_find i d = Some old"
      and clash: "\<not> list_ex (\<lambda>r. dc_id r \<noteq> i \<and> dc_key r = dc_key (f old)) (dynamic_configs d)" for old
  proof (rule schema_ok_with_configs [OF ok])
    have mem: "old \<in> set (dynamic_configs d)" "dc_id old = i"
      using old by (auto simp: dynamic_config_find_def dest: find_Some_in)
    have eq: "x = old" if "x \<in> set (dynamic_configs d)" "dc_id x = i" for x
      using ok mem that by (metis distinct_key_eq configs_ok_def schema_ok_def)
    have "map dc_id (tupdate dc_id i f (dynamic_configs d)) = map dc_id (dynamic_configs d)"
      using assms by (intro map_tupdate)
    moreover have "distinct (map dc_key (tupdate dc_id i f (dynamic_configs d)))"
      using ok eq clash
      by (intro distinct_map_tupdate) (auto simp: schema_ok_def configs_ok_def list_ex_iff)
    ultimately show "configs_ok (d\<lparr>dynamic_configs := tupdate dc_id i f (dynamic_configs d)\<rparr>)"
      using ok assms by (auto simp: schema_ok_def configs_ok_def elim!: in_tupdateE)
  qed
  with ok show "schema_ok (snd (dynamic_config_update i f d)) \<and> seqs_le d (snd (dynamic_config_update i f d))"
    by (auto simp: dynamic_config_update_def Let_def seqs_le_def split: option.split)
qed

lemma dynamic_config_delete_keeps [stmt_rules]: "keeps_schema (dynamic_config_delete i)"
  by (rule keeps_schemaI) (auto simp: dynamic_config_delete_def seqs_le_def
      intro!: schema_ok_with_configs, auto simp: schema_ok_def configs_ok_def distinct_map_filter)

end
