(* ===== verification/Go_Std.thy ===== *)
theory Go_Std
  imports Prelude
begin

text \<open>
  The parts of Go's standard library the repository relies on: decimal integers
  (\<^verbatim>\<open>strconv\<close>), string helpers (\<^verbatim>\<open>strings\<close>) and the padded base64 alphabet
  (\<^verbatim>\<open>encoding/base64.StdEncoding\<close>).  Strings are byte sequences (a \<^verbatim>\<open>char\<close> is a byte).
  The lemmas are the round trips the components use.
\<close>

section \<open>strconv\<close>

definition code :: "char \<Rightarrow> nat" where "code c = of_char c"
definition byte :: "nat \<Rightarrow> char" where "byte n = char_of n"

lemma code_byte [simp]: "n < 256 \<Longrightarrow> code (byte n) = n"
  by (simp add: code_def byte_def)

lemma byte_code [simp]: "byte (code c) = c"
  by (simp add: code_def byte_def)

lemma code_less [simp]: "code c < 256"
  unfolding code_def by (metis mod_less_divisor of_char_mod_256 zero_less_numeral)

definition is_digit :: "char \<Rightarrow> bool" where
  "is_digit c \<longleftrightarrow> 48 \<le> code c \<and> code c \<le> 57"

fun digits_val :: "nat \<Rightarrow> string \<Rightarrow> nat option" where
  "digits_val acc [] = Some acc"
| "digits_val acc (c # cs) =
     (if is_digit c then digits_val (10 * acc + (code c - 48)) cs else None)"

text \<open>The error of a failed conversion and the value that \<^verbatim>\<open>strconv\<close> returns beside it.\<close>

datatype num_error = ErrSyntax | ErrRange

definition max_int64 :: int where "max_int64 = 9223372036854775807"
definition max_uint64 :: int where "max_uint64 = 18446744073709551615"

text \<open>\<^verbatim>\<open>strconv.ParseUint(s, 10, 64)\<close>\<close>

definition parse_uint :: "string \<Rightarrow> num_error option \<times> int" where
  "parse_uint s = (if s = [] then (Some ErrSyntax, 0)
     else case digits_val 0 s of
       None \<Rightarrow> (Some ErrSyntax, 0)
     | Some n \<Rightarrow> if int n > max_uint64 then (Some ErrRange, max_uint64) else (None, int n))"

text \<open>\<^verbatim>\<open>strconv.ParseInt(s, 10, 64)\<close>; \<^verbatim>\<open>strconv.Atoi\<close> is the same on a 64-bit platform.\<close>

definition parse_int :: "string \<Rightarrow> num_error option \<times> int" where
  "parse_int s =
     (let neg = (case s of c # _ \<Rightarrow> c = CHR ''-'' | [] \<Rightarrow> False);
          body = (case s of c # cs \<Rightarrow> if c = CHR ''-'' \<or> c = CHR ''+'' then cs else s | [] \<Rightarrow> [])
      in case parse_uint body of
           (Some ErrSyntax, _) \<Rightarrow> (Some ErrSyntax, 0)
         | (_, n) \<Rightarrow>
             if \<not> neg \<and> n > max_int64 then (Some ErrRange, max_int64)
             else if neg \<and> n > max_int64 + 1 then (Some ErrRange, - max_int64 - 1)
             else (None, if neg then - n else n))"

definition atoi :: "string \<Rightarrow> num_error option \<times> int" where
  "atoi = parse_int"

fun show_nat :: "nat \<Rightarrow> string" where
  "show_nat n = (if n < 10 then [byte (48 + n)] else show_nat (n div 10) @ [byte (48 + n mod 10)])"

declare show_nat.simps [simp del]

definition itoa :: "int \<Rightarrow> string" where
  "itoa i = (if i < 0 then CHR ''-'' # show_nat (nat (- i)) else show_nat (nat i))"

lemma digits_val_append:
  "digits_val acc (xs @ ys) = (case digits_val acc xs of None \<Rightarrow> None | Some n \<Rightarrow> digits_val n ys)"
  by (induction xs arbitrary: acc) auto

lemma digits_val_show_nat: "digits_val 0 (show_nat n) = Some n"
proof (induction n rule: show_nat.induct)
  case (1 n)
  show ?case
  proof (cases "n < 10")
    case True
    then show ?thesis by (subst show_nat.simps) (simp add: is_digit_def)
  next
    case False
    have "n mod 10 < 10" by simp
    then have "is_digit (byte (48 + n mod 10))" "code (byte (48 + n mod 10)) = 48 + n mod 10"
      by (simp_all add: is_digit_def)
    with False 1 show ?thesis by (subst show_nat.simps) (simp add: digits_val_append)
  qed
qed

lemma show_nat_not_Nil: "show_nat n \<noteq> []"
  by (subst show_nat.simps) simp

lemma digits_val_digit: "digits_val acc (c # cs) = Some n \<Longrightarrow> is_digit c"
  by (simp split: if_splits)

lemma hd_show_nat: "show_nat n = c # cs \<Longrightarrow> is_digit c"
  using digits_val_show_nat [of n] digits_val_digit by metis

lemma not_sign [simp]: "is_digit c \<Longrightarrow> c \<noteq> CHR ''-'' \<and> c \<noteq> CHR ''+''"
  by (auto simp: is_digit_def code_def)

lemma parse_uint_show_nat: "int n \<le> max_uint64 \<Longrightarrow> parse_uint (show_nat n) = (None, int n)"
  by (simp add: parse_uint_def digits_val_show_nat show_nat_not_Nil)

lemma parse_int_itoa:
  assumes "- max_int64 - 1 \<le> i" "i \<le> max_int64"
  shows "parse_int (itoa i) = (None, i)"
proof (cases "i < 0")
  case True
  with assms have "parse_uint (show_nat (nat (- i))) = (None, - i)"
    by (subst parse_uint_show_nat) (auto simp: max_uint64_def max_int64_def)
  with True assms show ?thesis by (simp add: parse_int_def itoa_def max_int64_def)
next
  case False
  obtain c cs where c: "show_nat (nat i) = c # cs" using show_nat_not_Nil by (metis neq_Nil_conv)
  then have "c \<noteq> CHR ''-''" "c \<noteq> CHR ''+''" using hd_show_nat not_sign by blast+
  moreover have "parse_uint (c # cs) = (None, i)"
    using False assms c parse_uint_show_nat [of "nat i"] by (simp add: max_uint64_def max_int64_def)
  ultimately show ?thesis using False assms c by (simp add: parse_int_def itoa_def)
qed

text \<open>A hexadecimal digit.\<close>

definition hex_val :: "char \<Rightarrow> nat option" where
  "hex_val c = (let n = code c in
     if 48 \<le> n \<and> n \<le> 57 then Some (n - 48) else if 97 \<le> n \<and> n \<le> 102 then Some (n - 87)
     else if 65 \<le> n \<and> n \<le> 70 then Some (n - 55) else None)"

section \<open>strings\<close>

text \<open>\<^verbatim>\<open>strings.Split(s, sep)\<close> for a one-byte separator: never empty.\<close>

fun split_on :: "char \<Rightarrow> string \<Rightarrow> string list" where
  "split_on sep [] = [[]]"
| "split_on sep (c # cs) =
     (if c = sep then [] # split_on sep cs
      else case split_on sep cs of [] \<Rightarrow> [[c]] | w # ws \<Rightarrow> (c # w) # ws)"

lemma split_on_not_Nil [simp]: "split_on sep s \<noteq> []"
  by (induction s) (auto split: list.split)

definition has_prefix :: "string \<Rightarrow> string \<Rightarrow> bool" where
  "has_prefix s p \<longleftrightarrow> take (length p) s = p"

lemma has_prefix_append [simp]: "has_prefix (p @ s) p"
  by (simp add: has_prefix_def)

definition is_space :: "char \<Rightarrow> bool" where
  "is_space c \<longleftrightarrow> code c \<in> {9, 10, 11, 12, 13, 32}"

definition trim_by :: "(char \<Rightarrow> bool) \<Rightarrow> string \<Rightarrow> string" where
  "trim_by P s = rev (dropWhile P (rev (dropWhile P s)))"

text \<open>\<^verbatim>\<open>strings.TrimSpace\<close> on ASCII, \<^verbatim>\<open>strings.ToLower\<close> on ASCII.\<close>

definition trim_space :: "string \<Rightarrow> string" where "trim_space s = trim_by is_space s"

definition lower_char :: "char \<Rightarrow> char" where
  "lower_char c = (if 65 \<le> code c \<and> code c \<le> 90 then byte (code c + 32) else c)"

definition to_lower :: "string \<Rightarrow> string" where "to_lower s = map lower_char s"

section \<open>encoding/base64\<close>

definition b64_char :: "nat \<Rightarrow> char" where
  "b64_char n = (if n < 26 then byte (65 + n) else if n < 52 then byte (71 + n)
     else if n < 62 then byte (n - 4) else if n = 62 then CHR ''+'' else CHR ''/'')"

definition b64_val :: "char \<Rightarrow> nat option" where
  "b64_val c = (let n = code c in
     if 65 \<le> n \<and> n \<le> 90 then Some (n - 65) else if 97 \<le> n \<and> n \<le> 122 then Some (n - 71)
     else if 48 \<le> n \<and> n \<le> 57 then Some (n + 4) else if n = 43 then Some 62
     else if n = 47 then Some 63 else None)"

fun b64_enc :: "nat list \<Rightarrow> string" where
  "b64_enc [] = []"
| "b64_enc [a] = [b64_char (a div 4), b64_char (a mod 4 * 16), CHR ''='', CHR ''='']"
| "b64_enc [a, b] =
     [b64_char (a div 4), b64_char (a mod 4 * 16 + b div 16), b64_char (b mod 16 * 4), CHR ''='']"
| "b64_enc (a # b # c # r) =
     b64_char (a div 4) # b64_char (a mod 4 * 16 + b div 16) #
     b64_char (b mod 16 * 4 + c div 64) # b64_char (c mod 64) # b64_enc r"

fun b64_dec :: "string \<Rightarrow> nat list option" where
  "b64_dec [] = Some []"
| "b64_dec (a # b # c # d # r) =
     (if c = CHR ''='' \<and> d = CHR ''='' \<and> r = [] then
        (case (b64_val a, b64_val b) of
           (Some x, Some y) \<Rightarrow> Some [x * 4 + y div 16] | _ \<Rightarrow> None)
      else if d = CHR ''='' \<and> r = [] then
        (case (b64_val a, b64_val b, b64_val c) of
           (Some x, Some y, Some z) \<Rightarrow> Some [x * 4 + y div 16, y mod 16 * 16 + z div 4]
         | _ \<Rightarrow> None)
      else
        (case (b64_val a, b64_val b, b64_val c, b64_val d, b64_dec r) of
           (Some x, Some y, Some z, Some v, Some rest) \<Rightarrow>
             Some ((x * 4 + y div 16) # (y mod 16 * 16 + z div 4) # (z mod 4 * 64 + v) # rest)
         | _ \<Rightarrow> None))"
| "b64_dec s = None"

definition base64_encode :: "string \<Rightarrow> string" where
  "base64_encode s = b64_enc (map code s)"

text \<open>The decoder skips line ends.\<close>

definition newline :: "char \<Rightarrow> bool" where "newline c \<longleftrightarrow> c = byte 10 \<or> c = byte 13"

definition base64_decode :: "string \<Rightarrow> string option" where
  "base64_decode s =
     map_option (map byte) (b64_dec (filter (\<lambda>c. \<not> newline c) s))"

lemma b64_val_char [simp]: "n < 64 \<Longrightarrow> b64_val (b64_char n) = Some n"
  by (auto simp: b64_val_def b64_char_def Let_def code_def [of "CHR ''+''"] code_def [of "CHR ''/''"])

lemma b64_char_neq [simp]:
  assumes "n < 64"
  shows "b64_char n \<noteq> CHR ''=''" "b64_char n \<noteq> byte 10" "b64_char n \<noteq> byte 13"
proof -
  have "b64_val (CHR ''='') = None" "b64_val (byte 10) = None" "b64_val (byte 13) = None"
    by (simp_all add: b64_val_def code_def byte_def)
  with b64_val_char [OF assms] show "b64_char n \<noteq> CHR ''=''" "b64_char n \<noteq> byte 10"
    "b64_char n \<noteq> byte 13" by (metis option.distinct(1))+
qed

lemma b64_enc_Nil [simp]: "b64_enc xs = [] \<longleftrightarrow> xs = []"
  by (cases xs rule: b64_enc.cases) auto

lemma sextets [simp]:
  "a < 256 \<Longrightarrow> a div 4 < 64" "a mod 4 * 16 < (64::nat)"
  "b < 256 \<Longrightarrow> a mod 4 * 16 + b div 16 < (64::nat)" "b mod 16 * 4 < (64::nat)"
  "c < 256 \<Longrightarrow> b mod 16 * 4 + c div 64 < (64::nat)" "c mod 64 < (64::nat)"
  by linarith+

lemma joins:
  fixes b c :: nat
  shows "b < 256 \<Longrightarrow> b div 16 div 16 = 0"
    "b < 256 \<Longrightarrow> b div 16 mod 16 * 16 + b mod 16 = b"
    "b < 256 \<Longrightarrow> c < 256 \<Longrightarrow> b div 16 mod 16 * 16 + (b mod 16 + c div 64 div 4) = b"
    "c < 256 \<Longrightarrow> c div 64 mod 4 * 64 + c mod 64 = c"
proof -
  show "b div 16 div 16 = 0" if "b < 256" using that by simp
  have b: "b div 16 mod 16 = b div 16" if "b < 256" using that by (simp add: less_mult_imp_div_less)
  then show "b div 16 mod 16 * 16 + b mod 16 = b" if "b < 256" using that by simp
  show "b div 16 mod 16 * 16 + (b mod 16 + c div 64 div 4) = b" if "b < 256" "c < 256"
    using b that by simp
  have "c div 64 mod 4 = c div 64" if "c < 256" using that by (simp add: less_mult_imp_div_less)
  then show "c div 64 mod 4 * 64 + c mod 64 = c" if "c < 256" using that by simp
qed

lemma b64_dec_enc: "\<forall>x \<in> set xs. x < 256 \<Longrightarrow> b64_dec (b64_enc xs) = Some xs"
  by (induction xs rule: b64_enc.induct) (simp_all add: joins)

lemma newline_b64 [simp]: "n < 64 \<Longrightarrow> \<not> newline (b64_char n)" "\<not> newline (CHR ''='')"
proof -
  show "\<not> newline (b64_char n)" if "n < 64" using that by (simp add: newline_def)
  have "code (CHR ''='') = 61" by (simp add: code_def)
  then show "\<not> newline (CHR ''='')"
    unfolding newline_def using code_byte [of 10] code_byte [of 13] by force
qed

lemma b64_enc_no_newline:
  "\<forall>x \<in> set xs. x < 256 \<Longrightarrow> \<forall>c \<in> set (b64_enc xs). \<not> newline c"
  by (induction xs rule: b64_enc.induct) simp_all

lemma base64_roundtrip: "base64_decode (base64_encode s) = Some s"
proof -
  have bytes: "\<forall>x \<in> set (map code s). x < 256" by simp
  then have "filter (\<lambda>c. \<not> newline c) (b64_enc (map code s)) = b64_enc (map code s)"
    by (intro filter_True b64_enc_no_newline)
  then show ?thesis
    using b64_dec_enc [OF bytes] by (simp add: base64_decode_def base64_encode_def comp_def)
qed

end
