(* ===== verification/World.thy ===== *)
theory World
  imports Schema_Laws Config
begin

text \<open>
  The state a request of the API server runs in: the database, the in-process caches
  (\<^verbatim>\<open>AppCache\<close> of \<^verbatim>\<open>api/cache.go\<close>), the registry of gateway admin clients, the configuration,
  and the environment.

  What is not code of the repository is an input here and is never defined: which statements of
  the database connection fail and with which message (\<^verbatim>\<open>e_faults\<close>), what the Janus admin
  API of a gateway answers (\<^verbatim>\<open>e_admin\<close>; every call made is recorded in
  \<^verbatim>\<open>w_calls\<close> with its answer),
  which entries the ARC policy of \<^verbatim>\<open>golang-lru\<close> drops when an entry is added
  (\<^verbatim>\<open>e_evict\<close>), the numbers of \<^verbatim>\<open>math/rand\<close> and \<^verbatim>\<open>crypto/rand\<close>, and the primitives
  AES-GCM and bcrypt, the URL check of \<^verbatim>\<open>janus_admin.NewAdminAPI\<close>, and the database's reading of a
  regular expression and of the text of an \<^verbatim>\<open>ORDER BY\<close> clause (\<^verbatim>\<open>ext\<close>).  The streams are consumed one element per use; an exhausted
  stream of faults is a healthy connection, an exhausted stream of answers is a call that
  fails.  A request reads one instant of the clock, \<^verbatim>\<open>e_now\<close>.
\<close>

datatype admin_resp =
    ARok
  | ARtokens "string list"
  | ARsessions nat
  | ARinfo json
  | ARerr int string
  | ARfail string

datatype plugin_request =
    CreateRoom string string
  | EditRoom string string
  | DestroyRoom string

datatype admin_call =
    ListTokens
  | AddToken string "string list"
  | RemoveToken string
  | MessagePlugin plugin_request
  | HandleInfo int int
  | ListSessions

text \<open>A client made by \<^verbatim>\<open>janus_admin.NewAdminAPI(url, password)\<close>.\<close>

type_synonym admin_api = "string \<times> string"

record env =
  e_now :: time
  e_faults :: "string option list"
  e_evict :: "string list list"
  e_admin :: "admin_resp list"
  e_rand :: "nat list"
  e_nonce :: "string list"

record ext =
  x_seal :: "string \<Rightarrow> string \<Rightarrow> string \<Rightarrow> string"
  x_open :: "string \<Rightarrow> string \<Rightarrow> string \<Rightarrow> string option"
  x_bcrypt :: "string \<Rightarrow> string \<Rightarrow> bool"
  x_admin_error :: "string \<Rightarrow> string option"
  x_regex :: "string \<Rightarrow> (string \<Rightarrow> bool) option"
  x_order_gateways :: "string \<Rightarrow> gateway list \<Rightarrow> gerr + gateway list"
  x_order_rooms :: "string \<Rightarrow> room list \<Rightarrow> gerr + room list"
  x_order_configs :: "string \<Rightarrow> dynamic_config list \<Rightarrow> gerr + dynamic_config list"

record app_cache =
  c_gw_byid :: "(int, gateway) gomap"
  c_gw_byname :: "(string, gateway) gomap"
  c_tokens :: "(int, string) gomap"
  c_rooms :: "(string, room) gomap"
  c_users :: "(string, user) gomap"
  c_dynamic :: "(string, dynamic_config) gomap"
  c_last_modified :: time

record world =
  w_db :: db
  w_cache :: app_cache
  w_registry :: "(int, admin_api) gomap"
  w_cfg :: config
  w_ext :: ext
  w_env :: env
  w_calls :: "(admin_api \<times> admin_call \<times> admin_resp) list"

type_synonym 'a go = "(world, 'a) prog"

section \<open>Statements\<close>

text \<open>The fate of the next statement of the connection, and the state after it.\<close>

definition next_fault :: "world \<Rightarrow> string option" where
  "next_fault w = (case e_faults (w_env w) of [] \<Rightarrow> None | x # _ \<Rightarrow> x)"

definition drop_fault :: "world \<Rightarrow> world" where
  "drop_fault w = w\<lparr>w_env := (w_env w)\<lparr>e_faults := tl (e_faults (w_env w))\<rparr>\<rparr>"

definition dbP :: "'a stmt \<Rightarrow> 'a go" where
  "dbP st w =
     (case next_fault w of
        Some m \<Rightarrow> (Err (EDb m), drop_fault w)
      | None \<Rightarrow> (case st (w_db w) of
          (Inl e, d) \<Rightarrow> (Err e, (drop_fault w)\<lparr>w_db := d\<rparr>)
        | (Inr x, d) \<Rightarrow> (Ok x, (drop_fault w)\<lparr>w_db := d\<rparr>)))"

definition queryP :: "(db \<Rightarrow> 'a) \<Rightarrow> 'a go" where
  "queryP f = dbP (\<lambda>d. (Inr (f d), d))"

text \<open>\<^verbatim>\<open>One\<close> and \<^verbatim>\<open>FindX\<close> answer \<^verbatim>\<open>sql.ErrNoRows\<close> when no row matches.\<close>

definition oneP :: "(db \<Rightarrow> 'a option) \<Rightarrow> 'a go" where
  "oneP f = dbP (\<lambda>d. (case f d of None \<Rightarrow> Inl ENoRows | Some x \<Rightarrow> Inr x, d))"

definition resP :: "'a res \<Rightarrow> 'a go" where "resP r = (\<lambda>w. (r, w))"

definition nowP :: "time go" where "nowP = getsP (\<lambda>w. e_now (w_env w))"

definition cfgP :: "(config \<Rightarrow> 'a) \<Rightarrow> 'a go" where "cfgP f = getsP (\<lambda>w. f (w_cfg w))"

definition cacheP :: "(app_cache \<Rightarrow> 'a) \<Rightarrow> 'a go" where "cacheP f = getsP (\<lambda>w. f (w_cache w))"

definition set_cacheP :: "(app_cache \<Rightarrow> app_cache) \<Rightarrow> unit go" where
  "set_cacheP f = modifyP (\<lambda>w. w\<lparr>w_cache := f (w_cache w)\<rparr>)"

text \<open>A call of an admin client: recorded, and answered by the environment.\<close>

definition next_resp :: "world \<Rightarrow> admin_resp" where
  "next_resp w = (case e_admin (w_env w) of [] \<Rightarrow> ARfail ''no answer'' | r # _ \<Rightarrow> r)"

definition callP :: "admin_api \<Rightarrow> admin_call \<Rightarrow> admin_resp go" where
  "callP api c w =
     (let w' = w\<lparr>w_env := (w_env w)\<lparr>e_admin := tl (e_admin (w_env w))\<rparr>,
                 w_calls := w_calls w @ [(api, c, next_resp w)]\<rparr>
      in case next_resp w of
           ARerr n m \<Rightarrow> (Err (EAdmin n m), w')
         | ARfail m \<Rightarrow> (Err (EText m), w')
         | r \<Rightarrow> (Ok r, w'))"

text \<open>\<^verbatim>\<open>rand.Intn(n)\<close>\<close>

definition randP :: "nat \<Rightarrow> nat go" where
  "randP n w = (case e_rand (w_env w) of [] \<Rightarrow> (Ok 0, w)
     | k # ks \<Rightarrow> (Ok (k mod n), w\<lparr>w_env := (w_env w)\<lparr>e_rand := ks\<rparr>\<rparr>))"

lemma queryP_apply: "queryP f w = (case next_fault w of
    Some m \<Rightarrow> (Err (EDb m), drop_fault w) | None \<Rightarrow> (Ok (f (w_db w)), (drop_fault w)\<lparr>w_db := w_db w\<rparr>))"
  by (simp add: queryP_def dbP_def split: option.split)

lemma drop_fault_simps [simp]:
  "w_db (drop_fault w) = w_db w" "w_cache (drop_fault w) = w_cache w"
  "w_registry (drop_fault w) = w_registry w" "w_cfg (drop_fault w) = w_cfg w"
  "w_ext (drop_fault w) = w_ext w" "w_calls (drop_fault w) = w_calls w"
  "e_now (w_env (drop_fault w)) = e_now (w_env w)"
  "e_admin (w_env (drop_fault w)) = e_admin (w_env w)"
  "(drop_fault w)\<lparr>w_db := w_db w\<rparr> = drop_fault w"
  by (simp_all add: drop_fault_def)

lemma queryP_cases:
  obtains m where "next_fault w = Some m" "queryP f w = (Err (EDb m), drop_fault w)"
  | "next_fault w = None" "queryP f w = (Ok (f (w_db w)), drop_fault w)"
  by (cases "next_fault w") (auto simp: queryP_apply)

lemma snd_queryP [simp]: "snd (queryP f w) = drop_fault w"
  by (simp add: queryP_apply split: option.split)

lemma oneP_apply: "oneP f w = (case next_fault w of
    Some m \<Rightarrow> (Err (EDb m), drop_fault w)
  | None \<Rightarrow> (case f (w_db w) of None \<Rightarrow> (Err ENoRows, drop_fault w) | Some x \<Rightarrow> (Ok x, drop_fault w)))"
  by (simp add: oneP_def dbP_def split: option.split)

lemma snd_oneP [simp]: "snd (oneP f w) = drop_fault w"
  by (simp add: oneP_apply split: option.split)

section \<open>Healthy connections\<close>

text \<open>No statement of the connection fails from here on.\<close>

definition healthy :: "world \<Rightarrow> bool" where
  "healthy w \<longleftrightarrow> e_faults (w_env w) = []"

lemma healthy_next [simp]: "healthy w \<Longrightarrow> next_fault w = None"
  by (simp add: healthy_def next_fault_def)

lemma healthy_drop [simp]: "healthy w \<Longrightarrow> drop_fault w = w"
  by (simp add: healthy_def drop_fault_def)

lemma healthy_updates [simp]:
  "healthy (w\<lparr>w_db := d\<rparr>) = healthy w" "healthy (w\<lparr>w_cache := c\<rparr>) = healthy w"
  "healthy (w\<lparr>w_registry := r\<rparr>) = healthy w" "healthy (w\<lparr>w_calls := l\<rparr>) = healthy w"
  by (simp_all add: healthy_def)

lemma healthy_dbP: "healthy w \<Longrightarrow> dbP st w = (case st (w_db w) of
    (Inl e, d) \<Rightarrow> (Err e, w\<lparr>w_db := d\<rparr>) | (Inr x, d) \<Rightarrow> (Ok x, w\<lparr>w_db := d\<rparr>))"
  by (simp add: dbP_def split: prod.split sum.split)

lemma healthy_dbP_Inr: "healthy w \<Longrightarrow> st (w_db w) = (Inr x, d) \<Longrightarrow> dbP st w = (Ok x, w\<lparr>w_db := d\<rparr>)"
  by (simp add: healthy_dbP)

lemma healthy_dbP_Inl: "healthy w \<Longrightarrow> st (w_db w) = (Inl e, d) \<Longrightarrow> dbP st w = (Err e, w\<lparr>w_db := d\<rparr>)"
  by (simp add: healthy_dbP)

lemma healthy_queryP [simp]: "healthy w \<Longrightarrow> queryP f w = (Ok (f (w_db w)), w)"
  by (simp add: queryP_apply)

lemma healthy_oneP: "healthy w \<Longrightarrow> oneP f w =
    (case f (w_db w) of None \<Rightarrow> (Err ENoRows, w) | Some x \<Rightarrow> (Ok x, w))"
  by (simp add: oneP_apply split: option.split)

section \<open>Relations that every statement stays within\<close>

lemma within_dbP:
  assumes "\<And>w. R w (drop_fault w)" and "\<And>w. R w ((drop_fault w)\<lparr>w_db := snd (st (w_db w))\<rparr>)"
  shows "within R (dbP st)"
proof (rule withinI)
  fix w show "R w (snd (dbP st w))"
    using assms [of w] by (cases "st (w_db w)") (auto simp: dbP_def split: option.split sum.split)
qed

text \<open>The constraints of the schema survive, and no sequence moves backwards.\<close>

definition schema_rel :: "world \<Rightarrow> world \<Rightarrow> bool" where
  "schema_rel w w' \<longleftrightarrow> (schema_ok (w_db w) \<longrightarrow> schema_ok (w_db w') \<and> seqs_le (w_db w) (w_db w'))"

text \<open>The configuration, the primitives and the instant of a request never change.\<close>

definition frame_rel :: "world \<Rightarrow> world \<Rightarrow> bool" where
  "frame_rel w w' \<longleftrightarrow> w_cfg w' = w_cfg w \<and> w_ext w' = w_ext w \<and>
     e_now (w_env w') = e_now (w_env w)"

interpretation schema: step_rel schema_rel
  by unfold_locales (auto simp: schema_rel_def intro: seqs_le_trans)

interpretation frame: step_rel frame_rel
  by unfold_locales (auto simp: frame_rel_def)

lemma schema_dbP [within_rules]: "keeps_schema st \<Longrightarrow> within schema_rel (dbP st)"
  by (rule within_dbP) (auto simp: schema_rel_def keeps_schema_def)

lemma frame_dbP [within_rules]: "within frame_rel (dbP st)"
  by (rule within_dbP) (auto simp: frame_rel_def)

lemma schema_queryP [within_rules]: "within schema_rel (queryP f)"
  by (rule withinI) (simp add: schema_rel_def)

lemma frame_queryP [within_rules]: "within frame_rel (queryP f)"
  by (rule withinI) (simp add: frame_rel_def)

lemma schema_oneP [within_rules]: "within schema_rel (oneP f)"
  by (rule withinI) (simp add: schema_rel_def)

lemma frame_oneP [within_rules]: "within frame_rel (oneP f)"
  by (rule withinI) (simp add: frame_rel_def)

lemma schema_set_cacheP [within_rules]: "within schema_rel (set_cacheP f)"
  by (rule withinI) (simp add: schema_rel_def set_cacheP_def)

lemma frame_set_cacheP [within_rules]: "within frame_rel (set_cacheP f)"
  by (rule withinI) (simp add: frame_rel_def set_cacheP_def)

lemma snd_callP: "snd (callP api c w) =
   w\<lparr>w_env := (w_env w)\<lparr>e_admin := tl (e_admin (w_env w))\<rparr>, w_calls := w_calls w @ [(api, c, next_resp w)]\<rparr>"
  by (simp add: callP_def Let_def split: admin_resp.split)

lemma schema_callP [within_rules]: "within schema_rel (callP api c)"
  by (rule withinI) (simp add: schema_rel_def snd_callP)

lemma frame_callP [within_rules]: "within frame_rel (callP api c)"
  by (rule withinI) (simp add: frame_rel_def snd_callP)

lemma schema_randP [within_rules]: "within schema_rel (randP n)"
  by (rule withinI) (simp add: schema_rel_def randP_def split: list.split)

lemma frame_randP [within_rules]: "within frame_rel (randP n)"
  by (rule withinI) (simp add: frame_rel_def randP_def split: list.split)

lemma schema_resP [within_rules]: "within schema_rel (resP r)"
  by (rule withinI) (simp add: schema_rel_def resP_def)

lemma frame_resP [within_rules]: "within frame_rel (resP r)"
  by (rule withinI) (simp add: frame_rel_def resP_def)

lemma schema_readers [within_rules]:
  "within schema_rel nowP" "within schema_rel (cfgP f)" "within schema_rel (cacheP g)"
  by (simp_all add: nowP_def cfgP_def cacheP_def schema.within_getsP)

lemma frame_readers [within_rules]:
  "within frame_rel nowP" "within frame_rel (cfgP f)" "within frame_rel (cacheP g)"
  by (simp_all add: nowP_def cfgP_def cacheP_def frame.within_getsP)

end
