(* ===== verification/Samples.thy ===== *)
theory Samples
  imports World
begin

text \<open>
  Concrete inputs for the witnesses: an authenticated cipher that satisfies the law the code
  relies on, a small database with one gateway, two rooms and one user, and a world around it.
\<close>

definition sample_ext :: ext where
  "sample_ext = \<lparr>x_seal = (\<lambda>k n t. k @ t),
     x_open = (\<lambda>k n c. if take (length k) c = k then Some (drop (length k) c) else None),
     x_bcrypt = (\<lambda>h p. h = p), x_admin_error = (\<lambda>u. None),
     x_regex = (\<lambda>t. Some (\<lambda>n. n = t)), x_order_gateways = (\<lambda>c rs. Inr rs),
     x_order_rooms = (\<lambda>c rs. Inr rs), x_order_configs = (\<lambda>c rs. Inr rs)\<rparr>"

definition sample_cfg :: config where
  "sample_cfg = newConfig\<lparr>Secret := ''0123456789abcdef''\<rparr>"

definition sample_now :: time where "sample_now = 1600000000 * second"

definition sample_env :: env where
  "sample_env = \<lparr>e_now = sample_now, e_faults = [], e_evict = [], e_admin = [], e_rand = [],
     e_nonce = [''nonce'']\<rparr>"

definition empty_cache :: app_cache where
  "empty_cache = \<lparr>c_gw_byid = [], c_gw_byname = [], c_tokens = [], c_rooms = [], c_users = [],
     c_dynamic = [], c_last_modified = zero_time\<rparr>"

definition sample_gateway :: gateway where
  "sample_gateway = \<lparr>gw_id = 1, gw_name = ''gxy1'', gw_description = None, gw_url = ''u'',
     gw_admin_url = ''a'', gw_admin_password = [], gw_disabled = False, gw_properties = None,
     gw_created_at = 0, gw_updated_at = None, gw_removed_at = None, gw_events_password = ''p'',
     gw_type = GatewayTypeRooms\<rparr>"

definition sample_room :: "int \<Rightarrow> string \<Rightarrow> string \<Rightarrow> room" where
  "sample_room i uid n = \<lparr>rm_id = i, rm_name = n, rm_default_gateway_id = 1, rm_gateway_uid = uid,
     rm_disabled = False, rm_properties = None, rm_created_at = 0, rm_updated_at = None,
     rm_removed_at = None, rm_extra = None, rm_region = None\<rparr>"

definition sample_user :: user where
  "sample_user = \<lparr>us_id = 1, us_accounts_id = ''acc1'', us_email = None, us_first_name = None,
     us_last_name = None, us_username = None, us_disabled = False, us_properties = None,
     us_created_at = 0, us_updated_at = None, us_removed_at = None\<rparr>"

definition sample_session :: session where
  "sample_session = \<lparr>ss_id = 1, ss_user_id = 1, ss_room_id = Some 1, ss_gateway_id = Some 1,
     ss_gateway_session = Some 7, ss_gateway_handle = Some 8, ss_gateway_feed = Some ''f'',
     ss_display = Some ''d'', ss_camera = False, ss_question = False, ss_self_test = False,
     ss_sound_test = False, ss_user_agent = None, ss_ip_address = None, ss_properties = None,
     ss_created_at = 0, ss_updated_at = Some 0, ss_removed_at = None, ss_extra = None,
     ss_gateway_handle_textroom = None\<rparr>"

definition sample_db :: db where
  "sample_db = \<lparr>gateways = [sample_gateway], users = [sample_user],
     rooms = [sample_room 1 ''1051'' ''room 1'', sample_room 2 ''1052'' ''room 2''], sessions = [],
     composites = [\<lparr>cp_id = 1, cp_name = ''q1'', cp_description = None\<rparr>], composites_rooms = [],
     room_statistics = [], dynamic_configs = [],
     seq_user = 2, seq_room = 3, seq_session = 1, seq_dynamic_config = 1\<rparr>"

definition sample_world :: world where
  "sample_world = \<lparr>w_db = sample_db, w_cache = empty_cache,
     w_registry = [(1, (''a'', ''pwd''))], w_cfg = sample_cfg, w_ext = sample_ext,
     w_env = sample_env, w_calls = []\<rparr>"

lemmas sample_defs = sample_ext_def sample_cfg_def sample_now_def sample_env_def empty_cache_def
  sample_gateway_def sample_room_def sample_user_def sample_db_def sample_world_def

lemma sample_schema_ok: "schema_ok sample_db"
  by (simp add: schema_defs sample_db_def sample_gateway_def sample_room_def sample_user_def
      has_key_def)

lemma sample_healthy [simp]: "healthy sample_world"
  by (simp add: healthy_def sample_world_def sample_env_def)

definition cached_world :: world where
  "cached_world = sample_world\<lparr>w_cache := empty_cache\<lparr>
     c_gw_byid := [(1, sample_gateway)], c_gw_byname := [(''gxy1'', sample_gateway)],
     c_tokens := [(1, ''tok'')],
     c_rooms := [(''1051'', sample_room 1 ''1051'' ''room 1''), (''1052'', sample_room 2 ''1052'' ''room 2'')]\<rparr>\<rparr>"

lemma cached_simps [simp]: "w_db cached_world = sample_db" "healthy cached_world"
  by (simp_all add: cached_world_def) (simp add: sample_world_def)

lemma cached_schema_ok: "schema_ok (w_db cached_world)"
  using sample_schema_ok by simp

text \<open>JSON texts.\<close>

definition quoted :: "string \<Rightarrow> string" where
  "quoted s = CHR 0x22 # s @ [CHR 0x22]"

fun members_text :: "(string \<times> string) list \<Rightarrow> string" where
  "members_text [] = []"
| "members_text [(k, v)] = quoted k @ '':'' @ v"
| "members_text ((k, v) # ms) = quoted k @ '':'' @ v @ '','' @ members_text ms"

definition obj_text :: "(string \<times> string) list \<Rightarrow> string" where
  "obj_text ms = ''{'' @ members_text ms @ ''}''"

end
