(* ===== verification/Crypt.thy ===== *)
theory Crypt
  imports Samples
begin

text \<open>
  Symmetric encryption of gateway secrets (\<^verbatim>\<open>pkg/crypt/sym.go\<close>) and random identifiers
  (\<^verbatim>\<open>pkg/stringutil/helpers.go\<close>).  AES-GCM is a pair of functions of the environment; the only
  fact used of it is \<^verbatim>\<open>aead_ok\<close>: opening what was sealed with the same key and nonce gives
  the text back.
\<close>

definition aead_ok :: "ext \<Rightarrow> bool" where
  "aead_ok x \<longleftrightarrow> (\<forall>k n t. x_open x k n (x_seal x k n t) = Some t)"

definition key_ok :: "string \<Rightarrow> bool" where
  "key_ok k \<longleftrightarrow> length k \<in> {16, 24, 32}"

text \<open>The 12 bytes that \<^verbatim>\<open>rand.Read\<close> puts into the nonce.\<close>

definition nonceP :: "string go" where
  "nonceP w = (case e_nonce (w_env w) of
     [] \<Rightarrow> (Err (EText ''rand.Read''), w)
   | n # ns \<Rightarrow> (Ok (take 12 (n @ replicate 12 (byte 0))),
               w\<lparr>w_env := (w_env w)\<lparr>e_nonce := ns\<rparr>\<rparr>))"

definition Encrypt :: "string \<Rightarrow> string \<Rightarrow> string go" where
  "Encrypt t secret =
     (if \<not> key_ok secret then errP (EText ''crypto/aes: invalid key size'')
      else bindP nonceP (\<lambda>nonce. bindP (getsP w_ext) (\<lambda>x.
        returnP (nonce @ x_seal x secret nonce t))))"

definition Decrypt :: "ext \<Rightarrow> string \<Rightarrow> string \<Rightarrow> string res" where
  "Decrypt x t secret =
     (if \<not> key_ok secret then Err (EText ''crypto/aes: invalid key size'')
      else if length t < 12 then Panic (EText ''slice bounds out of range'')
      else case x_open x secret (take 12 t) (drop 12 t) of
        None \<Rightarrow> Err (EText ''cipher: message authentication failed'')
      | Some p \<Rightarrow> Ok p)"

lemma schema_nonceP [within_rules]: "within schema_rel nonceP"
  by (rule withinI) (simp add: schema_rel_def nonceP_def split: list.split)

lemma frame_nonceP [within_rules]: "within frame_rel nonceP"
  by (rule withinI) (simp add: frame_rel_def nonceP_def split: list.split)

lemma schema_Encrypt [within_rules]: "within schema_rel (Encrypt t k)"
  unfolding Encrypt_def by (intro within_rules)

lemma frame_Encrypt [within_rules]: "within frame_rel (Encrypt t k)"
  unfolding Encrypt_def by (intro within_rules)

lemma nonceP_length: "nonceP w = (Ok n, w') \<Longrightarrow> length n = 12"
  by (auto simp: nonceP_def split: list.splits)

lemma nonceP_ext: "w_ext (snd (nonceP w)) = w_ext w"
  by (simp add: nonceP_def split: list.split)

lemma Encrypt_OkE:
  assumes "Encrypt t k w = (Ok c, w')"
  obtains n where "key_ok k" "length n = 12" "c = n @ x_seal (w_ext w) k n t"
proof -
  from assms have key: "key_ok k" by (auto simp: Encrypt_def split: if_splits)
  with assms obtain n w1 where n: "nonceP w = (Ok n, w1)"
    and c: "c = n @ x_seal (w_ext w1) k n t"
    by (auto simp: Encrypt_def bindP_Ok_iff)
  moreover have "w_ext w1 = w_ext w" using nonceP_ext [of w] n by simp
  ultimately show ?thesis using that key nonceP_length by auto
qed

text \<open>
  C34. Round trip of \<^verbatim>\<open>pkg/crypt\<close>: whatever nonce was drawn, decrypting the result of a
  successful encryption under the same secret returns the text (and cannot panic on the nonce
  slice).
\<close>

theorem Decrypt_Encrypt:
  assumes "aead_ok (w_ext w)" and "Encrypt t k w = (Ok c, w')"
  shows "Decrypt (w_ext w) c k = Ok t"
  using assms(2)
proof (rule Encrypt_OkE)
  fix n assume n: "key_ok k" "length n = 12" "c = n @ x_seal (w_ext w) k n t"
  then show ?thesis using assms(1) by (simp add: Decrypt_def aead_ok_def)
qed

lemma aead_sample: "aead_ok sample_ext"
  by (simp add: aead_ok_def sample_ext_def)

theorem Decrypt_Encrypt_witness:
  "\<exists>c w'. Encrypt ''hello'' ''0123456789abcdef'' sample_world = (Ok c, w') \<and>
     Decrypt sample_ext c ''0123456789abcdef'' = Ok ''hello''"
proof -
  obtain c w' where c: "Encrypt ''hello'' ''0123456789abcdef'' sample_world = (Ok c, w')"
    by (simp add: Encrypt_def key_ok_def nonceP_def bindP_def getsP_def sample_world_def sample_env_def)
  then show ?thesis
    using Decrypt_Encrypt [OF _ c] aead_sample by (simp add: sample_world_def)
qed

section \<open>Random identifiers\<close>

definition uidBytes :: string where
  "uidBytes = ''abcdefghijklmnopqrstuvwxyzABCDEFGHIJKLMNOPQRSTUVWXYZ0123456789''"

definition lettersBytes :: string where
  "lettersBytes = ''abcdefghijklmnopqrstuvwxyzABCDEFGHIJKLMNOPQRSTUVWXYZ''"

text \<open>A byte of \<^verbatim>\<open>bs\<close> at a random index.\<close>

definition pickP :: "string \<Rightarrow> char go" where
  "pickP bs = bindP (randP (length bs)) (\<lambda>k. returnP (bs ! k))"

fun GenerateUID :: "nat \<Rightarrow> string go" where
  "GenerateUID 0 = returnP []"
| "GenerateUID (Suc n) = bindP (pickP uidBytes) (\<lambda>c. bindP (GenerateUID n) (\<lambda>s. returnP (c # s)))"

text \<open>\<^verbatim>\<open>b[0]\<close> of an empty slice panics.\<close>

definition GenerateName :: "nat \<Rightarrow> string go" where
  "GenerateName n = (case n of
     0 \<Rightarrow> panicP (EText ''index out of range'')
   | Suc m \<Rightarrow> bindP (pickP lettersBytes) (\<lambda>c. bindP (GenerateUID m) (\<lambda>s. returnP (c # s))))"

lemma schema_GenerateUID [within_rules]: "within schema_rel (GenerateUID n)"
  by (induction n) (auto simp: pickP_def intro!: within_rules)

lemma frame_GenerateUID [within_rules]: "within frame_rel (GenerateUID n)"
  by (induction n) (auto simp: pickP_def intro!: within_rules)

lemma pickP_Ok: "bs \<noteq> [] \<Longrightarrow> \<exists>c w'. pickP bs w = (Ok c, w') \<and> c \<in> set bs"
  by (auto simp: pickP_def randP_def bindP_def split: list.split)

lemma uidBytes_not_Nil: "uidBytes \<noteq> []"
  by (simp add: uidBytes_def)

lemma GenerateUID_Ok: "\<exists>s w'. GenerateUID n w = (Ok s, w') \<and> length s = n \<and> set s \<subseteq> set uidBytes"
proof (induction n arbitrary: w)
  case (Suc n)
  obtain c w1 where "pickP uidBytes w = (Ok c, w1)" "c \<in> set uidBytes"
    using pickP_Ok [OF uidBytes_not_Nil] by blast
  moreover obtain s w2 where "GenerateUID n w1 = (Ok s, w2)" "length s = n" "set s \<subseteq> set uidBytes"
    using Suc.IH by blast
  ultimately show ?case by simp
qed simp

end
