(* ===== verification/Sqlutil.thy ===== *)
theory Sqlutil
  imports Samples
begin

text \<open>
  Transactions (\<^verbatim>\<open>pkg/sqlutil/tx.go\<close>).  A rollback restores the tables and leaves the
  sequences, the caches and everything outside the database as the body left them.  A failed
  commit has no effect on the tables.
\<close>

definition undo :: "world \<Rightarrow> world \<Rightarrow> world" where
  "undo w0 w = w\<lparr>w_db := rollback_to (w_db w0) (w_db w)\<rparr>"

definition InTx :: "'a go \<Rightarrow> 'a go" where
  "InTx f w =
     (case next_fault w of
        Some m \<Rightarrow> (Err (ETx ''begin tx'' (EDb m)), drop_fault w)
      | None \<Rightarrow>
          (let w1 = drop_fault w in
           case f w1 of
             (Panic p, w2) \<Rightarrow> (Panic p, drop_fault (undo w1 w2))
           | (Err e, w2) \<Rightarrow>
               (case next_fault w2 of
                  Some m \<Rightarrow> (Err (ETx ''tx.Rollback'' e), drop_fault (undo w1 w2))
                | None \<Rightarrow> (Err e, drop_fault (undo w1 w2)))
           | (Ok x, w2) \<Rightarrow>
               (case next_fault w2 of
                  Some m \<Rightarrow> (Err (ETx ''tx.Commit'' (EDb m)), drop_fault (undo w1 w2))
                | None \<Rightarrow> (Ok x, drop_fault w2))))"

lemma undo_simps [simp]:
  "w_cache (undo a b) = w_cache b" "w_cfg (undo a b) = w_cfg b" "w_ext (undo a b) = w_ext b"
  "w_env (undo a b) = w_env b" "w_calls (undo a b) = w_calls b"
  "w_registry (undo a b) = w_registry b" "w_db (undo a b) = rollback_to (w_db a) (w_db b)"
  by (simp_all add: undo_def)

lemma next_fault_undo [simp]: "next_fault (undo a b) = next_fault b"
  by (simp add: next_fault_def)

lemma healthy_undo [simp]: "healthy (undo a b) = healthy b"
  by (simp add: healthy_def)

lemma InTx_cases:
  obtains (begin_fails) m where "next_fault w = Some m"
      "InTx f w = (Err (ETx ''begin tx'' (EDb m)), drop_fault w)"
  | (panic) p w2 where "f (drop_fault w) = (Panic p, w2)"
      "InTx f w = (Panic p, drop_fault (undo (drop_fault w) w2))"
  | (error) e w2 where "f (drop_fault w) = (Err e, w2)"
      "InTx f w = (Err e, drop_fault (undo (drop_fault w) w2)) \<or>
       InTx f w = (Err (ETx ''tx.Rollback'' e), drop_fault (undo (drop_fault w) w2))"
  | (commit_fails) x m w2 where "f (drop_fault w) = (Ok x, w2)" "next_fault w2 = Some m"
      "InTx f w = (Err (ETx ''tx.Commit'' (EDb m)), drop_fault (undo (drop_fault w) w2))"
  | (commit) x w2 where "f (drop_fault w) = (Ok x, w2)" "next_fault w2 = None"
      "InTx f w = (Ok x, drop_fault w2)"
proof (cases "next_fault w")
  case (Some m)
  then show ?thesis by (intro begin_fails) (simp_all add: InTx_def)
next
  case None
  obtain r w2 where r: "f (drop_fault w) = (r, w2)" by fastforce
  show ?thesis
  proof (cases r)
    case (Ok x)
    with None r show ?thesis
      by (cases "next_fault w2") (auto intro: commit commit_fails simp: InTx_def Let_def)
  next
    case (Err e)
    with None r show ?thesis by (intro error) (auto simp: InTx_def Let_def split: option.split)
  next
    case (Panic p)
    with None r show ?thesis by (intro panic) (auto simp: InTx_def Let_def)
  qed
qed

lemma InTx_Ok_iff:
  "InTx f w = (Ok x, w') \<longleftrightarrow>
     (\<exists>w2. next_fault w = None \<and> f (drop_fault w) = (Ok x, w2) \<and> next_fault w2 = None \<and>
        w' = drop_fault w2)"
  by (auto simp: InTx_def Let_def split: option.splits prod.splits res.splits)

lemma InTx_not_Ok_tables:
  assumes "InTx f w = (r, w')" "\<not> (\<exists>x. r = Ok x)"
  shows "same_tables (w_db w) (w_db w')"
  using assms by (cases rule: InTx_cases [of w f]) auto

text \<open>
  Relations that also survive a rollback extend to whole transactions.
\<close>

locale tx_rel = step_rel R for R :: "world \<Rightarrow> world \<Rightarrow> bool" +
  assumes R_fault: "R w (drop_fault w)"
    and R_undo: "R w w' \<Longrightarrow> R w (undo w w')"
begin

lemma within_InTx [within_rules]:
  assumes f: "within R f" shows "within R (InTx f)"
proof (rule withinI)
  fix w
  have body: "R (drop_fault w) w2" if "f (drop_fault w) = (r, w2)" for r w2
    using f that by (rule withinD')
  have undo: "R w (drop_fault (undo (drop_fault w) w2))" if "f (drop_fault w) = (r, w2)" for r w2
    using R_trans [OF R_fault R_trans [OF R_undo [OF body [OF that]] R_fault]] .
  have keep: "R w (drop_fault w2)" if "f (drop_fault w) = (r, w2)" for r w2
    using R_trans [OF R_fault R_trans [OF body [OF that] R_fault]] .
  show "R w (snd (InTx f w))"
    by (cases rule: InTx_cases [of w f]) (auto intro: undo keep R_fault)
qed

end

interpretation schema_tx: tx_rel schema_rel
  by unfold_locales (auto simp: schema_rel_def intro: schema_ok_rollback seqs_le_rollback)

interpretation frame_tx: tx_rel frame_rel
  by unfold_locales (auto simp: frame_rel_def)

text \<open>
  C7. A transaction is atomic: if \<^verbatim>\<open>InTx\<close> returns an error or panics, every table is as it
  was before, whatever the body did and whichever statement failed; if it returns a value, it is
  the body's value and the database is the one the body left.
\<close>

theorem InTx_atomic:
  "case InTx f w of
     (Ok x, w') \<Rightarrow> \<exists>w2. f (drop_fault w) = (Ok x, w2) \<and> w_db w' = w_db w2
   | (_, w') \<Rightarrow> same_tables (w_db w) (w_db w')"
  by (cases rule: InTx_cases [of w f]) auto

end
