(* ===== verification/Go_Json.thy ===== *)
theory Go_Json
  imports Go_Std
begin

text \<open>
  JSON texts as \<^verbatim>\<open>encoding/json\<close> reads them: a recursive descent parser from a byte string to a
  \<^verbatim>\<open>json\<close> value, and the conversions of a value into the Go types the code decodes to.  The fuel of
  the parser bounds its recursion; every two calls consume at least one byte, so twice the length
  of the text is enough, and \<^verbatim>\<open>parse_json\<close> supplies it.  Bytes above 127 pass unchanged (the texts
  are UTF-8).
\<close>

section \<open>Parsing\<close>

definition is_json_space :: "char \<Rightarrow> bool" where
  "is_json_space c \<longleftrightarrow> code c \<in> {9, 10, 13, 32}"

definition skip_ws :: "string \<Rightarrow> string" where "skip_ws s = dropWhile is_json_space s"

definition hex4 :: "char \<Rightarrow> char \<Rightarrow> char \<Rightarrow> char \<Rightarrow> nat option" where
  "hex4 a b c d = (case (hex_val a, hex_val b, hex_val c, hex_val d) of
     (Some w, Some x, Some y, Some z) \<Rightarrow> Some (((w * 16 + x) * 16 + y) * 16 + z) | _ \<Rightarrow> None)"

definition utf8 :: "nat \<Rightarrow> string" where
  "utf8 n = (if n < 128 then [byte n]
     else if n < 2048 then [byte (192 + n div 64), byte (128 + n mod 64)]
     else if n < 65536 then [byte (224 + n div 4096), byte (128 + n div 64 mod 64), byte (128 + n mod 64)]
     else [byte (240 + n div 262144), byte (128 + n div 4096 mod 64), byte (128 + n div 64 mod 64),
           byte (128 + n mod 64)])"

text \<open>A UTF-16 unit of an escape; a high surrogate waits for the low one, an unpaired surrogate is
  the replacement character.\<close>

definition is_high :: "nat \<Rightarrow> bool" where "is_high n \<longleftrightarrow> 55296 \<le> n \<and> n < 56320"
definition is_low :: "nat \<Rightarrow> bool" where "is_low n \<longleftrightarrow> 56320 \<le> n \<and> n < 57344"

definition flush_high :: "nat option \<Rightarrow> string" where
  "flush_high h = (case h of None \<Rightarrow> [] | Some _ \<Rightarrow> utf8 65533)"

definition escape_char :: "char \<Rightarrow> string option" where
  "escape_char c = (if c = CHR 0x22 \<or> c = CHR 0x5C \<or> c = CHR ''/'' then Some [c]
     else if c = CHR ''b'' then Some [byte 8] else if c = CHR ''f'' then Some [byte 12]
     else if c = CHR ''n'' then Some [byte 10] else if c = CHR ''r'' then Some [byte 13]
     else if c = CHR ''t'' then Some [byte 9] else None)"

text \<open>Why a text is not a value: it ends too early, or a byte of it is wrong.\<close>

datatype bad = Truncated | Malformed

text \<open>The rest of a string literal after its opening quote; \<^verbatim>\<open>h\<close> is a pending high surrogate.\<close>

fun pstr :: "nat option \<Rightarrow> string \<Rightarrow> string \<Rightarrow> bad + string \<times> string" where
  "pstr h acc [] = Inl Truncated"
| "pstr h acc (c # r) =
     (if c = CHR 0x22 then Inr (acc @ flush_high h, r)
      else if c = CHR 0x5C then
        (case r of
           [] \<Rightarrow> Inl Truncated
         | e # r1 \<Rightarrow>
             if e = CHR ''u'' then
               (case r1 of
                  x1 # x2 # x3 # x4 # r2 \<Rightarrow>
                    (case hex4 x1 x2 x3 x4 of
                       None \<Rightarrow> Inl Malformed
                     | Some n \<Rightarrow>
                         if is_high n then pstr (Some n) (acc @ flush_high h) r2
                         else if is_low n then
                           (case h of
                              Some m \<Rightarrow> pstr None (acc @ utf8 (65536 + (m - 55296) * 1024 + (n - 56320))) r2
                            | None \<Rightarrow> pstr None (acc @ utf8 65533) r2)
                         else pstr None (acc @ flush_high h @ utf8 n) r2)
                | _ \<Rightarrow> Inl (if list_all (\<lambda>x. hex_val x \<noteq> None) r1 then Truncated else Malformed))
             else (case escape_char e of None \<Rightarrow> Inl Malformed
                   | Some t \<Rightarrow> pstr None (acc @ flush_high h @ t) r1))
      else if code c < 32 then Inl Malformed
      else pstr None (acc @ flush_high h @ [c]) r)"

text \<open>
  A number literal: an optional sign, digits, fraction, exponent.  A leading zero is the whole
  integer part.
\<close>

definition take_digits :: "string \<Rightarrow> string \<times> string" where
  "take_digits s = (takeWhile is_digit s, dropWhile is_digit s)"

definition no_digits :: "string \<Rightarrow> bad" where
  "no_digits r = (if r = [] then Truncated else Malformed)"

definition pint :: "string \<Rightarrow> bad + string \<times> string" where
  "pint b = (case take_digits b of (ds, r) \<Rightarrow>
     if ds = [] then Inl (no_digits r)
     else if hd ds = CHR ''0'' then Inr (take 1 ds, drop 1 b) else Inr (ds, r))"

definition pfrac :: "string \<Rightarrow> bad + string \<times> string" where
  "pfrac s = (case s of
     c # r \<Rightarrow> if c = CHR ''.''
       then (case take_digits r of (ds, r') \<Rightarrow> if ds = [] then Inl (no_digits r') else Inr (c # ds, r'))
       else Inr ([], s)
   | [] \<Rightarrow> Inr ([], []))"

definition pexp :: "string \<Rightarrow> bad + string \<times> string" where
  "pexp s = (case s of
     c # r \<Rightarrow> if c = CHR ''e'' \<or> c = CHR ''E'' then
         (let sg = (case r of x # _ \<Rightarrow> if x = CHR ''+'' \<or> x = CHR ''-'' then [x] else [] | [] \<Rightarrow> []) in
          case take_digits (drop (length sg) r) of (ds, r') \<Rightarrow>
            if ds = [] then Inl (no_digits r') else Inr (c # sg @ ds, r'))
       else Inr ([], s)
   | [] \<Rightarrow> Inr ([], []))"

definition pnum :: "string \<Rightarrow> bad + json \<times> string" where
  "pnum s =
     (let neg = (s \<noteq> [] \<and> hd s = CHR ''-''); b = (if neg then tl s else s) in
      case pint b of Inl e \<Rightarrow> Inl e | Inr (ds, r) \<Rightarrow>
        (case pfrac r of Inl e \<Rightarrow> Inl e | Inr (f, r1) \<Rightarrow>
          (case pexp r1 of Inl e \<Rightarrow> Inl e | Inr (x, r2) \<Rightarrow>
             if f = [] \<and> x = [] then
               (case digits_val 0 ds of None \<Rightarrow> Inl Malformed
                | Some n \<Rightarrow> Inr (JNum (if neg then - int n else int n), r2))
             else Inr (JFrac ((if neg then ''-'' else []) @ ds @ f @ x), r2))))"

text \<open>A literal name.\<close>

definition plit :: "string \<Rightarrow> json \<Rightarrow> string \<Rightarrow> bad + json \<times> string" where
  "plit l v s = (if has_prefix s l then Inr (v, drop (length l) s)
     else if has_prefix l s then Inl Truncated else Inl Malformed)"

definition on_value :: "('a \<Rightarrow> 'b) \<Rightarrow> bad + 'a \<times> string \<Rightarrow> bad + 'b \<times> string" where
  "on_value f r = (case r of Inl e \<Rightarrow> Inl e | Inr (x, t) \<Rightarrow> Inr (f x, t))"

fun pval :: "nat \<Rightarrow> string \<Rightarrow> bad + json \<times> string"
  and pelems :: "nat \<Rightarrow> string \<Rightarrow> bad + json list \<times> string"
  and pmembers :: "nat \<Rightarrow> string \<Rightarrow> bad + (string \<times> json) list \<times> string" where
  "pval 0 s = Inl Malformed"
| "pval (Suc n) s =
     (case skip_ws s of
        [] \<Rightarrow> Inl Truncated
      | c # r \<Rightarrow>
          if c = CHR ''{'' then
            (case skip_ws r of
               [] \<Rightarrow> Inl Truncated
             | c' # r' \<Rightarrow> if c' = CHR ''}'' then Inr (JObj [], r') else on_value JObj (pmembers n r))
          else if c = CHR ''['' then
            (case skip_ws r of
               [] \<Rightarrow> Inl Truncated
             | c' # r' \<Rightarrow> if c' = CHR '']'' then Inr (JArr [], r') else on_value JArr (pelems n r))
          else if c = CHR 0x22 then on_value JStr (pstr None [] r)
          else if c = CHR ''n'' then plit ''null'' JNull (c # r)
          else if c = CHR ''t'' then plit ''true'' (JBool True) (c # r)
          else if c = CHR ''f'' then plit ''false'' (JBool False) (c # r)
          else pnum (c # r))"
| "pelems 0 s = Inl Malformed"
| "pelems (Suc n) s =
     (case pval n s of
        Inl e \<Rightarrow> Inl e
      | Inr (v, r) \<Rightarrow>
          (case skip_ws r of
             [] \<Rightarrow> Inl Truncated
           | c # r' \<Rightarrow>
               if c = CHR '','' then on_value (\<lambda>vs. v # vs) (pelems n r')
               else if c = CHR '']'' then Inr ([v], r') else Inl Malformed))"
| "pmembers 0 s = Inl Malformed"
| "pmembers (Suc n) s =
     (case skip_ws s of
        [] \<Rightarrow> Inl Truncated
      | q # r \<Rightarrow>
          if q \<noteq> CHR 0x22 then Inl Malformed
          else case pstr None [] r of
            Inl e \<Rightarrow> Inl e
          | Inr (k, r1) \<Rightarrow>
              (case skip_ws r1 of
                 [] \<Rightarrow> Inl Truncated
               | c # r2 \<Rightarrow>
                   if c \<noteq> CHR '':'' then Inl Malformed
                   else case pval n r2 of
                     Inl e \<Rightarrow> Inl e
                   | Inr (v, r3) \<Rightarrow>
                       (case skip_ws r3 of
                          [] \<Rightarrow> Inl Truncated
                        | d # r4 \<Rightarrow>
                            if d = CHR '','' then on_value (\<lambda>ms. (k, v) # ms) (pmembers n r4)
                            else if d = CHR ''}'' then Inr ([(k, v)], r4) else Inl Malformed)))"

text \<open>The first value of a text and what follows it.\<close>

definition first_json :: "string \<Rightarrow> bad + json \<times> string" where
  "first_json s = pval (2 * length s + 2) s"

definition parse_json :: "string \<Rightarrow> json option" where
  "parse_json s = (case first_json s of
     Inr (j, r) \<Rightarrow> if skip_ws r = [] then Some j else None
   | Inl e \<Rightarrow> None)"

section \<open>Decoding into Go values\<close>

definition type_error :: gerr where "type_error = EText ''json: cannot unmarshal''"
definition syntax_error :: gerr where "syntax_error = EText ''json: invalid character''"

definition json_string :: "json option \<Rightarrow> gerr + string" where
  "json_string j = (case j of None \<Rightarrow> Inr [] | Some JNull \<Rightarrow> Inr [] | Some (JStr s) \<Rightarrow> Inr s
     | Some _ \<Rightarrow> Inl type_error)"

definition json_bool :: "json option \<Rightarrow> gerr + bool" where
  "json_bool j = (case j of None \<Rightarrow> Inr False | Some JNull \<Rightarrow> Inr False | Some (JBool b) \<Rightarrow> Inr b
     | Some _ \<Rightarrow> Inl type_error)"

text \<open>\<^verbatim>\<open>int\<close> and \<^verbatim>\<open>int64\<close>\<close>

definition json_int :: "json option \<Rightarrow> gerr + int" where
  "json_int j = (case j of None \<Rightarrow> Inr 0 | Some JNull \<Rightarrow> Inr 0
     | Some (JNum n) \<Rightarrow> if - max_int64 - 1 \<le> n \<and> n \<le> max_int64 then Inr n else Inl type_error
     | Some _ \<Rightarrow> Inl type_error)"

text \<open>\<^verbatim>\<open>map[string]interface{}\<close>; a nil map is \<^verbatim>\<open>JNull\<close>.\<close>

definition json_map :: "json option \<Rightarrow> gerr + json" where
  "json_map j = (case j of None \<Rightarrow> Inr JNull | Some JNull \<Rightarrow> Inr JNull | Some (JObj kvs) \<Rightarrow> Inr (JObj kvs)
     | Some _ \<Rightarrow> Inl type_error)"

text \<open>
  The value for a struct field: keys match without regard to case and the last one counts.
\<close>

definition jfield :: "string \<Rightarrow> (string \<times> json) list \<Rightarrow> json option" where
  "jfield n kvs = map_option snd (find (\<lambda>(k, _). to_lower k = n) (rev kvs))"

text \<open>The fields of a struct; decoding \<^verbatim>\<open>null\<close> leaves the zero value.\<close>

definition json_fields :: "json \<Rightarrow> gerr + (string \<times> json) list" where
  "json_fields j = (case j of JNull \<Rightarrow> Inr [] | JObj kvs \<Rightarrow> Inr kvs | _ \<Rightarrow> Inl type_error)"

lemma json_field_simps [simp]:
  "json_string None = Inr []" "json_string (Some (JStr s)) = Inr s"
  "json_bool None = Inr False" "json_bool (Some (JBool b)) = Inr b"
  "json_int None = Inr 0" "json_map None = Inr JNull" "json_map (Some (JObj kvs)) = Inr (JObj kvs)"
  by (simp_all add: json_string_def json_bool_def json_int_def json_map_def)

lemma parse_examples:
  "parse_json ''{}'' = Some (JObj [])"
  "parse_json '' [ 1 , -2,true,null ] '' = Some (JArr [JNum 1, JNum (- 2), JBool True, JNull])"
  by code_simp+

end
