(* ===== verification/Gateway_Tokens.thy ===== *)
theory Gateway_Tokens
  imports Crypt Sqlutil Go_Json
begin

text \<open>
  Gateway tokens (\<^verbatim>\<open>domain/gateways.go\<close>): the tokens kept encrypted in the \<^verbatim>\<open>properties\<close>
  column of a gateway, the registry of admin clients, the synchronisation of the two token
  stores, and the observer that is told of a change (\<^verbatim>\<open>pkg/patterns/observer.go\<close>).

  A JSON document is handled as a value (\<^verbatim>\<open>json\<close>), so \<^verbatim>\<open>Marshal\<close> followed by
  \<^verbatim>\<open>Unmarshal\<close> of the same document is the identity; decoding into a Go struct can fail with a
  type error.  Nil pointers of a decoded slice are \<^verbatim>\<open>None\<close>.
\<close>

section \<open>Tokens in JSON\<close>

record gateway_token =
  gt_token :: string
  gt_plugins :: "string list"
  gt_created_at :: time

definition nil_deref :: gerr where
  "nil_deref = EText ''invalid memory address or nil pointer dereference''"

definition json_time :: "json option \<Rightarrow> gerr + time" where
  "json_time j = (case j of None \<Rightarrow> Inr zero_time | Some JNull \<Rightarrow> Inr zero_time
     | Some (JTime t) \<Rightarrow> Inr t | Some _ \<Rightarrow> Inl type_error)"

fun json_all :: "('a \<Rightarrow> gerr + 'b) \<Rightarrow> 'a list \<Rightarrow> gerr + 'b list" where
  "json_all f [] = Inr []"
| "json_all f (x # xs) = (case f x of Inl e \<Rightarrow> Inl e | Inr y \<Rightarrow>
     (case json_all f xs of Inl e \<Rightarrow> Inl e | Inr ys \<Rightarrow> Inr (y # ys)))"

definition json_strings :: "json option \<Rightarrow> gerr + string list" where
  "json_strings j = (case j of None \<Rightarrow> Inr [] | Some JNull \<Rightarrow> Inr []
     | Some (JArr js) \<Rightarrow> json_all (\<lambda>x. json_string (Some x)) js | Some _ \<Rightarrow> Inl type_error)"

definition decode_token :: "json \<Rightarrow> gerr + gateway_token option" where
  "decode_token j = (case j of
     JNull \<Rightarrow> Inr None
   | JObj kvs \<Rightarrow>
       (case (json_string (map_of kvs ''token''), json_strings (map_of kvs ''plugins''),
              json_time (map_of kvs ''created_at'')) of
          (Inr t, Inr p, Inr c) \<Rightarrow>
            Inr (Some \<lparr>gt_token = t, gt_plugins = p, gt_created_at = c\<rparr>)
        | _ \<Rightarrow> Inl type_error)
   | _ \<Rightarrow> Inl type_error)"

text \<open>\<^verbatim>\<open>json.Unmarshal(b, &tokens)\<close> into \<^verbatim>\<open>[]*GatewayToken\<close>\<close>

definition decode_tokens :: "json \<Rightarrow> gerr + gateway_token option list" where
  "decode_tokens j = (case j of JNull \<Rightarrow> Inr [] | JArr js \<Rightarrow> json_all decode_token js
     | _ \<Rightarrow> Inl type_error)"

text \<open>\<^verbatim>\<open>json.Marshal\<close>; a nil slice is \<^verbatim>\<open>null\<close>.\<close>

definition encode_token :: "gateway_token \<Rightarrow> json" where
  "encode_token t = JObj [(''token'', JStr (gt_token t)),
     (''plugins'', if gt_plugins t = [] then JNull else JArr (map JStr (gt_plugins t))),
     (''created_at'', JTime (gt_created_at t))]"

definition encode_tokens :: "gateway_token list \<Rightarrow> json" where
  "encode_tokens ts = JArr (map encode_token ts)"

text \<open>\<^verbatim>\<open>json.Unmarshal(gateway.Properties.JSON, &props)\<close>; \<^verbatim>\<open>null\<close> leaves the map nil.\<close>

definition decode_props :: "json \<Rightarrow> gerr + (string, json) gomap option" where
  "decode_props j = (case j of JNull \<Rightarrow> Inr None | JObj kvs \<Rightarrow> Inr (Some kvs) | _ \<Rightarrow> Inl type_error)"

definition props_get :: "(string, json) gomap option \<Rightarrow> string \<Rightarrow> json option" where
  "props_get p k = (case p of None \<Rightarrow> None | Some m \<Rightarrow> map_of m k)"

lemma json_all_strings: "json_all (\<lambda>x. json_string (Some x)) (map JStr ss) = Inr ss"
  by (induction ss) (simp_all add: json_string_def)

lemma json_strings_arr [simp]: "json_strings (Some (JArr (map JStr ss))) = Inr ss"
  using json_all_strings [of ss] by (simp add: json_strings_def)

lemma json_token_simps [simp]:
  "json_time (Some (JTime t)) = Inr t" "json_strings (Some JNull) = Inr []"
  by (simp_all add: json_time_def json_strings_def)

lemma decode_encode_token: "decode_token (encode_token t) = Inr (Some t)"
  by (simp add: decode_token_def encode_token_def)

lemma decode_encode_tokens [simp]: "decode_tokens (encode_tokens ts) = Inr (map Some ts)"
  by (induction ts) (simp_all add: decode_tokens_def encode_tokens_def decode_encode_token)

section \<open>Decryption\<close>

definition wrapR :: "string \<Rightarrow> 'a res \<Rightarrow> 'a res" where
  "wrapR m r = (case r of Ok x \<Rightarrow> Ok x | Err e \<Rightarrow> Err (EWrap m e) | Panic e \<Rightarrow> Panic e)"

definition token_Decrypt :: "ext \<Rightarrow> string \<Rightarrow> gateway_token \<Rightarrow> string res" where
  "token_Decrypt x secret t = (case base64_decode (gt_token t) of
     None \<Rightarrow> Err (EWrap ''base64 decode token'' (EText ''illegal base64 data''))
   | Some b \<Rightarrow> wrapR ''crypt.Decrypt'' (Decrypt x b secret))"

section \<open>The active token\<close>

definition ActiveToken :: "ext \<Rightarrow> string \<Rightarrow> gateway \<Rightarrow> string res" where
  "ActiveToken x secret g = (case gw_properties g of
     None \<Rightarrow> Ok []
   | Some j \<Rightarrow> (case decode_props j of
       Inl e \<Rightarrow> Err (EWrap ''json.Unmarshal gateway.Properties'' e)
     | Inr props \<Rightarrow> (case props_get props ''tokens'' of
         None \<Rightarrow> Ok []
       | Some tokensProp \<Rightarrow> (case decode_tokens tokensProp of
           Inl e \<Rightarrow> Err (EWrap ''json.Unmarshal tokens'' e)
         | Inr tokens \<Rightarrow>
             if tokens = [] then Ok []
             else (case last tokens of None \<Rightarrow> Panic nil_deref
                   | Some t \<Rightarrow> token_Decrypt x secret t)))))"

section \<open>Admin clients\<close>

definition registry_Get :: "gateway \<Rightarrow> admin_api option go" where
  "registry_Get g = getsP (\<lambda>w. map_of (w_registry w) (gw_id g))"

definition registry_Set :: "gateway \<Rightarrow> admin_api \<Rightarrow> unit go" where
  "registry_Set g api = modifyP (\<lambda>w. w\<lparr>w_registry := AList.update (gw_id g) api (w_registry w)\<rparr>)"

definition registry_For :: "gateway \<Rightarrow> admin_api go" where
  "registry_For g =
     bindP (registry_Get g) (\<lambda>r. case r of
       Some api \<Rightarrow> returnP api
     | None \<Rightarrow>
         bindP (cfgP Secret) (\<lambda>secret. bindP (getsP w_ext) (\<lambda>x.
         case base64_decode (gw_admin_password g) of
           None \<Rightarrow> errP (EWrap ''base64 decode admin password'' (EText ''illegal base64 data''))
         | Some b \<Rightarrow>
             bindP (resP (wrapR ''decrypt admin password'' (Decrypt x b secret))) (\<lambda>adminPwd.
             case x_admin_error x (gw_admin_url g) of
               Some m \<Rightarrow> errP (EWrap ''janus.NewAdminAPI'' (EText m))
             | None \<Rightarrow>
                 bindP (registry_Set g (gw_admin_url g, adminPwd)) (\<lambda>_.
                 returnP (gw_admin_url g, adminPwd))))))"

definition createToken :: "gateway \<Rightarrow> string \<Rightarrow> gateway_token go" where
  "createToken g tokenStr =
     bindP nowP (\<lambda>now.
     let plugins = (if gw_type g = GatewayTypeRooms
                      then [''janus.plugin.videoroom'', ''janus.plugin.textroom'']
                    else if gw_type g = GatewayTypeStreaming then [''janus.plugin.streaming'']
                    else []) in
     bindP (wrapP ''Admin API for gateway'' (registry_For g)) (\<lambda>api.
     bindP (wrapP ''Admin API add token'' (callP api (AddToken tokenStr plugins))) (\<lambda>_.
     bindP (cfgP Secret) (\<lambda>secret.
     bindP (wrapP ''crypt.Encrypt new token'' (Encrypt tokenStr secret)) (\<lambda>encToken.
     returnP \<lparr>gt_token = base64_encode encToken, gt_plugins = plugins, gt_created_at = now\<rparr>)))))"

definition removeToken :: "gateway \<Rightarrow> string \<Rightarrow> unit go" where
  "removeToken g tokenStr =
     bindP (wrapP ''Admin API for gateway'' (registry_For g)) (\<lambda>api.
     bindP (wrapP ''Admin API remove token'' (callP api (RemoveToken tokenStr))) (\<lambda>_.
     returnP ()))"

definition listTokens :: "gateway \<Rightarrow> admin_resp go" where
  "listTokens g =
     bindP (wrapP ''Admin API for gateway'' (registry_For g)) (\<lambda>api.
     wrapP ''Admin API list token'' (callP api ListTokens))"

section \<open>Synchronising one gateway\<close>

text \<open>The variables of the loop over the stored tokens.\<close>

record sync_state =
  sy_removeOnGateway :: "string list"
  sy_addOnGateway :: "string list"
  sy_nextDBTokens :: "gateway_token list"
  sy_changed :: bool
  sy_dbTokens :: "string list"

definition sync_init :: sync_state where
  "sync_init = \<lparr>sy_removeOnGateway = [], sy_addOnGateway = [], sy_nextDBTokens = [],
     sy_changed = False, sy_dbTokens = []\<rparr>"

text \<open>One iteration, for a token that decrypts to \<^verbatim>\<open>dec\<close>.\<close>

definition sync_step ::
    "time \<Rightarrow> string list \<Rightarrow> gateway_token \<Rightarrow> string \<Rightarrow> sync_state \<Rightarrow> sync_state" where
  "sync_step maxAgeTS onGateway t dec st =
     (let st1 = st\<lparr>sy_dbTokens := sy_dbTokens st @ [dec]\<rparr> in
      if gt_created_at t < maxAgeTS then
        st1\<lparr>sy_changed := True,
            sy_removeOnGateway := sy_removeOnGateway st1 @
              (if dec \<in> set onGateway then [dec] else [])\<rparr>
      else
        st1\<lparr>sy_nextDBTokens := sy_nextDBTokens st1 @ [t],
            sy_addOnGateway := sy_addOnGateway st1 @
              (if dec \<in> set onGateway then [] else [dec])\<rparr>)"

fun sync_loop :: "ext \<Rightarrow> string \<Rightarrow> time \<Rightarrow> string list \<Rightarrow> gateway_token option list \<Rightarrow> sync_state \<Rightarrow>
    sync_state res" where
  "sync_loop x secret ts gw [] st = Ok st"
| "sync_loop x secret ts gw (None # r) st = Panic nil_deref"
| "sync_loop x secret ts gw (Some t # r) st =
     (case wrapR ''decrypt token'' (token_Decrypt x secret t) of
        Ok dec \<Rightarrow> sync_loop x secret ts gw r (sync_step ts gw t dec st)
      | Err e \<Rightarrow> Err e
      | Panic e \<Rightarrow> Panic e)"

definition day :: time where "day = 24 * 3600 * second"

text \<open>\<^verbatim>\<open>tokens[len(tokens)-1].CreatedAt.Before(now - 24h)\<close>, with the panics of the index and the
  pointer.\<close>

definition lastTokenOld :: "time \<Rightarrow> gateway_token option list \<Rightarrow> bool res" where
  "lastTokenOld now tokens =
     (if tokens = [] then Panic (EText ''index out of range'')
      else case last tokens of None \<Rightarrow> Panic nil_deref
           | Some t \<Rightarrow> Ok (gt_created_at t < now - day))"

text \<open>\<^verbatim>\<open>props["tokens"] = v\<close> and the update of the row; assigning into a nil map panics.\<close>

definition saveTokens :: "gateway \<Rightarrow> (string, json) gomap option \<Rightarrow> json \<Rightarrow> unit go" where
  "saveTokens g props v = (case props of
     None \<Rightarrow> panicP (EText ''assignment to entry in nil map'')
   | Some m \<Rightarrow>
       bindP (wrapP ''gateway.Update'' (dbP (gateway_update_properties
         (g\<lparr>gw_properties := Some (JObj (AList.update ''tokens'' v m))\<rparr>)))) (\<lambda>_. returnP ()))"

text \<open>The part for a gateway that supports tokens; \<^verbatim>\<open>gwTokens\<close> is what it answered.\<close>

definition syncSupported ::
    "time \<Rightarrow> gateway \<Rightarrow> (string, json) gomap option \<Rightarrow> gateway_token option list \<Rightarrow>
     string list \<Rightarrow> bool go" where
  "syncSupported maxAge g props tokens gwTokens =
     bindP nowP (\<lambda>now. bindP (cfgP Secret) (\<lambda>secret. bindP (getsP w_ext) (\<lambda>x.
     bindP (resP (sync_loop x secret (now - maxAge) gwTokens tokens sync_init)) (\<lambda>st.
     let foreign = filter (\<lambda>t. t \<notin> set (sy_dbTokens st)) (remdups gwTokens);
         remove = sy_removeOnGateway st @ foreign in
     bindP (if sy_nextDBTokens st = [] then returnP True
            else resP (lastTokenOld now tokens)) (\<lambda>needNew.
     bindP (if needNew then
              bindP (GenerateUID 16) (\<lambda>uid.
              bindP (wrapP ''create token'' (createToken g uid)) (\<lambda>t. returnP [t]))
            else returnP []) (\<lambda>new.
     bindP (foreachP (sy_addOnGateway st) (\<lambda>t.
              bindP (wrapP ''create token [existing]'' (createToken g t)) (\<lambda>_. returnP ()))) (\<lambda>_.
     bindP (foreachP remove (\<lambda>t. tryP (removeToken g t) (\<lambda>_. returnP ()))) (\<lambda>_.
     let changed = (sy_changed st \<or> needNew) in
     bindP (if changed then saveTokens g props (encode_tokens (sy_nextDBTokens st @ new))
            else returnP ()) (\<lambda>_.
     returnP changed)))))))))"

definition syncGatewayTokens :: "time \<Rightarrow> gateway \<Rightarrow> bool go" where
  "syncGatewayTokens maxAge g =
     (case (case gw_properties g of None \<Rightarrow> Inr (Some []) | Some j \<Rightarrow> decode_props j) of
        Inl e \<Rightarrow> errP (EWrap ''json.Unmarshal gateway.Properties'' e)
      | Inr props \<Rightarrow>
     (case (case props_get props ''tokens'' of None \<Rightarrow> Inr [] | Some j \<Rightarrow> decode_tokens j) of
        Inl e \<Rightarrow> errP (EWrap ''json.Unmarshal tokens'' e)
      | Inr tokens \<Rightarrow>
     tryP (listTokens g) (\<lambda>r. case r of
        Inl e \<Rightarrow>
          if as_admin e = Some 490 then
            (if tokens = [] then returnP False
             else bindP (saveTokens g props JNull) (\<lambda>_. returnP True))
          else errP (EWrap ''gateway AdminAPI listTokens'' e)
      | Inr resp \<Rightarrow>
          (case resp of
             ARtokens gwTokens \<Rightarrow> syncSupported maxAge g props tokens gwTokens
           | _ \<Rightarrow> panicP (EText ''interface conversion'')))))"

section \<open>All gateways, and the observers\<close>

text \<open>
  \<^verbatim>\<open>SimpleObservable\<close>: the set of observers, each known by a name, and its notification.
\<close>

type_synonym observers = "(string, string \<Rightarrow> unit go) gomap"

definition AddObserver :: "string \<Rightarrow> (string \<Rightarrow> unit go) \<Rightarrow> observers \<Rightarrow> observers" where
  "AddObserver n f os = AList.update n f os"

definition RemoveObserver :: "string \<Rightarrow> observers \<Rightarrow> observers" where
  "RemoveObserver n os = AList.delete n os"

definition NotifyAll :: "observers \<Rightarrow> string \<Rightarrow> unit go" where
  "NotifyAll os ev = foreachP (mvalues os) (\<lambda>f. f ev)"

fun syncEach :: "time \<Rightarrow> gateway list \<Rightarrow> bool \<Rightarrow> bool go" where
  "syncEach maxAge [] notify = returnP notify"
| "syncEach maxAge (g # gs) notify =
     tryP (syncGatewayTokens maxAge g) (\<lambda>r.
       syncEach maxAge gs (notify \<or> r = Inr True))"

definition SyncAll :: "observers \<Rightarrow> time \<Rightarrow> bool \<Rightarrow> unit go" where
  "SyncAll os maxAge wip =
     (if wip then returnP ()
      else tryP (queryP gateways_active) (\<lambda>r. case r of
        Inl e \<Rightarrow> returnP ()
      | Inr gws \<Rightarrow>
          bindP (syncEach maxAge gws False) (\<lambda>notify.
          if notify then NotifyAll os EventGatewayTokensChanged else returnP ())))"

end
