(* ===== verification/Token_Sync.thy ===== *)
theory Token_Sync
  imports Gateway_Tokens
begin

text \<open>
  What the synchronisation of gateway tokens guarantees: the form of the loop over the stored
  tokens, the round trip of a created token, that the index of the last token cannot panic, and
  that a run whose calls all succeed leaves the gateway with exactly the tokens the database
  keeps for it.
\<close>

section \<open>Every step keeps the schema and the frame\<close>

lemma schema_registry_For [within_rules]: "within schema_rel (registry_For g)"
  unfolding registry_For_def registry_Get_def registry_Set_def
  by (intro within_rules) (rule withinI, simp add: schema_rel_def)

lemma frame_registry_For [within_rules]: "within frame_rel (registry_For g)"
  unfolding registry_For_def registry_Get_def registry_Set_def
  by (intro within_rules) (rule withinI, simp add: frame_rel_def)

lemma schema_createToken [within_rules]: "within schema_rel (createToken g t)"
  unfolding createToken_def Let_def by (intro within_rules)

lemma frame_createToken [within_rules]: "within frame_rel (createToken g t)"
  unfolding createToken_def Let_def by (intro within_rules)

lemma schema_removeToken [within_rules]: "within schema_rel (removeToken g t)"
  unfolding removeToken_def by (intro within_rules)

lemma frame_removeToken [within_rules]: "within frame_rel (removeToken g t)"
  unfolding removeToken_def by (intro within_rules)

lemma schema_listTokens [within_rules]: "within schema_rel (listTokens g)"
  unfolding listTokens_def by (intro within_rules)

lemma schema_saveTokens [within_rules]: "within schema_rel (saveTokens g p v)"
  unfolding saveTokens_def by (intro within_rules stmt_rules)

lemma schema_syncSupported [within_rules]: "within schema_rel (syncSupported a g p ts gw)"
  unfolding syncSupported_def Let_def by (intro within_rules)

lemma schema_syncGatewayTokens [within_rules]: "within schema_rel (syncGatewayTokens a g)"
  unfolding syncGatewayTokens_def
  by (intro within_rules) (auto intro!: within_rules split: admin_resp.split)

section \<open>A created token decrypts to what was registered\<close>

lemma createToken_OkE:
  assumes "createToken g t w = (Ok tok, w')"
  obtains api w1 r plugins n where "registry_For g w = (Ok api, w1)"
    and "callP api (AddToken t plugins) w1 = (Ok r, n)"
    and "\<exists>c w2. Encrypt t (Secret (w_cfg n)) n = (Ok c, w') \<and> gt_token tok = base64_encode c"
    and "gt_created_at tok = e_now (w_env w)"
  using assms
  by (auto simp: createToken_def Let_def nowP_def cfgP_def bindP_Ok_iff getsP_def split: if_splits)

lemma frame_callP_eq: "callP api c w = (r, w') \<Longrightarrow> w_ext w' = w_ext w \<and> w_cfg w' = w_cfg w"
  using withinD' [OF frame_callP] by (simp add: frame_rel_def)

lemma frame_registry_eq: "registry_For g w = (r, w') \<Longrightarrow> w_ext w' = w_ext w \<and> w_cfg w' = w_cfg w"
  using withinD' [OF frame_registry_For] by (simp add: frame_rel_def)

lemma createToken_decrypts:
  assumes x: "aead_ok (w_ext w)" and c: "createToken g t w = (Ok tok, w')"
  shows "token_Decrypt (w_ext w) (Secret (w_cfg w)) tok = Ok t"
proof -
  obtain w2 e where e: "Encrypt t (Secret (w_cfg w2)) w2 = (Ok e, w')"
    and tok: "gt_token tok = base64_encode e"
    and same: "w_ext w2 = w_ext w" "w_cfg w2 = w_cfg w"
    using c by (elim createToken_OkE) (metis frame_callP_eq frame_registry_eq)
  have "Decrypt (w_ext w2) e (Secret (w_cfg w2)) = Ok t"
    using e by (rule Encrypt_OkE) (use x same in \<open>simp add: Decrypt_def aead_ok_def\<close>)
  with tok same show ?thesis by (simp add: token_Decrypt_def base64_roundtrip wrapR_def)
qed

section \<open>The loop over the stored tokens\<close>

text \<open>The plain texts of stored tokens; \<^verbatim>\<open>None\<close> when one of them cannot be read.\<close>

fun plain_all :: "ext \<Rightarrow> string \<Rightarrow> gateway_token option list \<Rightarrow> string list option" where
  "plain_all x s [] = Some []"
| "plain_all x s (None # r) = None"
| "plain_all x s (Some t # r) = (case token_Decrypt x s t of
     Ok d \<Rightarrow> map_option (Cons d) (plain_all x s r)
   | _ \<Rightarrow> None)"

definition stored_tokens :: "json option \<Rightarrow> gerr + gateway_token option list" where
  "stored_tokens p = (case (case p of None \<Rightarrow> Inr (Some []) | Some j \<Rightarrow> decode_props j) of
     Inl e \<Rightarrow> Inl e
   | Inr props \<Rightarrow> (case props_get props ''tokens'' of None \<Rightarrow> Inr [] | Some j \<Rightarrow> decode_tokens j))"

definition stored_plain :: "ext \<Rightarrow> string \<Rightarrow> json option \<Rightarrow> string list option" where
  "stored_plain x s p = (case stored_tokens p of Inl e \<Rightarrow> None | Inr ts \<Rightarrow> plain_all x s ts)"

text \<open>The plain text, once known to exist.\<close>

definition plain :: "ext \<Rightarrow> string \<Rightarrow> gateway_token \<Rightarrow> string" where
  "plain x s t = (case token_Decrypt x s t of Ok d \<Rightarrow> d | _ \<Rightarrow> [])"

lemma plain_all_map_Some:
  "(\<And>t. t \<in> set ts \<Longrightarrow> \<exists>d. token_Decrypt x s t = Ok d) \<Longrightarrow>
   plain_all x s (map Some ts) = Some (map (plain x s) ts)"
  by (induction ts) (force simp: plain_def)+

lemma sync_loop_form:
  assumes "sync_loop x s ts gw tokens st = Ok st'"
  shows "\<exists>toks. tokens = map Some toks \<and> (\<forall>t \<in> set toks. \<exists>d. token_Decrypt x s t = Ok d) \<and>
    st' = \<lparr>
      sy_removeOnGateway = sy_removeOnGateway st @ filter (\<lambda>d. d \<in> set gw)
        (map (plain x s) (filter (\<lambda>t. gt_created_at t < ts) toks)),
      sy_addOnGateway = sy_addOnGateway st @ filter (\<lambda>d. d \<notin> set gw)
        (map (plain x s) (filter (\<lambda>t. \<not> gt_created_at t < ts) toks)),
      sy_nextDBTokens = sy_nextDBTokens st @ filter (\<lambda>t. \<not> gt_created_at t < ts) toks,
      sy_changed = (sy_changed st \<or> (\<exists>t \<in> set toks. gt_created_at t < ts)),
      sy_dbTokens = sy_dbTokens st @ map (plain x s) toks\<rparr>"
  using assms
proof (induction tokens arbitrary: st)
  case Nil
  then show ?case by simp
next
  case (Cons o' r)
  from Cons.prems obtain t d where o': "o' = Some t" and d: "token_Decrypt x s t = Ok d"
    and rest: "sync_loop x s ts gw r (sync_step ts gw t d st) = Ok st'"
    by (cases o') (auto simp: wrapR_def split: res.splits)
  have p: "plain x s t = d" using d by (simp add: plain_def)
  from Cons.IH [OF rest] obtain toks where toks: "r = map Some toks"
    "\<forall>t \<in> set toks. \<exists>d. token_Decrypt x s t = Ok d" and st': "st' = \<lparr>
      sy_removeOnGateway = sy_removeOnGateway (sync_step ts gw t d st) @ filter (\<lambda>d. d \<in> set gw)
        (map (plain x s) (filter (\<lambda>t. gt_created_at t < ts) toks)),
      sy_addOnGateway = sy_addOnGateway (sync_step ts gw t d st) @ filter (\<lambda>d. d \<notin> set gw)
        (map (plain x s) (filter (\<lambda>t. \<not> gt_created_at t < ts) toks)),
      sy_nextDBTokens = sy_nextDBTokens (sync_step ts gw t d st) @
        filter (\<lambda>t. \<not> gt_created_at t < ts) toks,
      sy_changed = (sy_changed (sync_step ts gw t d st) \<or> (\<exists>t \<in> set toks. gt_created_at t < ts)),
      sy_dbTokens = sy_dbTokens (sync_step ts gw t d st) @ map (plain x s) toks\<rparr>"
    by blast
  show ?case
    by (rule exI [of _ "t # toks"]) (use o' d toks st' p in \<open>auto simp: sync_step_def Let_def\<close>)
qed

section \<open>The token store of a gateway\<close>

text \<open>What a successful admin call does to the tokens stored on the gateway (documented by the
  Janus admin API); a failed call changes nothing.\<close>

definition call_ok :: "admin_resp \<Rightarrow> bool" where
  "call_ok r = (case r of ARerr n m \<Rightarrow> False | ARfail m \<Rightarrow> False | _ \<Rightarrow> True)"

fun apply_call :: "admin_api \<times> admin_call \<times> admin_resp \<Rightarrow> string set \<Rightarrow> string set" where
  "apply_call (api, AddToken t ps, r) S = (if call_ok r then insert t S else S)"
| "apply_call (api, RemoveToken t, r) S = (if call_ok r then S - {t} else S)"
| "apply_call (api, c, r) S = S"

definition store_after :: "(admin_api \<times> admin_call \<times> admin_resp) list \<Rightarrow> string set \<Rightarrow> string set" where
  "store_after log S = fold apply_call log S"

definition added :: "(admin_api \<times> admin_call \<times> admin_resp) list \<Rightarrow> string set" where
  "added log = {t. \<exists>api ps r. (api, AddToken t ps, r) \<in> set log}"

lemma store_after_simps [simp]:
  "store_after [] S = S" "store_after (c # l) S = store_after l (apply_call c S)"
  "store_after (l @ l') S = store_after l' (store_after l S)"
  by (simp_all add: store_after_def)

lemma added_simps [simp]:
  "added [] = {}" "added (l @ l') = added l \<union> added l'"
  "added [(api, AddToken t ps, r)] = {t}" "added [(api, RemoveToken t, r)] = {}"
  by (auto simp: added_def)

text \<open>A stretch of a run that only calls the gateway.\<close>

definition calls_only ::
    "gateway \<Rightarrow> admin_api \<Rightarrow> world \<Rightarrow> (admin_api \<times> admin_call \<times> admin_resp) list \<Rightarrow> world \<Rightarrow> bool" where
  "calls_only g api w log w' \<longleftrightarrow> w_calls w' = w_calls w @ log \<and> w_db w' = w_db w \<and>
     map_of (w_registry w) (gw_id g) = Some api \<and> w_registry w' = w_registry w \<and>
     w_ext w' = w_ext w \<and> w_cfg w' = w_cfg w \<and> e_now (w_env w') = e_now (w_env w)"

lemma calls_only_trans:
  "calls_only g api w a w1 \<Longrightarrow> calls_only g api w1 b w2 \<Longrightarrow> calls_only g api w (a @ b) w2"
  by (simp add: calls_only_def)

lemma calls_only_refl:
  "map_of (w_registry w) (gw_id g) = Some api \<Longrightarrow> calls_only g api w [] w"
  by (simp add: calls_only_def)

lemma calls_only_registered: "calls_only g api w l w' \<Longrightarrow> map_of (w_registry w') (gw_id g) = Some api"
  by (simp add: calls_only_def)

lemma registry_For_registered:
  "map_of (w_registry w) (gw_id g) = Some api \<Longrightarrow> registry_For g w = (Ok api, w)"
  by (simp add: registry_For_def registry_Get_def)

lemma registry_For_Ok:
  assumes "registry_For g w = (Ok api, w1)"
  shows "map_of (w_registry w1) (gw_id g) = Some api" "w_calls w1 = w_calls w" "w_db w1 = w_db w"
    "w_ext w1 = w_ext w" "w_cfg w1 = w_cfg w" "e_now (w_env w1) = e_now (w_env w)"
  using assms
  by (auto simp: registry_For_def registry_Get_def registry_Set_def cfgP_def resP_def bindP_Ok_iff
      split: option.splits)

lemma callP_Ok:
  assumes "callP api c w = (Ok r, w1)" and "map_of (w_registry w) (gw_id g) = Some api"
  shows "call_ok r \<and> calls_only g api w [(api, c, r)] w1"
  using assms by (auto simp: callP_def Let_def call_ok_def calls_only_def split: admin_resp.splits)

lemma callP_not_Ok:
  assumes "callP api c w = (r, w1)" "\<And>x. r \<noteq> Ok x" and "map_of (w_registry w) (gw_id g) = Some api"
  shows "\<exists>a. \<not> call_ok a \<and> calls_only g api w [(api, c, a)] w1 \<and> (\<exists>e. r = Err e)"
  using assms by (auto simp: callP_def Let_def call_ok_def calls_only_def split: admin_resp.splits)

lemma nonceP_silent:
  "nonceP w = (r, w1) \<Longrightarrow> map_of (w_registry w) (gw_id g) = Some api \<Longrightarrow> calls_only g api w [] w1"
  by (auto simp: nonceP_def calls_only_def split: list.splits)

lemma Encrypt_silent:
  "Encrypt t k w = (Ok c, w1) \<Longrightarrow> map_of (w_registry w) (gw_id g) = Some api \<Longrightarrow>
   calls_only g api w [] w1"
  by (auto simp: Encrypt_def bindP_Ok_iff dest: nonceP_silent split: if_splits)

lemma randP_silent:
  "randP n w = (r, w1) \<Longrightarrow> map_of (w_registry w) (gw_id g) = Some api \<Longrightarrow> calls_only g api w [] w1"
  by (auto simp: randP_def calls_only_def split: list.splits)

lemma pickP_silent:
  "pickP bs w = (Ok c, w1) \<Longrightarrow> map_of (w_registry w) (gw_id g) = Some api \<Longrightarrow> calls_only g api w [] w1"
  by (auto simp: pickP_def bindP_Ok_iff intro: randP_silent)

lemma GenerateUID_silent:
  "GenerateUID n w = (Ok s, w1) \<Longrightarrow> map_of (w_registry w) (gw_id g) = Some api \<Longrightarrow>
   calls_only g api w [] w1"
proof (induction n arbitrary: w s)
  case 0
  then show ?case by (simp add: calls_only_refl)
next
  case (Suc n)
  then obtain c w2 s' where c: "pickP uidBytes w = (Ok c, w2)" and s: "GenerateUID n w2 = (Ok s', w1)"
    by (auto simp: bindP_Ok_iff)
  have w2: "calls_only g api w [] w2" using c Suc.prems(2) by (rule pickP_silent)
  have "calls_only g api w2 [] w1" using s calls_only_registered [OF w2] by (rule Suc.IH)
  with w2 show ?case using calls_only_trans by fastforce
qed

lemma createToken_calls:
  assumes c: "createToken g t w = (Ok tok, w')" and reg: "map_of (w_registry w) (gw_id g) = Some api"
  shows "\<exists>ps r. call_ok r \<and> calls_only g api w [(api, AddToken t ps, r)] w'"
proof -
  obtain r ps w2 where "callP api (AddToken t ps) w = (Ok r, w2)"
    and e: "\<exists>c. Encrypt t (Secret (w_cfg w2)) w2 = (Ok c, w')"
    using c by (elim createToken_OkE) (auto simp: registry_For_registered [OF reg])
  with reg have r: "call_ok r" "calls_only g api w [(api, AddToken t ps, r)] w2"
    by (simp_all add: callP_Ok)
  with e have "calls_only g api w2 [] w'" using Encrypt_silent calls_only_registered by blast
  with r calls_only_trans [of g api w _ w2 "[]" w'] show ?thesis by force
qed

lemma adds_calls:
  assumes "foreachP ts (\<lambda>t. bindP (wrapP m (createToken g t)) (\<lambda>_. returnP ())) w = (Ok (), w')"
    and "map_of (w_registry w) (gw_id g) = Some api"
  shows "\<exists>log. calls_only g api w log w' \<and> added log = set ts \<and> (\<forall>S. store_after log S = S \<union> set ts)"
  using assms
proof (induction ts arbitrary: w)
  case Nil
  then show ?case by (auto intro!: exI [of _ "[]"] calls_only_refl)
next
  case (Cons t ts)
  from Cons.prems(1) obtain w1 where
    head: "bindP (wrapP m (createToken g t)) (\<lambda>_. returnP ()) w = (Ok (), w1)"
    and rest: "foreachP ts (\<lambda>t. bindP (wrapP m (createToken g t)) (\<lambda>_. returnP ())) w1 = (Ok (), w')"
    by (rule foreachP_ConsE)
  from head obtain tok where tok: "createToken g t w = (Ok tok, w1)"
    by (auto simp: bindP_Ok_iff)
  from createToken_calls [OF tok Cons.prems(2)] obtain ps r where
    c: "call_ok r" "calls_only g api w [(api, AddToken t ps, r)] w1" by blast
  from Cons.IH [OF rest calls_only_registered [OF c(2)]] obtain log where
    "calls_only g api w1 log w'" "added log = set ts" "\<forall>S. store_after log S = S \<union> set ts" by blast
  with c show ?case
    by (intro exI [of _ "[(api, AddToken t ps, r)] @ log"] conjI calls_only_trans [OF c(2)])
      (simp_all only: added_simps store_after_simps apply_call.simps if_True, auto)
qed

lemma removes_calls:
  assumes "foreachP ts (\<lambda>t. tryP (removeToken g t) (\<lambda>_. returnP ())) w = (Ok (), w')"
    and "map_of (w_registry w) (gw_id g) = Some api"
  shows "\<exists>log. calls_only g api w log w' \<and> added log = {} \<and>
    ((\<forall>(a, c, r) \<in> set log. call_ok r) \<longrightarrow> (\<forall>S. store_after log S = S - set ts))"
  using assms
proof (induction ts arbitrary: w)
  case Nil
  then show ?case by (auto intro!: exI [of _ "[]"] calls_only_refl)
next
  case (Cons t ts)
  obtain r w1 where call: "callP api (RemoveToken t) w = (r, w1)" by fastforce
  have "\<exists>a. calls_only g api w [(api, RemoveToken t, a)] w1 \<and> (\<forall>e. r \<noteq> Panic e)"
    using callP_Ok [OF _ Cons.prems(2)] callP_not_Ok [OF call _ Cons.prems(2)] call
    by (cases r) (fastforce)+
  then obtain a where a: "calls_only g api w [(api, RemoveToken t, a)] w1" and r: "\<forall>e. r \<noteq> Panic e"
    by blast
  have head: "tryP (removeToken g t) (\<lambda>_. returnP ()) w = (Ok (), w1)"
    using Cons.prems(2) call r
    by (cases r) (auto simp: removeToken_def bindP_def wrapP_def tryP_def registry_For_registered)
  have "foreachP ts (\<lambda>t. tryP (removeToken g t) (\<lambda>_. returnP ())) w1 = (Ok (), w')"
    using foreachP_ConsE [OF Cons.prems(1)] head by (metis prod.inject)
  from Cons.IH [OF this calls_only_registered [OF a]] obtain log where
    "calls_only g api w1 log w'" "added log = {}"
    "(\<forall>(a, c, r) \<in> set log. call_ok r) \<longrightarrow> (\<forall>S. store_after log S = S - set ts)" by blast
  with a show ?case
    by (intro exI [of _ "[(api, RemoveToken t, a)] @ log"] conjI calls_only_trans [OF a])
      (simp_all only: added_simps store_after_simps, auto)
qed

section \<open>Convergence\<close>

lemma plain_all_append:
  "plain_all x s ts = Some ps \<Longrightarrow> plain_all x s us = Some qs \<Longrightarrow> plain_all x s (ts @ us) = Some (ps @ qs)"
  by (induction ts arbitrary: ps rule: plain_all.induct) (auto split: res.splits)

lemma stored_plain_saved:
  "plain_all x s (map Some ts) = Some ps \<Longrightarrow>
   stored_plain x s (Some (JObj (AList.update ''tokens'' (encode_tokens ts) m))) = Some ps"
  by (simp add: stored_plain_def stored_tokens_def decode_props_def props_get_def)

lemma gateway_find_saved:
  "gateway_find (gw_id g) d = Some g' \<Longrightarrow>
   gateway_find (gw_id g) (snd (gateway_update_properties (g\<lparr>gw_properties := p\<rparr>) d)) =
     Some (g'\<lparr>gw_properties := p\<rparr>)"
proof -
  have "find (\<lambda>g. gw_id g = i) (tupdate gw_id i (\<lambda>r. r\<lparr>gw_properties := p\<rparr>) gs) =
      map_option (\<lambda>r. r\<lparr>gw_properties := p\<rparr>) (find (\<lambda>g. gw_id g = i) gs)"
    for i and gs :: "gateway list"
    by (induction gs) (simp_all add: tupdate_def)
  then show "gateway_find (gw_id g) d = Some g' \<Longrightarrow> ?thesis"
    by (simp add: gateway_find_def gateway_update_properties_def)
qed

lemma saveTokens_Ok:
  assumes "saveTokens g (Some m) v w = (Ok u, w')"
  shows "w_calls w' = w_calls w" "w_db w' = snd (gateway_update_properties
      (g\<lparr>gw_properties := Some (JObj (AList.update ''tokens'' v m))\<rparr>) (w_db w))"
  using assms
  by (auto simp: saveTokens_def dbP_def bindP_Ok_iff gateway_update_properties_def
      split: option.splits)

lemma saveTokens_calls: "saveTokens g props v w = (Ok u, w') \<Longrightarrow> w_calls w' = w_calls w"
  using saveTokens_Ok(1) by (cases props) (auto simp: saveTokens_def)

lemma lastTokenOld_total:
  "toks \<noteq> [] \<Longrightarrow> lastTokenOld now (map Some toks) = Ok (gt_created_at (last toks) < now - day)"
  by (simp add: lastTokenOld_def last_map)

text \<open>The stages of a run that ends well.\<close>

definition foreign :: "string list \<Rightarrow> sync_state \<Rightarrow> string list" where
  "foreign gwTokens st = filter (\<lambda>t. t \<notin> set (sy_dbTokens st)) (remdups gwTokens)"

definition addAll :: "gateway \<Rightarrow> string list \<Rightarrow> unit go" where
  "addAll g ts = foreachP ts (\<lambda>t.
     bindP (wrapP ''create token [existing]'' (createToken g t)) (\<lambda>_. returnP ()))"

definition removeAll :: "gateway \<Rightarrow> string list \<Rightarrow> unit go" where
  "removeAll g ts = foreachP ts (\<lambda>t. tryP (removeToken g t) (\<lambda>_. returnP ()))"

definition created :: "gateway \<Rightarrow> bool \<Rightarrow> world \<Rightarrow> gateway_token list \<Rightarrow> world \<Rightarrow> bool" where
  "created g need w new w1 \<longleftrightarrow> (if need
     then \<exists>uid wu tok. GenerateUID 16 w = (Ok uid, wu) \<and> createToken g uid wu = (Ok tok, w1) \<and>
       new = [tok]
     else w1 = w \<and> new = [])"

lemma created_eval:
  "(if need then bindP (GenerateUID 16) (\<lambda>uid.
      bindP (wrapP m (createToken g uid)) (\<lambda>t. returnP [t])) else returnP []) w = (Ok new, w1)
   \<Longrightarrow> created g need w new w1"
  by (cases need) (auto simp: created_def bindP_Ok_iff)

lemma syncSupported_stages:
  assumes run: "syncSupported maxAge g props tokens gwTokens w = (Ok ch, w')"
  obtains st need new w1 w2 w3 where
    "sync_loop (w_ext w) (Secret (w_cfg w)) (e_now (w_env w) - maxAge) gwTokens tokens sync_init = Ok st"
    and "(if sy_nextDBTokens st = [] then Ok True else lastTokenOld (e_now (w_env w)) tokens) = Ok need"
    and "created g need w new w1"
    and "addAll g (sy_addOnGateway st) w1 = (Ok (), w2)"
    and "removeAll g (sy_removeOnGateway st @ foreign gwTokens st) w2 = (Ok (), w3)"
    and "ch = (sy_changed st \<or> need)"
    and "if ch then saveTokens g props (encode_tokens (sy_nextDBTokens st @ new)) w3 = (Ok (), w')
         else w' = w3"
  using run
  unfolding syncSupported_def Let_def addAll_def [symmetric] removeAll_def [symmetric]
    foreign_def [symmetric]
proof (elim bindP_OkE)
  fix now wa secret wb x wc st wd need we new w1 u w2 v w3 z w4
  assume "nowP w = (Ok now, wa)" and "cfgP Secret wa = (Ok secret, wb)"
    and "getsP w_ext wb = (Ok x, wc)"
    and "resP (sync_loop x secret (now - maxAge) gwTokens tokens sync_init) wc = (Ok st, wd)"
    and "(if sy_nextDBTokens st = [] then returnP True else resP (lastTokenOld now tokens)) wd
      = (Ok need, we)"
    and "(if need then bindP (GenerateUID 16) (\<lambda>uid. bindP (wrapP ''create token'' (createToken g uid))
        (\<lambda>t. returnP [t])) else returnP []) we = (Ok new, w1)"
    and "addAll g (sy_addOnGateway st) w1 = (Ok u, w2)"
    and "removeAll g (sy_removeOnGateway st @ foreign gwTokens st) w2 = (Ok v, w3)"
    and "(if sy_changed st \<or> need then saveTokens g props (encode_tokens (sy_nextDBTokens st @ new))
        else returnP ()) w3 = (Ok z, w4)"
    and "returnP (sy_changed st \<or> need) w4 = (Ok ch, w')"
  then show thesis
    by (intro that [of st need new w1 w2 w3])
      (auto simp: nowP_def cfgP_def resP_def intro: created_eval split: if_splits)
qed

lemma created_calls:
  assumes "created g need w new w1" and reg: "map_of (w_registry w) (gw_id g) = Some api"
    and x: "aead_ok (w_ext w)"
  shows "\<exists>log ps. calls_only g api w log w1 \<and>
    plain_all (w_ext w) (Secret (w_cfg w)) (map Some new) = Some ps \<and>
    added log = set ps \<and> (\<forall>S. store_after log S = S \<union> set ps)"
proof (cases need)
  case False
  with assms show ?thesis
    by (intro exI [of _ "[]"]) (simp add: created_def calls_only_refl)
next
  case True
  with assms(1) obtain uid wu tok where uid: "GenerateUID 16 w = (Ok uid, wu)"
    and tok: "createToken g uid wu = (Ok tok, w1)" and new: "new = [tok]"
    by (auto simp: created_def)
  have wu: "calls_only g api w [] wu" using uid reg by (rule GenerateUID_silent)
  then have ext: "w_ext wu = w_ext w" "w_cfg wu = w_cfg w" by (simp_all add: calls_only_def)
  obtain ps r where r: "call_ok r" "calls_only g api wu [(api, AddToken uid ps, r)] w1"
    using createToken_calls [OF tok calls_only_registered [OF wu]] by blast
  have "token_Decrypt (w_ext w) (Secret (w_cfg w)) tok = Ok uid"
    using createToken_decrypts [OF _ tok] x ext by simp
  with new r calls_only_trans [OF wu r(2)] show ?thesis
    by (intro exI [of _ "[(api, AddToken uid ps, r)]"] exI [of _ "[uid]"])
      (cases api, simp)
qed

lemma added_effect:
  fixes v e gw n :: "string set"
  assumes "v \<inter> e = {}" "n \<inter> gw = {}"
  shows "((gw \<union> n) \<union> (v - gw)) - ((e \<inter> gw) \<union> (gw - (v \<union> e))) = v \<union> n"
  using assms by blast

text \<open>
  The whole effect of a run on a gateway that supports tokens: the calls made, the tokens they
  leave on the gateway, and the row saved.
\<close>

lemma syncSupported_effect:
  fixes w ts
  defines "x \<equiv> w_ext w" and "s \<equiv> Secret (w_cfg w)"
  assumes run: "syncSupported maxAge g props tokens gw w = (Ok ch, w')"
    and reg: "map_of (w_registry w) (gw_id g) = Some api"
    and aead: "aead_ok (w_ext w)"
    and ts: "ts = e_now (w_env w) - maxAge"
  obtains tk new ns log where "tokens = map Some tk"
    and "\<And>t. t \<in> set tk \<Longrightarrow> \<exists>d. token_Decrypt x s t = Ok d"
    and "w_calls w' = w_calls w @ log"
    and "plain_all x s (map Some new) = Some ns" and "set ns \<subseteq> added log"
    and "\<And>S. \<forall>(a, c, r) \<in> set log. call_ok r \<Longrightarrow> store_after log S =
      (S \<union> set ns \<union> (plain x s ` {t \<in> set tk. \<not> gt_created_at t < ts} - set gw)) -
      (plain x s ` {t \<in> set tk. gt_created_at t < ts} \<inter> set gw \<union> (set gw - plain x s ` set tk))"
    and "if ch then \<exists>m. props = Some m \<and> w_db w' = snd (gateway_update_properties
           (g\<lparr>gw_properties := Some (JObj (AList.update ''tokens'' (encode_tokens
             (filter (\<lambda>t. \<not> gt_created_at t < ts) tk @ new)) m))\<rparr>) (w_db w))
         else w_db w' = w_db w \<and> new = [] \<and> (\<forall>t \<in> set tk. \<not> gt_created_at t < ts)"
  using run
proof (rule syncSupported_stages)
  fix st need new w1 w2 w3
  assume loop: "sync_loop (w_ext w) (Secret (w_cfg w)) (e_now (w_env w) - maxAge) gw tokens sync_init = Ok st"
    and created: "created g need w new w1"
    and adds: "addAll g (sy_addOnGateway st) w1 = (Ok (), w2)"
    and removes: "removeAll g (sy_removeOnGateway st @ foreign gw st) w2 = (Ok (), w3)"
    and ch: "ch = (sy_changed st \<or> need)"
    and save: "if ch then saveTokens g props (encode_tokens (sy_nextDBTokens st @ new)) w3 = (Ok (), w')
         else w' = w3"
  obtain tk where tk: "tokens = map Some tk" "\<And>t. t \<in> set tk \<Longrightarrow> \<exists>d. token_Decrypt x s t = Ok d"
    and st: "sy_removeOnGateway st = filter (\<lambda>d. d \<in> set gw) (map (plain x s) (filter (\<lambda>t. gt_created_at t < ts) tk))"
      "sy_addOnGateway st = filter (\<lambda>d. d \<notin> set gw) (map (plain x s) (filter (\<lambda>t. \<not> gt_created_at t < ts) tk))"
      "sy_nextDBTokens st = filter (\<lambda>t. \<not> gt_created_at t < ts) tk"
      "sy_changed st = (\<exists>t \<in> set tk. gt_created_at t < ts)"
      "sy_dbTokens st = map (plain x s) tk"
    using sync_loop_form [OF loop] by (auto simp: sync_init_def x_def s_def ts)
  obtain l1 ns where l1: "calls_only g api w l1 w1" "plain_all x s (map Some new) = Some ns"
    "added l1 = set ns" "\<forall>S. store_after l1 S = S \<union> set ns"
    using created_calls [OF created reg aead] by (auto simp: x_def s_def)
  obtain l2 where l2: "calls_only g api w1 l2 w2" "\<forall>S. store_after l2 S = S \<union> set (sy_addOnGateway st)"
    using adds_calls [OF adds [unfolded addAll_def] calls_only_registered [OF l1(1)]] by blast
  obtain l3 where l3: "calls_only g api w2 l3 w3" "(\<forall>(a, c, r) \<in> set l3. call_ok r) \<longrightarrow>
      (\<forall>S. store_after l3 S = S - set (sy_removeOnGateway st @ foreign gw st))"
    using removes_calls [OF removes [unfolded removeAll_def] calls_only_registered [OF l2(1)]] by blast
  have w3: "calls_only g api w (l1 @ l2 @ l3) w3"
    using calls_only_trans [OF l1(1) calls_only_trans [OF l2(1) l3(1)]] by simp
  have saved: "w_calls w' = w_calls w3 \<and> (if ch then \<exists>m. props = Some m \<and> w_db w' =
      snd (gateway_update_properties (g\<lparr>gw_properties := Some (JObj (AList.update ''tokens''
        (encode_tokens (sy_nextDBTokens st @ new)) m))\<rparr>) (w_db w3)) else w_db w' = w_db w3)"
    using save by (cases props) (auto simp: saveTokens_Ok saveTokens_def split: if_splits)
  show thesis
  proof (rule that [OF tk])
    show "w_calls w' = w_calls w @ (l1 @ l2 @ l3)" using saved w3 by (simp add: calls_only_def)
    show "plain_all x s (map Some new) = Some ns" "set ns \<subseteq> added (l1 @ l2 @ l3)"
      using l1 by auto
    show "store_after (l1 @ l2 @ l3) S =
      (S \<union> set ns \<union> (plain x s ` {t \<in> set tk. \<not> gt_created_at t < ts} - set gw)) -
      (plain x s ` {t \<in> set tk. gt_created_at t < ts} \<inter> set gw \<union> (set gw - plain x s ` set tk))"
      if "\<forall>(a, c, r) \<in> set (l1 @ l2 @ l3). call_ok r" for S
      using l1(4) l2(2) l3(2) that by (auto simp: st foreign_def)
    show "if ch then \<exists>m. props = Some m \<and> w_db w' = snd (gateway_update_properties
           (g\<lparr>gw_properties := Some (JObj (AList.update ''tokens'' (encode_tokens
             (filter (\<lambda>t. \<not> gt_created_at t < ts) tk @ new)) m))\<rparr>) (w_db w))
         else w_db w' = w_db w \<and> new = [] \<and> (\<forall>t \<in> set tk. \<not> gt_created_at t < ts)"
      using saved w3 ch created st by (auto simp: calls_only_def created_def split: if_splits)
  qed
qed

lemma syncSupported_converges:
  assumes run: "syncSupported maxAge g props tokens gw w = (Ok ch, w')"
    and reg: "map_of (w_registry w) (gw_id g) = Some api"
    and aead: "aead_ok (w_ext w)"
    and row: "gateway_find (gw_id g) (w_db w) = Some g"
    and toks: "stored_tokens (gw_properties g) = Inr tokens"
    and dist: "\<And>ps. stored_plain (w_ext w) (Secret (w_cfg w)) (gw_properties g) = Some ps \<Longrightarrow> distinct ps"
    and ok: "\<forall>(a, c, r) \<in> set log. call_ok r" and fresh: "added log \<inter> set gw = {}"
    and log: "w_calls w' = w_calls w @ log"
  shows "\<exists>g' ps. gateway_find (gw_id g) (w_db w') = Some g' \<and>
    stored_plain (w_ext w) (Secret (w_cfg w)) (gw_properties g') = Some ps \<and>
    store_after log (set gw) = set ps"
  using run reg aead refl
proof (rule syncSupported_effect)
  let ?x = "w_ext w" and ?s = "Secret (w_cfg w)"
  let ?ts = "e_now (w_env w) - maxAge"
  fix tk new ns log'
  let ?V = "plain ?x ?s ` {t \<in> set tk. \<not> gt_created_at t < ?ts}"
  let ?E = "plain ?x ?s ` {t \<in> set tk. gt_created_at t < ?ts}"
  let ?next = "filter (\<lambda>t. \<not> gt_created_at t < ?ts) tk"
  assume tk: "tokens = map Some tk" and dec: "\<And>t. t \<in> set tk \<Longrightarrow> \<exists>d. token_Decrypt ?x ?s t = Ok d"
    and log': "w_calls w' = w_calls w @ log'"
    and new: "plain_all ?x ?s (map Some new) = Some ns" and ns: "set ns \<subseteq> added log'"
    and store: "\<And>S. \<forall>(a, c, r) \<in> set log'. call_ok r \<Longrightarrow> store_after log' S =
      (S \<union> set ns \<union> (?V - set gw)) - (?E \<inter> set gw \<union> (set gw - plain ?x ?s ` set tk))"
    and saved: "if ch then \<exists>m. props = Some m \<and> w_db w' = snd (gateway_update_properties
           (g\<lparr>gw_properties := Some (JObj (AList.update ''tokens'' (encode_tokens
             (?next @ new)) m))\<rparr>) (w_db w))
         else w_db w' = w_db w \<and> new = [] \<and> (\<forall>t \<in> set tk. \<not> gt_created_at t < ?ts)"
  have same: "log' = log" using log log' by simp
  have pall: "stored_plain ?x ?s (gw_properties g) = Some (map (plain ?x ?s) tk)"
    using toks tk dec by (simp add: stored_plain_def plain_all_map_Some)
  then have "?V \<inter> ?E = {}" using dist by (auto simp: distinct_map dest: inj_onD)
  moreover have "plain ?x ?s ` set tk = ?V \<union> ?E" by auto
  ultimately have final: "store_after log (set gw) = ?V \<union> set ns"
    using store ok same added_effect [of ?V ?E "set ns" "set gw"] fresh ns by auto
  have kept: "plain_all ?x ?s (map Some (?next @ new)) = Some (map (plain ?x ?s) ?next @ ns)"
    using plain_all_append [OF plain_all_map_Some [of ?next ?x ?s] new] dec by simp
  show ?thesis
  proof (cases ch)
    case True
    with saved gateway_find_saved [OF row] stored_plain_saved [OF kept] final show ?thesis by auto
  next
    case False
    with saved new have "w_db w' = w_db w" "ns = []" "?V = set (map (plain ?x ?s) tk)" by auto
    with row pall final show ?thesis by auto
  qed
qed

lemma listTokens_Ok:
  assumes "listTokens g w = (Ok r, w1)"
  obtains api where "map_of (w_registry w1) (gw_id g) = Some api"
    and "w_calls w1 = w_calls w @ [(api, ListTokens, r)]" and "w_db w1 = w_db w"
    and "w_ext w1 = w_ext w" and "w_cfg w1 = w_cfg w" and "e_now (w_env w1) = e_now (w_env w)"
proof -
  from assms obtain api w0 where reg: "registry_For g w = (Ok api, w0)"
    and call: "callP api ListTokens w0 = (Ok r, w1)"
    by (auto simp: listTokens_def bindP_Ok_iff)
  from callP_Ok [OF call registry_For_Ok(1) [OF reg]] registry_For_Ok [OF reg]
  show ?thesis by (intro that [of api]) (simp_all add: calls_only_def)
qed

lemma listTokens_Err:
  assumes "listTokens g w = (Err e, w1)" and "as_admin e = Some n"
  shows "\<exists>api r. \<not> call_ok r \<and> w_calls w1 = w_calls w @ [(api, ListTokens, r)]"
proof -
  have no: "registry_For g w = (Err e', w') \<Longrightarrow> as_admin e' = None" for e' w'
    by (auto simp: registry_For_def registry_Get_def registry_Set_def cfgP_def resP_def wrapR_def
        bindP_def getsP_def Decrypt_def split: option.splits res.splits if_splits)
  obtain r0 w0 where r0: "registry_For g w = (r0, w0)" by fastforce
  with assms no obtain api where reg: "registry_For g w = (Ok api, w0)"
    by (cases r0) (auto simp: listTokens_def bindP_def wrapP_def)
  obtain r1 w2 where r1: "callP api ListTokens w0 = (r1, w2)" by fastforce
  with assms(1) reg obtain e0 where call: "callP api ListTokens w0 = (Err e0, w1)"
    by (cases r1) (auto simp: listTokens_def bindP_def wrapP_def)
  from callP_not_Ok [OF call _ registry_For_Ok(1) [OF reg]] registry_For_Ok [OF reg]
  show ?thesis by (auto simp: calls_only_def)
qed

text \<open>
  C8. Convergence of the two token stores: when a synchronisation of a gateway returns without an
  error, the gateway answered \<^verbatim>\<open>ListTokens\<close> with the tokens \<^verbatim>\<open>gw\<close>, every later call succeeded,
  no token was added that the gateway already had (the random one included) and the stored tokens
  have different plain texts, then the tokens on the gateway after the calls are exactly the
  plain texts of the tokens then stored in the row of the gateway.
\<close>

theorem syncGatewayTokens_converges:
  assumes run: "syncGatewayTokens maxAge g w = (Ok ch, w')"
    and x: "aead_ok (w_ext w)"
    and row: "gateway_find (gw_id g) (w_db w) = Some g"
    and log: "w_calls w' = w_calls w @ (api, ListTokens, ARtokens gw) # log"
    and ok: "\<forall>(a, c, r) \<in> set log. call_ok r"
    and fresh: "added log \<inter> set gw = {}"
    and dist: "\<And>ps. stored_plain (w_ext w) (Secret (w_cfg w)) (gw_properties g) = Some ps \<Longrightarrow> distinct ps"
  shows "\<exists>g' ps. gateway_find (gw_id g) (w_db w') = Some g' \<and>
    stored_plain (w_ext w) (Secret (w_cfg w)) (gw_properties g') = Some ps \<and>
    store_after log (set gw) = set ps"
proof -
  obtain props tokens where
    props: "(case gw_properties g of None \<Rightarrow> Inr (Some []) | Some j \<Rightarrow> decode_props j) = Inr props"
    and tokens: "(case props_get props ''tokens'' of None \<Rightarrow> Inr [] | Some j \<Rightarrow> decode_tokens j) = Inr tokens"
    using run by (auto simp: syncGatewayTokens_def split: sum.splits)
  then have stored: "stored_tokens (gw_properties g) = Inr tokens" by (simp add: stored_tokens_def)
  obtain r w1 where list: "listTokens g w = (r, w1)" by fastforce
  show ?thesis
  proof (cases r)
    case (Ok resp)
    with list obtain api' where reg: "map_of (w_registry w1) (gw_id g) = Some api'"
      and calls: "w_calls w1 = w_calls w @ [(api', ListTokens, resp)]"
      and same: "w_db w1 = w_db w" "w_ext w1 = w_ext w" "w_cfg w1 = w_cfg w"
      by (blast elim: listTokens_Ok)
    obtain gw' where resp: "resp = ARtokens gw'"
      and sup: "syncSupported maxAge g props tokens gw' w1 = (Ok ch, w')"
      using run list Ok props tokens
      by (cases resp) (simp_all add: syncGatewayTokens_def tryP_def)
    obtain l where l: "w_calls w' = w_calls w1 @ l"
      using sup reg by (rule syncSupported_effect) (use x same in auto)
    with calls log resp have "gw' = gw" "w_calls w' = w_calls w1 @ log" by auto
    with syncSupported_converges [of maxAge g props tokens gw w1 ch w' api' log] sup reg x row stored
      dist ok fresh same show ?thesis by simp
  next
    case (Err e)
    then have "as_admin e = Some 490"
      using run list props tokens by (auto simp: syncGatewayTokens_def tryP_def split: if_splits)
    then obtain a r' where bad: "\<not> call_ok r'" and c1: "w_calls w1 = w_calls w @ [(a, ListTokens, r')]"
      using listTokens_Err list Err by blast
    have "(if tokens = [] then returnP False
        else bindP (saveTokens g props JNull) (\<lambda>_. returnP True)) w1 = (Ok ch, w')"
      using run list Err props tokens \<open>as_admin e = Some 490\<close>
      by (simp add: syncGatewayTokens_def tryP_def)
    then have "w_calls w' = w_calls w1"
      by (auto simp: bindP_Ok_iff saveTokens_calls split: if_splits)
    with c1 log bad show ?thesis by (simp add: call_ok_def)
  next
    case (Panic e)
    with run list props tokens show ?thesis
      by (simp add: syncGatewayTokens_def tryP_def)
  qed
qed

definition sync_world :: world where
  "sync_world = sample_world\<lparr>w_env := sample_env\<lparr>e_admin := [ARtokens [''old''], ARok, ARok]\<rparr>\<rparr>"

theorem syncGatewayTokens_converges_witness:
  "\<exists>g' ps. gateway_find 1 (w_db (snd (syncGatewayTokens day sample_gateway sync_world))) = Some g' \<and>
     stored_plain sample_ext (Secret sample_cfg) (gw_properties g') = Some ps \<and>
     set ps = {''aaaaaaaaaaaaaaaa''}"
proof -
  let ?run = "syncGatewayTokens day sample_gateway sync_world"
  let ?api = "(''a'', ''pwd'')"
  let ?log = "[(?api, AddToken ''aaaaaaaaaaaaaaaa'' [''janus.plugin.videoroom'', ''janus.plugin.textroom''], ARok),
     (?api, RemoveToken ''old'', ARok)]"
  have "fst ?run = Ok True" by code_simp
  then have run: "?run = (Ok True, snd ?run)" by (rule fst_run)
  have log: "w_calls (snd ?run) = w_calls sync_world @ (?api, ListTokens, ARtokens [''old'']) # ?log"
    by code_simp
  have "store_after ?log (set [''old'']) = {''aaaaaaaaaaaaaaaa''}"
    by (auto simp: call_ok_def)
  moreover have "gateway_find (gw_id sample_gateway) (w_db sync_world) = Some sample_gateway"
    by (simp add: sync_world_def sample_world_def sample_db_def gateway_find_def)
  moreover have "distinct ps" if "stored_plain sample_ext (Secret sample_cfg) (gw_properties sample_gateway) = Some ps" for ps
    using that by (simp add: stored_plain_def stored_tokens_def sample_gateway_def props_get_def)
  moreover have "w_ext sync_world = sample_ext" "w_cfg sync_world = sample_cfg"
    by (simp_all add: sync_world_def sample_world_def)
  moreover have "added ?log \<inter> set [''old''] = {}" by (auto simp: added_def)
  moreover have "\<forall>(a, c, r) \<in> set ?log. call_ok r" by (simp add: call_ok_def)
  moreover have "gw_id sample_gateway = 1" by (simp add: sample_gateway_def)
  ultimately show ?thesis
    using syncGatewayTokens_converges [OF run _ _ log] aead_sample by metis
qed

text \<open>
  A token that \<^verbatim>\<open>createToken\<close> made and that is stored last is the active token of the
  gateway: \<^verbatim>\<open>ActiveToken\<close> decodes the saved JSON, base64 and ciphertext back to the plain text
  that was registered on the gateway.
\<close>

theorem ActiveToken_created:
  assumes "aead_ok (w_ext w)" and "createToken g t w = (Ok tok, w')"
  shows "ActiveToken (w_ext w) (Secret (w_cfg w)) (g\<lparr>gw_properties :=
     Some (JObj (AList.update ''tokens'' (encode_tokens (ts @ [tok])) m))\<rparr>) = Ok t"
  using createToken_decrypts [OF assms]
  by (simp add: ActiveToken_def decode_props_def props_get_def)

theorem ActiveToken_created_witness:
  "\<exists>tok w'. createToken sample_gateway ''tok'' sync_world = (Ok tok, w') \<and>
     ActiveToken sample_ext (Secret sample_cfg) (sample_gateway\<lparr>gw_properties :=
       Some (JObj (AList.update ''tokens'' (encode_tokens ([] @ [tok])) []))\<rparr>) = Ok ''tok''"
proof -
  have "is_ok (fst (createToken sample_gateway ''tok'' sync_world))" by code_simp
  then obtain tok w' where run: "createToken sample_gateway ''tok'' sync_world = (Ok tok, w')"
    using is_ok_run by blast
  moreover have "w_ext sync_world = sample_ext" "w_cfg sync_world = sample_cfg"
    by (simp_all add: sync_world_def sample_world_def)
  ultimately show ?thesis
    using ActiveToken_created [OF _ run] aead_sample by metis
qed

text \<open>
  A gateway whose \<^verbatim>\<open>properties\<close> hold the JSON value \<^verbatim>\<open>null\<close> (not SQL NULL) is never
  synchronised: the nil map cannot take the new token, so a run in which the gateway lists its
  tokens ends in an error or, after the token was added on the gateway, in a panic.
\<close>

theorem syncGatewayTokens_null_properties:
  assumes "gw_properties g = Some JNull" and "listTokens g w = (Ok (ARtokens gw), w1)"
  shows "fst (syncGatewayTokens maxAge g w) \<noteq> Ok ch"
proof
  obtain r w' where run: "syncGatewayTokens maxAge g w = (r, w')" by fastforce
  assume "fst (syncGatewayTokens maxAge g w) = Ok ch"
  with run assms have "syncSupported maxAge g None [] gw w1 = (Ok ch, w')"
    by (simp add: syncGatewayTokens_def decode_props_def props_get_def tryP_def)
  then show False
    by (rule syncSupported_stages) (auto simp: sync_init_def saveTokens_def)
qed

theorem syncGatewayTokens_null_properties_witness:
  "fst (syncGatewayTokens day (sample_gateway\<lparr>gw_properties := Some JNull\<rparr>) sync_world) \<noteq> Ok True"
proof (rule syncGatewayTokens_null_properties)
  let ?run = "listTokens (sample_gateway\<lparr>gw_properties := Some JNull\<rparr>) sync_world"
  have "fst ?run = Ok (ARtokens [''old''])" by code_simp
  then show "?run = (Ok (ARtokens [''old'']), snd ?run)" by (rule fst_run)
qed simp

end
