(* ===== verification/Cache.thy ===== *)
theory Cache
  imports Token_Sync
begin

text \<open>
  The in-process caches (\<^verbatim>\<open>api/cache.go\<close>).  \<^verbatim>\<open>AppCache\<close> is the record \<^verbatim>\<open>app_cache\<close> of the
  world; every operation is a program on it.  The caches hold pointers in the code and rows here:
  the handlers that write through a cached pointer say so where they are modelled.

  What a lookup finds after a store is the contract of the locales \<^verbatim>\<open>lossy_cache\<close> (an
  insertion may drop other entries, as \<^verbatim>\<open>golang-lru\<close>'s ARC does) and \<^verbatim>\<open>keyed_cache\<close> (it
  never does); both are interpreted on the caches of the code.
\<close>

section \<open>Contracts\<close>

locale lossy_cache =
  fixes look :: "'c \<Rightarrow> 'k \<Rightarrow> 'v option" and put :: "'v \<Rightarrow> 'c \<Rightarrow> 'c" and key :: "'v \<Rightarrow> 'k"
  assumes look_put_same: "look (put v c) (key v) = Some v"
    and look_put_other: "k \<noteq> key v \<Longrightarrow> look (put v c) k = Some u \<Longrightarrow> look c k = Some u"
begin

text \<open>Nothing is invented: a hit is the last value stored under the key.\<close>

lemma look_put_SomeD: "look (put v c) k = Some u \<Longrightarrow> (k = key v \<and> u = v) \<or> look c k = Some u"
  by (metis look_put_same look_put_other option.inject)

lemma look_fold_SomeD:
  "look (fold put vs c) k = Some u \<Longrightarrow> (u \<in> set vs \<and> key u = k) \<or> look c k = Some u"
proof (induction vs arbitrary: c)
  case (Cons v vs)
  then have "(u \<in> set vs \<and> key u = k) \<or> look (put v c) k = Some u" by simp
  then show ?case by (auto dest: look_put_SomeD)
qed simp

end

locale keyed_cache = lossy_cache look put key
  for look :: "'c \<Rightarrow> 'k \<Rightarrow> 'v option" and put :: "'v \<Rightarrow> 'c \<Rightarrow> 'c" and key :: "'v \<Rightarrow> 'k" +
  assumes look_put_keep: "k \<noteq> key v \<Longrightarrow> look (put v c) k = look c k"
begin

lemma look_put: "look (put v c) k = (if k = key v then Some v else look c k)"
  by (simp add: look_put_same look_put_keep)

text \<open>A reload: the rows are stored one after the other, so the last row of a key wins.\<close>

lemma look_fold:
  "look (fold put vs c) k = (case find (\<lambda>v. key v = k) (rev vs) of
     Some v \<Rightarrow> Some v | None \<Rightarrow> look c k)"
proof (induction vs arbitrary: c)
  case (Cons v vs)
  have "find P (xs @ [v]) = (case find P xs of Some y \<Rightarrow> Some y | None \<Rightarrow> if P v then Some v else None)"
    for P and xs :: "'v list"
    by (induction xs) auto
  with Cons show ?case by (auto simp: look_put split: option.split)
qed simp

lemma look_fold_distinct:
  assumes "distinct (map key vs)" and "look c k = None"
  shows "look (fold put vs c) k = find (\<lambda>v. key v = k) vs"
proof -
  have rev: "find P (rev xs) = find P xs" if u: "\<And>x y. x \<in> set xs \<Longrightarrow> y \<in> set xs \<Longrightarrow> P x \<Longrightarrow> P y \<Longrightarrow> x = y"
    for P and xs :: "'v list"
  proof (cases "find P xs")
    case None
    then have "find P (rev xs) = None" by (simp add: find_None_all)
    with None show ?thesis by simp
  next
    case (Some x)
    then have x: "x \<in> set xs" "P x" by (simp_all add: find_Some_in)
    then have "find P (rev xs) \<noteq> None" by (auto simp: find_None_all)
    then obtain y where y: "find P (rev xs) = Some y" by blast
    then have "y \<in> set xs" "P y" by (auto dest: find_Some_in)
    with u x have "y = x" by blast
    with y Some show ?thesis by simp
  qed
  have "find (\<lambda>v. key v = k) (rev vs) = find (\<lambda>v. key v = k) vs"
  proof (rule rev)
    fix x y assume "x \<in> set vs" "y \<in> set vs" "key x = k" "key y = k"
    then show "x = y" using distinct_key_eq [OF assms(1), of x y] by simp
  qed
  with assms(2) show ?thesis by (simp add: look_fold split: option.split)
qed

end

section \<open>Gateways\<close>

definition GatewayCache_ByID :: "app_cache \<Rightarrow> int \<Rightarrow> gateway option" where
  "GatewayCache_ByID c = map_of (c_gw_byid c)"

definition GatewayCache_ByName :: "app_cache \<Rightarrow> string \<Rightarrow> gateway option" where
  "GatewayCache_ByName c = map_of (c_gw_byname c)"

definition GatewayCache_Set :: "gateway \<Rightarrow> app_cache \<Rightarrow> app_cache" where
  "GatewayCache_Set g c = c\<lparr>c_gw_byid := AList.update (gw_id g) g (c_gw_byid c),
     c_gw_byname := AList.update (gw_name g) g (c_gw_byname c)\<rparr>"

definition GatewayCache_Values :: "app_cache \<Rightarrow> gateway list" where
  "GatewayCache_Values c = mvalues (c_gw_byid c)"

definition GatewayCache_Reload :: "unit go" where
  "GatewayCache_Reload =
     bindP (queryP gateways) (\<lambda>gs.
     set_cacheP (\<lambda>c. fold GatewayCache_Set gs (c\<lparr>c_gw_byid := [], c_gw_byname := []\<rparr>)))"

interpretation gw_byid: keyed_cache GatewayCache_ByID GatewayCache_Set gw_id
  by unfold_locales (auto simp: GatewayCache_ByID_def GatewayCache_Set_def)

interpretation gw_byname: keyed_cache GatewayCache_ByName GatewayCache_Set gw_name
  by unfold_locales (auto simp: GatewayCache_ByName_def GatewayCache_Set_def)

section \<open>Gateway tokens\<close>

definition GatewayTokenCache_ByID :: "app_cache \<Rightarrow> int \<Rightarrow> string option" where
  "GatewayTokenCache_ByID c = map_of (c_tokens c)"

text \<open>
  \<^verbatim>\<open>c.byID[gateway.ID], err = tm.ActiveToken(gateway)\<close> stores the empty string when it fails,
  and the loop ends there with the new map half filled.
\<close>

fun reloadTokens :: "gateway list \<Rightarrow> unit go" where
  "reloadTokens [] = returnP ()"
| "reloadTokens (g # gs) =
     bindP (getsP w_ext) (\<lambda>x. bindP (cfgP Secret) (\<lambda>secret.
     case ActiveToken x secret g of
       Ok t \<Rightarrow> bindP (set_cacheP (\<lambda>c. c\<lparr>c_tokens := AList.update (gw_id g) t (c_tokens c)\<rparr>))
                 (\<lambda>_. reloadTokens gs)
     | Err e \<Rightarrow> bindP (set_cacheP (\<lambda>c. c\<lparr>c_tokens := AList.update (gw_id g) [] (c_tokens c)\<rparr>))
                 (\<lambda>_. errP (EWrap (''tm.ActiveToken '' @ gw_name g) e))
     | Panic e \<Rightarrow> panicP e))"

definition GatewayTokenCache_Reload :: "unit go" where
  "GatewayTokenCache_Reload =
     bindP (queryP gateways) (\<lambda>gs.
     bindP (set_cacheP (\<lambda>c. c\<lparr>c_tokens := []\<rparr>)) (\<lambda>_. reloadTokens gs))"

section \<open>Rooms\<close>

definition RoomCache_ByGatewayUID :: "app_cache \<Rightarrow> string \<Rightarrow> room option" where
  "RoomCache_ByGatewayUID c = map_of (c_rooms c)"

definition RoomCache_Set :: "room \<Rightarrow> app_cache \<Rightarrow> app_cache" where
  "RoomCache_Set r c = c\<lparr>c_rooms := AList.update (rm_gateway_uid r) r (c_rooms c)\<rparr>"

definition RoomCache_Values :: "app_cache \<Rightarrow> room list" where
  "RoomCache_Values c = mvalues (c_rooms c)"

definition RoomCache_Reload :: "unit go" where
  "RoomCache_Reload =
     bindP (queryP rooms_active) (\<lambda>rs.
     set_cacheP (\<lambda>c. fold RoomCache_Set rs (c\<lparr>c_rooms := []\<rparr>)))"

interpretation room_cache: keyed_cache RoomCache_ByGatewayUID RoomCache_Set rm_gateway_uid
  by unfold_locales (auto simp: RoomCache_ByGatewayUID_def RoomCache_Set_def)

section \<open>Users\<close>

text \<open>
  \<^verbatim>\<open>lru.ARCCache.Add\<close>: the entry is stored, and the entries the policy chooses (never the one
  just added) are gone.  A reload adds at most 500 entries to a fresh cache of 10,000, which drops
  none.
\<close>

definition UserCache_ByAccountsID :: "app_cache \<Rightarrow> string \<Rightarrow> user option" where
  "UserCache_ByAccountsID c = map_of (c_users c)"

definition arc_add :: "string list \<Rightarrow> user \<Rightarrow> app_cache \<Rightarrow> app_cache" where
  "arc_add ev u c = c\<lparr>c_users := AList.update (us_accounts_id u) u
     (filter (\<lambda>(k, _). k \<notin> set ev) (c_users c))\<rparr>"

definition UserCache_Set :: "user \<Rightarrow> unit go" where
  "UserCache_Set u w = (Ok (),
     w\<lparr>w_cache := arc_add (case e_evict (w_env w) of [] \<Rightarrow> [] | ev # _ \<Rightarrow> ev) u (w_cache w),
       w_env := (w_env w)\<lparr>e_evict := tl (e_evict (w_env w))\<rparr>\<rparr>)"

definition users_recent :: "db \<Rightarrow> user list" where
  "users_recent d = take 500 (rev (sort_key us_created_at
     (filter (\<lambda>u. \<not> us_disabled u \<and> us_removed_at u = None) (users d))))"

definition UserCache_Reload :: "unit go" where
  "UserCache_Reload =
     bindP (queryP users_recent) (\<lambda>us.
     set_cacheP (\<lambda>c. fold (arc_add []) us (c\<lparr>c_users := []\<rparr>)))"

lemma map_of_filter_key:
  "map_of (filter (\<lambda>(k, _). P k) m) k = (if P k then map_of m k else None)"
  by (induction m) auto

interpretation user_cache: lossy_cache UserCache_ByAccountsID "arc_add ev" us_accounts_id
  by unfold_locales
    (auto simp: UserCache_ByAccountsID_def arc_add_def map_of_filter_key split: if_splits)

interpretation user_load: keyed_cache UserCache_ByAccountsID "arc_add []" us_accounts_id
  by unfold_locales (auto simp: UserCache_ByAccountsID_def arc_add_def map_of_filter_key)

section \<open>Dynamic configuration\<close>

definition DynamicConfigCache_ByKey :: "app_cache \<Rightarrow> string \<Rightarrow> dynamic_config option" where
  "DynamicConfigCache_ByKey c = map_of (c_dynamic c)"

definition DynamicConfigCache_Set :: "dynamic_config \<Rightarrow> app_cache \<Rightarrow> app_cache" where
  "DynamicConfigCache_Set kv c = c\<lparr>c_dynamic := AList.update (dc_key kv) kv (c_dynamic c),
     c_last_modified := (if c_last_modified c < dc_updated_at kv then dc_updated_at kv
                         else c_last_modified c)\<rparr>"

definition DynamicConfigCache_Values :: "app_cache \<Rightarrow> dynamic_config list" where
  "DynamicConfigCache_Values c = mvalues (c_dynamic c)"

definition DynamicConfigCache_LastModified :: "app_cache \<Rightarrow> time" where
  "DynamicConfigCache_LastModified c = c_last_modified c"

text \<open>A reload empties the map and keeps \<^verbatim>\<open>lastModified\<close>.\<close>

definition DynamicConfigCache_Reload :: "unit go" where
  "DynamicConfigCache_Reload =
     bindP (queryP dynamic_configs) (\<lambda>kvs.
     set_cacheP (\<lambda>c. fold DynamicConfigCache_Set kvs (c\<lparr>c_dynamic := []\<rparr>)))"

interpretation dyn_cache: keyed_cache DynamicConfigCache_ByKey DynamicConfigCache_Set dc_key
  by unfold_locales (auto simp: DynamicConfigCache_ByKey_def DynamicConfigCache_Set_def)

section \<open>All caches\<close>

definition AppCache_ReloadAll :: "unit go" where
  "AppCache_ReloadAll =
     bindP (wrapP ''reload gateways'' GatewayCache_Reload) (\<lambda>_.
     bindP (wrapP ''reload gateway_tokens'' GatewayTokenCache_Reload) (\<lambda>_.
     bindP (wrapP ''reload rooms'' RoomCache_Reload) (\<lambda>_.
     bindP (wrapP ''reload users'' UserCache_Reload) (\<lambda>_.
     bindP (wrapP ''reload dynamicConfig'' DynamicConfigCache_Reload) (\<lambda>_.
     returnP ())))))"

definition fresh_cache :: app_cache where
  "fresh_cache = \<lparr>c_gw_byid = [], c_gw_byname = [], c_tokens = [], c_rooms = [], c_users = [],
     c_dynamic = [], c_last_modified = zero_time\<rparr>"

definition AppCache_Init :: "unit go" where
  "AppCache_Init = bindP (set_cacheP (\<lambda>_. fresh_cache)) (\<lambda>_. AppCache_ReloadAll)"

text \<open>One tick of the background goroutine; \<^verbatim>\<open>n\<close> is the counter before it.\<close>

definition AppCache_tick :: "int \<Rightarrow> unit go" where
  "AppCache_tick n =
     bindP (if (n + 1) mod 3600 = 0 then tryP GatewayTokenCache_Reload (\<lambda>_. returnP ())
            else returnP ()) (\<lambda>_.
     if (n + 1) mod 60 = 0 then tryP DynamicConfigCache_Reload (\<lambda>_. returnP ()) else returnP ())"

end
