(* ===== verification/Go_Net.thy ===== *)
theory Go_Net
  imports Go_Std
begin

text \<open>
  IP addresses as \<^verbatim>\<open>net.ParseIP\<close> and \<^verbatim>\<open>net.IP.String\<close> read and print them, and
  \<^verbatim>\<open>net.SplitHostPort\<close>.  An address is the list of its eight 16-bit groups; an IPv4 address is
  \<^verbatim>\<open>::ffff:a.b.c.d\<close>, as in the 16-byte form Go uses.
\<close>

type_synonym ip = "nat list"

definition v4_ip :: "nat \<Rightarrow> nat \<Rightarrow> nat \<Rightarrow> nat \<Rightarrow> ip" where
  "v4_ip a b c d = [0, 0, 0, 0, 0, 65535, a * 256 + b, c * 256 + d]"

text \<open>A decimal field: no leading zero, at most 255.\<close>

definition parse_octet :: "string \<Rightarrow> nat option" where
  "parse_octet s = (if s = [] \<or> (1 < length s \<and> hd s = CHR ''0'') then None
     else case digits_val 0 s of Some n \<Rightarrow> if n \<le> 255 then Some n else None | None \<Rightarrow> None)"

definition parse_v4 :: "string \<Rightarrow> (nat \<times> nat \<times> nat \<times> nat) option" where
  "parse_v4 s = (case map parse_octet (split_on (CHR ''.'') s) of
     [Some a, Some b, Some c, Some d] \<Rightarrow> Some (a, b, c, d)
   | _ \<Rightarrow> None)"

text \<open>The leading hexadecimal digits of a text, their value and the rest.\<close>

fun take_hex :: "string \<Rightarrow> nat \<Rightarrow> nat \<Rightarrow> nat \<times> nat \<times> string" where
  "take_hex [] k acc = (k, acc, [])"
| "take_hex (c # cs) k acc = (case hex_val c of
     None \<Rightarrow> (k, acc, c # cs) | Some v \<Rightarrow> take_hex cs (Suc k) (16 * acc + v))"

text \<open>
  The loop over the groups; the first argument counts the groups that may still follow,
  \<^verbatim>\<open>ell\<close> is the number of groups before the \<^verbatim>\<open>::\<close>.
\<close>

fun parse_groups :: "nat \<Rightarrow> string \<Rightarrow> nat list \<Rightarrow> nat option \<Rightarrow> (nat list \<times> nat option \<times> string) option" where
  "parse_groups 0 s gs ell = Some (gs, ell, s)"
| "parse_groups (Suc n) s gs ell =
     (case take_hex s 0 0 of (k, acc, r) \<Rightarrow>
        if k = 0 \<or> 4 < k then None
        else if r \<noteq> [] \<and> hd r = CHR ''.'' then
          (if (ell = None \<and> length gs \<noteq> 6) \<or> 6 < length gs then None
           else case parse_v4 s of
             None \<Rightarrow> None
           | Some (a, b, c, d) \<Rightarrow> Some (gs @ [a * 256 + b, c * 256 + d], ell, []))
        else
          (let gs' = gs @ [acc] in
           case r of
             [] \<Rightarrow> Some (gs', ell, [])
           | [c] \<Rightarrow> None
           | c # c' # r' \<Rightarrow>
               if c \<noteq> CHR '':'' then None
               else if c' = CHR '':'' then
                 (if ell \<noteq> None then None
                  else if r' = [] then Some (gs', Some (length gs'), [])
                  else parse_groups n r' gs' (Some (length gs')))
               else parse_groups n (c' # r') gs' ell))"

definition parse_v6 :: "string \<Rightarrow> ip option" where
  "parse_v6 s =
     (let dc = has_prefix s ''::''; r = (if dc then drop 2 s else s) in
      if dc \<and> r = [] then Some (replicate 8 0)
      else case parse_groups 8 r [] (if dc then Some 0 else None) of
        None \<Rightarrow> None
      | Some (gs, ell, rest) \<Rightarrow>
          if rest \<noteq> [] then None
          else if length gs < 8 then
            (case ell of None \<Rightarrow> None
             | Some e \<Rightarrow> Some (take e gs @ replicate (8 - length gs) 0 @ drop e gs))
          else if ell \<noteq> None then None else Some gs)"

text \<open>\<^verbatim>\<open>net.ParseIP\<close>: the first dot, colon or percent sign decides; zones are refused.\<close>

definition ParseIP :: "string \<Rightarrow> ip option" where
  "ParseIP s = (case find (\<lambda>c. c = CHR ''.'' \<or> c = CHR '':'' \<or> c = CHR ''%'') s of
     None \<Rightarrow> None
   | Some c \<Rightarrow>
       if c = CHR ''.'' then map_option (\<lambda>(a, b, c, d). v4_ip a b c d) (parse_v4 s)
       else if c = CHR '':'' \<and> CHR ''%'' \<notin> set s then parse_v6 s
       else None)"

definition dotted :: "nat \<Rightarrow> nat \<Rightarrow> nat \<Rightarrow> nat \<Rightarrow> string" where
  "dotted a b c d = show_nat a @ ''.'' @ show_nat b @ ''.'' @ show_nat c @ ''.'' @ show_nat d"

definition hex_char :: "nat \<Rightarrow> char" where
  "hex_char n = (if n < 10 then byte (48 + n) else byte (87 + n))"

definition show_hex :: "nat \<Rightarrow> string" where
  "show_hex n = (let h = [n div 4096, n div 256 mod 16, n div 16 mod 16, n mod 16]
     in map hex_char (case dropWhile ((=) 0) h of [] \<Rightarrow> [0] | ds \<Rightarrow> ds))"

text \<open>The longest run of at least two zero groups, the first of equally long ones.\<close>

definition zero_run :: "ip \<Rightarrow> nat \<Rightarrow> nat" where
  "zero_run g i = length (takeWhile ((=) 0) (drop i g))"

fun best_run :: "ip \<Rightarrow> nat list \<Rightarrow> nat \<times> nat \<Rightarrow> nat \<times> nat" where
  "best_run g [] b = b"
| "best_run g (i # is) (s, l) =
     (let r = zero_run g i in best_run g is (if 2 \<le> r \<and> l < r then (i, r) else (s, l)))"

fun join_with :: "string \<Rightarrow> string list \<Rightarrow> string" where
  "join_with sep [] = []"
| "join_with sep [x] = x"
| "join_with sep (x # xs) = x @ sep @ join_with sep xs"

definition show_v6 :: "ip \<Rightarrow> string" where
  "show_v6 g = (case best_run g [0..<8] (0, 0) of (s, l) \<Rightarrow>
     if l = 0 then join_with '':'' (map show_hex g)
     else join_with '':'' (map show_hex (take s g)) @ ''::'' @
          join_with '':'' (map show_hex (drop (s + l) g)))"

definition ip_String :: "ip \<Rightarrow> string" where
  "ip_String g =
     (if take 6 g = [0, 0, 0, 0, 0, 65535]
      then dotted (g ! 6 div 256) (g ! 6 mod 256) (g ! 7 div 256) (g ! 7 mod 256)
      else show_v6 g)"

section \<open>IPv4 round trip\<close>

lemma split_on_no_sep: "sep \<notin> set s \<Longrightarrow> split_on sep s = [s]"
  by (induction s) auto

lemma split_on_append_sep:
  "sep \<notin> set s \<Longrightarrow> split_on sep (s @ sep # t) = s # split_on sep t"
  by (induction s) (auto split: list.split)

lemma show_nat_digits: "c \<in> set (show_nat n) \<Longrightarrow> is_digit c"
proof (induction n rule: show_nat.induct)
  case (1 n)
  have "is_digit (byte (48 + n mod 10))" by (simp add: is_digit_def)
  with 1 show ?case
    by (cases "n < 10") (auto simp: show_nat.simps [of n] is_digit_def)
qed

lemma digit_not_dot: "\<not> is_digit (CHR ''.'')" "\<not> is_digit (CHR '':'')" "\<not> is_digit (CHR ''%'')"
  by (simp_all add: is_digit_def code_def)

lemma hd_show_nat_zero: "10 \<le> n \<Longrightarrow> hd (show_nat n) \<noteq> CHR ''0''"
proof (induction n rule: show_nat.induct)
  case (1 n)
  have b: "byte (48 + k) \<noteq> CHR ''0''" if "0 < k" "k < 10" for k
  proof
    assume "byte (48 + k) = CHR ''0''"
    then have "code (byte (48 + k)) = 48" by (simp add: code_def)
    with that show False by simp
  qed
  have "hd (show_nat n) = hd (show_nat (n div 10))"
    using 1(2) by (subst show_nat.simps) (simp add: hd_append show_nat_not_Nil)
  also have "\<dots> \<noteq> CHR ''0''"
  proof (cases "10 \<le> n div 10")
    case True
    with 1 show ?thesis by simp
  next
    case False
    then show ?thesis using 1(2) b [of "n div 10"] by (subst show_nat.simps) simp
  qed
  finally show ?case .
qed

lemma parse_octet_show [simp]: "n \<le> 255 \<Longrightarrow> parse_octet (show_nat n) = Some n"
proof (cases "n < 10")
  case True
  then have "length (show_nat n) = 1" by (subst show_nat.simps) simp
  then show ?thesis if "n \<le> 255"
    using that by (simp add: parse_octet_def digits_val_show_nat show_nat_not_Nil)
next
  case False
  then have "hd (show_nat n) \<noteq> CHR ''0''" using hd_show_nat_zero by simp
  then show ?thesis if "n \<le> 255"
    using that by (simp add: parse_octet_def digits_val_show_nat show_nat_not_Nil)
qed

lemma parse_v4_dotted:
  assumes "a \<le> 255" "b \<le> 255" "c \<le> 255" "d \<le> 255"
  shows "parse_v4 (dotted a b c d) = Some (a, b, c, d)"
proof -
  have nodot: "CHR ''.'' \<notin> set (show_nat n)" for n using show_nat_digits digit_not_dot by blast
  have "split_on (CHR ''.'') (dotted a b c d) = [show_nat a, show_nat b, show_nat c, show_nat d]"
    using nodot by (simp add: dotted_def split_on_append_sep split_on_no_sep)
  with assms show ?thesis by (simp add: parse_v4_def)
qed

lemma ParseIP_dotted:
  assumes "a \<le> 255" "b \<le> 255" "c \<le> 255" "d \<le> 255"
  shows "ParseIP (dotted a b c d) = Some (v4_ip a b c d)"
proof -
  have "find (\<lambda>c. c = CHR ''.'' \<or> c = CHR '':'' \<or> c = CHR ''%'') (xs @ CHR ''.'' # ys) = Some (CHR ''.'')"
    if "\<forall>x \<in> set xs. is_digit x" for xs ys
    using that by (induction xs) (use digit_not_dot in auto)
  then have "find (\<lambda>c. c = CHR ''.'' \<or> c = CHR '':'' \<or> c = CHR ''%'') (dotted a b c d) = Some (CHR ''.'')"
    using show_nat_digits by (simp add: dotted_def)
  with parse_v4_dotted [OF assms] show ?thesis by (simp add: ParseIP_def)
qed

lemma ip_String_v4:
  "a \<le> 255 \<Longrightarrow> b \<le> 255 \<Longrightarrow> c \<le> 255 \<Longrightarrow> d \<le> 255 \<Longrightarrow> ip_String (v4_ip a b c d) = dotted a b c d"
  by (simp add: ip_String_def v4_ip_def)

text \<open>\<^verbatim>\<open>net.SplitHostPort\<close>: the host of \<^verbatim>\<open>host:port\<close> or \<^verbatim>\<open>[host]:port\<close>.\<close>

definition SplitHost :: "string \<Rightarrow> string option" where
  "SplitHost s =
     (if CHR '':'' \<notin> set s then None
      else
        let host = rev (tl (dropWhile (\<lambda>c. c \<noteq> CHR '':'') (rev s)));
            port = rev (takeWhile (\<lambda>c. c \<noteq> CHR '':'') (rev s))
        in if s \<noteq> [] \<and> hd s = CHR ''['' then
             (if host \<noteq> [] \<and> last host = CHR '']'' \<and> 2 \<le> length host \<and>
                 CHR ''['' \<notin> set (tl host) \<and> CHR '']'' \<notin> set (butlast host) \<and>
                 CHR ''['' \<notin> set port \<and> CHR '']'' \<notin> set port
              then Some (butlast (tl host)) else None)
           else if CHR '':'' \<in> set host \<or> CHR ''['' \<in> set s \<or> CHR '']'' \<in> set s then None
           else Some host)"

end
