(* ===== verification/Session.thy ===== *)
theory Session
  imports Cache Go_Net
begin

text \<open>
  Sessions (\<^verbatim>\<open>api/session.go\<close>, \<^verbatim>\<open>api/types.go\<close>): the events of the gateways and the messages of
  the clients that open, update and close the sessions of a user, and the periodic cleaner.  Every
  handler is one program; those that write run in \<^verbatim>\<open>InTx\<close>.  \<^verbatim>\<open>time.Now()\<close> and the database's
  \<^verbatim>\<open>now()\<close> are the instant of the request.
\<close>

section \<open>Messages\<close>

record v1_user =
  vu_id :: string
  vu_display :: string
  vu_email :: string
  vu_group :: string
  vu_ip :: string
  vu_janus :: string
  vu_name :: string
  vu_role :: string
  vu_system :: string
  vu_username :: string
  vu_room :: string
  vu_timestamp :: int
  vu_session :: int
  vu_handle :: int
  vu_rfid :: string
  vu_textroom_handle :: int
  vu_camera :: bool
  vu_question :: bool
  vu_self_test :: bool
  vu_sound_test :: bool
  vu_extra :: json

definition zero_user :: v1_user where
  "zero_user = \<lparr>vu_id = [], vu_display = [], vu_email = [], vu_group = [], vu_ip = [],
     vu_janus = [], vu_name = [], vu_role = [], vu_system = [], vu_username = [], vu_room = [],
     vu_timestamp = 0, vu_session = 0, vu_handle = 0, vu_rfid = [], vu_textroom_handle = 0,
     vu_camera = False, vu_question = False, vu_self_test = False, vu_sound_test = False,
     vu_extra = JNull\<rparr>"

text \<open>Decoding one field of a struct into the value built so far.\<close>

definition with_field :: "(json option \<Rightarrow> gerr + 'a) \<Rightarrow> string \<Rightarrow> (string \<times> json) list \<Rightarrow>
    ('a \<Rightarrow> 'b \<Rightarrow> 'b) \<Rightarrow> gerr + 'b \<Rightarrow> gerr + 'b" where
  "with_field dec n kvs put r = (case r of Inl e \<Rightarrow> Inl e | Inr x \<Rightarrow>
     (case dec (jfield n kvs) of Inl e \<Rightarrow> Inl e | Inr v \<Rightarrow> Inr (put v x)))"

definition decode_v1_user :: "json \<Rightarrow> gerr + v1_user" where
  "decode_v1_user j = (case json_fields j of Inl e \<Rightarrow> Inl e | Inr kvs \<Rightarrow>
     (with_field json_string ''id'' kvs (\<lambda>v u. u\<lparr>vu_id := v\<rparr>) \<circ>
      with_field json_string ''display'' kvs (\<lambda>v u. u\<lparr>vu_display := v\<rparr>) \<circ>
      with_field json_string ''email'' kvs (\<lambda>v u. u\<lparr>vu_email := v\<rparr>) \<circ>
      with_field json_string ''group'' kvs (\<lambda>v u. u\<lparr>vu_group := v\<rparr>) \<circ>
      with_field json_string ''ip'' kvs (\<lambda>v u. u\<lparr>vu_ip := v\<rparr>) \<circ>
      with_field json_string ''janus'' kvs (\<lambda>v u. u\<lparr>vu_janus := v\<rparr>) \<circ>
      with_field json_string ''name'' kvs (\<lambda>v u. u\<lparr>vu_name := v\<rparr>) \<circ>
      with_field json_string ''role'' kvs (\<lambda>v u. u\<lparr>vu_role := v\<rparr>) \<circ>
      with_field json_string ''system'' kvs (\<lambda>v u. u\<lparr>vu_system := v\<rparr>) \<circ>
      with_field json_string ''username'' kvs (\<lambda>v u. u\<lparr>vu_username := v\<rparr>) \<circ>
      with_field json_string ''room'' kvs (\<lambda>v u. u\<lparr>vu_room := v\<rparr>) \<circ>
      with_field json_int ''timestamp'' kvs (\<lambda>v u. u\<lparr>vu_timestamp := v\<rparr>) \<circ>
      with_field json_int ''session'' kvs (\<lambda>v u. u\<lparr>vu_session := v\<rparr>) \<circ>
      with_field json_int ''handle'' kvs (\<lambda>v u. u\<lparr>vu_handle := v\<rparr>) \<circ>
      with_field json_string ''rfid'' kvs (\<lambda>v u. u\<lparr>vu_rfid := v\<rparr>) \<circ>
      with_field json_int ''textroom_handle'' kvs (\<lambda>v u. u\<lparr>vu_textroom_handle := v\<rparr>) \<circ>
      with_field json_bool ''camera'' kvs (\<lambda>v u. u\<lparr>vu_camera := v\<rparr>) \<circ>
      with_field json_bool ''question'' kvs (\<lambda>v u. u\<lparr>vu_question := v\<rparr>) \<circ>
      with_field json_bool ''self_test'' kvs (\<lambda>v u. u\<lparr>vu_self_test := v\<rparr>) \<circ>
      with_field json_bool ''sound_test'' kvs (\<lambda>v u. u\<lparr>vu_sound_test := v\<rparr>) \<circ>
      with_field json_map ''extra'' kvs (\<lambda>v u. u\<lparr>vu_extra := v\<rparr>)) (Inr zero_user))"

record v1_protocol_message =
  pm_type :: string
  pm_status :: bool
  pm_room :: int
  pm_user :: v1_user

definition decode_protocol_message :: "json \<Rightarrow> gerr + v1_protocol_message" where
  "decode_protocol_message j = (case json_fields j of Inl e \<Rightarrow> Inl e | Inr kvs \<Rightarrow>
     (with_field json_string ''type'' kvs (\<lambda>v m. m\<lparr>pm_type := v\<rparr>) \<circ>
      with_field json_bool ''status'' kvs (\<lambda>v m. m\<lparr>pm_status := v\<rparr>) \<circ>
      with_field json_int ''room'' kvs (\<lambda>v m. m\<lparr>pm_room := v\<rparr>) \<circ>
      with_field (\<lambda>v. case v of None \<Rightarrow> Inr zero_user | Some u \<Rightarrow> decode_v1_user u) ''user'' kvs
        (\<lambda>v m. m\<lparr>pm_user := v\<rparr>))
       (Inr \<lparr>pm_type = [], pm_status = False, pm_room = 0, pm_user = zero_user\<rparr>))"

text \<open>\<^verbatim>\<open>json.Unmarshal\<close> of a text.\<close>

definition unmarshal :: "(json \<Rightarrow> gerr + 'a) \<Rightarrow> string \<Rightarrow> gerr + 'a" where
  "unmarshal dec s = (case parse_json s of None \<Rightarrow> Inl syntax_error | Some j \<Rightarrow> dec j)"

text \<open>What \<^verbatim>\<open>janus.ParseEvent\<close> hands over; only plugin events matter to the code.\<close>

datatype gateway_event = PluginEvent string "(string \<times> json) list" | OtherEvent

definition NewProtocolError :: "string \<Rightarrow> gerr" where "NewProtocolError m = EProtocol m None"

definition WrappingProtocolError :: "gerr \<Rightarrow> string \<Rightarrow> gerr" where
  "WrappingProtocolError e m = EProtocol m (Some e)"

section \<open>The user of a message\<close>

definition new_user :: "v1_user \<Rightarrow> user" where
  "new_user u = \<lparr>us_id = 0, us_accounts_id = vu_id u, us_email = Some (vu_email u),
     us_first_name = None, us_last_name = None, us_username = Some (vu_username u),
     us_disabled = False, us_properties = None, us_created_at = zero_time, us_updated_at = None,
     us_removed_at = None\<rparr>"

text \<open>Returns the pair of values of the Go function: an id and an error.\<close>

definition getInternalUserID :: "v1_user \<Rightarrow> (int \<times> gerr option) go" where
  "getInternalUserID user =
     bindP (cacheP (\<lambda>c. UserCache_ByAccountsID c (vu_id user))) (\<lambda>hit. case hit of
       Some u \<Rightarrow> returnP (us_id u, None)
     | None \<Rightarrow>
         tryP (oneP (user_by_accounts_id (vu_id user))) (\<lambda>r. case r of
           Inr u \<Rightarrow>
             if us_disabled u
             then returnP (us_id u, Some (NewProtocolError (''Disabled user: '' @ vu_id user)))
             else bindP (UserCache_Set u) (\<lambda>_. returnP (us_id u, None))
         | Inl e \<Rightarrow>
             if \<not> is_no_rows e then returnP (0, Some (EWrap ''db fetch userID'' e))
             else
               bindP nowP (\<lambda>now.
               tryP (dbP (user_insert now (new_user user))) (\<lambda>r. case r of
                 Inl e \<Rightarrow> returnP (0, Some (EWrap ''db create user'' e))
               | Inr u \<Rightarrow> bindP (UserCache_Set u) (\<lambda>_. returnP (us_id u, None))))))"

section \<open>Writing sessions\<close>

definition open_of :: "int \<Rightarrow> session \<Rightarrow> bool" where
  "open_of uid s \<longleftrightarrow> ss_user_id s = uid \<and> ss_removed_at s = None"

definition closeSession :: "int \<Rightarrow> unit go" where
  "closeSession uid =
     bindP nowP (\<lambda>now.
     bindP (wrapP ''db update session''
       (dbP (sessions_mark (JObj [(''close_session'', JTime now)]) now (open_of uid)))) (\<lambda>_.
     returnP ()))"

definition session_of :: "time \<Rightarrow> int \<Rightarrow> v1_user \<Rightarrow> room \<Rightarrow> gateway \<Rightarrow> session" where
  "session_of now uid u rm gw = \<lparr>
     ss_id = 0,
     ss_user_id = uid,
     ss_room_id = Some (rm_id rm),
     ss_gateway_id = Some (gw_id gw),
     ss_gateway_session = Some (vu_session u),
     ss_gateway_handle = Some (vu_handle u),
     ss_gateway_feed = Some (vu_rfid u),
     ss_display = Some (vu_display u),
     ss_camera = vu_camera u,
     ss_question = vu_question u,
     ss_self_test = vu_self_test u,
     ss_sound_test = vu_sound_test u,
     ss_user_agent = Some (vu_system u),
     ss_ip_address = map_option ip_String (ParseIP (vu_ip u)),
     ss_properties = None,
     ss_created_at = zero_time,
     ss_updated_at = Some now,
     ss_removed_at = None,
     ss_extra = Some (vu_extra u),
     ss_gateway_handle_textroom = Some (vu_textroom_handle u)\<rparr>"

text \<open>\<^verbatim>\<open>%d\<close> of a string prints \<^verbatim>\<open>%!d(string=...)\<close>.\<close>

definition makeSession :: "int \<Rightarrow> v1_user \<Rightarrow> session go" where
  "makeSession uid u =
     bindP (cacheP (\<lambda>c. RoomCache_ByGatewayUID c (vu_room u))) (\<lambda>r. case r of
       None \<Rightarrow> errP (NewProtocolError (''Unknown room: %!d(string='' @ vu_room u @ '')''))
     | Some rm \<Rightarrow>
         bindP (cacheP (\<lambda>c. GatewayCache_ByName c (vu_janus u))) (\<lambda>g. case g of
           None \<Rightarrow> errP (NewProtocolError (''Unknown gateway: '' @ vu_janus u))
         | Some gw \<Rightarrow> bindP nowP (\<lambda>now. returnP (session_of now uid u rm gw))))"

text \<open>\<^verbatim>\<open>if err != nil { return pkgerr.Wrap(err, "sm.getInternalUserID") }\<close>\<close>

definition requireUserID :: "v1_user \<Rightarrow> int go" where
  "requireUserID u = bindP (getInternalUserID u) (\<lambda>(uid, err). case err of
     None \<Rightarrow> returnP uid | Some e \<Rightarrow> errP (EWrap ''sm.getInternalUserID'' e))"

definition upsertRow :: "(session \<Rightarrow> session \<Rightarrow> session) \<Rightarrow> session \<Rightarrow> unit go" where
  "upsertRow upd s = bindP nowP (\<lambda>now.
     bindP (wrapP ''db upsert'' (dbP (session_upsert now upd s))) (\<lambda>_. returnP ()))"

definition upsertSession :: "v1_user \<Rightarrow> unit go" where
  "upsertSession u =
     bindP (requireUserID u) (\<lambda>uid.
     bindP (wrapP ''sm.makeSession'' (makeSession uid u)) (\<lambda>s.
     upsertRow set_but_created_properties s))"

definition onProtocolEnter :: "v1_protocol_message \<Rightarrow> unit go" where
  "onProtocolEnter m =
     bindP (requireUserID (pm_user m)) (\<lambda>uid.
     bindP (if uid > 0 then wrapP ''sm.closeSession'' (closeSession uid) else returnP ()) (\<lambda>_.
     bindP (wrapP ''sm.makeSession'' (makeSession uid (pm_user m))) (\<lambda>s.
     upsertRow set_infer s)))"

definition onProtocolQuestion :: "v1_protocol_message \<Rightarrow> unit go" where
  "onProtocolQuestion m = upsertSession (pm_user m)"

definition onProtocolCamera :: "v1_protocol_message \<Rightarrow> unit go" where
  "onProtocolCamera m = upsertSession (pm_user m)"

definition onProtocolSoundTest :: "v1_protocol_message \<Rightarrow> unit go" where
  "onProtocolSoundTest m = upsertSession (pm_user m)"

text \<open>
  A protocol error of the lookup is ignored so that the sessions of a disabled user can be closed.
\<close>

definition onVideoroomLeaving :: "(string \<times> json) list \<Rightarrow> unit go" where
  "onVideoroomLeaving d =
     (case map_of d ''display'' of
        Some (JStr display) \<Rightarrow>
          (case unmarshal decode_v1_user display of
             Inl e \<Rightarrow> errP (EWrap ''json.Unmarshal'' e)
           | Inr u \<Rightarrow>
               bindP (getInternalUserID u) (\<lambda>(uid, err).
               case err of
                 Some e \<Rightarrow> if \<not> as_protocol e then errP (EWrap ''sm.getInternalUserID'' e)
                           else if uid = 0 then returnP () else closeSession uid
               | None \<Rightarrow> if uid = 0 then returnP () else closeSession uid))
      | _ \<Rightarrow> returnP ())"

section \<open>Entry points\<close>

definition event_type :: "(string \<times> json) list \<Rightarrow> json option" where
  "event_type d = (case map_of d ''event'' of Some t \<Rightarrow> Some t | None \<Rightarrow> map_of d ''videoroom'')"

definition HandleEvent :: "gateway_event \<Rightarrow> unit go" where
  "HandleEvent ev = InTx (case ev of
     PluginEvent plugin d \<Rightarrow>
       if plugin = ''janus.plugin.videoroom'' then
         (case event_type d of
            Some (JStr t) \<Rightarrow>
              if t = ''leaving'' \<or> t = ''kicked'' \<or> t = ''unpublished''
              then wrapP ''V1SessionManager.onVideoroomLeaving'' (onVideoroomLeaving d)
              else returnP ()
          | _ \<Rightarrow> returnP ())
       else returnP ()
   | OtherEvent \<Rightarrow> returnP ())"

definition HandleProtocol :: "string \<Rightarrow> unit go" where
  "HandleProtocol text = (case unmarshal decode_protocol_message text of
     Inl e \<Rightarrow> errP (WrappingProtocolError e ''json.Unmarshal'')
   | Inr m \<Rightarrow> InTx
       (if pm_type m = ''enter''
        then wrapP ''V1SessionManager.onProtocolEnter'' (onProtocolEnter m)
        else if pm_type m = ''question''
        then wrapP ''V1SessionManager.onProtocolQuestion'' (onProtocolQuestion m)
        else if pm_type m = ''camera''
        then wrapP ''V1SessionManager.onProtocolCamera'' (onProtocolCamera m)
        else if pm_type m = ''sound-test''
        then wrapP ''V1SessionManager.onProtocolSoundTest'' (onProtocolSoundTest m)
        else returnP ()))"

definition UpsertSession :: "v1_user \<Rightarrow> unit go" where
  "UpsertSession u = InTx (upsertSession u)"

section \<open>The periodic cleaner\<close>

definition sessions_stale :: "time \<Rightarrow> db \<Rightarrow> session list" where
  "sessions_stale t d = filter (\<lambda>s. ss_removed_at s = None \<and>
     (case ss_updated_at s of None \<Rightarrow> False | Some u \<Rightarrow> u < t)) (sessions d)"

text \<open>The sessions reported as dead and as revived; one with unreadable properties is neither.\<close>

definition session_class :: "session \<Rightarrow> bool option" where
  "session_class s = (case ss_properties s of
     None \<Rightarrow> Some False
   | Some JNull \<Rightarrow> Some False
   | Some (JObj kvs) \<Rightarrow> Some (map_of kvs ''close_session'' \<noteq> None)
   | Some _ \<Rightarrow> None)"

definition clean_report :: "session list \<Rightarrow> session list \<times> session list" where
  "clean_report ss = (filter (\<lambda>s. session_class s = Some False) ss,
     filter (\<lambda>s. session_class s = Some True) ss)"

text \<open>\<^verbatim>\<open>clean\<close> returns nothing; the value here is what it logs at its end.\<close>

definition clean :: "(session list \<times> session list) go" where
  "clean =
     bindP nowP (\<lambda>now. bindP (cfgP DeadSessionPeriod) (\<lambda>period.
     tryP (queryP (sessions_stale (now - period))) (\<lambda>r. case r of
       Inl e \<Rightarrow> returnP ([], [])
     | Inr ss \<Rightarrow>
         if ss = [] then returnP ([], [])
         else
           tryP (InTx (bindP (dbP (sessions_mark (JObj [(''clean_session'', JTime now)]) now
                   (\<lambda>s. ss_id s \<in> set (map ss_id ss)))) (\<lambda>_. returnP ()))) (\<lambda>r. case r of
             Inl e \<Rightarrow> returnP ([], [])
           | Inr _ \<Rightarrow> returnP (clean_report ss)))))"

text \<open>\<^verbatim>\<open>Start\<close> runs the ticker only for a positive interval.\<close>

definition cleaner_starts :: "config \<Rightarrow> bool" where
  "cleaner_starts c \<longleftrightarrow> 0 < CleanSessionsInterval c"

end
