(* ===== verification/Room_Stats.thy ===== *)
theory Room_Stats
  imports Session
begin

text \<open>
  Room statistics (\<^verbatim>\<open>domain/room_statistics.go\<close>) and the service messages that count them
  (\<^verbatim>\<open>api/service_protocol.go\<close>, \<^verbatim>\<open>api/mqtt.go\<close>).  \<^verbatim>\<open>OnAir\<close> reads and writes in two transactions;
  the step relation interleaves any number of such calls.
\<close>

section \<open>The manager\<close>

definition getOrCreate :: "int \<Rightarrow> room_statistic go" where
  "getOrCreate rid = InTx (tryP (oneP (room_statistic_find rid)) (\<lambda>r. case r of
     Inl e \<Rightarrow> if e \<noteq> ENoRows then errP e
              else dbP (room_statistic_insert \<lparr>rs_room_id = rid, rs_on_air = 0\<rparr>)
   | Inr s \<Rightarrow> returnP s))"

definition updateStats :: "room_statistic \<Rightarrow> unit go" where
  "updateStats s = InTx (bindP (dbP (room_statistic_update s)) (\<lambda>_. returnP ()))"

definition OnAir :: "int \<Rightarrow> unit go" where
  "OnAir rid =
     bindP (wrapP ''getOrCreate'' (getOrCreate rid)) (\<lambda>s.
     wrapP ''update'' (updateStats (s\<lparr>rs_on_air := rs_on_air s + 1\<rparr>)))"

text \<open>The rooms are loaded by a second query, only when there are statistics.\<close>

definition GetAllStats :: "(room_statistic \<times> room option) list go" where
  "GetAllStats =
     bindP (queryP room_statistics) (\<lambda>ss.
     if ss = [] then returnP []
     else bindP (queryP rooms) (\<lambda>rs.
       returnP (map (\<lambda>s. (s, find (\<lambda>r. rm_id r = rs_room_id s) rs)) ss)))"

definition ResetStats :: "unit go" where
  "ResetStats = InTx (bindP (dbP room_statistics_delete_all) (\<lambda>_. returnP ()))"

section \<open>Service messages\<close>

record service_message =
  sm_type :: string
  sm_status :: bool
  sm_room :: "string option"
  sm_column :: "int option"
  sm_index :: "int option"
  sm_transaction :: "string option"

text \<open>A field of pointer type.\<close>

definition json_ptr :: "(json option \<Rightarrow> gerr + 'a) \<Rightarrow> json option \<Rightarrow> gerr + 'a option" where
  "json_ptr dec j = (case j of None \<Rightarrow> Inr None | Some JNull \<Rightarrow> Inr None
     | Some v \<Rightarrow> (case dec (Some v) of Inl e \<Rightarrow> Inl e | Inr x \<Rightarrow> Inr (Some x)))"

definition decode_service_message :: "json \<Rightarrow> gerr + service_message" where
  "decode_service_message j = (case json_fields j of Inl e \<Rightarrow> Inl e | Inr kvs \<Rightarrow>
     (with_field json_string ''type'' kvs (\<lambda>v m. m\<lparr>sm_type := v\<rparr>) \<circ>
      with_field json_bool ''status'' kvs (\<lambda>v m. m\<lparr>sm_status := v\<rparr>) \<circ>
      with_field (json_ptr json_string) ''room'' kvs (\<lambda>v m. m\<lparr>sm_room := v\<rparr>) \<circ>
      with_field (json_ptr json_int) ''col'' kvs (\<lambda>v m. m\<lparr>sm_column := v\<rparr>) \<circ>
      with_field (json_ptr json_int) ''i'' kvs (\<lambda>v m. m\<lparr>sm_index := v\<rparr>) \<circ>
      with_field (json_ptr json_string) ''transaction'' kvs (\<lambda>v m. m\<lparr>sm_transaction := v\<rparr>))
       (Inr \<lparr>sm_type = [], sm_status = False, sm_room = None, sm_column = None, sm_index = None,
          sm_transaction = None\<rparr>))"

definition HandleMessage :: "string \<Rightarrow> unit go" where
  "HandleMessage payload = (case unmarshal decode_service_message payload of
     Inl e \<Rightarrow> errP (WrappingProtocolError e ''json.Unmarshal'')
   | Inr m \<Rightarrow>
       if sm_type m = ''audio-out'' then
         if sm_status m then
           (case sm_room m of
              None \<Rightarrow> errP (NewProtocolError ''no room specified'')
            | Some uid \<Rightarrow>
                bindP (cacheP (\<lambda>c. RoomCache_ByGatewayUID c uid)) (\<lambda>r. case r of
                  None \<Rightarrow> errP (NewProtocolError (''unknown room %!d(string='' @ uid @ '')''))
                | Some rm \<Rightarrow> wrapP ''roomsStatisticsManager.OnAir'' (OnAir (rm_id rm))))
         else returnP ()
       else returnP ())"

text \<open>The MQTT listener acknowledges a message only when it was handled without an error.\<close>

definition HandleServiceProtocol :: "string \<Rightarrow> bool go" where
  "HandleServiceProtocol payload =
     tryP (HandleMessage payload) (\<lambda>r. case r of Inl e \<Rightarrow> returnP False | Inr _ \<Rightarrow> returnP True)"

section \<open>One call\<close>

definition on_air :: "int \<Rightarrow> world \<Rightarrow> int" where
  "on_air rid w = (case room_statistic_find rid (w_db w) of None \<Rightarrow> 0 | Some s \<Rightarrow> rs_on_air s)"

lemma find_append: "find P (xs @ ys) = (case find P xs of Some x \<Rightarrow> Some x | None \<Rightarrow> find P ys)"
  by (induction xs) auto

lemma find_tupdate_other:
  "i \<noteq> j \<Longrightarrow> (\<And>r. key (f r) = key r) \<Longrightarrow>
   find (\<lambda>r. key r = j) (tupdate key i f rs) = find (\<lambda>r. key r = j) rs"
  by (induction rs) (auto simp: tupdate_def)

lemma find_tupdate_same:
  "(\<And>r. key (f r) = key r) \<Longrightarrow>
   find (\<lambda>r. key r = i) (tupdate key i f rs) = map_option f (find (\<lambda>r. key r = i) rs)"
  by (induction rs) (auto simp: tupdate_def)

lemma getOrCreate_Ok:
  assumes "getOrCreate rid w = (Ok s, w')"
  shows "rs_room_id s = rid" "rs_on_air s = on_air rid w" "room_statistic_find rid (w_db w') = Some s"
    "rid' \<noteq> rid \<Longrightarrow> on_air rid' w' = on_air rid' w"
proof -
  obtain w2 where body: "tryP (oneP (room_statistic_find rid)) (\<lambda>r. case r of
     Inl e \<Rightarrow> if e \<noteq> ENoRows then errP e
              else dbP (room_statistic_insert \<lparr>rs_room_id = rid, rs_on_air = 0\<rparr>)
   | Inr s \<Rightarrow> returnP s) (drop_fault w) = (Ok s, w2)" and w': "w_db w' = w_db w2"
    using assms by (auto simp: getOrCreate_def InTx_Ok_iff)
  have "rs_room_id s = rid \<and> rs_on_air s = on_air rid w \<and> room_statistic_find rid (w_db w2) = Some s \<and>
      (\<forall>r. r \<noteq> rid \<longrightarrow> room_statistic_find r (w_db w2) = room_statistic_find r (w_db w))"
  proof (cases "room_statistic_find rid (w_db w)")
    case (Some s')
    then have "rs_room_id s' = rid" by (auto simp: room_statistic_find_def dest: find_Some_in)
    with Some body show ?thesis
      by (auto simp: tryP_def oneP_apply on_air_def split: option.splits)
  next
    case None
    with body show ?thesis
      by (auto simp: tryP_def oneP_apply on_air_def dbP_def room_statistic_insert_def
          room_statistic_find_def find_append split: option.splits if_splits)
  qed
  then show "rs_room_id s = rid" "rs_on_air s = on_air rid w"
    "room_statistic_find rid (w_db w') = Some s" "rid' \<noteq> rid \<Longrightarrow> on_air rid' w' = on_air rid' w"
    by (simp_all add: w' on_air_def)
qed

lemma updateStats_Ok:
  assumes "updateStats s w = (Ok (), w')"
  shows "on_air (rs_room_id s) w' =
      (if room_statistic_find (rs_room_id s) (w_db w) = None then 0 else rs_on_air s)"
    "rs_on_air s \<le> 2147483647"
    "rid' \<noteq> rs_room_id s \<Longrightarrow> on_air rid' w' = on_air rid' w"
    "room_statistic_find (rs_room_id s) (w_db w') = map_option (\<lambda>r. r\<lparr>rs_on_air := rs_on_air s\<rparr>)
       (room_statistic_find (rs_room_id s) (w_db w))"
proof -
  obtain w2 where st: "dbP (room_statistic_update s) (drop_fault w) = (Ok (int (length
      (filter (\<lambda>r. rs_room_id r = rs_room_id s) (room_statistics (w_db w))))), w2)"
    and w': "w_db w' = w_db w2" and le: "rs_on_air s \<le> 2147483647"
    using assms
    by (auto simp: updateStats_def InTx_Ok_iff bindP_Ok_iff dbP_def room_statistic_update_def
        split: option.splits if_splits)
  have w2: "w_db w2 = (w_db w)\<lparr>room_statistics := tupdate rs_room_id (rs_room_id s)
      (\<lambda>r. r\<lparr>rs_on_air := rs_on_air s\<rparr>) (room_statistics (w_db w))\<rparr>"
    using st le by (auto simp: dbP_def room_statistic_update_def split: option.splits)
  show "on_air (rs_room_id s) w' =
      (if room_statistic_find (rs_room_id s) (w_db w) = None then 0 else rs_on_air s)"
    by (auto simp: on_air_def w' w2 room_statistic_find_def find_tupdate_same split: option.split)
  show "rid' \<noteq> rs_room_id s \<Longrightarrow> on_air rid' w' = on_air rid' w"
    by (simp add: on_air_def w' w2 room_statistic_find_def find_tupdate_other)
  show "rs_on_air s \<le> 2147483647" by (rule le)
  show "room_statistic_find (rs_room_id s) (w_db w') = map_option (\<lambda>r. r\<lparr>rs_on_air := rs_on_air s\<rparr>)
       (room_statistic_find (rs_room_id s) (w_db w))"
    by (simp add: w' w2 room_statistic_find_def find_tupdate_same)
qed

text \<open>
  A call of \<^verbatim>\<open>OnAir\<close> that returns without an error has counted exactly one more for its
  room, starting from zero when the room had no statistics, and for no other room; the count stays
  within the \<^verbatim>\<open>INTEGER\<close> column.
\<close>

theorem OnAir_counts_one:
  assumes "OnAir rid w = (Ok (), w')"
  shows "on_air rid w' = on_air rid w + 1 \<and> on_air rid w' \<le> 2147483647 \<and>
    (\<forall>r. r \<noteq> rid \<longrightarrow> on_air r w' = on_air r w)"
proof -
  from assms obtain s w1 where s: "getOrCreate rid w = (Ok s, w1)"
    and up: "updateStats (s\<lparr>rs_on_air := rs_on_air s + 1\<rparr>) w1 = (Ok (), w')"
    by (auto simp: OnAir_def bindP_Ok_iff)
  show ?thesis
    using getOrCreate_Ok [OF s] updateStats_Ok [OF up] by simp
qed

theorem OnAir_counts_one_witness: "on_air 1 (snd (OnAir 1 sample_world)) = 1"
proof -
  have "fst (OnAir 1 sample_world) = Ok ()" by code_simp
  from OnAir_counts_one [OF fst_run [OF this]] show ?thesis
    by (simp add: on_air_def room_statistic_find_def sample_world_def sample_db_def)
qed

end
