(* ===== verification/Http.thy ===== *)
theory Http
  imports Room_Stats
begin

text \<open>
  Requests, responses and the helpers of \<^verbatim>\<open>pkg/httputil\<close>: client and internal errors and how
  they are answered, JSON answers, the decoding of a request body, and the address of the client.
  A handler is a program that takes the request and ends with the one answer it writes.
\<close>

section \<open>Requests and responses\<close>

record id_claims =
  ic_acr :: string
  ic_allowed_origins :: "string list"
  ic_aud :: json
  ic_auth_time :: int
  ic_azp :: string
  ic_email :: string
  ic_exp :: int
  ic_family_name :: string
  ic_given_name :: string
  ic_iat :: int
  ic_iss :: string
  ic_jti :: string
  ic_name :: string
  ic_nbf :: int
  ic_nonce :: string
  ic_preferred_username :: string
  ic_realm_access :: "string list"
  ic_resource_access :: "(string \<times> string list) list"
  ic_session_state :: string
  ic_sub :: string
  ic_typ :: string

text \<open>The mutable context that travels with a request; \<^verbatim>\<open>Params\<close> is only logged.\<close>

record request_context =
  rc_ip :: string
  rc_id_claims :: "id_claims option"
  rc_service_user :: bool
  rc_route_name :: string

text \<open>
  What a handler reads of \<^verbatim>\<open>http.Request\<close>: headers under their canonical names, parsed query
  values, the variables of the matched route, and the body or the error of reading it.
\<close>

record request =
  rq_method :: string
  rq_path :: string
  rq_header :: "(string, string) gomap"
  rq_query :: "(string, string list) gomap"
  rq_vars :: "(string, string) gomap"
  rq_body :: "gerr + string"
  rq_remote_addr :: string
  rq_context :: "request_context option"

datatype payload = PText string | PJson json

record response =
  rp_code :: int
  rp_payload :: payload

type_synonym handler = "request \<Rightarrow> response go"

text \<open>\<^verbatim>\<open>r.Header.Get\<close> and \<^verbatim>\<open>url.Values.Get\<close>: the empty string when the key is absent.\<close>

definition header_get :: "request \<Rightarrow> string \<Rightarrow> string" where
  "header_get r k = (case map_of (rq_header r) k of None \<Rightarrow> [] | Some v \<Rightarrow> v)"

definition query_get :: "(string, string list) gomap \<Rightarrow> string \<Rightarrow> string" where
  "query_get q k = (case map_of q k of Some (v # _) \<Rightarrow> v | _ \<Rightarrow> [])"

definition var_get :: "request \<Rightarrow> string \<Rightarrow> string" where
  "var_get r k = (case map_of (rq_vars r) k of None \<Rightarrow> [] | Some v \<Rightarrow> v)"

section \<open>Errors\<close>

type_synonym http_error = "int \<times> gerr option \<times> string"

definition StatusText :: "int \<Rightarrow> string" where
  "StatusText c = (if c = 400 then ''Bad Request'' else if c = 401 then ''Unauthorized''
     else if c = 403 then ''Forbidden'' else if c = 404 then ''Not Found''
     else if c = 413 then ''Request Entity Too Large''
     else if c = 500 then ''Internal Server Error'' else [])"

definition NewHttpError :: "int \<Rightarrow> gerr option \<Rightarrow> string \<Rightarrow> http_error" where
  "NewHttpError c e m = (c, e, m)"

definition NewNotFoundError :: http_error where
  "NewNotFoundError = NewHttpError 404 None (StatusText 404)"

definition NewBadRequestError :: "gerr option \<Rightarrow> string \<Rightarrow> http_error" where
  "NewBadRequestError e m = NewHttpError 400 e m"

definition NewUnauthorizedError :: "gerr \<Rightarrow> http_error" where
  "NewUnauthorizedError e = NewHttpError 401 (Some e) (StatusText 401)"

definition NewForbiddenError :: http_error where
  "NewForbiddenError = NewHttpError 403 None (StatusText 403)"

definition NewRequestEntityTooLargeError :: "gerr \<Rightarrow> string \<Rightarrow> http_error" where
  "NewRequestEntityTooLargeError e m = NewHttpError 413 (Some e) m"

definition NewInternalError :: "gerr \<Rightarrow> http_error" where
  "NewInternalError e = NewHttpError 500 (Some e) []"

text \<open>A \<^verbatim>\<open>*HttpError\<close> as an \<^verbatim>\<open>error\<close> value.\<close>

definition http_err :: "http_error \<Rightarrow> gerr" where
  "http_err h = (case h of (c, e, m) \<Rightarrow> EHttp c e m)"

lemma as_http_err [simp]: "as_http (http_err h) = Some h"
  by (cases h) (simp add: http_err_def)

section \<open>Answers\<close>

definition RespondWithJSON :: "int \<Rightarrow> json \<Rightarrow> response" where
  "RespondWithJSON c j = \<lparr>rp_code = c, rp_payload = PJson j\<rparr>"

definition RespondWithError :: "int \<Rightarrow> string \<Rightarrow> response" where
  "RespondWithError c m = RespondWithJSON c (JObj [(''error'', JStr m)])"

definition RespondSuccess :: response where
  "RespondSuccess = RespondWithJSON 200 (JObj [(''result'', JStr ''success'')])"

text \<open>\<^verbatim>\<open>http.Error\<close> ends the text with a line feed.  The text of an internal error stays in the log.\<close>

definition Abort :: "http_error \<Rightarrow> response" where
  "Abort h = (case h of (c, e, m) \<Rightarrow>
     if 500 \<le> c then \<lparr>rp_code = c, rp_payload = PText (StatusText c @ [byte 10])\<rparr>
     else RespondWithError c m)"

definition abortP :: "http_error \<Rightarrow> response go" where
  "abortP h = returnP (Abort h)"

text \<open>\<^verbatim>\<open>x, err := m; if err != nil { h(err).Abort(w, r); return }\<close>\<close>

definition orAbort :: "(gerr \<Rightarrow> http_error) \<Rightarrow> 'a go \<Rightarrow> ('a \<Rightarrow> response go) \<Rightarrow> response go" where
  "orAbort h m f = tryP m (\<lambda>r. case r of Inl e \<Rightarrow> abortP (h e) | Inr x \<Rightarrow> f x)"

text \<open>
  \<^verbatim>\<open>errors.As(err, &hErr)\<close>, else an internal error; a missing row is not found; a protocol error is
  the client's.
\<close>

definition http_or_internal :: "gerr \<Rightarrow> http_error" where
  "http_or_internal e = (case as_http e of Some h \<Rightarrow> h | None \<Rightarrow> NewInternalError e)"

definition not_found_or_internal :: "gerr \<Rightarrow> http_error" where
  "not_found_or_internal e = (if is_no_rows e then NewNotFoundError else NewInternalError e)"

definition protocol_or_internal :: "string \<Rightarrow> gerr \<Rightarrow> http_error" where
  "protocol_or_internal m e =
     (if as_protocol e then NewBadRequestError (Some e) m else NewInternalError e)"

section \<open>Request bodies\<close>

text \<open>
  \<^verbatim>\<open>DecodeJSONBody\<close>: one JSON value of at most a megabyte, with nothing but white space behind it
  (\<^verbatim>\<open>dec.More\<close> also accepts a closing bracket or brace there, and does not look past the limit).
  The positions and field names of Go's messages are left out of the texts.  An error of reading
  the body comes before any byte of it.  \<^verbatim>\<open>time.Time\<close> fields report their own error, which is
  not an \<^verbatim>\<open>UnmarshalTypeError\<close>.
\<close>

definition max_body :: int where "max_body = 1048576"

definition body_type_error :: "gerr \<Rightarrow> http_error" where
  "body_type_error e = (if e = type_error
     then NewBadRequestError (Some e) ''request body contains an invalid value''
     else NewInternalError (EWrap ''error decoding JSON'' e))"

definition more :: "string \<Rightarrow> bool" where
  "more r = (case skip_ws r of [] \<Rightarrow> False | c # _ \<Rightarrow> c \<noteq> CHR '']'' \<and> c \<noteq> CHR ''}'')"

definition too_large :: http_error where
  "too_large = NewRequestEntityTooLargeError (EText ''http: request body too large'')
     ''request body must not be larger than 1MB''"

text \<open>Numbers have no closing byte: they end where the input does.\<close>

definition open_ended :: "json \<Rightarrow> bool" where
  "open_ended j = (case j of JNum _ \<Rightarrow> True | JFrac _ \<Rightarrow> True | JStr _ \<Rightarrow> True | JNull \<Rightarrow> True
     | JBool _ \<Rightarrow> True | _ \<Rightarrow> False)"

definition DecodeJSONBody :: "(json \<Rightarrow> gerr + 'a) \<Rightarrow> gerr + string \<Rightarrow> http_error + 'a" where
  "DecodeJSONBody dec body = (case body of
     Inl e \<Rightarrow> Inl (NewInternalError (EWrap ''error decoding JSON'' e))
   | Inr s \<Rightarrow>
       (let big = (max_body < int (length s)); t = (if big then take (nat max_body) s else s) in
        case first_json t of
          Inl Malformed \<Rightarrow> Inl (NewBadRequestError (Some syntax_error)
            ''request body contains badly-formed JSON'')
        | Inl Truncated \<Rightarrow>
            if big then Inl too_large
            else if skip_ws t = []
            then Inl (NewBadRequestError (Some (EText ''EOF'')) ''request body must not be empty'')
            else Inl (NewBadRequestError (Some (EText ''unexpected EOF''))
              ''request body contains badly-formed JSON'')
        | Inr (j, r) \<Rightarrow>
            if big \<and> r = [] \<and> open_ended j then Inl too_large
            else (case dec j of
                Inl e \<Rightarrow> Inl (body_type_error e)
              | Inr x \<Rightarrow>
                  if more r then Inl (NewBadRequestError None
                    ''request body must only contain a single JSON object'')
                  else Inr x)))"

definition bodyP :: "(json \<Rightarrow> gerr + 'a) \<Rightarrow> request \<Rightarrow> ('a \<Rightarrow> response go) \<Rightarrow> response go" where
  "bodyP dec r f = (case DecodeJSONBody dec (rq_body r) of Inl h \<Rightarrow> abortP h | Inr x \<Rightarrow> f x)"

text \<open>A destination of pointer type: \<^verbatim>\<open>null\<close> makes it nil.\<close>

definition decode_ptr :: "(json \<Rightarrow> gerr + 'a) \<Rightarrow> json \<Rightarrow> gerr + 'a option" where
  "decode_ptr dec j = (if j = JNull then Inr None
     else case dec j of Inl e \<Rightarrow> Inl e | Inr x \<Rightarrow> Inr (Some x))"

section \<open>The address of the client\<close>

text \<open>Leading and trailing commas of \<^verbatim>\<open>X-Forwarded-For\<close> are cut; its last element counts.\<close>

definition GetRealIP :: "request \<Rightarrow> string" where
  "GetRealIP r =
     (let remoteIP = (case SplitHost (rq_remote_addr r) of None \<Rightarrow> [] | Some h \<Rightarrow> h);
          xff = trim_by (\<lambda>c. c = CHR '','') (header_get r ''X-Forwarded-For'');
          xri = header_get r ''X-Real-Ip''
      in if 0 < length xff then
           (case ParseIP (last (split_on (CHR '','') xff)) of
              None \<Rightarrow> remoteIP | Some i \<Rightarrow> ip_String i)
         else if 0 < length xri then
           (case ParseIP xri of None \<Rightarrow> remoteIP | Some i \<Rightarrow> ip_String i)
         else remoteIP)"

text \<open>\<^verbatim>\<open>net.IPNet.Contains\<close> for an IPv4 network of \<^verbatim>\<open>n\<close> bits.\<close>

definition v4_contains :: "nat \<Rightarrow> nat \<Rightarrow> nat \<Rightarrow> nat \<Rightarrow> nat \<Rightarrow> ip \<Rightarrow> bool" where
  "v4_contains a b c d n g \<longleftrightarrow> take 6 g = [0, 0, 0, 0, 0, 65535] \<and>
     (g ! 6 * 65536 + g ! 7) div 2 ^ (32 - n) = (((a * 256 + b) * 256 + c) * 256 + d) div 2 ^ (32 - n)"

definition IsPrivateIP :: "string \<Rightarrow> gerr + bool" where
  "IsPrivateIP s = (case ParseIP s of
     None \<Rightarrow> Inl (EText (''invalid IP address '' @ s))
   | Some g \<Rightarrow> Inr (v4_contains 10 0 0 0 8 g \<or> v4_contains 172 16 0 0 12 g \<or>
       v4_contains 192 168 0 0 16 g \<or> v4_contains 127 0 0 0 8 g))"

section \<open>Laws of the handlers\<close>

text \<open>
  Relations that reading stays within: a consumed fault, an admin call and a new admin client are
  no change.  The parts of a handler that only read inherit such a relation.
\<close>

locale read_rel = step_rel R for R :: "world \<Rightarrow> world \<Rightarrow> bool" +
  assumes R_fault: "R w (drop_fault w)"
    and R_call: "R w (snd (callP api c w))"
    and R_registry: "R w (w\<lparr>w_registry := reg\<rparr>)"
begin

lemma within_queryP [within_rules]: "within R (queryP f)"
  by (rule withinI) (simp add: R_fault)

lemma within_oneP [within_rules]: "within R (oneP f)"
  by (rule withinI) (simp add: R_fault)

lemma within_callP [within_rules]: "within R (callP api c)"
  by (rule withinI) (rule R_call)

lemma within_resP [within_rules]: "within R (resP r)"
  by (rule withinI) (simp add: R_refl resP_def)

lemma within_readers [within_rules]:
  "within R nowP" "within R (cfgP f)" "within R (cacheP g)"
  by (simp_all only: nowP_def cfgP_def cacheP_def within_getsP)

lemma within_registry_For [within_rules]: "within R (registry_For g)"
  unfolding registry_For_def registry_Get_def registry_Set_def
  by (intro within_rules withinI) (simp add: R_registry)

lemma within_abortP [within_rules]: "within R (abortP h)"
  by (simp only: abortP_def within_returnP)

lemma within_orAbort [within_rules]:
  "within R m \<Longrightarrow> (\<And>x. within R (f x)) \<Longrightarrow> within R (orAbort h m f)"
  unfolding orAbort_def by (intro within_rules)

lemma within_bodyP [within_rules]: "(\<And>x. within R (f x)) \<Longrightarrow> within R (bodyP dec r f)"
  unfolding bodyP_def by (intro within_rules)

end

interpretation schema_read: read_rel schema_rel
  by unfold_locales (auto simp: schema_rel_def snd_callP)

text \<open>A reading request leaves the tables and the caches as they are.\<close>

definition reads_rel :: "world \<Rightarrow> world \<Rightarrow> bool" where
  "reads_rel w w' \<longleftrightarrow> w_db w' = w_db w \<and> w_cache w' = w_cache w"

interpretation reads: read_rel reads_rel
  by unfold_locales (auto simp: reads_rel_def snd_callP)

lemma abortP_apply [simp]: "abortP h w = (Ok (Abort h), w)"
  by (simp add: abortP_def)

lemma orAbort_cases:
  "m w = (Ok x, w') \<Longrightarrow> orAbort h m f w = f x w'"
  "m w = (Err e, w') \<Longrightarrow> orAbort h m f w = (Ok (Abort (h e)), w')"
  "m w = (Panic e, w') \<Longrightarrow> orAbort h m f w = (Panic e, w')"
  by (simp_all add: orAbort_def tryP_def)

end
