(* ===== verification/Middleware.thy ===== *)
theory Middleware
  imports Http
begin

text \<open>
  The middleware of the server (\<^verbatim>\<open>middleware/*.go\<close>): the context of a request, recovery from
  panics, the client's address, authentication and the minimal permission.  A token verifier of
  \<^verbatim>\<open>go-oidc\<close> is a function from the raw token to an error or the text of its claims, the documented
  behaviour of \<^verbatim>\<open>IDTokenVerifier.Verify\<close>; nothing else is assumed of it.  \<^verbatim>\<open>LoggingMiddleware\<close>
  is in \<^verbatim>\<open>Request_Log\<close>.
\<close>

section \<open>Context\<close>

definition ContextFromRequest :: "request \<Rightarrow> request_context option" where
  "ContextFromRequest r = rq_context r"

definition new_context :: request_context where
  "new_context = \<lparr>rc_ip = [], rc_id_claims = None, rc_service_user = False, rc_route_name = []\<rparr>"

definition ContextMiddleware :: "handler \<Rightarrow> handler" where
  "ContextMiddleware next r = next (r\<lparr>rq_context := Some new_context\<rparr>)"

text \<open>\<^verbatim>\<open>if rCtx, ok := ContextFromRequest(r); ok { ... }\<close>\<close>

definition on_context :: "(request_context \<Rightarrow> request_context) \<Rightarrow> request \<Rightarrow> request" where
  "on_context f r = r\<lparr>rq_context := map_option f (rq_context r)\<rparr>"

definition RealIPMiddleware :: "handler \<Rightarrow> handler" where
  "RealIPMiddleware next r = next (on_context (\<lambda>c. c\<lparr>rc_ip := GetRealIP r\<rparr>) r)"

section \<open>Recovery\<close>

definition RecoveryMiddleware :: "handler \<Rightarrow> handler" where
  "RecoveryMiddleware next r w = (case next r w of
     (Panic p, w') \<Rightarrow> (Ok (Abort (NewInternalError p)), w') | x \<Rightarrow> x)"

section \<open>Tokens of the accounts service\<close>

definition json_roles :: "json option \<Rightarrow> gerr + string list" where
  "json_roles j = (case j of None \<Rightarrow> Inr [] | Some v \<Rightarrow> (case json_fields v of Inl e \<Rightarrow> Inl e
     | Inr kvs \<Rightarrow> json_strings (jfield ''roles'' kvs)))"

fun json_role_map :: "(string \<times> json) list \<Rightarrow> gerr + (string \<times> string list) list" where
  "json_role_map [] = Inr []"
| "json_role_map ((k, v) # kvs) = (case json_roles (Some v) of Inl e \<Rightarrow> Inl e
     | Inr rs \<Rightarrow> (case json_role_map kvs of Inl e \<Rightarrow> Inl e | Inr m \<Rightarrow> Inr ((k, rs) # m)))"

definition json_resource_access :: "json option \<Rightarrow> gerr + (string \<times> string list) list" where
  "json_resource_access j = (case j of None \<Rightarrow> Inr [] | Some JNull \<Rightarrow> Inr []
     | Some (JObj kvs) \<Rightarrow> json_role_map kvs | Some _ \<Rightarrow> Inl type_error)"

definition json_any :: "json option \<Rightarrow> gerr + json" where
  "json_any j = Inr (case j of None \<Rightarrow> JNull | Some v \<Rightarrow> v)"

definition zero_claims :: id_claims where
  "zero_claims = \<lparr>ic_acr = [], ic_allowed_origins = [], ic_aud = JNull, ic_auth_time = 0,
     ic_azp = [], ic_email = [], ic_exp = 0, ic_family_name = [], ic_given_name = [], ic_iat = 0,
     ic_iss = [], ic_jti = [], ic_name = [], ic_nbf = 0, ic_nonce = [], ic_preferred_username = [],
     ic_realm_access = [], ic_resource_access = [], ic_session_state = [], ic_sub = [], ic_typ = []\<rparr>"

definition decode_claims :: "json \<Rightarrow> gerr + id_claims" where
  "decode_claims j = (case json_fields j of Inl e \<Rightarrow> Inl e | Inr kvs \<Rightarrow>
     (with_field json_string ''acr'' kvs (\<lambda>v c. c\<lparr>ic_acr := v\<rparr>) \<circ>
      with_field json_strings ''allowed-origins'' kvs (\<lambda>v c. c\<lparr>ic_allowed_origins := v\<rparr>) \<circ>
      with_field json_any ''aud'' kvs (\<lambda>v c. c\<lparr>ic_aud := v\<rparr>) \<circ>
      with_field json_int ''auth_time'' kvs (\<lambda>v c. c\<lparr>ic_auth_time := v\<rparr>) \<circ>
      with_field json_string ''azp'' kvs (\<lambda>v c. c\<lparr>ic_azp := v\<rparr>) \<circ>
      with_field json_string ''email'' kvs (\<lambda>v c. c\<lparr>ic_email := v\<rparr>) \<circ>
      with_field json_int ''exp'' kvs (\<lambda>v c. c\<lparr>ic_exp := v\<rparr>) \<circ>
      with_field json_string ''family_name'' kvs (\<lambda>v c. c\<lparr>ic_family_name := v\<rparr>) \<circ>
      with_field json_string ''given_name'' kvs (\<lambda>v c. c\<lparr>ic_given_name := v\<rparr>) \<circ>
      with_field json_int ''iat'' kvs (\<lambda>v c. c\<lparr>ic_iat := v\<rparr>) \<circ>
      with_field json_string ''iss'' kvs (\<lambda>v c. c\<lparr>ic_iss := v\<rparr>) \<circ>
      with_field json_string ''jti'' kvs (\<lambda>v c. c\<lparr>ic_jti := v\<rparr>) \<circ>
      with_field json_string ''name'' kvs (\<lambda>v c. c\<lparr>ic_name := v\<rparr>) \<circ>
      with_field json_int ''nbf'' kvs (\<lambda>v c. c\<lparr>ic_nbf := v\<rparr>) \<circ>
      with_field json_string ''nonce'' kvs (\<lambda>v c. c\<lparr>ic_nonce := v\<rparr>) \<circ>
      with_field json_string ''preferred_username'' kvs (\<lambda>v c. c\<lparr>ic_preferred_username := v\<rparr>) \<circ>
      with_field json_roles ''realm_access'' kvs (\<lambda>v c. c\<lparr>ic_realm_access := v\<rparr>) \<circ>
      with_field json_resource_access ''resource_access'' kvs (\<lambda>v c. c\<lparr>ic_resource_access := v\<rparr>) \<circ>
      with_field json_string ''session_state'' kvs (\<lambda>v c. c\<lparr>ic_session_state := v\<rparr>) \<circ>
      with_field json_string ''sub'' kvs (\<lambda>v c. c\<lparr>ic_sub := v\<rparr>) \<circ>
      with_field json_string ''typ'' kvs (\<lambda>v c. c\<lparr>ic_typ := v\<rparr>)) (Inr zero_claims))"

text \<open>The role map of the claims is a set: the realm roles.\<close>

definition initRoleMap :: "id_claims \<Rightarrow> string set" where
  "initRoleMap c = set (ic_realm_access c)"

definition HasAnyRole :: "id_claims \<Rightarrow> string list \<Rightarrow> bool" where
  "HasAnyRole c roles = list_ex (\<lambda>r. r \<in> initRoleMap c) roles"

text \<open>
  \<^verbatim>\<open>FailoverOIDCTokenVerifier\<close>: the verifiers are asked in order.  The result is the pair of Go
  values; with no verifier both are nil.
\<close>

type_synonym verifier = "string \<Rightarrow> gerr + string"

fun verify_loop :: "verifier list \<Rightarrow> string \<Rightarrow> gerr option \<Rightarrow> string option \<times> gerr option" where
  "verify_loop [] s err = (None, err)"
| "verify_loop (v # vs) s err = (case v s of
     Inr token \<Rightarrow> (Some token, None) | Inl e \<Rightarrow> verify_loop vs s (Some e))"

definition Verify :: "verifier list \<Rightarrow> string \<Rightarrow> string option \<times> gerr option" where
  "Verify vs s = verify_loop vs s None"

text \<open>One provider is contacted per issuer; the first that fails ends the construction.\<close>

fun NewFailoverOIDCTokenVerifier ::
    "(string \<Rightarrow> gerr + verifier) \<Rightarrow> string list \<Rightarrow> gerr + verifier list" where
  "NewFailoverOIDCTokenVerifier newProvider [] = Inr []"
| "NewFailoverOIDCTokenVerifier newProvider (url # urls) = (case newProvider url of
     Inl e \<Rightarrow> Inl (EWrap (''oidc.NewProvider '' @ url) e)
   | Inr v \<Rightarrow> (case NewFailoverOIDCTokenVerifier newProvider urls of
       Inl e \<Rightarrow> Inl e | Inr vs \<Rightarrow> Inr (v # vs)))"

section \<open>Authentication\<close>

text \<open>\<^verbatim>\<open>r.BasicAuth()\<close> of \<^verbatim>\<open>net/http\<close>\<close>

definition BasicAuth :: "request \<Rightarrow> (string \<times> string) option" where
  "BasicAuth r = (let auth = header_get r ''Authorization'' in
     if to_lower (take 6 auth) \<noteq> ''basic '' then None
     else case base64_decode (drop 6 auth) of
       None \<Rightarrow> None
     | Some c \<Rightarrow> if CHR '':'' \<in> set c
         then Some (takeWhile (\<lambda>x. x \<noteq> CHR '':'') c, tl (dropWhile (\<lambda>x. x \<noteq> CHR '':'') c))
         else None)"

definition parseToken :: "request \<Rightarrow> string" where
  "parseToken r = (case split_on (CHR '' '') (trim_space (header_get r ''Authorization'')) of
     [scheme, token] \<Rightarrow> if to_lower scheme = ''bearer'' \<and> 0 < length token then token else []
   | _ \<Rightarrow> [])"

definition isAllowedIP :: "string \<Rightarrow> gerr + bool" where
  "isAllowedIP ipAddr = (case ParseIP (trim_space ipAddr) of
     None \<Rightarrow> Inl (EText (''invalid IP address '' @ ipAddr))
   | Some g \<Rightarrow> Inr (v4_contains 10 66 0 0 16 g \<or> v4_contains 172 16 102 0 24 g))"

text \<open>\<^verbatim>\<open>bcrypt.CompareHashAndPassword(h, p) == nil\<close>\<close>

definition bcryptP :: "string \<Rightarrow> string \<Rightarrow> bool go" where
  "bcryptP h p = getsP (\<lambda>w. x_bcrypt (w_ext w) h p)"

fun any_bcryptP :: "string list \<Rightarrow> string \<Rightarrow> bool go" where
  "any_bcryptP [] p = returnP False"
| "any_bcryptP (h # hs) p = bindP (bcryptP h p) (\<lambda>ok. if ok then returnP True else any_bcryptP hs p)"

definition unauthorizedP :: "string \<Rightarrow> response go" where
  "unauthorizedP m = abortP (NewUnauthorizedError (EText m))"

definition open_path :: "string \<Rightarrow> bool" where
  "open_path p \<longleftrightarrow> p = ''/health_check'' \<or> p = ''/metrics''"

definition gateway_path :: "string \<Rightarrow> bool" where
  "gateway_path p \<longleftrightarrow> p = ''/event'' \<or> has_prefix p ''/protocol''"

text \<open>Gateways use basic auth.\<close>

definition gatewayAuth :: "(string \<Rightarrow> string option go) \<Rightarrow> handler \<Rightarrow> handler" where
  "gatewayAuth gwPwd next r =
     bindP (cfgP SkipEventsAuth) (\<lambda>skip.
     if skip then next r
     else case BasicAuth r of
       None \<Rightarrow> unauthorizedP ''no `Authorization` header set''
     | Some (username, password) \<Rightarrow>
         bindP (gwPwd username) (\<lambda>h. case h of
           None \<Rightarrow> unauthorizedP (''unknown gateway: '' @ username)
         | Some hPwd \<Rightarrow>
             bindP (bcryptP hPwd password) (\<lambda>ok.
             if ok then next r else unauthorizedP (''wrong password: '' @ password))))"

text \<open>Service users use basic auth, users of the accounts service a bearer token.\<close>

definition serviceAuth :: "string \<Rightarrow> string \<Rightarrow> handler \<Rightarrow> handler" where
  "serviceAuth username password next r =
     (if username \<noteq> ''service'' then unauthorizedP (''unknown username: '' @ username)
      else
        bindP (cfgP ServicePasswords) (\<lambda>pwds.
        bindP (any_bcryptP pwds password) (\<lambda>success.
        if success then next (on_context (\<lambda>c. c\<lparr>rc_service_user := True\<rparr>) r)
        else unauthorizedP (''wrong password: '' @ password))))"

definition tokenAuth :: "(string \<Rightarrow> string option \<times> gerr option) \<Rightarrow> handler \<Rightarrow> handler" where
  "tokenAuth verify next r =
     (let auth = parseToken r in
      if auth = [] then unauthorizedP ''no `Authorization` header set''
      else case verify auth of
        (_, Some e) \<Rightarrow> abortP (NewUnauthorizedError e)
      | (None, None) \<Rightarrow> panicP nil_deref
      | (Some claimsText, None) \<Rightarrow>
          (case unmarshal decode_claims claimsText of
             Inl e \<Rightarrow> abortP (NewBadRequestError (Some e) ''malformed JWT claims'')
           | Inr claims \<Rightarrow> next (on_context (\<lambda>c. c\<lparr>rc_id_claims := Some claims\<rparr>) r)))"

definition AuthenticationMiddleware ::
    "(string \<Rightarrow> string option \<times> gerr option) \<Rightarrow> (string \<Rightarrow> string option go) \<Rightarrow> handler \<Rightarrow> handler" where
  "AuthenticationMiddleware verify gwPwd next r =
     (if open_path (rq_path r) then next r
      else if gateway_path (rq_path r) then gatewayAuth gwPwd next r
      else
        bindP (cfgP SkipAuth) (\<lambda>skip.
        if skip then next r
        else case BasicAuth r of
          Some (username, password) \<Rightarrow> serviceAuth username password next r
        | None \<Rightarrow> tokenAuth verify next r))"

section \<open>Permissions\<close>

definition RequestHasRole :: "request \<Rightarrow> string list \<Rightarrow> bool res" where
  "RequestHasRole r roles = (case ContextFromRequest r of
     None \<Rightarrow> Panic nil_deref
   | Some c \<Rightarrow> Ok (rc_service_user c \<or>
       (case rc_id_claims c of None \<Rightarrow> False | Some ic \<Rightarrow> HasAnyRole ic roles)))"

text \<open>The guard \<^verbatim>\<open>!SkipPermissions && !RequestHasRole(...)\<close> answered with 403.\<close>

definition requireRole :: "string list \<Rightarrow> request \<Rightarrow> response go \<Rightarrow> response go" where
  "requireRole roles r m =
     bindP (cfgP SkipPermissions) (\<lambda>skip.
     bindP (resP (if skip then Ok True else RequestHasRole r roles)) (\<lambda>ok.
     if ok then m else abortP NewForbiddenError))"

definition MinimalPermissionMiddleware :: "handler \<Rightarrow> handler" where
  "MinimalPermissionMiddleware next r =
     bindP (cfgP SkipPermissions) (\<lambda>skip.
     if skip \<or> open_path (rq_path r) \<or> gateway_path (rq_path r) then next r
     else bindP (resP (RequestHasRole r AllRoles)) (\<lambda>ok.
       if ok then next r else abortP NewForbiddenError))"

end
