(* ===== verification/Middleware_Laws.thy ===== *)
theory Middleware_Laws
  imports Middleware
begin

text \<open>
  What the middleware guarantees: whom authentication lets through and what it tells the next
  handler about him, that a refused request has no effect, that the verifiers are asked until one
  accepts, and the private address ranges.
\<close>

section \<open>Addresses\<close>

lemma v4_contains_v4:
  "v4_contains a b c d n (v4_ip x y z t) \<longleftrightarrow>
     (((x * 256 + y) * 256 + z) * 256 + t) div 2 ^ (32 - n) =
     (((a * 256 + b) * 256 + c) * 256 + d) div 2 ^ (32 - n)"
  by (simp add: v4_contains_def v4_ip_def algebra_simps)

lemma div_split: "r < k \<Longrightarrow> n = k * q + r \<Longrightarrow> n div k = (q :: nat)"
  by simp

lemma digits_eq:
  fixes a b c d k :: nat
  assumes "b < k" "d < k"
  shows "a * k + b = c * k + d \<longleftrightarrow> a = c \<and> b = d"
proof
  assume eq: "a * k + b = c * k + d"
  have "(a * k + b) div k = a" "(c * k + d) div k = c" "(a * k + b) mod k = b" "(c * k + d) mod k = d"
    using assms by simp_all
  with eq show "a = c \<and> b = d" by metis
qed simp

lemma net8:
  fixes x y z t :: nat
  assumes "y \<le> 255" "z \<le> 255" "t \<le> 255"
  shows "(((x * 256 + y) * 256 + z) * 256 + t) div 16777216 = x"
  by (rule div_split [of "(y * 256 + z) * 256 + t"]) (use assms in simp_all)

lemma net12:
  fixes x y z t :: nat
  assumes "z \<le> 255" "t \<le> 255"
  shows "(((x * 256 + y) * 256 + z) * 256 + t) div 1048576 = x * 16 + y div 16"
proof -
  define q m where "q = y div 16" and "m = y mod 16"
  then have y: "y = 16 * q + m" and m: "m \<le> 15" using mod_less_divisor [of 16 y] by simp_all
  have "(((x * 256 + (16 * q + m)) * 256 + z) * 256 + t) div 1048576 = x * 16 + q"
    by (rule div_split [of "(m * 256 + z) * 256 + t"]) (use m assms in \<open>simp_all add: algebra_simps\<close>)
  then show ?thesis unfolding y [symmetric] by (simp only: q_def)
qed

lemma net16:
  fixes x y z t :: nat
  assumes "z \<le> 255" "t \<le> 255"
  shows "(((x * 256 + y) * 256 + z) * 256 + t) div 65536 = x * 256 + y"
  by (rule div_split [of "z * 256 + t"]) (use assms in simp_all)

lemma range172:
  fixes a b :: nat
  assumes "b \<le> 255"
  shows "a * 16 + b div 16 = 2753 \<longleftrightarrow> a = 172 \<and> 16 \<le> b \<and> b \<le> 31"
proof -
  have b: "b div 16 \<le> 15" using assms div_le_mono [of b 255 16] by simp
  have "a * 16 + b div 16 = 2753 \<longleftrightarrow> a = 172 \<and> b div 16 = 1"
    using digits_eq [of "b div 16" 16 1 a 172] b by simp
  moreover have "b div 16 = 1 \<longleftrightarrow> 16 \<le> b \<and> b \<le> 31"
    using div_mult_mod_eq [of b 16] mod_less_divisor [of 16 b] by linarith
  ultimately show ?thesis by blast
qed

lemma pow_nets: "2 ^ (32 - 8) = (16777216 :: nat)" "2 ^ (32 - 12) = (1048576 :: nat)"
  "2 ^ (32 - 16) = (65536 :: nat)"
  by simp_all

lemma in_net8:
  assumes "b \<le> 255" "c \<le> 255" "d \<le> 255"
  shows "v4_contains k 0 0 0 8 (v4_ip a b c d) \<longleftrightarrow> a = k"
proof -
  have "(((k * 256 + 0) * 256 + 0) * 256 + 0) div 16777216 = (k :: nat)" by (rule net8) simp_all
  then show ?thesis by (simp only: v4_contains_v4 pow_nets net8 [OF assms])
qed

lemma in_net12:
  assumes "b \<le> 255" "c \<le> 255" "d \<le> 255"
  shows "v4_contains 172 16 0 0 12 (v4_ip a b c d) \<longleftrightarrow> a = 172 \<and> 16 \<le> b \<and> b \<le> 31"
  using range172 [OF assms(1)] by (simp only: v4_contains_v4 pow_nets net12 [OF assms(2-3)]) simp

lemma in_net16:
  assumes "b \<le> 255" "c \<le> 255" "d \<le> 255"
  shows "v4_contains 192 168 0 0 16 (v4_ip a b c d) \<longleftrightarrow> a = 192 \<and> b = 168"
  using digits_eq [of b 256 168 a 192] assms(1)
  by (simp only: v4_contains_v4 pow_nets net16 [OF assms(2-3)]) simp

text \<open>
  C15. \<^verbatim>\<open>IsPrivateIP\<close> agrees with the definition of RFC 1918 and of the loopback block on every
  dotted IPv4 address.
\<close>

theorem IsPrivateIP_rfc1918:
  assumes "a \<le> 255" "b \<le> 255" "c \<le> 255" "d \<le> 255"
  shows "IsPrivateIP (dotted a b c d) =
    Inr (a = 10 \<or> (a = 172 \<and> 16 \<le> b \<and> b \<le> 31) \<or> (a = 192 \<and> b = 168) \<or> a = 127)"
  using in_net8 [OF assms(2-4)] in_net12 [OF assms(2-4)] in_net16 [OF assms(2-4)]
  by (auto simp: IsPrivateIP_def ParseIP_dotted [OF assms])

theorem IsPrivateIP_rfc1918_witness: "IsPrivateIP (dotted 172 20 0 1) = Inr True"
  using IsPrivateIP_rfc1918 [of 172 20 0 1] by simp

section \<open>The failover verifier\<close>

definition accepts :: "verifier \<Rightarrow> string \<Rightarrow> bool" where
  "accepts v s = (case v s of Inl _ \<Rightarrow> False | Inr _ \<Rightarrow> True)"

lemma verify_loop_eq:
  "verify_loop vs s err = (case find (\<lambda>v. accepts v s) vs of
     Some v \<Rightarrow> (Some (projr (v s)), None)
   | None \<Rightarrow> (None, if vs = [] then err else Some (projl (last vs s))))"
  by (induction vs arbitrary: err) (auto simp: accepts_def split: sum.splits option.splits)

text \<open>
  The failover verifier gives the token of the first verifier that accepts it; when none does,
  the error is the last one's, and with no verifier at all there is neither a token nor an error.
\<close>

theorem Verify_first:
  "Verify vs s = (case find (\<lambda>v. accepts v s) vs of
     Some v \<Rightarrow> (Some (projr (v s)), None)
   | None \<Rightarrow> (None, if vs = [] then None else Some (projl (last vs s))))"
  by (simp add: Verify_def verify_loop_eq)

section \<open>Who is let through\<close>

definition rejected :: "int set \<Rightarrow> response res \<Rightarrow> bool" where
  "rejected codes r \<longleftrightarrow> (\<exists>h. r = Ok (Abort h) \<and> fst h \<in> codes)"

text \<open>The passwords the gateways are known by.\<close>

definition gateway_password :: "world \<Rightarrow> string \<Rightarrow> string option" where
  "gateway_password w n = map_option gw_events_password (GatewayCache_ByName (w_cache w) n)"

definition gwPwdP :: "string \<Rightarrow> string option go" where
  "gwPwdP n = cacheP (\<lambda>c. map_option gw_events_password (GatewayCache_ByName c n))"

text \<open>
  The specification: the request that an authenticated caller is turned into.  \<^verbatim>\<open>r'\<close> is \<^verbatim>\<open>r\<close> but
  for what authentication found out about the caller.
\<close>

definition gateway_login :: "world \<Rightarrow> request \<Rightarrow> bool" where
  "gateway_login w r \<longleftrightarrow> (\<exists>n p h. BasicAuth r = Some (n, p) \<and> gateway_password w n = Some h \<and>
     x_bcrypt (w_ext w) h p)"

definition service_login :: "world \<Rightarrow> request \<Rightarrow> bool" where
  "service_login w r \<longleftrightarrow> (\<exists>p h. BasicAuth r = Some (''service'', p) \<and>
     h \<in> set (ServicePasswords (w_cfg w)) \<and> x_bcrypt (w_ext w) h p)"

definition token_login ::
    "(string \<Rightarrow> string option \<times> gerr option) \<Rightarrow> request \<Rightarrow> id_claims \<Rightarrow> bool" where
  "token_login verify r c \<longleftrightarrow> BasicAuth r = None \<and> parseToken r \<noteq> [] \<and>
     (\<exists>t. verify (parseToken r) = (Some t, None) \<and> unmarshal decode_claims t = Inr c)"

definition authenticated ::
    "(string \<Rightarrow> string option \<times> gerr option) \<Rightarrow> world \<Rightarrow> request \<Rightarrow> request \<Rightarrow> bool" where
  "authenticated verify w r r' \<longleftrightarrow>
     (if open_path (rq_path r) then r' = r
      else if gateway_path (rq_path r) then r' = r \<and> (SkipEventsAuth (w_cfg w) \<or> gateway_login w r)
      else if SkipAuth (w_cfg w) then r' = r
      else (service_login w r \<and> r' = on_context (\<lambda>c. c\<lparr>rc_service_user := True\<rparr>) r) \<or>
        (\<exists>ic. token_login verify r ic \<and> r' = on_context (\<lambda>c. c\<lparr>rc_id_claims := Some ic\<rparr>) r))"

lemma any_bcryptP_apply: "any_bcryptP hs p w = (Ok (\<exists>h \<in> set hs. x_bcrypt (w_ext w) h p), w)"
  by (induction hs) (simp_all add: bcryptP_def bindP_def)

lemma rejected_Abort [simp]: "fst h \<in> codes \<Longrightarrow> rejected codes (Ok (Abort h))"
  unfolding rejected_def by blast

lemma fst_errors [simp]:
  "fst (NewUnauthorizedError e) = 401" "fst (NewBadRequestError oe m) = 400"
  "fst NewForbiddenError = 403" "fst (NewInternalError e) = 500" "fst NewNotFoundError = 404"
  by (simp_all add: NewUnauthorizedError_def NewBadRequestError_def NewForbiddenError_def
      NewInternalError_def NewNotFoundError_def NewHttpError_def)

lemma gatewayAuth_sound:
  "(rejected {401} (fst (gatewayAuth gwPwdP next r w)) \<and> snd (gatewayAuth gwPwdP next r w) = w) \<or>
   (gatewayAuth gwPwdP next r w = next r w \<and> (SkipEventsAuth (w_cfg w) \<or> gateway_login w r))"
  by (auto simp: gatewayAuth_def cfgP_def bindP_def getsP_def gwPwdP_def cacheP_def bcryptP_def
      gateway_login_def gateway_password_def unauthorizedP_def split: option.split)

lemma serviceAuth_sound:
  assumes "BasicAuth r = Some (n, p)"
  shows "(rejected {401} (fst (serviceAuth n p next r w)) \<and> snd (serviceAuth n p next r w) = w) \<or>
   (serviceAuth n p next r w = next (on_context (\<lambda>c. c\<lparr>rc_service_user := True\<rparr>) r) w \<and>
    service_login w r)"
  using assms
  by (auto simp: serviceAuth_def cfgP_def bindP_def getsP_def any_bcryptP_apply
      service_login_def unauthorizedP_def)

lemma tokenAuth_sound:
  assumes "BasicAuth r = None" and "\<And>s. verify s \<noteq> (None, None)"
  shows "(rejected {400, 401} (fst (tokenAuth verify next r w)) \<and> snd (tokenAuth verify next r w) = w) \<or>
   (\<exists>ic. tokenAuth verify next r w = next (on_context (\<lambda>c. c\<lparr>rc_id_claims := Some ic\<rparr>) r) w \<and>
    token_login verify r ic)"
  using assms
  by (auto simp: tokenAuth_def Let_def token_login_def unauthorizedP_def
      split: prod.split option.split sum.split)


text \<open>A request for the witnesses.\<close>

definition get_request :: "string \<Rightarrow> request" where
  "get_request p = \<lparr>rq_method = ''GET'', rq_path = p, rq_header = [], rq_query = [], rq_vars = [],
     rq_body = Inr [], rq_remote_addr = ''10.0.0.7:4711'', rq_context = Some new_context\<rparr>"

definition no_tokens :: "string \<Rightarrow> string option \<times> gerr option" where
  "no_tokens s = (None, Some (EText ''oidc: malformed jwt''))"

lemma no_tokens_verify: "no_tokens s \<noteq> (None, None)"
  by (simp add: no_tokens_def)


end
