(* ===== verification/Go_Time.thy ===== *)
theory Go_Time
  imports Go_Std
begin

text \<open>
  Instants as JSON texts: \<^verbatim>\<open>time.Time.UnmarshalJSON\<close> accepts strict RFC 3339, a date in the
  proleptic Gregorian calendar, a time of day with an optional fraction, and a zone.
\<close>

text \<open>Days from the first of January 1970.\<close>

definition days_from_civil :: "int \<Rightarrow> int \<Rightarrow> int \<Rightarrow> int" where
  "days_from_civil y m d =
     (let y' = (if m \<le> 2 then y - 1 else y); era = y' div 400; yoe = y' - era * 400;
          doy = (153 * (m + (if m > 2 then - 3 else 9)) + 2) div 5 + d - 1;
          doe = yoe * 365 + yoe div 4 - yoe div 100 + doy
      in era * 146097 + doe - 719468)"

definition leap_year :: "int \<Rightarrow> bool" where
  "leap_year y \<longleftrightarrow> y mod 4 = 0 \<and> (y mod 100 \<noteq> 0 \<or> y mod 400 = 0)"

definition days_in :: "int \<Rightarrow> int \<Rightarrow> int" where
  "days_in y m = (if m = 2 then (if leap_year y then 29 else 28)
     else if m \<in> {4, 6, 9, 11} then 30 else 31)"

text \<open>The number in \<^verbatim>\<open>n\<close> digits at position \<^verbatim>\<open>i\<close>, between \<^verbatim>\<open>lo\<close> and \<^verbatim>\<open>hi\<close>.\<close>

definition num_at :: "nat \<Rightarrow> nat \<Rightarrow> string \<Rightarrow> int option" where
  "num_at i n s = (if length s < i + n then None
     else map_option int (digits_val 0 (take n (drop i s))))"

definition char_at :: "nat \<Rightarrow> char \<Rightarrow> string \<Rightarrow> bool" where
  "char_at i c s \<longleftrightarrow> take 1 (drop i s) = [c]"

text \<open>The offset of a zone in seconds; the zone ends the text.\<close>

definition parse_zone :: "string \<Rightarrow> int option" where
  "parse_zone s = (if s = ''Z'' then Some 0
     else if length s = 6 \<and> (char_at 0 CHR ''+'' s \<or> char_at 0 CHR ''-'' s) \<and> char_at 3 CHR '':'' s
     then (case (num_at 1 2 s, num_at 4 2 s) of
         (Some h, Some m) \<Rightarrow>
           if h < 24 \<and> m < 60
           then Some ((if char_at 0 CHR ''-'' s then - 1 else 1) * (h * 3600 + m * 60)) else None
       | _ \<Rightarrow> None)
     else None)"

text \<open>The nanoseconds of a fraction and the rest.\<close>

definition parse_fraction :: "string \<Rightarrow> (int \<times> string) option" where
  "parse_fraction s = (if char_at 0 CHR ''.'' s then
       (let ds = takeWhile is_digit (tl s) in
        if ds = [] then None
        else (case digits_val 0 (take 9 (ds @ ''000000000'')) of
            None \<Rightarrow> None | Some n \<Rightarrow> Some (int n, drop (length ds) (tl s))))
     else Some (0, s))"

text \<open>The instant of year, month, day, hour, minute, second.\<close>

fun civil_time :: "int list \<Rightarrow> int \<Rightarrow> int \<Rightarrow> time option" where
  "civil_time [y, mo, d, h, mi, se] ns off =
     (if 1 \<le> mo \<and> mo \<le> 12 \<and> 1 \<le> d \<and> d \<le> days_in y mo \<and> h < 24 \<and> mi < 60 \<and> se < 60
      then Some ((days_from_civil y mo d * 86400 + h * 3600 + mi * 60 + se - off) * second + ns)
      else None)"
| "civil_time fs ns off = None"

definition parse_rfc3339 :: "string \<Rightarrow> time option" where
  "parse_rfc3339 s =
     (if \<not> (char_at 4 CHR ''-'' s \<and> char_at 7 CHR ''-'' s \<and> char_at 10 CHR ''T'' s \<and>
            char_at 13 CHR '':'' s \<and> char_at 16 CHR '':'' s) then None
      else case those [num_at 0 4 s, num_at 5 2 s, num_at 8 2 s, num_at 11 2 s, num_at 14 2 s, num_at 17 2 s] of
        None \<Rightarrow> None
      | Some fs \<Rightarrow>
          (case parse_fraction (drop 19 s) of
             None \<Rightarrow> None
           | Some (ns, z) \<Rightarrow> (case parse_zone z of None \<Rightarrow> None | Some off \<Rightarrow> civil_time fs ns off)))"

lemma parse_rfc3339_examples:
  "parse_rfc3339 ''1970-01-01T00:00:00Z'' = Some 0"
  "parse_rfc3339 ''0001-01-01T00:00:00Z'' = Some zero_time"
  "parse_rfc3339 ''2020-09-13T14:26:40+02:00'' = Some (1600000000 * second)"
  "parse_rfc3339 ''2021-02-29T00:00:00Z'' = None"
  by code_simp+

end
