(* ===== verification/Admin_Params.thy ===== *)
theory Admin_Params
  imports Middleware_Laws Go_Time
begin

text \<open>
  Parameters and bodies of the admin API (\<^verbatim>\<open>api/api_admin.go\<close>): pages, the filter of the room
  list, rows as JSON, and the queries behind the lists.  Integers are 64 bits wide and wrap around.
  The text of \<^verbatim>\<open>order_by\<close> goes into the query as it is; what the database makes of it is an input
  (\<^verbatim>\<open>x_order_rooms\<close> and its companions), as is the meaning of a regular expression.
\<close>

section \<open>Pages\<close>

record list_params =
  lp_page_number :: int
  lp_page_size :: int
  lp_order_by :: string
  lp_group_by :: string

text \<open>The clauses appended to a query.\<close>

record query_mods =
  qm_group_by :: string
  qm_order_by :: string
  qm_limit :: int
  qm_offset :: "int option"

definition Min_int :: "int \<Rightarrow> int \<Rightarrow> int" where
  "Min_int a b = (if a < b then a else b)"

definition wrap64 :: "int \<Rightarrow> int" where
  "wrap64 x = (x + 9223372036854775808) mod 18446744073709551616 - 9223372036854775808"

definition page_limit :: "list_params \<Rightarrow> int" where
  "page_limit p = (if lp_page_size p = 0 then APIDefaultPageSize
     else Min_int (lp_page_size p) APIMaxPageSize)"

definition page_offset :: "list_params \<Rightarrow> int" where
  "page_offset p = (if lp_page_number p > 1
     then wrap64 (wrap64 (lp_page_number p - 1) * page_limit p) else 0)"

text \<open>Returns the clauses with the limit and the offset.\<close>

definition appendListMods :: "list_params \<Rightarrow> query_mods \<times> int \<times> int" where
  "appendListMods p =
     (\<lparr>qm_group_by = (if lp_group_by p = [] then ''id'' else lp_group_by p),
       qm_order_by = (if lp_order_by p = [] then ''created_at desc'' else lp_order_by p),
       qm_limit = page_limit p,
       qm_offset = (if page_offset p = 0 then None else Some (page_offset p))\<rparr>,
      page_limit p, page_offset p)"

text \<open>\<^verbatim>\<open>fmt.Errorf("...: %w", err)\<close> wraps the error of the conversion.\<close>

definition num_err :: "num_error \<Rightarrow> gerr" where
  "num_err e = EText (case e of ErrSyntax \<Rightarrow> ''invalid syntax'' | ErrRange \<Rightarrow> ''value out of range'')"

definition parse_positive :: "string \<Rightarrow> string \<Rightarrow> int \<Rightarrow> gerr + int" where
  "parse_positive name s dflt = (if s = [] then Inr dflt
     else case atoi s of
       (Some e, _) \<Rightarrow> Inl (EWrap (name @ '' is not an integer'') (num_err e))
     | (None, v) \<Rightarrow> if v < 1 then Inl (EText (name @ '' must be at least 1'')) else Inr v)"

definition ParseListParams :: "(string, string list) gomap \<Rightarrow> gerr + list_params" where
  "ParseListParams q =
     (case parse_positive ''page_no'' (query_get q ''page_no'') 1 of Inl e \<Rightarrow> Inl e
      | Inr n \<Rightarrow> (case parse_positive ''page_size'' (query_get q ''page_size'') 50 of Inl e \<Rightarrow> Inl e
        | Inr s \<Rightarrow> Inr \<lparr>lp_page_number = n, lp_page_size = s,
            lp_order_by = query_get q ''order_by'', lp_group_by = []\<rparr>))"

section \<open>The filter of the room list\<close>

record rooms_request =
  rr_gateways :: "int list"
  rr_disabled :: "bool option"
  rr_removed :: "bool option"
  rr_term :: string

fun parse_gateway_ids :: "string list \<Rightarrow> gerr + int list" where
  "parse_gateway_ids [] = Inr []"
| "parse_gateway_ids (s # ss) = (case parse_int s of
     (Some e, _) \<Rightarrow> Inl (EWrap ''gateway is not an integer'' (num_err e))
   | (None, v) \<Rightarrow> if v < 1 then Inl (EText ''gateway ID must be at least 1'')
       else (case parse_gateway_ids ss of Inl e \<Rightarrow> Inl e | Inr vs \<Rightarrow> Inr (v # vs)))"

definition parse_flag :: "string \<Rightarrow> string \<Rightarrow> gerr + bool option" where
  "parse_flag name s = (if s = [] then Inr None else if s = ''true'' then Inr (Some True)
     else if s = ''false'' then Inr (Some False)
     else Inl (EText (name @ '' must be either `true` or `false`'')))"

definition ParseRoomsRequest :: "(string, string list) gomap \<Rightarrow> gerr + rooms_request" where
  "ParseRoomsRequest q =
     (case parse_gateway_ids (case map_of q ''gateway_id'' of None \<Rightarrow> [] | Some vs \<Rightarrow> vs) of Inl e \<Rightarrow> Inl e
      | Inr gs \<Rightarrow> (case parse_flag ''disabled'' (query_get q ''disabled'') of Inl e \<Rightarrow> Inl e
        | Inr d \<Rightarrow> (case parse_flag ''removed'' (query_get q ''removed'') of Inl e \<Rightarrow> Inl e
          | Inr r \<Rightarrow> Inr \<lparr>rr_gateways = gs, rr_disabled = d, rr_removed = r,
              rr_term = query_get q ''term''\<rparr>)))"

text \<open>
  The \<^verbatim>\<open>WHERE\<close> clause.  A numeric term also matches the id and the room number; a number above
  \<^verbatim>\<open>2^63\<close> is refused by the database driver.
\<close>

definition term_where :: "ext \<Rightarrow> string \<Rightarrow> gerr + (room \<Rightarrow> bool)" where
  "term_where x t = (if t = [] then Inr (\<lambda>_. True)
     else case parse_uint t of
       (None, n) \<Rightarrow>
         if n > max_int64 then Inl (EDb ''uint64 values with high bit set are not supported'')
         else (case x_regex x t of
             None \<Rightarrow> Inl (EDb ''invalid regular expression'')
           | Some m \<Rightarrow> Inr (\<lambda>r. rm_id r = n \<or> rm_gateway_uid r = itoa n \<or> m (rm_name r)))
     | (Some _, _) \<Rightarrow> (case x_regex x t of
           None \<Rightarrow> Inl (EDb ''invalid regular expression'')
         | Some m \<Rightarrow> Inr (\<lambda>r. m (rm_name r))))"

definition rooms_where :: "ext \<Rightarrow> rooms_request \<Rightarrow> gerr + (room \<Rightarrow> bool)" where
  "rooms_where x q = (case term_where x (rr_term q) of Inl e \<Rightarrow> Inl e
     | Inr P \<Rightarrow> Inr (\<lambda>r.
         (case rr_disabled q of None \<Rightarrow> True | Some b \<Rightarrow> rm_disabled r = b) \<and>
         (case rr_removed q of None \<Rightarrow> True | Some b \<Rightarrow> (rm_removed_at r \<noteq> None) = b) \<and>
         (rr_gateways q = [] \<or> rm_default_gateway_id r \<in> set (rr_gateways q)) \<and> P r))"

section \<open>Queries of the lists\<close>

text \<open>
  \<^verbatim>\<open>select count(DISTINCT id)\<close> and \<^verbatim>\<open>select *\<close> with the clauses of a page.  Grouping by the primary
  key changes nothing.  PostgreSQL refuses a negative offset.
\<close>

definition count_rows :: "gerr + ('r \<Rightarrow> bool) \<Rightarrow> (db \<Rightarrow> 'r list) \<Rightarrow> int stmt" where
  "count_rows P rows d = (case P of Inl e \<Rightarrow> Inl e | Inr P \<Rightarrow> Inr (int (length (filter P (rows d)))), d)"

definition select_page :: "gerr + ('r \<Rightarrow> bool) \<Rightarrow> (string \<Rightarrow> 'r list \<Rightarrow> gerr + 'r list) \<Rightarrow>
    query_mods \<Rightarrow> (db \<Rightarrow> 'r list) \<Rightarrow> 'r list stmt" where
  "select_page P ord m rows d = (case P of
     Inl e \<Rightarrow> (Inl e, d)
   | Inr P \<Rightarrow>
       (let offset = (case qm_offset m of None \<Rightarrow> 0 | Some i \<Rightarrow> i) in
        if offset < 0 then (Inl (EDb ''OFFSET must not be negative''), d)
        else case ord (qm_order_by m) (filter P (rows d)) of
          Inl e \<Rightarrow> (Inl e, d)
        | Inr rs \<Rightarrow> (Inr (take (nat (qm_limit m)) (drop (nat offset) rs)), d)))"

lemma keeps_count_rows [stmt_rules]: "keeps_schema (count_rows P rows)"
  by (auto simp: keeps_schema_def count_rows_def split: sum.split)

lemma keeps_select_page [stmt_rules]: "keeps_schema (select_page P ord m rows)"
  by (auto simp: keeps_schema_def select_page_def Let_def split: sum.split)

text \<open>\<^verbatim>\<open>models.Rooms(...).Exists\<close>, \<^verbatim>\<open>select coalesce(max(gateway_uid), 0) + 1\<close>\<close>

definition rooms_exist :: "(room \<Rightarrow> bool) \<Rightarrow> db \<Rightarrow> bool" where
  "rooms_exist P d \<longleftrightarrow> list_ex P (rooms d)"

definition next_gateway_uid :: "db \<Rightarrow> int" where
  "next_gateway_uid d = foldr (\<lambda>r m. max (snd (atoi (rm_gateway_uid r))) m) (rooms d)
     (case rooms d of [] \<Rightarrow> 0 | r # _ \<Rightarrow> snd (atoi (rm_gateway_uid r))) + 1"

section \<open>Rows as JSON\<close>

definition null_string :: "string option \<Rightarrow> json" where
  "null_string s = (case s of None \<Rightarrow> JNull | Some x \<Rightarrow> JStr x)"

definition null_time :: "time option \<Rightarrow> json" where
  "null_time t = (case t of None \<Rightarrow> JNull | Some x \<Rightarrow> JTime x)"

definition null_json :: "json option \<Rightarrow> json" where
  "null_json j = (case j of None \<Rightarrow> JNull | Some x \<Rightarrow> x)"

definition room_json :: "room \<Rightarrow> json" where
  "room_json r = JObj [(''id'', JNum (rm_id r)), (''name'', JStr (rm_name r)),
     (''default_gateway_id'', JNum (rm_default_gateway_id r)),
     (''gateway_uid'', JStr (rm_gateway_uid r)), (''disabled'', JBool (rm_disabled r)),
     (''properties'', null_json (rm_properties r)), (''created_at'', JTime (rm_created_at r)),
     (''updated_at'', null_time (rm_updated_at r)), (''removed_at'', null_time (rm_removed_at r)),
     (''extra'', null_json (rm_extra r)), (''region'', null_string (rm_region r))]"

definition dynamic_config_json :: "dynamic_config \<Rightarrow> json" where
  "dynamic_config_json c = JObj [(''id'', JNum (dc_id c)), (''key'', JStr (dc_key c)),
     (''value'', JStr (dc_value c)), (''updated_at'', JTime (dc_updated_at c))]"

record gateway_dto =
  gd_id :: int
  gd_name :: string
  gd_description :: "string option"
  gd_url :: string
  gd_disabled :: bool
  gd_created_at :: time
  gd_updated_at :: "time option"
  gd_removed_at :: "time option"
  gd_type :: string

definition NewGatewayDTO :: "gateway \<Rightarrow> gateway_dto" where
  "NewGatewayDTO g = \<lparr>gd_id = gw_id g, gd_name = gw_name g, gd_description = gw_description g,
     gd_url = gw_url g, gd_disabled = gw_disabled g, gd_created_at = gw_created_at g,
     gd_updated_at = gw_updated_at g, gd_removed_at = gw_removed_at g, gd_type = gw_type g\<rparr>"

definition gateway_dto_json :: "gateway_dto \<Rightarrow> json" where
  "gateway_dto_json g = JObj [(''id'', JNum (gd_id g)), (''name'', JStr (gd_name g)),
     (''description'', null_string (gd_description g)), (''url'', JStr (gd_url g)),
     (''disabled'', JBool (gd_disabled g)), (''created_at'', JTime (gd_created_at g)),
     (''updated_at'', null_time (gd_updated_at g)), (''removed_at'', null_time (gd_removed_at g)),
     (''type'', JStr (gd_type g))]"

text \<open>\<^verbatim>\<open>GatewaysResponse\<close>, \<^verbatim>\<open>RoomsResponse\<close>, \<^verbatim>\<open>DynamicConfigsResponse\<close>\<close>

definition list_response :: "int \<Rightarrow> json list \<Rightarrow> json" where
  "list_response n js = JObj [(''total'', JNum n), (''data'', JArr js)]"

section \<open>Bodies\<close>

definition time_error :: gerr where "time_error = EText ''Time.UnmarshalJSON''"

definition json_go_time :: "json option \<Rightarrow> gerr + time" where
  "json_go_time j = (case j of None \<Rightarrow> Inr zero_time | Some JNull \<Rightarrow> Inr zero_time
     | Some (JTime t) \<Rightarrow> Inr t
     | Some (JStr s) \<Rightarrow> (case parse_rfc3339 s of None \<Rightarrow> Inl time_error | Some t \<Rightarrow> Inr t)
     | Some _ \<Rightarrow> Inl time_error)"

definition json_raw :: "json option \<Rightarrow> gerr + json option" where
  "json_raw j = Inr (case j of None \<Rightarrow> None | Some JNull \<Rightarrow> None | Some v \<Rightarrow> Some v)"

definition zero_room :: room where
  "zero_room = \<lparr>rm_id = 0, rm_name = [], rm_default_gateway_id = 0, rm_gateway_uid = [],
     rm_disabled = False, rm_properties = None, rm_created_at = zero_time, rm_updated_at = None,
     rm_removed_at = None, rm_extra = None, rm_region = None\<rparr>"

definition decode_room :: "json \<Rightarrow> gerr + room" where
  "decode_room j = (case json_fields j of Inl e \<Rightarrow> Inl e | Inr kvs \<Rightarrow>
     (with_field json_int ''id'' kvs (\<lambda>v r. r\<lparr>rm_id := v\<rparr>) \<circ>
      with_field json_string ''name'' kvs (\<lambda>v r. r\<lparr>rm_name := v\<rparr>) \<circ>
      with_field json_int ''default_gateway_id'' kvs (\<lambda>v r. r\<lparr>rm_default_gateway_id := v\<rparr>) \<circ>
      with_field json_string ''gateway_uid'' kvs (\<lambda>v r. r\<lparr>rm_gateway_uid := v\<rparr>) \<circ>
      with_field json_bool ''disabled'' kvs (\<lambda>v r. r\<lparr>rm_disabled := v\<rparr>) \<circ>
      with_field json_raw ''properties'' kvs (\<lambda>v r. r\<lparr>rm_properties := v\<rparr>) \<circ>
      with_field json_raw ''extra'' kvs (\<lambda>v r. r\<lparr>rm_extra := v\<rparr>) \<circ>
      with_field (json_ptr json_string) ''region'' kvs (\<lambda>v r. r\<lparr>rm_region := v\<rparr>) \<circ>
      with_field json_go_time ''created_at'' kvs (\<lambda>v r. r\<lparr>rm_created_at := v\<rparr>) \<circ>
      with_field (json_ptr json_go_time) ''updated_at'' kvs (\<lambda>v r. r\<lparr>rm_updated_at := v\<rparr>) \<circ>
      with_field (json_ptr json_go_time) ''removed_at'' kvs (\<lambda>v r. r\<lparr>rm_removed_at := v\<rparr>))
       (Inr zero_room))"

definition zero_config :: dynamic_config where
  "zero_config = \<lparr>dc_id = 0, dc_key = [], dc_value = [], dc_updated_at = zero_time\<rparr>"

definition decode_dynamic_config :: "json \<Rightarrow> gerr + dynamic_config" where
  "decode_dynamic_config j = (case json_fields j of Inl e \<Rightarrow> Inl e | Inr kvs \<Rightarrow>
     (with_field json_int ''id'' kvs (\<lambda>v c. c\<lparr>dc_id := v\<rparr>) \<circ>
      with_field json_string ''key'' kvs (\<lambda>v c. c\<lparr>dc_key := v\<rparr>) \<circ>
      with_field json_string ''value'' kvs (\<lambda>v c. c\<lparr>dc_value := v\<rparr>) \<circ>
      with_field json_go_time ''updated_at'' kvs (\<lambda>v c. c\<lparr>dc_updated_at := v\<rparr>)) (Inr zero_config))"

end
