(* ===== verification/Api_Admin.thy ===== *)
theory Api_Admin
  imports Admin_Params
begin

text \<open>
  The handlers of the admin API (\<^verbatim>\<open>api/api_admin.go\<close>): gateways, rooms, room statistics and the
  dynamic configuration.  The fixed settings and the secrets of a request to the videoroom plugin
  are left out of \<^verbatim>\<open>plugin_request\<close>.  \<^verbatim>\<open>requestContext(r).Params\<close> is only logged.
\<close>

section \<open>Lists\<close>

definition empty_page :: response where
  "empty_page = RespondWithJSON 200 (list_response 0 [])"

text \<open>The part the three list handlers share: a count, the page, the rows.\<close>

definition listRows :: "gerr + ('r \<Rightarrow> bool) \<Rightarrow> (string \<Rightarrow> 'r list \<Rightarrow> gerr + 'r list) \<Rightarrow>
    (db \<Rightarrow> 'r list) \<Rightarrow> ('r \<Rightarrow> json) \<Rightarrow> list_params \<Rightarrow> response go" where
  "listRows P ord rows js p =
     orAbort NewInternalError (dbP (count_rows P rows)) (\<lambda>n.
     if n = 0 then returnP empty_page
     else case appendListMods p of (m, _, offset) \<Rightarrow>
       if n \<le> offset then returnP empty_page
       else orAbort NewInternalError (dbP (select_page P ord m rows)) (\<lambda>rs.
         returnP (RespondWithJSON 200 (list_response n (map js rs)))))"

definition malformed :: "string \<Rightarrow> gerr \<Rightarrow> http_error" where
  "malformed m e = NewBadRequestError (Some e) m"

definition AdminListGateways :: handler where
  "AdminListGateways r = requireRole [RoleRoot] r
     (case ParseListParams (rq_query r) of
        Inl e \<Rightarrow> abortP (malformed ''malformed list parameters'' e)
      | Inr p \<Rightarrow> bindP (getsP w_ext) (\<lambda>x.
          listRows (Inr (\<lambda>_. True)) (x_order_gateways x) gateways
            (\<lambda>g. gateway_dto_json (NewGatewayDTO g)) p))"

definition AdminListRooms :: handler where
  "AdminListRooms r = requireRole [RoleRoot] r
     (case ParseListParams (rq_query r) of
        Inl e \<Rightarrow> abortP (malformed ''malformed list parameters'' e)
      | Inr p \<Rightarrow> (case ParseRoomsRequest (rq_query r) of
          Inl e \<Rightarrow> abortP (malformed ''malformed rooms request parameters'' e)
        | Inr q \<Rightarrow> bindP (getsP w_ext) (\<lambda>x.
            listRows (rooms_where x q) (x_order_rooms x) rooms room_json p)))"

definition AdminListDynamicConfigs :: handler where
  "AdminListDynamicConfigs r = requireRole [RoleRoot] r
     (case ParseListParams (rq_query r) of
        Inl e \<Rightarrow> abortP (malformed ''malformed list parameters'' e)
      | Inr p \<Rightarrow> bindP (getsP w_ext) (\<lambda>x.
          listRows (Inr (\<lambda>_. True)) (x_order_configs x) dynamic_configs dynamic_config_json
            (if lp_order_by p = [] then p\<lparr>lp_order_by := ''key asc''\<rparr> else p)))"

section \<open>Gateways\<close>

definition handle_info_error :: "gerr \<Rightarrow> http_error" where
  "handle_info_error e = (if as_admin e = Some 458 \<or> as_admin e = Some 459 then NewNotFoundError
     else NewInternalError (EWrap ''api.HandleInfo'' e))"

definition AdminGatewaysHandleInfo :: handler where
  "AdminGatewaysHandleInfo r = requireRole [RoleAdmin, RoleRoot] r
     (bindP (cacheP (\<lambda>c. GatewayCache_ByName c (var_get r ''gateway_id''))) (\<lambda>g. case g of
        None \<Rightarrow> abortP NewNotFoundError
      | Some gateway \<Rightarrow> (case (parse_uint (var_get r ''session_id''), parse_uint (var_get r ''handle_id'')) of
          ((None, sid), (None, hid)) \<Rightarrow>
            orAbort (\<lambda>e. NewInternalError (EWrap ''init admin api'' e)) (registry_For gateway) (\<lambda>api.
            orAbort handle_info_error (callP api (HandleInfo sid hid)) (\<lambda>info.
            returnP (RespondWithJSON 200 (case info of ARinfo j \<Rightarrow> j | _ \<Rightarrow> JNull))))
        | _ \<Rightarrow> abortP NewNotFoundError)))"

text \<open>The gateways that hold rooms, in the order of the cache.\<close>

definition room_gateways :: "app_cache \<Rightarrow> gateway list" where
  "room_gateways c = filter (\<lambda>g. \<not> gw_disabled g \<and> gw_removed_at g = None \<and>
     gw_type g = GatewayTypeRooms) (GatewayCache_Values c)"

definition messageGateways :: "plugin_request \<Rightarrow> unit go" where
  "messageGateways q =
     bindP (cacheP room_gateways) (\<lambda>gs. foreachP gs (\<lambda>g.
     bindP (wrapP ''Admin API for gateway'' (registry_For g)) (\<lambda>api.
     bindP (wrapP ''api.MessagePlugin [videoroom]'' (callP api (MessagePlugin q))) (\<lambda>_.
     returnP ()))))"

section \<open>Rooms\<close>

text \<open>A failed reload of a cache is logged.\<close>

definition reload_logged :: "unit go \<Rightarrow> unit go" where
  "reload_logged m = tryP m (\<lambda>_. returnP ())"

text \<open>\<^verbatim>\<open>exists, _ := ...Exists(a.DB)\<close>: an error counts as not existing.\<close>

definition existsP :: "(db \<Rightarrow> bool) \<Rightarrow> bool go" where
  "existsP f = tryP (queryP f) (\<lambda>r. case r of Inl e \<Rightarrow> returnP False | Inr b \<Rightarrow> returnP b)"

definition bad_requestP :: "string \<Rightarrow> response go" where
  "bad_requestP m = abortP (NewBadRequestError None m)"

definition bad_name :: "string \<Rightarrow> bool" where
  "bad_name n \<longleftrightarrow> length n = 0 \<or> 64 < length n"

definition name_message :: string where
  "name_message = ''name is missing or longer than 64 characters''"

text \<open>The columns of \<^verbatim>\<open>boil.Whitelist("name", "default_gateway_id", "gateway_uid", "disabled", "region")\<close>.\<close>

definition new_room :: "room \<Rightarrow> room" where
  "new_room d = zero_room\<lparr>rm_name := rm_name d, rm_default_gateway_id := rm_default_gateway_id d,
     rm_gateway_uid := rm_gateway_uid d, rm_disabled := rm_disabled d, rm_region := rm_region d\<rparr>"

text \<open>The transaction: the row, then every gateway.  The id and the creation time come back.\<close>

definition createRoom :: "room \<Rightarrow> room go" where
  "createRoom data =
     bindP nowP (\<lambda>now. bindP (dbP (room_insert now (new_room data))) (\<lambda>row.
     bindP (messageGateways (CreateRoom (rm_gateway_uid data) (rm_name data))) (\<lambda>_.
     returnP (data\<lparr>rm_id := rm_id row, rm_created_at := rm_created_at row\<rparr>))))"

definition storeRoom :: "room \<Rightarrow> response go" where
  "storeRoom data =
     orAbort http_or_internal (InTx (createRoom data)) (\<lambda>data'.
     bindP (reload_logged RoomCache_Reload) (\<lambda>_.
     returnP (RespondWithJSON 201 (room_json data'))))"

text \<open>The checks of a new room, the number it gets when none is asked for, and the write.\<close>

definition addRoom :: "room \<Rightarrow> response go" where
  "addRoom data =
     bindP (cacheP (\<lambda>c. GatewayCache_ByID c (rm_default_gateway_id data))) (\<lambda>g.
     if g = None then bad_requestP ''gateway doesn't exists''
     else bindP (existsP (rooms_exist (\<lambda>x. rm_name x = rm_name data))) (\<lambda>taken.
     if taken then bad_requestP ''room already exists [name]''
     else if bad_name (rm_name data) then bad_requestP name_message
     else if rm_gateway_uid data = ''0'' then
       orAbort (\<lambda>e. NewInternalError (EWrap ''fetch max gateway_uid'' e)) (queryP next_gateway_uid)
         (\<lambda>n. storeRoom (data\<lparr>rm_gateway_uid := itoa n\<rparr>))
     else if snd (atoi (rm_gateway_uid data)) < 0
     then bad_requestP ''gateway_uid must be a positive integer''
     else bindP (cacheP (\<lambda>c. RoomCache_ByGatewayUID c (rm_gateway_uid data))) (\<lambda>known.
       if known \<noteq> None then bad_requestP ''room already exists [gateway_uid]''
       else storeRoom data)))"

definition AdminCreateRoom :: handler where
  "AdminCreateRoom r = requireRole [RoleRoot] r (bodyP decode_room r addRoom)"

text \<open>The row a path names.\<close>

definition findRoomP :: "request \<Rightarrow> (room \<Rightarrow> response go) \<Rightarrow> response go" where
  "findRoomP r f = (case parse_int (var_get r ''id'') of
     (Some _, _) \<Rightarrow> abortP NewNotFoundError
   | (None, i) \<Rightarrow> orAbort not_found_or_internal (oneP (room_find i)) f)"

definition AdminGetRoom :: handler where
  "AdminGetRoom r = requireRole [RoleRoot] r
     (findRoomP r (\<lambda>rm. returnP (RespondWithJSON 200 (room_json rm))))"

definition edit_room :: "room \<Rightarrow> time \<Rightarrow> room \<Rightarrow> room" where
  "edit_room data now rm = rm\<lparr>rm_name := rm_name data,
     rm_default_gateway_id := rm_default_gateway_id data, rm_disabled := rm_disabled data,
     rm_region := rm_region data, rm_updated_at := Some now\<rparr>"

text \<open>
  The gateways are told of a new name only.  The number they are given is the one of the body;
  the row keeps its own.
\<close>

definition updateRoom :: "room \<Rightarrow> room \<Rightarrow> room go" where
  "updateRoom rm data =
     bindP nowP (\<lambda>now.
     bindP (dbP (room_update (rm_id rm) (edit_room data now))) (\<lambda>_.
     bindP (if rm_name rm \<noteq> rm_name data \<and> rm_removed_at rm = None
            then messageGateways (EditRoom (rm_gateway_uid data) (rm_name data))
            else returnP ()) (\<lambda>_.
     returnP (edit_room data now rm))))"

text \<open>\<^verbatim>\<open>data.GatewayUID <= 0\<close> compares the number that the text denotes, as \<^verbatim>\<open>AdminCreateRoom\<close> does.\<close>

definition changeRoom :: "room \<Rightarrow> room \<Rightarrow> response go" where
  "changeRoom rm data =
     (if snd (atoi (rm_gateway_uid data)) \<le> 0
      then bad_requestP ''gateway_uid must be a positive integer''
      else if bad_name (rm_name data) then bad_requestP name_message
      else bindP (cacheP (\<lambda>c. GatewayCache_ByID c (rm_default_gateway_id data))) (\<lambda>g.
      if g = None then bad_requestP ''gateway doesn't exists''
      else bindP (existsP (rooms_exist (\<lambda>x. rm_gateway_uid x = rm_gateway_uid data \<and> rm_id x \<noteq> rm_id rm))) (\<lambda>taken.
      if taken then bad_requestP ''room already exists [gateway_uid]''
      else bindP (existsP (rooms_exist (\<lambda>x. rm_name x = rm_name data \<and> rm_id x \<noteq> rm_id rm))) (\<lambda>taken.
      if taken then bad_requestP ''room already exists [name]''
      else
        orAbort http_or_internal (InTx (updateRoom rm data)) (\<lambda>rm'.
        bindP (reload_logged RoomCache_Reload) (\<lambda>_.
        returnP (RespondWithJSON 200 (room_json rm'))))))))"

definition AdminUpdateRoom :: handler where
  "AdminUpdateRoom r = requireRole [RoleRoot] r
     (findRoomP r (\<lambda>rm. bodyP decode_room r (changeRoom rm)))"

definition deleteRoom :: "room \<Rightarrow> unit go" where
  "deleteRoom rm =
     bindP nowP (\<lambda>now.
     bindP (tryP (dbP (room_update (rm_id rm) (\<lambda>x. x\<lparr>rm_removed_at := Some now\<rparr>))) (\<lambda>u. case u of
         Inl e \<Rightarrow> errP (http_err (NewInternalError e)) | Inr _ \<Rightarrow> returnP ())) (\<lambda>_.
     messageGateways (DestroyRoom (rm_gateway_uid rm))))"

definition AdminDeleteRoom :: handler where
  "AdminDeleteRoom r = requireRole [RoleRoot] r
     (findRoomP r (\<lambda>rm.
      orAbort http_or_internal (InTx (deleteRoom rm)) (\<lambda>_.
      bindP (reload_logged RoomCache_Reload) (\<lambda>_.
      returnP RespondSuccess))))"

definition AdminDeleteRoomsStatistics :: handler where
  "AdminDeleteRoomsStatistics r = requireRole [RoleShidur, RoleRoot] r
     (orAbort NewInternalError ResetStats (\<lambda>_. returnP RespondSuccess))"

section \<open>Dynamic configuration\<close>

definition bad_key :: "string \<Rightarrow> bool" where
  "bad_key k \<longleftrightarrow> length k = 0 \<or> 255 < length k"

definition key_message :: string where
  "key_message = ''key is missing or longer than 255 characters''"

text \<open>The checks of a body that names a key: both texts present, the key not in use.\<close>

definition checkedConfig :: "dynamic_config \<Rightarrow> response go \<Rightarrow> response go" where
  "checkedConfig data m =
     (if bad_key (dc_key data) then bad_requestP key_message
      else if length (dc_value data) = 0 then bad_requestP ''value is missing''
      else bindP (existsP (dynamic_config_exists (dc_key data))) (\<lambda>taken.
        if taken then bad_requestP ''key already exists'' else m))"

text \<open>A write in a transaction, the reload of the cache, and the answer.\<close>

definition writeConfig :: "'a go \<Rightarrow> ('a \<Rightarrow> response) \<Rightarrow> response go" where
  "writeConfig m f =
     orAbort http_or_internal (InTx m) (\<lambda>x.
     bindP (reload_logged DynamicConfigCache_Reload) (\<lambda>_. returnP (f x)))"

definition AdminCreateDynamicConfig :: handler where
  "AdminCreateDynamicConfig r = requireRole [RoleRoot] r
     (bodyP decode_dynamic_config r (\<lambda>data.
      checkedConfig data
        (writeConfig
          (bindP nowP (\<lambda>now.
           bindP (dbP (dynamic_config_insert (data\<lparr>dc_updated_at := now\<rparr>))) (\<lambda>row.
           returnP (data\<lparr>dc_id := dc_id row, dc_updated_at := now\<rparr>))))
          (\<lambda>c. RespondWithJSON 201 (dynamic_config_json c)))))"

definition findConfigP :: "request \<Rightarrow> (dynamic_config \<Rightarrow> response go) \<Rightarrow> response go" where
  "findConfigP r f = (case parse_int (var_get r ''id'') of
     (Some _, _) \<Rightarrow> abortP NewNotFoundError
   | (None, i) \<Rightarrow> orAbort not_found_or_internal (oneP (dynamic_config_find i)) f)"

definition AdminGetDynamicConfig :: handler where
  "AdminGetDynamicConfig r = requireRole [RoleRoot] r
     (findConfigP r (\<lambda>kv. returnP (RespondWithJSON 200 (dynamic_config_json kv))))"

definition AdminUpdateDynamicConfig :: handler where
  "AdminUpdateDynamicConfig r = requireRole [RoleRoot] r
     (findConfigP r (\<lambda>kv. bodyP decode_dynamic_config r (\<lambda>data.
      checkedConfig data
        (writeConfig
          (bindP nowP (\<lambda>now.
           let edit = (\<lambda>c. c\<lparr>dc_key := dc_key data, dc_value := dc_value data, dc_updated_at := now\<rparr>) in
           bindP (dbP (dynamic_config_update (dc_id kv) edit)) (\<lambda>_. returnP (edit kv))))
          (\<lambda>c. RespondWithJSON 200 (dynamic_config_json c))))))"

text \<open>The handler writes through the pointer it got from the cache, before the row.\<close>

definition setConfig :: "string \<Rightarrow> dynamic_config \<Rightarrow> string \<Rightarrow> unit go" where
  "setConfig key kv v =
     bindP nowP (\<lambda>now.
     let edit = (\<lambda>c. c\<lparr>dc_value := v, dc_updated_at := now\<rparr>) in
     bindP (set_cacheP (\<lambda>c. c\<lparr>c_dynamic := AList.update key (edit kv) (c_dynamic c)\<rparr>)) (\<lambda>_.
     bindP (dbP (dynamic_config_update (dc_id kv) edit)) (\<lambda>_. returnP ())))"

definition AdminSetDynamicConfig :: handler where
  "AdminSetDynamicConfig r = requireRole [RoleRoot] r
     (let key = var_get r ''key'' in
      bindP (cacheP (\<lambda>c. DynamicConfigCache_ByKey c key)) (\<lambda>hit. case hit of
        None \<Rightarrow> abortP NewNotFoundError
      | Some kv \<Rightarrow>
          bodyP decode_dynamic_config r (\<lambda>data.
          if length (dc_value data) = 0 then bad_requestP ''value is missing''
          else writeConfig (setConfig key kv (dc_value data)) (\<lambda>_. RespondSuccess))))"

definition AdminDeleteDynamicConfig :: handler where
  "AdminDeleteDynamicConfig r = requireRole [RoleRoot] r
     (findConfigP r (\<lambda>kv.
      writeConfig
        (tryP (dbP (dynamic_config_delete (dc_id kv))) (\<lambda>u. case u of
           Inl e \<Rightarrow> errP (http_err (NewInternalError e)) | Inr _ \<Rightarrow> returnP ()))
        (\<lambda>_. RespondSuccess)))"

end
