(* ===== verification/Api_Types.thy ===== *)
theory Api_Types
  imports Api_Admin "HOL-Library.List_Lexorder" "HOL-Library.Char_ord"
begin

text \<open>
  The values the client API exchanges (\<^verbatim>\<open>api/types.go\<close>) as JSON, the rows that come with their
  relations (\<^verbatim>\<open>qm.Load\<close>, the \<^verbatim>\<open>LoadX\<close> methods of \<^verbatim>\<open>models\<close>), and the conversion of rows
  into answers (\<^verbatim>\<open>makeV1User\<close>, \<^verbatim>\<open>makeV1Room\<close>, \<^verbatim>\<open>makeV1Composite\<close> of \<^verbatim>\<open>api/api_v1.go\<close>).  A
  relation that found no row is a nil pointer, \<^verbatim>\<open>None\<close>; following it panics.
\<close>

section \<open>Rooms and composites of the API\<close>

record v1_room =
  vr_room :: string
  vr_janus :: string
  vr_description :: string
  vr_questions :: bool
  vr_num_users :: int
  vr_users :: "v1_user option list option"
  vr_region :: string
  vr_extra :: json
  vr_first_session :: time

record v1_composite_room =
  vc_room :: v1_room
  vc_position :: int

record v1_composite =
  vc_vquad :: "v1_composite_room option list"

definition json_list :: "(json \<Rightarrow> gerr + 'a) \<Rightarrow> json option \<Rightarrow> gerr + 'a list option" where
  "json_list dec j = (case j of None \<Rightarrow> Inr None | Some JNull \<Rightarrow> Inr None
     | Some (JArr js) \<Rightarrow> (case json_all dec js of Inl e \<Rightarrow> Inl e | Inr xs \<Rightarrow> Inr (Some xs))
     | Some _ \<Rightarrow> Inl type_error)"

definition zero_v1_room :: v1_room where
  "zero_v1_room = \<lparr>vr_room = [], vr_janus = [], vr_description = [], vr_questions = False,
     vr_num_users = 0, vr_users = None, vr_region = [], vr_extra = JNull, vr_first_session = zero_time\<rparr>"

definition v1_room_fields :: "(string \<times> json) list \<Rightarrow> gerr + v1_room" where
  "v1_room_fields kvs =
     (with_field json_string ''room'' kvs (\<lambda>v r. r\<lparr>vr_room := v\<rparr>) \<circ>
      with_field json_string ''janus'' kvs (\<lambda>v r. r\<lparr>vr_janus := v\<rparr>) \<circ>
      with_field json_string ''description'' kvs (\<lambda>v r. r\<lparr>vr_description := v\<rparr>) \<circ>
      with_field json_bool ''questions'' kvs (\<lambda>v r. r\<lparr>vr_questions := v\<rparr>) \<circ>
      with_field json_int ''num_users'' kvs (\<lambda>v r. r\<lparr>vr_num_users := v\<rparr>) \<circ>
      with_field (json_list (decode_ptr decode_v1_user)) ''users'' kvs (\<lambda>v r. r\<lparr>vr_users := v\<rparr>) \<circ>
      with_field json_string ''region'' kvs (\<lambda>v r. r\<lparr>vr_region := v\<rparr>) \<circ>
      with_field json_map ''extra'' kvs (\<lambda>v r. r\<lparr>vr_extra := v\<rparr>)) (Inr zero_v1_room)"

definition decode_v1_room :: "json \<Rightarrow> gerr + v1_room" where
  "decode_v1_room j = (case json_fields j of Inl e \<Rightarrow> Inl e | Inr kvs \<Rightarrow> v1_room_fields kvs)"

definition decode_composite_room :: "json \<Rightarrow> gerr + v1_composite_room" where
  "decode_composite_room j = (case json_fields j of Inl e \<Rightarrow> Inl e | Inr kvs \<Rightarrow>
     (case (v1_room_fields kvs, json_int (jfield ''queue'' kvs)) of
        (Inr r, Inr p) \<Rightarrow> Inr \<lparr>vc_room = r, vc_position = p\<rparr> | _ \<Rightarrow> Inl type_error))"

definition decode_v1_composite :: "json \<Rightarrow> gerr + v1_composite" where
  "decode_v1_composite j = (case json_fields j of Inl e \<Rightarrow> Inl e | Inr kvs \<Rightarrow>
     (case json_list (decode_ptr decode_composite_room) (jfield ''vquad'' kvs) of
        Inl e \<Rightarrow> Inl e
      | Inr None \<Rightarrow> Inr \<lparr>vc_vquad = []\<rparr> | Inr (Some xs) \<Rightarrow> Inr \<lparr>vc_vquad = xs\<rparr>))"

definition decode_room_info :: "json \<Rightarrow> gerr + v1_room" where
  "decode_room_info j = (case json_fields j of Inl e \<Rightarrow> Inl e | Inr kvs \<Rightarrow>
     (with_field json_string ''room'' kvs (\<lambda>v r. r\<lparr>vr_room := v\<rparr>) \<circ>
      with_field json_string ''janus'' kvs (\<lambda>v r. r\<lparr>vr_janus := v\<rparr>) \<circ>
      with_field json_string ''description'' kvs (\<lambda>v r. r\<lparr>vr_description := v\<rparr>)) (Inr zero_v1_room))"

definition v1_user_json :: "v1_user \<Rightarrow> json" where
  "v1_user_json u = JObj [(''id'', JStr (vu_id u)), (''display'', JStr (vu_display u)),
     (''email'', JStr (vu_email u)), (''group'', JStr (vu_group u)), (''ip'', JStr (vu_ip u)),
     (''janus'', JStr (vu_janus u)), (''name'', JStr (vu_name u)), (''role'', JStr (vu_role u)),
     (''system'', JStr (vu_system u)), (''username'', JStr (vu_username u)),
     (''room'', JStr (vu_room u)), (''timestamp'', JNum (vu_timestamp u)),
     (''session'', JNum (vu_session u)), (''handle'', JNum (vu_handle u)),
     (''rfid'', JStr (vu_rfid u)), (''textroom_handle'', JNum (vu_textroom_handle u)),
     (''camera'', JBool (vu_camera u)), (''question'', JBool (vu_question u)),
     (''self_test'', JBool (vu_self_test u)), (''sound_test'', JBool (vu_sound_test u)),
     (''extra'', vu_extra u)]"

definition ptr_json :: "('a \<Rightarrow> json) \<Rightarrow> 'a option \<Rightarrow> json" where
  "ptr_json f x = (case x of None \<Rightarrow> JNull | Some y \<Rightarrow> f y)"

definition v1_room_members :: "v1_room \<Rightarrow> (string \<times> json) list" where
  "v1_room_members r = [(''room'', JStr (vr_room r)), (''janus'', JStr (vr_janus r)),
     (''description'', JStr (vr_description r)), (''questions'', JBool (vr_questions r)),
     (''num_users'', JNum (vr_num_users r)),
     (''users'', ptr_json (\<lambda>us. JArr (map (ptr_json v1_user_json) us)) (vr_users r)),
     (''region'', JStr (vr_region r)), (''extra'', vr_extra r)]"

definition v1_room_json :: "v1_room \<Rightarrow> json" where
  "v1_room_json r = JObj (v1_room_members r)"

definition v1_composite_json :: "v1_composite \<Rightarrow> json" where
  "v1_composite_json c = JObj [(''vquad'', JArr (map (ptr_json (\<lambda>x.
     JObj (v1_room_members (vc_room x) @ [(''queue'', JNum (vc_position x))]))) (vc_vquad c)))]"

section \<open>Rows with their relations\<close>

type_synonym loaded_session = "session \<times> user option"
type_synonym loaded_room = "room \<times> loaded_session list"

text \<open>\<^verbatim>\<open>sessions.room_id in (...)\<close>, open ones; the order is the table's or the creation time.\<close>

definition sessions_in :: "bool \<Rightarrow> int list \<Rightarrow> db \<Rightarrow> session list" where
  "sessions_in ordered ids d =
     (let ss = filter (\<lambda>s. ss_removed_at s = None \<and>
           (case ss_room_id s of None \<Rightarrow> False | Some i \<Rightarrow> i \<in> set ids)) (sessions d)
      in if ordered then sort_key ss_created_at ss else ss)"

definition user_find :: "int \<Rightarrow> user list \<Rightarrow> user option" where
  "user_find i us = find (\<lambda>u. us_id u = i) us"

text \<open>A relation is loaded by one more query, when there is a row to load it for.\<close>

definition loadP :: "bool \<Rightarrow> (db \<Rightarrow> 'a list) \<Rightarrow> 'a list go" where
  "loadP needed f = (if needed then queryP f else returnP [])"

definition loadUsersP :: "session list \<Rightarrow> loaded_session list go" where
  "loadUsersP ss = bindP (loadP (ss \<noteq> []) users) (\<lambda>us.
     returnP (map (\<lambda>s. (s, user_find (ss_user_id s) us)) ss))"

text \<open>
  \<^verbatim>\<open>qm.Load(Sessions)\<close>, \<^verbatim>\<open>qm.Load(Sessions.User)\<close> and, for \<^verbatim>\<open>gw\<close>, \<^verbatim>\<open>qm.Load(Sessions.Gateway)\<close>,
  whose rows no caller reads.
\<close>

definition loadSessionsP :: "bool \<Rightarrow> bool \<Rightarrow> room list \<Rightarrow> loaded_room list go" where
  "loadSessionsP ordered gw rs =
     bindP (loadP (rs \<noteq> []) (sessions_in ordered (map rm_id rs))) (\<lambda>ss.
     bindP (loadUsersP ss) (\<lambda>ls.
     bindP (loadP (gw \<and> list_ex (\<lambda>s. ss_gateway_id s \<noteq> None) ss) gateways) (\<lambda>_.
     returnP (map (\<lambda>r. (r, filter (\<lambda>l. ss_room_id (fst l) = Some (rm_id r)) ls)) rs))))"

section \<open>Answers from rows\<close>

text \<open>\<^verbatim>\<open>_ = json.Unmarshal(extra, &m)\<close> into a nil map: only an object arrives.\<close>

definition extra_map :: "json option \<Rightarrow> json" where
  "extra_map j = (case j of Some (JObj kvs) \<Rightarrow> JObj kvs | _ \<Rightarrow> JNull)"

definition or_empty :: "string option \<Rightarrow> string" where
  "or_empty s = (case s of None \<Rightarrow> [] | Some x \<Rightarrow> x)"

definition or_zero :: "int option \<Rightarrow> int" where
  "or_zero n = (case n of None \<Rightarrow> 0 | Some x \<Rightarrow> x)"

definition v1_user_of :: "user \<Rightarrow> room \<Rightarrow> session \<Rightarrow> v1_user" where
  "v1_user_of u rm s = \<lparr>vu_id = us_accounts_id u, vu_display = or_empty (ss_display s),
     vu_email = or_empty (us_email u), vu_group = rm_name rm, vu_ip = or_empty (ss_ip_address s),
     vu_janus = [], vu_name = [], vu_role = ''user'', vu_system = or_empty (ss_user_agent s),
     vu_username = or_empty (us_username u), vu_room = rm_gateway_uid rm,
     vu_timestamp = unix_seconds (ss_created_at s), vu_session = or_zero (ss_gateway_session s),
     vu_handle = or_zero (ss_gateway_handle s), vu_rfid = or_empty (ss_gateway_feed s),
     vu_textroom_handle = or_zero (ss_gateway_handle_textroom s), vu_camera = ss_camera s,
     vu_question = ss_question s, vu_self_test = ss_self_test s, vu_sound_test = ss_sound_test s,
     vu_extra = extra_map (ss_extra s)\<rparr>"

definition makeV1User :: "room option \<Rightarrow> loaded_session \<Rightarrow> v1_user go" where
  "makeV1User room l = (case (room, l) of
     (Some rm, (s, Some u)) \<Rightarrow>
       (case ss_gateway_id s of
          None \<Rightarrow> returnP (v1_user_of u rm s)
        | Some i \<Rightarrow>
            bindP (cacheP (\<lambda>c. GatewayCache_ByID c i)) (\<lambda>g. case g of
              None \<Rightarrow> panicP nil_deref
            | Some gateway \<Rightarrow> returnP ((v1_user_of u rm s)\<lparr>vu_janus := gw_name gateway\<rparr>)))
   | _ \<Rightarrow> panicP nil_deref)"

fun makeV1Users :: "room \<Rightarrow> loaded_session list \<Rightarrow> v1_user list go" where
  "makeV1Users rm [] = returnP []"
| "makeV1Users rm (l # ls) = bindP (makeV1User (Some rm) l) (\<lambda>u.
     bindP (makeV1Users rm ls) (\<lambda>us. returnP (u # us)))"

definition activity :: "session \<Rightarrow> time" where
  "activity s = (case ss_updated_at s of Some t \<Rightarrow> t | None \<Rightarrow> ss_created_at s)"

text \<open>The most active session of each user, under the user's id.\<close>

definition most_active_step ::
    "loaded_session \<Rightarrow> (int, loaded_session) gomap \<Rightarrow> (int, loaded_session) gomap" where
  "most_active_step l m = (case map_of m (ss_user_id (fst l)) of
     None \<Rightarrow> AList.update (ss_user_id (fst l)) l m
   | Some old \<Rightarrow> if activity (fst old) < activity (fst l)
       then AList.update (ss_user_id (fst l)) l m else m)"

definition most_active :: "loaded_session list \<Rightarrow> (int, loaded_session) gomap" where
  "most_active ls = fold most_active_step ls []"

definition first_session :: "session list \<Rightarrow> time" where
  "first_session ss = fold (\<lambda>s f. if f = zero_time \<or> ss_created_at s < f then ss_created_at s else f)
     ss zero_time"

definition makeV1Room :: "room option \<Rightarrow> gateway option \<Rightarrow> loaded_session list \<Rightarrow> v1_room go" where
  "makeV1Room room gateway ls = (case room of
     None \<Rightarrow> panicP nil_deref
   | Some rm \<Rightarrow>
       bindP (cacheP (\<lambda>c. case gateway of Some g \<Rightarrow> Some g
                         | None \<Rightarrow> GatewayCache_ByID c (rm_default_gateway_id rm))) (\<lambda>gw.
       case gw of
         None \<Rightarrow> panicP nil_deref
       | Some g \<Rightarrow>
           let best = mvalues (most_active ls);
               resp = zero_v1_room\<lparr>vr_room := rm_gateway_uid rm, vr_janus := gw_name g,
                 vr_description := rm_name rm, vr_region := or_empty (rm_region rm),
                 vr_extra := extra_map (rm_extra rm)\<rparr> in
           if ls = [] then returnP resp
           else bindP (makeV1Users rm best) (\<lambda>us.
             returnP (resp\<lparr>vr_num_users := int (length best), vr_users := Some (map Some us),
               vr_questions := list_ex (\<lambda>l. ss_question (fst l)) best,
               vr_first_session := first_session (map fst best)\<rparr>))))"

end
