(* ===== verification/Api_V1.thy ===== *)
theory Api_V1
  imports Api_Types
begin

text \<open>
  The handlers of the client API (\<^verbatim>\<open>api/api_v1.go\<close>, \<^verbatim>\<open>api/api_v2.go\<close>).  The order of a Go map
  is open; the lists here follow the association lists, and an object of the answer has its
  members in that order.  The parsers of \<^verbatim>\<open>janus-go\<close> for events and text room messages are
  arguments.
\<close>

section \<open>Groups\<close>

text \<open>
  \<^verbatim>\<open>select room_id, count(distinct user_id) ... group by room_id\<close>; a null \<^verbatim>\<open>room_id\<close> cannot be
  scanned into an \<^verbatim>\<open>int64\<close>.
\<close>

definition room_counts :: "db \<Rightarrow> (int, int) gomap" where
  "room_counts d = (let open_ss = filter (\<lambda>s. ss_removed_at s = None) (sessions d) in
     map (\<lambda>i. (i, int (card (ss_user_id ` set (filter (\<lambda>s. ss_room_id s = Some i) open_ss)))))
       (remdups (map (\<lambda>s. the (ss_room_id s)) (filter (\<lambda>s. ss_room_id s \<noteq> None) open_ss))))"

definition null_room :: "db \<Rightarrow> bool" where
  "null_room d \<longleftrightarrow> list_ex (\<lambda>s. ss_removed_at s = None \<and> ss_room_id s = None) (sessions d)"

definition roomCountsP :: "request \<Rightarrow> ((int, int) gomap) go" where
  "roomCountsP r = (if query_get (rq_query r) ''with_num_users'' = ''true''
     then bindP (queryP (\<lambda>d. (null_room d, room_counts d))) (\<lambda>(bad, counts).
       if bad then errP (EText ''sql: Scan error'') else returnP counts)
     else returnP [])"

text \<open>A room whose gateway the cache does not know leaves a nil entry.\<close>

definition group_info :: "app_cache \<Rightarrow> (int, int) gomap \<Rightarrow> room \<Rightarrow> v1_room option" where
  "group_info c counts rm = (case GatewayCache_ByID c (rm_default_gateway_id rm) of
     None \<Rightarrow> None
   | Some g \<Rightarrow> Some (zero_v1_room\<lparr>vr_room := rm_gateway_uid rm, vr_janus := gw_name g,
       vr_description := rm_name rm, vr_num_users := or_zero (map_of counts (rm_id rm))\<rparr>))"

text \<open>\<^verbatim>\<open>sort.SliceStable\<close> compares every entry once there are two.\<close>

definition sort_infos :: "v1_room option list \<Rightarrow> v1_room option list res" where
  "sort_infos is = (if 2 \<le> length is \<and> None \<in> set is then Panic nil_deref
     else Ok (sort_key (\<lambda>i. case i of None \<Rightarrow> [] | Some v \<Rightarrow> vr_description v) is))"

definition V1ListGroups :: handler where
  "V1ListGroups r =
     orAbort NewInternalError (roomCountsP r) (\<lambda>counts.
     bindP (cacheP (\<lambda>c. map (group_info c counts) (RoomCache_Values c))) (\<lambda>infos.
     bindP (resP (sort_infos infos)) (\<lambda>sorted.
     returnP (RespondWithJSON 200 (JObj [(''rooms'', JArr (map (ptr_json v1_room_json) sorted))])))))"

text \<open>The cache is written inside the transaction.\<close>

definition upsertGroup :: "room \<Rightarrow> unit go" where
  "upsertGroup rm =
     bindP nowP (\<lambda>now. bindP (dbP (room_upsert now rm)) (\<lambda>row.
     set_cacheP (RoomCache_Set row)))"

definition V1CreateGroup :: handler where
  "V1CreateGroup r = requireRole [RoleRoot] r
     (case atoi (var_get r ''id'') of
        (Some e, _) \<Rightarrow> abortP (malformed ''malformed id'' (num_err e))
      | (None, i) \<Rightarrow>
          bodyP decode_room_info r (\<lambda>data.
          bindP (cacheP (\<lambda>c. GatewayCache_ByName c (vr_janus data))) (\<lambda>g. case g of
            None \<Rightarrow> bad_requestP (''unknown gateway '' @ vr_janus data)
          | Some gateway \<Rightarrow>
              orAbort NewInternalError
                (InTx (upsertGroup (zero_room\<lparr>rm_name := vr_description data,
                   rm_default_gateway_id := gw_id gateway, rm_gateway_uid := itoa i\<rparr>))) (\<lambda>_.
              returnP RespondSuccess))))"

section \<open>Rooms\<close>

fun makeV1Rooms :: "loaded_room list \<Rightarrow> v1_room list go" where
  "makeV1Rooms [] = returnP []"
| "makeV1Rooms ((rm, ls) # rs) =
     (if ls = [] then makeV1Rooms rs
      else bindP (makeV1Room (Some rm) None ls) (\<lambda>v. bindP (makeV1Rooms rs) (\<lambda>vs.
        returnP (v # vs))))"

definition V1ListRooms :: handler where
  "V1ListRooms r =
     orAbort NewInternalError (bindP (queryP rooms_active) (loadSessionsP False False)) (\<lambda>lrs.
     bindP (makeV1Rooms lrs) (\<lambda>vs.
     returnP (RespondWithJSON 200 (JArr (map v1_room_json (sort_key vr_first_session vs))))))"

definition active_room_find :: "int \<Rightarrow> db \<Rightarrow> room option" where
  "active_room_find i d = find (\<lambda>rm. rm_id rm = i) (rooms_active d)"

definition V1GetRoom :: handler where
  "V1GetRoom r =
     (case map_of (rq_vars r) ''id'' of
        None \<Rightarrow> bad_requestP ''malformed id''
      | Some i \<Rightarrow> bindP (cacheP (\<lambda>c. RoomCache_ByGatewayUID c i)) (\<lambda>hit. case hit of
          None \<Rightarrow> abortP NewNotFoundError
        | Some cached \<Rightarrow>
            orAbort not_found_or_internal (bindP (oneP (active_room_find (rm_id cached))) (\<lambda>rm.
              loadSessionsP True True [rm])) (\<lambda>lrs.
            case lrs of
              (rm, ls) # _ \<Rightarrow> bindP (makeV1Room (Some rm) None ls) (\<lambda>v.
                returnP (RespondWithJSON 200 (v1_room_json v)))
            | [] \<Rightarrow> panicP nil_deref)))"

text \<open>The handler sets \<^verbatim>\<open>Extra\<close> of the room in the cache, then of the row.\<close>

definition set_cached_extra :: "string \<Rightarrow> json \<Rightarrow> app_cache \<Rightarrow> app_cache" where
  "set_cached_extra i x c = (case map_of (c_rooms c) i of None \<Rightarrow> c
     | Some rm \<Rightarrow> c\<lparr>c_rooms := AList.update i (rm\<lparr>rm_extra := Some x\<rparr>) (c_rooms c)\<rparr>)"

definition V1UpdateRoom :: handler where
  "V1UpdateRoom r = requireRole [RoleShidur] r
     (case map_of (rq_vars r) ''id'' of
        None \<Rightarrow> bad_requestP ''malformed id''
      | Some i \<Rightarrow> bindP (cacheP (\<lambda>c. RoomCache_ByGatewayUID c i)) (\<lambda>hit. case hit of
          None \<Rightarrow> abortP NewNotFoundError
        | Some rm \<Rightarrow>
            bodyP (decode_ptr decode_v1_room) r (\<lambda>body. case body of
              None \<Rightarrow> panicP nil_deref
            | Some data \<Rightarrow>
                bindP (set_cacheP (set_cached_extra i (vr_extra data))) (\<lambda>_.
                orAbort http_or_internal
                  (InTx (bindP (dbP (room_update (rm_id rm) (\<lambda>x. x\<lparr>rm_extra := Some (vr_extra data)\<rparr>)))
                     (\<lambda>_. returnP ()))) (\<lambda>_.
                returnP RespondSuccess)))))"

section \<open>Users\<close>

definition open_sessions_all :: "db \<Rightarrow> session list" where
  "open_sessions_all d = filter (\<lambda>s. ss_removed_at s = None) (sessions d)"

text \<open>Sessions with their user and their room.\<close>

definition loadRoomsP :: "session list \<Rightarrow> (loaded_session \<times> room option) list go" where
  "loadRoomsP ss =
     bindP (loadUsersP ss) (\<lambda>ls.
     bindP (loadP (list_ex (\<lambda>s. ss_room_id s \<noteq> None) ss) rooms) (\<lambda>rs.
     returnP (map (\<lambda>l. (l, case ss_room_id (fst l) of None \<Rightarrow> None
       | Some i \<Rightarrow> find (\<lambda>rm. rm_id rm = i) rs)) ls)))"

fun usersByAccount :: "(loaded_session \<times> room option) list \<Rightarrow> (string, v1_user) gomap \<Rightarrow>
    ((string, v1_user) gomap) go" where
  "usersByAccount [] m = returnP m"
| "usersByAccount ((l, rm) # ls) m = bindP (makeV1User rm l) (\<lambda>u.
     usersByAccount ls (AList.update (vu_id u) u m))"

definition V1ListUsers :: handler where
  "V1ListUsers r =
     orAbort NewInternalError (bindP (queryP open_sessions_all) loadRoomsP) (\<lambda>ls.
     bindP (usersByAccount ls []) (\<lambda>m.
     returnP (RespondWithJSON 200 (JObj (map (\<lambda>(k, u). (k, v1_user_json u)) m)))))"

definition active_user_id :: "string \<Rightarrow> db \<Rightarrow> int option" where
  "active_user_id a d = map_option us_id
     (find (\<lambda>u. us_accounts_id u = a \<and> \<not> us_disabled u \<and> us_removed_at u = None) (users d))"

text \<open>\<^verbatim>\<open>order by updated_at desc\<close> puts nulls first.\<close>

definition last_session :: "int \<Rightarrow> db \<Rightarrow> session option" where
  "last_session uid d =
     (let ss = filter (open_of uid) (sessions d) in
      case find (\<lambda>s. ss_updated_at s = None) ss of
        Some s \<Rightarrow> Some s
      | None \<Rightarrow> (case sort_key (\<lambda>s. - (case ss_updated_at s of None \<Rightarrow> 0 | Some t \<Rightarrow> t)) ss of
          [] \<Rightarrow> None | s # _ \<Rightarrow> Some s))"

definition V1GetUser :: handler where
  "V1GetUser r = (let i = var_get r ''id'' in
     if 36 < length i then bad_requestP ''malformed id''
     else
       orAbort not_found_or_internal (oneP (active_user_id i)) (\<lambda>uid.
       orAbort not_found_or_internal (bindP (oneP (last_session uid)) (\<lambda>s. loadRoomsP [s])) (\<lambda>ls.
       case ls of
         (l, rm) # _ \<Rightarrow> bindP (makeV1User rm l) (\<lambda>u. returnP (RespondWithJSON 200 (v1_user_json u)))
       | [] \<Rightarrow> panicP nil_deref)))"

text \<open>A body \<^verbatim>\<open>null\<close> is a nil user, which the transaction trips over.\<close>

definition V1UpdateSession :: handler where
  "V1UpdateSession r = (let i = var_get r ''id'' in
     if 36 < length i then bad_requestP ''malformed id''
     else
       bodyP (decode_ptr decode_v1_user) r (\<lambda>body.
       orAbort (protocol_or_internal ''protocol error'')
         (case body of None \<Rightarrow> InTx (panicP nil_deref) | Some u \<Rightarrow> UpsertSession u) (\<lambda>_.
       bindP (cacheP DynamicConfigCache_LastModified) (\<lambda>t.
       returnP (RespondWithJSON 200 (JObj [(''result'', JStr ''success''),
         (''config_last_modified'', JTime t)]))))))"

section \<open>Composites\<close>

type_synonym loaded_composite_room = "composites_room \<times> loaded_room option"
type_synonym loaded_composite = "composite \<times> loaded_composite_room list"

definition composites_rooms_of :: "bool \<Rightarrow> int list \<Rightarrow> db \<Rightarrow> composites_room list" where
  "composites_rooms_of ordered ids d =
     (let cs = filter (\<lambda>c. cr_composite_id c \<in> set ids) (composites_rooms d)
      in if ordered then sort_key cr_position cs else cs)"

definition rooms_of :: "int list \<Rightarrow> db \<Rightarrow> room list" where
  "rooms_of ids d = filter (\<lambda>rm. rm_id rm \<in> set ids) (rooms_active d)"

definition loadCompositesP :: "bool \<Rightarrow> composite list \<Rightarrow> loaded_composite list go" where
  "loadCompositesP ordered cs =
     bindP (loadP (cs \<noteq> []) (composites_rooms_of ordered (map cp_id cs))) (\<lambda>crs.
     bindP (loadP (crs \<noteq> []) (rooms_of (map cr_room_id crs))) (\<lambda>rs.
     bindP (loadSessionsP True True rs) (\<lambda>lrs.
     returnP (map (\<lambda>c. (c, map (\<lambda>cr. (cr, find (\<lambda>l. rm_id (fst l) = cr_room_id cr) lrs))
       (filter (\<lambda>cr. cr_composite_id cr = cp_id c) crs))) cs))))"

fun makeV1CompositeRooms :: "loaded_composite_room list \<Rightarrow> v1_composite_room list go" where
  "makeV1CompositeRooms [] = returnP []"
| "makeV1CompositeRooms ((cr, lr) # crs) =
     bindP (cacheP (\<lambda>c. GatewayCache_ByID c (cr_gateway_id cr))) (\<lambda>gateway.
     bindP (makeV1Room (map_option fst lr) gateway (case lr of None \<Rightarrow> [] | Some (_, ls) \<Rightarrow> ls)) (\<lambda>v.
     bindP (makeV1CompositeRooms crs) (\<lambda>vs.
     returnP (\<lparr>vc_room = v, vc_position = cr_position cr\<rparr> # vs))))"

definition makeV1Composite :: "loaded_composite \<Rightarrow> v1_composite go" where
  "makeV1Composite c = bindP (makeV1CompositeRooms (snd c)) (\<lambda>vs.
     returnP \<lparr>vc_vquad = map Some vs\<rparr>)"

fun makeV1Composites :: "loaded_composite list \<Rightarrow> (string, v1_composite) gomap go" where
  "makeV1Composites [] = returnP []"
| "makeV1Composites (c # cs) = bindP (makeV1Composite c) (\<lambda>v. bindP (makeV1Composites cs) (\<lambda>m.
     returnP ((cp_name (fst c), v) # m)))"

definition V1ListComposites :: handler where
  "V1ListComposites r =
     orAbort NewInternalError (bindP (queryP composites) (loadCompositesP True)) (\<lambda>cs.
     bindP (makeV1Composites cs) (\<lambda>m.
     returnP (RespondWithJSON 200 (JObj (map (\<lambda>(k, v). (k, v1_composite_json v)) m)))))"

definition V1GetComposite :: handler where
  "V1GetComposite r = (let i = var_get r ''id'' in
     if 16 < length i then bad_requestP ''malformed id''
     else
       orAbort not_found_or_internal (bindP (oneP (composite_by_name i)) (\<lambda>c. loadCompositesP False [c]))
       (\<lambda>cs. case cs of
          c # _ \<Rightarrow> bindP (makeV1Composite c) (\<lambda>v. returnP (RespondWithJSON 200 (v1_composite_json v)))
        | [] \<Rightarrow> panicP nil_deref))"

text \<open>
  The rows of the new composite, in order, positions counted from \<^verbatim>\<open>i\<close>; a null item stays a nil
  pointer.
\<close>

fun compositeRows :: "app_cache \<Rightarrow> int \<Rightarrow> v1_composite_room option list \<Rightarrow>
    http_error + composites_room option list" where
  "compositeRows c i [] = Inr []"
| "compositeRows c i (None # items) = (case compositeRows c (i + 1) items of
     Inl h \<Rightarrow> Inl h | Inr rs \<Rightarrow> Inr (None # rs))"
| "compositeRows c i (Some item # items) =
     (case GatewayCache_ByName c (vr_janus (vc_room item)) of
        None \<Rightarrow> Inl (NewBadRequestError None (''unknown gateway '' @ vr_janus (vc_room item)))
      | Some gateway \<Rightarrow> (case RoomCache_ByGatewayUID c (vr_room (vc_room item)) of
          None \<Rightarrow> Inl (NewBadRequestError None
            (''unknown room %!d(string='' @ vr_room (vc_room item) @ '')''))
        | Some rm \<Rightarrow> (case compositeRows c (i + 1) items of
            Inl h \<Rightarrow> Inl h
          | Inr rs \<Rightarrow> Inr (Some \<lparr>cr_composite_id = 0, cr_room_id = rm_id rm,
              cr_gateway_id = gw_id gateway, cr_position = i\<rparr> # rs))))"

text \<open>\<^verbatim>\<open>composite.AddCompositesRooms(tx, true, cRooms...)\<close>\<close>

definition addCompositesRooms :: "int \<Rightarrow> composites_room option list \<Rightarrow> unit go" where
  "addCompositesRooms cid rs = foreachP rs (\<lambda>x. case x of
     None \<Rightarrow> panicP nil_deref
   | Some cr \<Rightarrow> wrapP ''failed to insert into foreign table''
       (dbP (composites_room_insert (cr\<lparr>cr_composite_id := cid\<rparr>))))"

definition replaceComposite :: "composite \<Rightarrow> v1_composite \<Rightarrow> unit go" where
  "replaceComposite cmp data =
     bindP (cacheP (\<lambda>c. compositeRows c 1 (vc_vquad data))) (\<lambda>x. case x of
       Inl h \<Rightarrow> errP (http_err h)
     | Inr rs \<Rightarrow>
         bindP (dbP (composites_rooms_delete (cp_id cmp))) (\<lambda>_.
         addCompositesRooms (cp_id cmp) rs))"

definition V1UpdateComposite :: handler where
  "V1UpdateComposite r = requireRole [RoleShidur] r
     (let i = var_get r ''id'' in
      if 16 < length i then bad_requestP ''malformed id''
      else
        bodyP decode_v1_composite r (\<lambda>data.
        orAbort not_found_or_internal (oneP (composite_by_name i)) (\<lambda>cmp.
        orAbort http_or_internal (InTx (replaceComposite cmp data)) (\<lambda>_.
        returnP RespondSuccess))))"

section \<open>Messages of the gateways\<close>

definition read_body :: "request \<Rightarrow> (string \<Rightarrow> response go) \<Rightarrow> response go" where
  "read_body r f = (case rq_body r of
     Inl e \<Rightarrow> abortP (malformed ''read request body failed'' e) | Inr b \<Rightarrow> f b)"

definition V1HandleEvent :: "(string \<Rightarrow> gerr + gateway_event) \<Rightarrow> handler" where
  "V1HandleEvent parse r = read_body r (\<lambda>b. case parse b of
     Inl e \<Rightarrow> abortP (malformed ''error parsing request body'' e)
   | Inr ev \<Rightarrow> orAbort NewInternalError (HandleEvent ev) (\<lambda>_. returnP RespondSuccess))"

definition V1HandleProtocol :: "(string \<Rightarrow> gerr + string) \<Rightarrow> handler" where
  "V1HandleProtocol parse r = read_body r (\<lambda>b. case parse b of
     Inl e \<Rightarrow> abortP (malformed ''error parsing request body'' e)
   | Inr text \<Rightarrow> orAbort (protocol_or_internal ''protocol error'') (HandleProtocol text) (\<lambda>_.
       returnP RespondSuccess))"

definition V1HandleServiceProtocol :: "(string \<Rightarrow> gerr + string) \<Rightarrow> handler" where
  "V1HandleServiceProtocol parse r = read_body r (\<lambda>b. case parse b of
     Inl e \<Rightarrow> abortP (malformed ''error parsing request body'' e)
   | Inr text \<Rightarrow> orAbort (protocol_or_internal ''service protocol error'') (HandleMessage text) (\<lambda>_.
       returnP RespondSuccess))"

section \<open>Version 2\<close>

record v2_gateway =
  vg_name :: string
  vg_url :: string
  vg_type :: string
  vg_token :: string

record v2_config =
  vf_gateways :: "(string, (string, v2_gateway) gomap) gomap"
  vf_ice_servers :: "(string, string list) gomap"
  vf_dynamic_config :: "(string, string) gomap"
  vf_last_modified :: time

definition v2_gateway_of :: "app_cache \<Rightarrow> gateway \<Rightarrow> v2_gateway" where
  "v2_gateway_of c g = \<lparr>vg_name = gw_name g, vg_url = gw_url g, vg_type = gw_type g,
     vg_token = or_empty (GatewayTokenCache_ByID c (gw_id g))\<rparr>"

definition add_v2_gateway :: "app_cache \<Rightarrow> gateway \<Rightarrow>
    (string, (string, v2_gateway) gomap) gomap \<Rightarrow> (string, (string, v2_gateway) gomap) gomap" where
  "add_v2_gateway c g m = (if gw_disabled g \<or> gw_removed_at g \<noteq> None then m
     else AList.update (gw_type g)
       (AList.update (gw_name g) (v2_gateway_of c g)
         (case map_of m (gw_type g) of None \<Rightarrow> [] | Some x \<Rightarrow> x)) m)"

definition v2_config_of :: "(string, string list) gomap \<Rightarrow> app_cache \<Rightarrow> v2_config" where
  "v2_config_of ice c = \<lparr>vf_gateways = fold (add_v2_gateway c) (GatewayCache_Values c) [],
     vf_ice_servers = ice,
     vf_dynamic_config = fold (\<lambda>kv m. AList.update (dc_key kv) (dc_value kv) m)
       (DynamicConfigCache_Values c) [],
     vf_last_modified = DynamicConfigCache_LastModified c\<rparr>"

definition v2_gateway_json :: "v2_gateway \<Rightarrow> json" where
  "v2_gateway_json g = JObj [(''name'', JStr (vg_name g)), (''url'', JStr (vg_url g)),
     (''type'', JStr (vg_type g)), (''token'', JStr (vg_token g))]"

definition map_json :: "('a \<Rightarrow> json) \<Rightarrow> (string, 'a) gomap \<Rightarrow> json" where
  "map_json f m = JObj (map (\<lambda>(k, v). (k, f v)) m)"

definition v2_config_json :: "v2_config \<Rightarrow> json" where
  "v2_config_json f = JObj [(''gateways'', map_json (map_json v2_gateway_json) (vf_gateways f)),
     (''ice_servers'', map_json (\<lambda>urls. JArr (map JStr urls)) (vf_ice_servers f)),
     (''dynamic_config'', map_json JStr (vf_dynamic_config f)),
     (''last_modified'', JTime (vf_last_modified f))]"

definition V2GetConfig :: handler where
  "V2GetConfig r =
     bindP (cfgP IceServers) (\<lambda>ice. bindP (cacheP (v2_config_of ice)) (\<lambda>f.
     returnP (RespondWithJSON 200 (v2_config_json f))))"

fun statsByRoom :: "(room_statistic \<times> room option) list \<Rightarrow> (string, int) gomap \<Rightarrow>
    (string, int) gomap res" where
  "statsByRoom [] m = Ok m"
| "statsByRoom ((s, rm) # ss) m = (case rm of
     None \<Rightarrow> Panic nil_deref
   | Some r \<Rightarrow> statsByRoom ss (AList.update (rm_gateway_uid r) (rs_on_air s) m))"

definition V2GetRoomsStatistics :: handler where
  "V2GetRoomsStatistics r =
     orAbort NewInternalError GetAllStats (\<lambda>ss.
     bindP (resP (statsByRoom ss [])) (\<lambda>m.
     returnP (RespondWithJSON 200 (map_json (\<lambda>n. JObj [(''on_air'', JNum n)]) m))))"

text \<open>The ping of the database; \<^verbatim>\<open>late\<close> says whether the second had passed when it returned.\<close>

definition ping_text :: "gerr \<Rightarrow> string" where
  "ping_text e = ''DB ping: '' @ (case e of EDb m \<Rightarrow> m | EText m \<Rightarrow> m | _ \<Rightarrow> [])"

definition HealthCheck :: "bool \<Rightarrow> handler" where
  "HealthCheck late r = tryP (queryP (\<lambda>_. ())) (\<lambda>x. case x of
     Inl e \<Rightarrow> returnP (RespondWithError 424 (ping_text e))
   | Inr _ \<Rightarrow> returnP (if late then RespondWithError 503 ''timeout'' else RespondSuccess))"

end
