(* ===== verification/Cache_Laws.thy ===== *)
theory Cache_Laws
  imports Cache
begin

text \<open>
  What the caches hold after a reload, and what a failed reload leaves behind.
\<close>

section \<open>Every step keeps the schema and the frame\<close>

lemma schema_reloadTokens [within_rules]: "within schema_rel (reloadTokens gs)"
proof (induction gs)
  case (Cons g gs)
  show ?case unfolding reloadTokens.simps by (intro within_rules Cons.IH)
qed (simp add: schema.within_Pair)

lemma frame_reloadTokens [within_rules]: "within frame_rel (reloadTokens gs)"
proof (induction gs)
  case (Cons g gs)
  show ?case unfolding reloadTokens.simps by (intro within_rules Cons.IH)
qed (simp add: frame.within_Pair)

lemma schema_reloads [within_rules]:
  "within schema_rel GatewayCache_Reload" "within schema_rel GatewayTokenCache_Reload"
  "within schema_rel RoomCache_Reload" "within schema_rel UserCache_Reload"
  "within schema_rel DynamicConfigCache_Reload"
  unfolding GatewayCache_Reload_def GatewayTokenCache_Reload_def RoomCache_Reload_def
    UserCache_Reload_def DynamicConfigCache_Reload_def
  by (intro within_rules)+

lemma schema_UserCache_Set [within_rules]: "within schema_rel (UserCache_Set u)"
  by (rule withinI) (simp add: UserCache_Set_def schema_rel_def)

lemma frame_UserCache_Set [within_rules]: "within frame_rel (UserCache_Set u)"
  by (rule withinI) (simp add: UserCache_Set_def frame_rel_def)

section \<open>A reload mirrors the table\<close>

lemma set_cacheP_apply [simp]: "set_cacheP f w = (Ok (), w\<lparr>w_cache := f (w_cache w)\<rparr>)"
  by (simp add: set_cacheP_def)

lemma query_then_cache:
  assumes "bindP (queryP q) (\<lambda>xs. set_cacheP (f xs)) w = (Ok (), w')"
  shows "w_cache w' = f (q (w_db w)) (w_cache w) \<and> w_db w' = w_db w"
  using assms by (auto simp: bindP_Ok_iff queryP_apply split: option.splits)

text \<open>
  After a reload of the gateway cache, \<^verbatim>\<open>ByID\<close> and \<^verbatim>\<open>ByName\<close> answer exactly what the
  table holds, whatever the cache held before.
\<close>

theorem GatewayCache_Reload_mirrors:
  assumes "schema_ok (w_db w)" and "GatewayCache_Reload w = (Ok (), w')"
  shows "GatewayCache_ByID (w_cache w') i = gateway_find i (w_db w) \<and>
    GatewayCache_ByName (w_cache w') n = find (\<lambda>g. gw_name g = n) (gateways (w_db w))"
proof -
  have c: "w_cache w' = fold GatewayCache_Set (gateways (w_db w))
      ((w_cache w)\<lparr>c_gw_byid := [], c_gw_byname := []\<rparr>)"
    using query_then_cache [OF assms(2) [unfolded GatewayCache_Reload_def]] by simp
  have "distinct (map gw_id (gateways (w_db w)))" "distinct (map gw_name (gateways (w_db w)))"
    using assms(1) by (simp_all add: schema_ok_def gateways_ok_def)
  moreover have "GatewayCache_ByID ((w_cache w)\<lparr>c_gw_byid := [], c_gw_byname := []\<rparr>) i = None"
    "GatewayCache_ByName ((w_cache w)\<lparr>c_gw_byid := [], c_gw_byname := []\<rparr>) n = None"
    by (simp_all add: GatewayCache_ByID_def GatewayCache_ByName_def)
  ultimately show ?thesis
    by (simp add: c gw_byid.look_fold_distinct gw_byname.look_fold_distinct gateway_find_def)
qed

theorem GatewayCache_Reload_mirrors_witness:
  "GatewayCache_ByID (w_cache (snd (GatewayCache_Reload sample_world))) 1 = Some sample_gateway"
proof -
  have "fst (GatewayCache_Reload sample_world) = Ok ()" by code_simp
  then have run: "GatewayCache_Reload sample_world = (Ok (), snd (GatewayCache_Reload sample_world))"
    by (rule fst_run)
  show ?thesis
    using GatewayCache_Reload_mirrors [OF _ run, of 1] sample_schema_ok
    by (simp add: sample_world_def gateway_find_def sample_db_def sample_gateway_def)
qed

lemma rooms_active_distinct: "schema_ok d \<Longrightarrow> distinct (map rm_gateway_uid (rooms_active d))"
  unfolding rooms_active_def by (rule distinct_map_filter) (simp add: schema_ok_def rooms_ok_def)

lemma reloaded_rooms:
  assumes "schema_ok d"
  shows "RoomCache_ByGatewayUID (fold RoomCache_Set (rooms_active d) (c\<lparr>c_rooms := []\<rparr>)) u = Some r \<longleftrightarrow>
    r \<in> set (rooms d) \<and> rm_gateway_uid r = u \<and> \<not> rm_disabled r \<and> rm_removed_at r = None"
proof -
  note d = rooms_active_distinct [OF assms]
  have "RoomCache_ByGatewayUID (fold RoomCache_Set (rooms_active d) (c\<lparr>c_rooms := []\<rparr>)) u =
      find (\<lambda>r. rm_gateway_uid r = u) (rooms_active d)"
    by (rule room_cache.look_fold_distinct [OF d]) (simp add: RoomCache_ByGatewayUID_def)
  moreover have "find (\<lambda>r. rm_gateway_uid r = u) (rooms_active d) = Some r \<longleftrightarrow>
      r \<in> set (rooms_active d) \<and> rm_gateway_uid r = u"
  proof
    assume r: "r \<in> set (rooms_active d) \<and> rm_gateway_uid r = u"
    then have "find (\<lambda>r. rm_gateway_uid r = u) (rooms_active d) \<noteq> None"
      by (auto simp: find_None_all)
    then obtain y where y: "find (\<lambda>r. rm_gateway_uid r = u) (rooms_active d) = Some y" by blast
    then have "y = r" using r distinct_key_eq [OF d, of y r] find_Some_in [OF y] by simp
    with y show "find (\<lambda>r. rm_gateway_uid r = u) (rooms_active d) = Some r" by simp
  qed (auto dest: find_Some_in)
  ultimately show ?thesis by (auto simp: rooms_active_def)
qed

lemma reloaded_configs:
  assumes "schema_ok d"
  shows "DynamicConfigCache_ByKey (fold DynamicConfigCache_Set (dynamic_configs d) (c\<lparr>c_dynamic := []\<rparr>)) k =
    find (\<lambda>kv. dc_key kv = k) (dynamic_configs d)"
  by (rule dyn_cache.look_fold_distinct)
    (use assms in \<open>simp_all add: schema_ok_def configs_ok_def DynamicConfigCache_ByKey_def\<close>)

text \<open>
  After a reload of the room cache, a lookup by gateway uid hits exactly when an enabled room
  that is not removed has that uid, and then it answers its row.
\<close>

theorem RoomCache_Reload_mirrors:
  assumes "schema_ok (w_db w)" and "RoomCache_Reload w = (Ok (), w')"
  shows "RoomCache_ByGatewayUID (w_cache w') u = Some r \<longleftrightarrow>
    r \<in> set (rooms (w_db w)) \<and> rm_gateway_uid r = u \<and> \<not> rm_disabled r \<and> rm_removed_at r = None"
  using query_then_cache [OF assms(2) [unfolded RoomCache_Reload_def]] reloaded_rooms [OF assms(1)]
  by simp

theorem RoomCache_Reload_mirrors_witness:
  "RoomCache_ByGatewayUID (w_cache (snd (RoomCache_Reload sample_world))) ''1051'' =
     Some (sample_room 1 ''1051'' ''room 1'')"
proof -
  have "fst (RoomCache_Reload sample_world) = Ok ()" by code_simp
  then have run: "RoomCache_Reload sample_world = (Ok (), snd (RoomCache_Reload sample_world))"
    by (rule fst_run)
  show ?thesis
    using RoomCache_Reload_mirrors [OF _ run, of "''1051''" "sample_room 1 ''1051'' ''room 1''"]
      sample_schema_ok
    by (simp add: sample_world_def sample_db_def sample_room_def)
qed

section \<open>Gateway tokens\<close>

lemma reloadTokens_Ok:
  "reloadTokens gs w = (Ok (), w') \<Longrightarrow> distinct (map gw_id gs) \<Longrightarrow>
   map_of (c_tokens (w_cache w')) i = (case find (\<lambda>g. gw_id g = i) gs of
     Some g \<Rightarrow> (case ActiveToken (w_ext w) (Secret (w_cfg w)) g of Ok t \<Rightarrow> Some t | _ \<Rightarrow> None)
   | None \<Rightarrow> map_of (c_tokens (w_cache w)) i)"
proof (induction gs arbitrary: w)
  case Nil
  then show ?case by simp
next
  case (Cons g gs)
  then obtain t where t: "ActiveToken (w_ext w) (Secret (w_cfg w)) g = Ok t"
    and rest: "reloadTokens gs (w\<lparr>w_cache := (w_cache w)\<lparr>c_tokens :=
      AList.update (gw_id g) t (c_tokens (w_cache w))\<rparr>\<rparr>) = (Ok (), w')"
    by (auto simp: bindP_Ok_iff cfgP_def split: res.splits)
  have "find (\<lambda>h. gw_id h = gw_id g) gs = None"
    unfolding find_None_all using Cons.prems(2) by (metis distinct.simps(2) image_eqI list.map(2) list.set_map)
  with Cons.IH [OF rest] Cons.prems(2) t show ?case
    by (cases "gw_id g = i") (auto split: option.split)
qed

text \<open>
  After a successful reload of the token cache, \<^verbatim>\<open>ByID\<close> answers the active token of the
  gateway with that id, and nothing for an id that is not in the table.
\<close>

theorem GatewayTokenCache_Reload_tokens:
  assumes "schema_ok (w_db w)" and "GatewayTokenCache_Reload w = (Ok (), w')"
  shows "GatewayTokenCache_ByID (w_cache w') i = (case gateway_find i (w_db w) of
    None \<Rightarrow> None
  | Some g \<Rightarrow> (case ActiveToken (w_ext w) (Secret (w_cfg w)) g of Ok t \<Rightarrow> Some t | _ \<Rightarrow> None))"
proof -
  have "distinct (map gw_id (gateways (w_db w)))"
    using assms(1) by (simp add: schema_ok_def gateways_ok_def)
  with assms(2) reloadTokens_Ok [of "gateways (w_db w)" _ w' i] show ?thesis
    by (auto simp: GatewayTokenCache_Reload_def bindP_Ok_iff queryP_apply gateway_find_def
        GatewayTokenCache_ByID_def split: option.splits)
qed

theorem GatewayTokenCache_Reload_tokens_witness:
  "GatewayTokenCache_ByID (w_cache (snd (GatewayTokenCache_Reload sample_world))) 1 = Some []"
proof -
  have "fst (GatewayTokenCache_Reload sample_world) = Ok ()" by code_simp
  then have run: "GatewayTokenCache_Reload sample_world = (Ok (), snd (GatewayTokenCache_Reload sample_world))"
    by (rule fst_run)
  show ?thesis
    using GatewayTokenCache_Reload_tokens [OF _ run, of 1] sample_schema_ok
    by (simp add: sample_world_def gateway_find_def sample_db_def sample_gateway_def ActiveToken_def)
qed

lemma reloadTokens_append:
  "reloadTokens (as @ bs) = bindP (reloadTokens as) (\<lambda>_. reloadTokens bs)"
proof (induction as)
  case (Cons a as)
  show ?case
    by (rule ext) (simp add: Cons.IH bindP_def cfgP_def split: res.split prod.split)
qed simp

lemma reloadTokens_prefix:
  "\<forall>a \<in> set cs. is_ok (ActiveToken (w_ext v) (Secret (w_cfg v)) a) \<Longrightarrow>
   \<exists>w1. reloadTokens cs v = (Ok (), w1) \<and> w_ext w1 = w_ext v \<and> w_cfg w1 = w_cfg v \<and>
      (\<forall>i. i \<notin> gw_id ` set cs \<longrightarrow> map_of (c_tokens (w_cache w1)) i = map_of (c_tokens (w_cache v)) i)"
proof (induction cs arbitrary: v)
  case (Cons a cs)
  then obtain t where t: "ActiveToken (w_ext v) (Secret (w_cfg v)) a = Ok t"
    by (auto simp: is_ok_def split: res.splits)
  let ?v = "v\<lparr>w_cache := (w_cache v)\<lparr>c_tokens := AList.update (gw_id a) t (c_tokens (w_cache v))\<rparr>\<rparr>"
  from Cons obtain w1 where "reloadTokens cs ?v = (Ok (), w1)" "w_ext w1 = w_ext v"
    "w_cfg w1 = w_cfg v" "\<forall>i. i \<notin> gw_id ` set cs \<longrightarrow>
      map_of (c_tokens (w_cache w1)) i = map_of (c_tokens (w_cache ?v)) i"
    using Cons.IH [of ?v] by auto
  with t show ?case by (auto simp: bindP_def cfgP_def)
qed simp

text \<open>
  One gateway whose tokens cannot be decrypted empties the cache for every gateway listed
  after it: the reload reports the error, keeps the empty string for that gateway and no entry for
  the later ones, even those that were cached before.
\<close>

theorem GatewayTokenCache_Reload_partial:
  assumes "healthy w" and "schema_ok (w_db w)" and "gateways (w_db w) = as @ g # bs"
    and "\<forall>a \<in> set as. is_ok (ActiveToken (w_ext w) (Secret (w_cfg w)) a)"
    and "ActiveToken (w_ext w) (Secret (w_cfg w)) g = Err e"
  shows "\<exists>w'. GatewayTokenCache_Reload w = (Err (EWrap (''tm.ActiveToken '' @ gw_name g) e), w') \<and>
    GatewayTokenCache_ByID (w_cache w') (gw_id g) = Some [] \<and>
    (\<forall>b \<in> set bs. GatewayTokenCache_ByID (w_cache w') (gw_id b) = None)"
proof -
  let ?x = "w_ext w" and ?s = "Secret (w_cfg w)"
  let ?v = "w\<lparr>w_cache := (w_cache w)\<lparr>c_tokens := []\<rparr>\<rparr>"
  have ids: "distinct (map gw_id (as @ g # bs))"
    using assms(2,3) by (simp add: schema_ok_def gateways_ok_def)
  obtain w1 where w1: "reloadTokens as ?v = (Ok (), w1)" "w_ext w1 = ?x" "w_cfg w1 = w_cfg w"
    and empty: "\<forall>i. i \<notin> gw_id ` set as \<longrightarrow> map_of (c_tokens (w_cache w1)) i = None"
    using reloadTokens_prefix [of as ?v] assms(4) by auto
  let ?w' = "w1\<lparr>w_cache := (w_cache w1)\<lparr>c_tokens := AList.update (gw_id g) [] (c_tokens (w_cache w1))\<rparr>\<rparr>"
  have "GatewayTokenCache_Reload w = reloadTokens (g # bs) w1"
    using assms(1,3) w1(1) by (simp add: GatewayTokenCache_Reload_def reloadTokens_append del: reloadTokens.simps)
  moreover have "reloadTokens (g # bs) w1 = (Err (EWrap (''tm.ActiveToken '' @ gw_name g) e), ?w')"
    using assms(5) w1 by (simp add: bindP_def cfgP_def)
  moreover have "map_of (c_tokens (w_cache ?w')) (gw_id b) = None" if "b \<in> set bs" for b
  proof -
    from that ids have "gw_id b \<notin> gw_id ` set as" "gw_id b \<noteq> gw_id g" by (auto simp: rev_image_eqI)
    with empty show ?thesis by simp
  qed
  ultimately show ?thesis by (simp add: GatewayTokenCache_ByID_def)
qed

definition bad_gateway :: gateway where
  "bad_gateway = sample_gateway\<lparr>gw_properties :=
     Some (JObj [(''tokens'', JArr [JObj [(''token'', JStr ''!'')]])])\<rparr>"

definition good_gateway :: gateway where
  "good_gateway = sample_gateway\<lparr>gw_id := 2, gw_name := ''gxy2''\<rparr>"

definition partial_world :: world where
  "partial_world = sample_world\<lparr>w_db := sample_db\<lparr>gateways := [bad_gateway, good_gateway]\<rparr>,
     w_cache := empty_cache\<lparr>c_tokens := [(2, ''cached'')]\<rparr>\<rparr>"

theorem GatewayTokenCache_Reload_partial_witness:
  "\<exists>w'. snd (GatewayTokenCache_Reload partial_world) = w' \<and>
     GatewayTokenCache_ByID (w_cache partial_world) 2 = Some ''cached'' \<and>
     GatewayTokenCache_ByID (w_cache w') 2 = None"
proof -
  let ?e = "EWrap ''base64 decode token'' (EText ''illegal base64 data'')"
  have "healthy partial_world" by (simp add: partial_world_def)
  moreover have "schema_ok (w_db partial_world)"
    using sample_schema_ok
    by (simp add: partial_world_def schema_defs sample_db_def has_key_def bad_gateway_def
        good_gateway_def sample_gateway_def sample_room_def sample_user_def)
  moreover have "gateways (w_db partial_world) = [] @ bad_gateway # [good_gateway]"
    by (simp add: partial_world_def)
  moreover have "ActiveToken (w_ext partial_world) (Secret (w_cfg partial_world)) bad_gateway = Err ?e"
    by code_simp
  ultimately have "\<exists>w'. GatewayTokenCache_Reload partial_world =
      (Err (EWrap (''tm.ActiveToken '' @ gw_name bad_gateway) ?e), w') \<and>
      GatewayTokenCache_ByID (w_cache w') (gw_id bad_gateway) = Some [] \<and>
      (\<forall>b \<in> set [good_gateway]. GatewayTokenCache_ByID (w_cache w') (gw_id b) = None)"
    using GatewayTokenCache_Reload_partial [of partial_world "[]"] by fastforce
  then show ?thesis
    by (auto simp: good_gateway_def partial_world_def GatewayTokenCache_ByID_def)
qed

end
