(* ===== verification/Room_Stats_Race.thy ===== *)
theory Room_Stats_Race
  imports Room_Stats Cache_Laws
begin

text \<open>
  When \<^verbatim>\<open>OnAir\<close> succeeds, when the column is full, and what concurrent calls can do to each other:
  a step relation whose processes each perform the two transactions of one call, with any order
  between the processes.
\<close>

section \<open>Success and the full column\<close>

lemma InTx_healthy:
  assumes "healthy w" "f w = (Ok x, w2)" "healthy w2"
  shows "InTx f w = (Ok x, w2)"
  using assms by (simp add: InTx_def Let_def)

lemma getOrCreate_healthy:
  assumes h: "healthy w" and ok: "schema_ok (w_db w)" and rm: "has_key rm_id rid (rooms (w_db w))"
  shows "\<exists>s w1. getOrCreate rid w = (Ok s, w1) \<and> healthy w1"
proof (cases "room_statistic_find rid (w_db w)")
  case (Some s)
  then have "getOrCreate rid w = (Ok s, w)"
    using h unfolding getOrCreate_def by (intro InTx_healthy) (simp_all add: tryP_def healthy_oneP)
  with h show ?thesis by blast
next
  case None
  let ?s = "\<lparr>rs_room_id = rid, rs_on_air = 0\<rparr>"
  have "room_statistic_insert ?s (w_db w) =
      (Inr ?s, (w_db w)\<lparr>room_statistics := room_statistics (w_db w) @ [?s]\<rparr>)"
    using None rm
    by (auto simp: room_statistic_insert_def room_statistic_find_def find_None_all has_key_iff)
  from healthy_dbP_Inr [where st = "room_statistic_insert ?s", OF h this] None h
  have "getOrCreate rid w = (Ok ?s, w\<lparr>w_db := (w_db w)\<lparr>room_statistics := room_statistics (w_db w) @ [?s]\<rparr>\<rparr>)"
    unfolding getOrCreate_def by (intro InTx_healthy) (simp_all add: tryP_def healthy_oneP)
  with h show ?thesis by auto
qed

text \<open>
  On a healthy connection \<^verbatim>\<open>OnAir\<close> of an existing room returns without an error exactly as
  long as the count fits the \<^verbatim>\<open>INTEGER\<close> column; at 2147483647 it reports an error and leaves the
  count as it is.
\<close>

theorem OnAir_until_full:
  assumes h: "healthy w" and ok: "schema_ok (w_db w)" and rm: "has_key rm_id rid (rooms (w_db w))"
  shows "(fst (OnAir rid w) = Ok () \<longleftrightarrow> on_air rid w < 2147483647) \<and>
    (on_air rid w = 2147483647 \<longrightarrow> on_air rid (snd (OnAir rid w)) = on_air rid w)"
proof -
  obtain s w1 where s: "getOrCreate rid w = (Ok s, w1)" and w1: "healthy w1"
    using getOrCreate_healthy [OF assms] by blast
  note s' = getOrCreate_Ok [OF s]
  let ?s = "s\<lparr>rs_on_air := rs_on_air s + 1\<rparr>"
  have run: "OnAir rid w = wrapP ''update'' (updateStats ?s) w1"
    by (simp add: OnAir_def wrapP_def bindP_def s)
  show ?thesis
  proof (cases "on_air rid w < 2147483647")
    case True
    then have "\<exists>n d. room_statistic_update ?s (w_db w1) = (Inr n, d)"
      using s' by (simp add: room_statistic_update_def)
    then obtain n d where "room_statistic_update ?s (w_db w1) = (Inr n, d)" by blast
    from healthy_dbP_Inr [where st = "room_statistic_update ?s", OF w1 this] w1
    have "updateStats ?s w1 = (Ok (), w1\<lparr>w_db := d\<rparr>)"
      unfolding updateStats_def by (intro InTx_healthy) (simp_all add: bindP_def)
    with True show ?thesis by (simp add: run wrapP_def)
  next
    case False
    then have "room_statistic_update ?s (w_db w1) = (Inl out_of_range, w_db w1)"
      using s' by (simp add: room_statistic_update_def)
    from healthy_dbP_Inl [where st = "room_statistic_update ?s", OF w1 this] w1
    have "updateStats ?s w1 = (Err out_of_range, undo w1 w1)"
      by (simp add: updateStats_def InTx_def Let_def bindP_def)
    then have "OnAir rid w = (Err (EWrap ''update'' out_of_range), undo w1 w1)"
      by (simp add: run wrapP_def)
    moreover have "on_air rid (undo w1 w1) = on_air rid w"
      using s'(2,3) by (simp add: on_air_def room_statistic_find_def)
    ultimately show ?thesis using False by simp
  qed
qed

theorem OnAir_until_full_witness: "fst (OnAir 1 sample_world) = Ok ()"
proof -
  have "schema_ok (w_db sample_world)" using sample_schema_ok by (simp add: sample_world_def)
  moreover have "has_key rm_id 1 (rooms (w_db sample_world))"
    by (simp add: has_key_def sample_world_def sample_db_def sample_room_def)
  moreover have "on_air 1 sample_world < 2147483647"
    by (simp add: on_air_def room_statistic_find_def sample_world_def sample_db_def)
  ultimately show ?thesis using OnAir_until_full [OF sample_healthy] by blast
qed

section \<open>Concurrent calls\<close>

datatype call_state = Idle | Holding room_statistic | Finished

type_synonym race = "world \<times> call_state list"

inductive race_step :: "int \<Rightarrow> race \<Rightarrow> race \<Rightarrow> bool" for rid where
  fetch: "i < length ps \<Longrightarrow> ps ! i = Idle \<Longrightarrow> getOrCreate rid w = (Ok s, w') \<Longrightarrow>
    race_step rid (w, ps) (w', ps[i := Holding s])"
| store: "i < length ps \<Longrightarrow> ps ! i = Holding s \<Longrightarrow>
    updateStats (s\<lparr>rs_on_air := rs_on_air s + 1\<rparr>) w = (Ok (), w') \<Longrightarrow>
    race_step rid (w, ps) (w', ps[i := Finished])"

inductive_cases race_stepE: "race_step rid (w, ps) r"

definition race_run :: "int \<Rightarrow> race \<Rightarrow> race \<Rightarrow> bool" where
  "race_run rid = (race_step rid)\<^sup>*\<^sup>*"

definition finished :: "call_state list \<Rightarrow> int" where
  "finished ps = int (length (filter ((=) Finished) ps))"

text \<open>No count in sight exceeds the start by more than the calls that have finished.\<close>

definition race_inv :: "int \<Rightarrow> int \<Rightarrow> race \<Rightarrow> bool" where
  "race_inv rid n r \<longleftrightarrow> (case r of (w, ps) \<Rightarrow>
     on_air rid w \<le> n + finished ps \<and>
     (\<forall>s. Holding s \<in> set ps \<longrightarrow> rs_room_id s = rid \<and> rs_on_air s \<le> n + finished ps))"

lemma filter_update_length:
  "i < length ps \<Longrightarrow> length (filter P (ps[i := x])) + (if P (ps ! i) then 1 else 0) =
     length (filter P ps) + (if P x then 1 else 0)"
proof (induction ps arbitrary: i)
  case (Cons p ps)
  show ?case
  proof (cases i)
    case (Suc j)
    with Cons.prems Cons.IH [of j] show ?thesis by (auto split: if_splits)
  qed simp
qed simp

lemma finished_update:
  "i < length ps \<Longrightarrow> ps ! i \<noteq> Finished \<Longrightarrow>
   finished (ps[i := x]) = finished ps + (if x = Finished then 1 else 0)"
  using filter_update_length [of i ps "(=) Finished" x] by (auto simp: finished_def)

lemma race_step_inv:
  assumes "race_step rid r r'" and "race_inv rid n r"
  shows "race_inv rid n r'"
  using assms
proof cases
  case (fetch i ps w s w')
  have "on_air rid w' = on_air rid w"
    using getOrCreate_Ok [OF fetch(5)] by (simp add: on_air_def)
  moreover have "finished (ps[i := Holding s]) = finished ps"
    using fetch(3,4) by (simp add: finished_update)
  ultimately show ?thesis
    using assms(2) fetch getOrCreate_Ok [OF fetch(5)] set_update_subset_insert [of ps i "Holding s"]
    by (auto simp: race_inv_def)
next
  case (store i ps s w w')
  have s: "rs_room_id s = rid" "rs_on_air s \<le> n + finished ps" "0 \<le> n + finished ps \<or> True"
    using assms(2) store(1,3,4) by (auto simp: race_inv_def) (metis nth_mem)+
  have f: "finished (ps[i := Finished]) = finished ps + 1"
    using store(3,4) by (simp add: finished_update)
  have "on_air rid w' \<le> n + finished ps + 1"
  proof (cases "room_statistic_find rid (w_db w) = None")
    case True
    then have "on_air rid w = 0" "on_air rid w' = 0"
      using updateStats_Ok(1) [OF store(5)] s(1) by (simp_all add: on_air_def)
    with assms(2) store(1) show ?thesis by (auto simp: race_inv_def)
  next
    case False
    then show ?thesis using updateStats_Ok(1) [OF store(5)] s(1,2) by auto
  qed
  with assms(2) store f set_update_subset_insert [of ps i Finished] show ?thesis
    by (fastforce simp: race_inv_def)
qed

text \<open>
  However the transactions of concurrent \<^verbatim>\<open>OnAir\<close> calls of a room interleave, the count
  never exceeds its start plus the calls that have finished.
\<close>

theorem race_bound:
  assumes "race_run rid (w, replicate k Idle) (w', ps)"
  shows "on_air rid w' \<le> on_air rid w + finished ps"
proof -
  have start: "race_inv rid (on_air rid w) (w, replicate k Idle)"
    by (simp add: race_inv_def finished_def)
  have "race_inv rid (on_air rid w) (w', ps)"
    using assms unfolding race_run_def
    by (induction rule: rtranclp_induct) (auto intro: start race_step_inv)
  then show ?thesis by (simp add: race_inv_def)
qed

text \<open>
  C40. Updates are lost: from any state in which two calls can fetch the count, there is an order in
  which both calls finish without an error and the count grows by one only.
\<close>

theorem race_loses_update:
  assumes h: "healthy w" and ok: "schema_ok (w_db w)" and rm: "has_key rm_id rid (rooms (w_db w))"
    and room: "on_air rid w < 2147483647"
  shows "\<exists>w'. race_run rid (w, [Idle, Idle]) (w', [Finished, Finished]) \<and>
    on_air rid w' = on_air rid w + 1"
proof -
  obtain s w1 where s: "getOrCreate rid w = (Ok s, w1)" and h1: "healthy w1"
    using getOrCreate_healthy [OF h ok rm] by blast
  note s' = getOrCreate_Ok [OF s]
  have s2: "getOrCreate rid w1 = (Ok s, w1)"
    unfolding getOrCreate_def using h1 s'(3)
    by (intro InTx_healthy) (simp_all add: tryP_def healthy_oneP)
  let ?s = "s\<lparr>rs_on_air := rs_on_air s + 1\<rparr>"
  have upd: "\<exists>v'. updateStats ?s v = (Ok (), v') \<and> healthy v'" if "healthy v" for v
  proof -
    have "\<exists>n d. room_statistic_update ?s (w_db v) = (Inr n, d)"
      using s' room by (simp add: room_statistic_update_def)
    then obtain n d where "room_statistic_update ?s (w_db v) = (Inr n, d)" by blast
    from healthy_dbP_Inr [where st = "room_statistic_update ?s", OF that this] that
    have "updateStats ?s v = (Ok (), v\<lparr>w_db := d\<rparr>)"
      unfolding updateStats_def by (intro InTx_healthy) (simp_all add: bindP_def)
    with that show ?thesis by auto
  qed
  obtain w2 where w2: "updateStats ?s w1 = (Ok (), w2)" "healthy w2" using upd [OF h1] by blast
  obtain w3 where w3: "updateStats ?s w2 = (Ok (), w3)" using upd [OF w2(2)] by blast
  have steps: "race_step rid (w, [Idle, Idle]) (w1, [Holding s, Idle])"
    "race_step rid (w1, [Holding s, Idle]) (w1, [Holding s, Holding s])"
    "race_step rid (w1, [Holding s, Holding s]) (w2, [Finished, Holding s])"
    "race_step rid (w2, [Finished, Holding s]) (w3, [Finished, Finished])"
    using race_step.fetch [of 0 "[Idle, Idle]" rid w s w1] s
      race_step.fetch [of 1 "[Holding s, Idle]" rid w1 s w1] s2
      race_step.store [of 0 "[Holding s, Holding s]" s w1 w2 rid] w2
      race_step.store [of 1 "[Finished, Holding s]" s w2 w3 rid] w3
    by simp_all
  have run: "race_run rid (w, [Idle, Idle]) (w3, [Finished, Finished])"
    unfolding race_run_def
    by (rule converse_rtranclp_into_rtranclp, rule steps)+ (rule rtranclp.rtrancl_refl)
  have "on_air rid w2 = rs_on_air s + 1"
    using updateStats_Ok(1) [OF w2(1)] s' by simp
  moreover have "room_statistic_find rid (w_db w2) \<noteq> None"
    using updateStats_Ok(4) [OF w2(1)] s' by simp
  ultimately have "on_air rid w3 = on_air rid w + 1"
    using updateStats_Ok(1) [OF w3] s' by auto
  with run show ?thesis by blast
qed

theorem race_bound_witness: "on_air 1 (snd (getOrCreate 1 sample_world)) \<le> on_air 1 sample_world + 0"
proof -
  have "is_ok (fst (getOrCreate 1 sample_world))" by code_simp
  then obtain s where s: "getOrCreate 1 sample_world = (Ok s, snd (getOrCreate 1 sample_world))"
    using is_ok_run by blast
  have "race_step 1 (sample_world, replicate 1 Idle) (snd (getOrCreate 1 sample_world), [Holding s])"
    using race_step.fetch [of 0 "replicate 1 Idle" 1 sample_world s] s by simp
  then have "race_run 1 (sample_world, replicate 1 Idle) (snd (getOrCreate 1 sample_world), [Holding s])"
    by (simp add: race_run_def)
  from race_bound [OF this] show ?thesis by (simp add: finished_def)
qed

theorem race_loses_update_witness:
  "\<exists>w'. race_run 1 (sample_world, [Idle, Idle]) (w', [Finished, Finished]) \<and> on_air 1 w' = 1"
proof -
  have ok: "schema_ok (w_db sample_world)" using sample_schema_ok by (simp add: sample_world_def)
  have rm: "has_key rm_id 1 (rooms (w_db sample_world))"
    by (simp add: has_key_def sample_world_def sample_db_def sample_room_def)
  have "on_air 1 sample_world = 0"
    by (simp add: on_air_def room_statistic_find_def sample_world_def sample_db_def)
  with race_loses_update [OF sample_healthy ok rm] show ?thesis by simp
qed

end
