(* ===== verification/Session_Laws.thy ===== *)
theory Session_Laws
  imports Session Cache_Laws
begin

text \<open>
  What the session handlers guarantee: the constraints of the schema survive, entering a room
  leaves one open session, leaving closes every open session, an update revives a closed session
  without touching its history, and what a rollback cannot take back.
\<close>

section \<open>Every handler keeps the schema and the frame\<close>

lemma schema_bind_post:
  assumes "within schema_rel m" and "\<And>w x w'. m w = (Ok x, w') \<Longrightarrow> P x"
    and "\<And>x. P x \<Longrightarrow> within schema_rel (f x)"
  shows "within schema_rel (bindP m f)"
proof (rule withinI)
  fix w
  obtain r w1 where r: "m w = (r, w1)" by fastforce
  with assms(1) have "schema_rel w w1" by (rule withinD')
  show "schema_rel w (snd (bindP m f w))"
  proof (cases r)
    case (Ok x)
    with r assms(2,3) have "within schema_rel (f x)" by blast
    then have "schema_rel w1 (snd (f x w1))" by (rule withinD)
    with \<open>schema_rel w w1\<close> have "schema_rel w (snd (f x w1))" by (rule schema.R_trans)
    with r Ok show ?thesis by simp
  qed (use r \<open>schema_rel w w1\<close> in simp_all)
qed

lemma schema_getInternalUserID [within_rules]: "within schema_rel (getInternalUserID u)"
  unfolding getInternalUserID_def by (intro within_rules stmt_rules) (simp add: new_user_def)

lemma frame_getInternalUserID [within_rules]: "within frame_rel (getInternalUserID u)"
  unfolding getInternalUserID_def by (intro within_rules)

lemma schema_requireUserID [within_rules]: "within schema_rel (requireUserID u)"
  unfolding requireUserID_def case_prod_beta by (intro within_rules)

lemma schema_closeSession [within_rules]: "within schema_rel (closeSession uid)"
  unfolding closeSession_def by (intro within_rules stmt_rules)

lemma schema_makeSession [within_rules]: "within schema_rel (makeSession uid u)"
  unfolding makeSession_def by (intro within_rules)

lemma schema_upsertRow:
  "ss_id s = 0 \<Longrightarrow> upd_keeps_keys upd \<Longrightarrow> within schema_rel (upsertRow upd s)"
  unfolding upsertRow_def by (intro within_rules stmt_rules)

lemma makeSession_Ok:
  "makeSession uid u w = (Ok s, w') \<longleftrightarrow> (\<exists>rm gw.
     RoomCache_ByGatewayUID (w_cache w) (vu_room u) = Some rm \<and>
     GatewayCache_ByName (w_cache w) (vu_janus u) = Some gw \<and>
     s = session_of (e_now (w_env w)) uid u rm gw \<and> w' = w)"
  by (auto simp: makeSession_def cacheP_def nowP_def bindP_Ok_iff split: option.splits)

lemma makeSession_id: "wrapP m (makeSession uid u) w = (Ok s, w') \<Longrightarrow> ss_id s = 0"
  by (auto simp: makeSession_Ok session_of_def)

lemma schema_make_upsert [within_rules]:
  "upd_keeps_keys upd \<Longrightarrow>
   within schema_rel (bindP (wrapP m (makeSession uid u)) (\<lambda>s. upsertRow upd s))"
  by (rule schema_bind_post [where P = "\<lambda>s. ss_id s = 0"])
    (auto intro: within_rules makeSession_id schema_upsertRow)

lemma schema_upsertSession [within_rules]: "within schema_rel (upsertSession u)"
  unfolding upsertSession_def
  by (rule schema.within_bindP [OF schema_requireUserID schema_make_upsert]) simp

lemma schema_onProtocolEnter [within_rules]: "within schema_rel (onProtocolEnter m)"
  unfolding onProtocolEnter_def
  by (intro schema.within_bindP [OF schema_requireUserID] schema.within_bindP [OF _ schema_make_upsert])
    (auto intro!: within_rules)

lemma schema_onVideoroomLeaving [within_rules]: "within schema_rel (onVideoroomLeaving d)"
  unfolding onVideoroomLeaving_def case_prod_beta
  by (auto split: option.split json.split sum.split intro!: within_rules)

lemma schema_HandleEvent: "within schema_rel (HandleEvent ev)"
  unfolding HandleEvent_def
  by (rule schema_tx.within_InTx)
    (auto split: gateway_event.split option.split json.split intro!: within_rules)

lemma schema_HandleProtocol: "within schema_rel (HandleProtocol t)"
  unfolding HandleProtocol_def onProtocolQuestion_def onProtocolCamera_def onProtocolSoundTest_def
  by (intro within_rules)

lemma schema_UpsertSession: "within schema_rel (UpsertSession u)"
  unfolding UpsertSession_def by (intro within_rules)

lemma schema_clean: "within schema_rel clean"
  unfolding clean_def by (intro within_rules stmt_rules)

text \<open>
  No session handler can break a key, a uniqueness constraint or a reference of the schema,
  and no sequence ever moves backwards: whatever the message, the faults of the connection and the
  contents of the caches.
\<close>

theorem session_handlers_keep_schema:
  assumes "schema_ok (w_db w)"
  shows "schema_ok (w_db (snd (HandleEvent ev w))) \<and> schema_ok (w_db (snd (HandleProtocol t w))) \<and>
    schema_ok (w_db (snd (UpsertSession u w))) \<and> schema_ok (w_db (snd (clean w)))"
  using assms withinD [OF schema_HandleEvent, of w ev] withinD [OF schema_HandleProtocol, of w t]
    withinD [OF schema_UpsertSession, of w u] withinD [OF schema_clean, of w]
  by (simp add: schema_rel_def)

theorem session_handlers_keep_schema_witness:
  "schema_ok (w_db (snd (HandleProtocol ''{}'' sample_world)))"
proof -
  have "schema_ok (w_db sample_world)" using sample_schema_ok by (simp add: sample_world_def)
  from session_handlers_keep_schema [OF this] show ?thesis by blast
qed

section \<open>The user lookup touches only users\<close>

definition users_only :: "world \<Rightarrow> world \<Rightarrow> bool" where
  "users_only w w' \<longleftrightarrow> sessions (w_db w') = sessions (w_db w) \<and> rooms (w_db w') = rooms (w_db w) \<and>
     gateways (w_db w') = gateways (w_db w) \<and> seq_session (w_db w') = seq_session (w_db w) \<and>
     c_rooms (w_cache w') = c_rooms (w_cache w) \<and> c_gw_byname (w_cache w') = c_gw_byname (w_cache w) \<and>
     w_cfg w' = w_cfg w \<and> e_now (w_env w') = e_now (w_env w)"

interpretation users_only: step_rel users_only
  by unfold_locales (auto simp: users_only_def)

lemma users_only_stmts [within_rules]:
  "within users_only (oneP f)" "within users_only (dbP (user_insert now x))"
  "within users_only (cacheP c)" "within users_only nowP" "within users_only (UserCache_Set y)"
proof -
  show "within users_only (oneP f)" by (rule withinI) (simp add: users_only_def)
  show "within users_only (dbP (user_insert now x))"
    by (rule within_dbP) (auto simp: users_only_def user_insert_def Let_def)
  show "within users_only (cacheP c)" by (simp add: cacheP_def users_only.within_getsP)
  show "within users_only nowP" by (simp add: nowP_def users_only.within_getsP)
  show "within users_only (UserCache_Set y)"
    by (rule withinI) (simp add: users_only_def UserCache_Set_def arc_add_def)
qed

lemma users_only_getInternalUserID [within_rules]: "within users_only (getInternalUserID u)"
  unfolding getInternalUserID_def by (intro within_rules)

text \<open>The user that the code takes for an account: the cached one, else the row of the table.\<close>

definition known_user :: "world \<Rightarrow> string \<Rightarrow> user option" where
  "known_user w a = (case UserCache_ByAccountsID (w_cache w) a of
     Some u \<Rightarrow> Some u | None \<Rightarrow> user_by_accounts_id a (w_db w))"

lemma UserCache_Set_hit:
  "UserCache_Set y w = (Ok x, w') \<Longrightarrow>
   UserCache_ByAccountsID (w_cache w') (us_accounts_id y) = Some y"
  by (auto simp: UserCache_Set_def user_cache.look_put_same)

lemma user_insert_row: "user_insert now u d = (Inr x, d') \<Longrightarrow> us_accounts_id x = us_accounts_id u"
  by (auto simp: user_insert_def Let_def user_row_def split: if_splits)

lemma user_by_accounts_id_Some: "user_by_accounts_id a d = Some u \<Longrightarrow> us_accounts_id u = a"
  by (auto simp: user_by_accounts_id_def dest: find_Some_in)

text \<open>A lookup without an error leaves the user it answers in the cache.\<close>

lemma getInternalUserID_hit:
  assumes "getInternalUserID u w = (Ok (uid, None), w')"
  shows "\<exists>v. UserCache_ByAccountsID (w_cache w') (vu_id u) = Some v \<and> us_id v = uid"
proof (cases "UserCache_ByAccountsID (w_cache w) (vu_id u)")
  case (Some v)
  with assms show ?thesis by (simp add: getInternalUserID_def cacheP_def)
next
  case None
  show ?thesis
  proof (cases "oneP (user_by_accounts_id (vu_id u)) w")
    case (Pair r w1)
    show ?thesis
    proof (cases r)
      case (Ok y)
      then have "us_accounts_id y = vu_id u"
        using Pair user_by_accounts_id_Some by (auto simp: oneP_apply split: option.splits)
      with assms None Pair Ok UserCache_Set_hit [of y w1] show ?thesis
        by (auto simp: getInternalUserID_def cacheP_def tryP_def bindP_Ok_iff split: if_splits)
    next
      case (Err e)
      with assms None Pair have e: "is_no_rows e"
        and ins: "bindP nowP (\<lambda>now. tryP (dbP (user_insert now (new_user u))) (\<lambda>r. case r of
                 Inl e \<Rightarrow> returnP (0, Some (EWrap ''db create user'' e))
               | Inr u \<Rightarrow> bindP (UserCache_Set u) (\<lambda>_. returnP (us_id u, None)))) w1 = (Ok (uid, None), w')"
        by (auto simp: getInternalUserID_def cacheP_def tryP_def split: if_splits)
      obtain r2 w2 where r2: "dbP (user_insert (e_now (w_env w1)) (new_user u)) w1 = (r2, w2)"
        by fastforce
      with ins obtain y where y: "r2 = Ok y" and set: "UserCache_Set y w2 = (Ok (), w')"
        and uid: "uid = us_id y"
        by (cases r2) (auto simp: nowP_def tryP_def bindP_Ok_iff)
      have "us_accounts_id y = vu_id u"
        using r2 y user_insert_row
        by (fastforce simp: dbP_def new_user_def split: option.splits prod.splits sum.splits)
      with UserCache_Set_hit [OF set] uid show ?thesis by auto
    next
      case (Panic e)
      with assms None Pair show ?thesis by (simp add: getInternalUserID_def cacheP_def tryP_def)
    qed
  qed
qed

lemma requireUserID_Ok:
  "requireUserID u w = (Ok uid, w') \<longleftrightarrow> getInternalUserID u w = (Ok (uid, None), w')"
  by (auto simp: requireUserID_def bindP_Ok_iff split: option.splits)

section \<open>Closing and writing rows\<close>

text \<open>A session closed at an instant, under the given mark.\<close>

definition closed :: "string \<Rightarrow> time \<Rightarrow> session \<Rightarrow> session" where
  "closed mark t s = s\<lparr>ss_properties := Some (jsonb_concat
     (case ss_properties s of None \<Rightarrow> JObj [] | Some p \<Rightarrow> p) (JObj [(mark, JTime t)])),
     ss_removed_at := Some t\<rparr>"

lemma closed_simps [simp]:
  "ss_id (closed m t s) = ss_id s" "ss_user_id (closed m t s) = ss_user_id s"
  "ss_removed_at (closed m t s) = Some t" "\<not> open_of uid (closed m t s)"
  by (simp_all add: closed_def open_of_def)

lemma sessions_mark_eq: "snd (sessions_mark (JObj [(mark, JTime t)]) t P d) =
    d\<lparr>sessions := map (\<lambda>s. if P s then closed mark t s else s) (sessions d)\<rparr>"
  by (simp add: sessions_mark_def closed_def cong: if_cong)

lemma closeSession_Ok:
  assumes "closeSession uid w = (Ok (), w')"
  shows "w_db w' = (w_db w)\<lparr>sessions := map (\<lambda>s. if open_of uid s
      then closed ''close_session'' (e_now (w_env w)) s else s) (sessions (w_db w))\<rparr>"
    "w_cache w' = w_cache w" "e_now (w_env w') = e_now (w_env w)" "w_cfg w' = w_cfg w"
  using assms sessions_mark_eq [of "''close_session''" "e_now (w_env w)" "open_of uid" "w_db w"]
  by (auto simp: closeSession_def nowP_def dbP_def bindP_Ok_iff
      split: option.splits prod.splits sum.splits)

lemma upsertRow_Ok:
  assumes "upsertRow upd s w = (Ok (), w')"
  obtains x d' where "session_upsert (e_now (w_env w)) upd s (w_db w) = (Inr x, d')"
    and "w_db w' = d'" and "w_cache w' = w_cache w"
  using assms
  by (auto simp: upsertRow_def nowP_def dbP_def bindP_Ok_iff
      split: option.splits prod.splits sum.splits)

text \<open>A successful upsert replaces the row with the same key or adds one.\<close>

lemma session_upsert_Ok:
  assumes "session_upsert now upd s d = (Inr x, d')"
  defines "row \<equiv> session_row now s d"
  obtains (replaced) old where "session_refs d row" "old \<in> set (sessions d)" "same_session row old"
      "sessions d' = tupdate ss_id (ss_id old) (\<lambda>r. upd r row) (sessions d)"
  | (added) "session_refs d row" "\<not> list_ex (same_session row) (sessions d)"
      "sessions d' = sessions d @ [row]"
  using assms
  by (auto simp: session_upsert_def Let_def find_None_all list_ex_iff
      dest: find_Some_in split: if_splits option.splits)

lemma filter_tupdate_skip:
  assumes "\<And>r. r \<in> set rs \<Longrightarrow> key r = i \<Longrightarrow> \<not> P r \<and> \<not> P (f r)"
  shows "filter P (tupdate key i f rs) = filter P rs"
  using assms by (induction rs) (auto simp: tupdate_def)

lemma filter_map_skip:
  "(\<And>s. s \<in> set rs \<Longrightarrow> Q s \<Longrightarrow> \<not> P s \<and> \<not> P (f s)) \<Longrightarrow>
   filter P (map (\<lambda>s. if Q s then f s else s) rs) = filter P rs"
  by (induction rs) auto

text \<open>
  After an upsert of an open session into a table where its user has none, it is the only one, and
  the sessions of the other users are as they were.
\<close>

lemma upsert_only_open:
  assumes up: "session_upsert now set_infer s d = (Inr x, d')"
    and ids: "distinct (map ss_id (sessions d))"
    and none: "\<forall>t \<in> set (sessions d). \<not> open_of uid t"
    and s: "ss_user_id s = uid" "ss_removed_at s = None"
  shows "(\<exists>i c. {t \<in> set (sessions d'). open_of uid t} = {s\<lparr>ss_id := i, ss_created_at := c\<rparr>}) \<and>
    filter (\<lambda>t. ss_user_id t \<noteq> uid) (sessions d') = filter (\<lambda>t. ss_user_id t \<noteq> uid) (sessions d)"
  using up
proof (cases rule: session_upsert_Ok)
  case (replaced old)
  let ?row = "session_row now s d"
  have uid: "ss_user_id old = uid" using replaced(3) s(1) by (simp add: same_session_def)
  have only: "r = old" if "r \<in> set (sessions d)" "ss_id r = ss_id old" for r
    using distinct_key_eq [OF ids that(1) replaced(2) that(2)] .
  have "{t \<in> set (sessions d'). open_of uid t} = {set_infer old ?row}"
    using none only replaced(2) s by (auto simp: replaced(4) set_tupdate open_of_def set_infer_def)
  moreover have "\<exists>i c. set_infer old ?row = s\<lparr>ss_id := i, ss_created_at := c\<rparr>"
    by (rule exI [of _ "ss_id old"], rule exI [of _ "ss_created_at ?row"])
      (cases s, simp add: set_infer_def session_row_def)
  moreover have "filter (\<lambda>t. ss_user_id t \<noteq> uid) (sessions d') = filter (\<lambda>t. ss_user_id t \<noteq> uid) (sessions d)"
    unfolding replaced(4) by (rule filter_tupdate_skip) (use only uid s in \<open>auto simp: set_infer_def\<close>)
  ultimately show ?thesis by metis
next
  case added
  have "{t \<in> set (sessions d'). open_of uid t} = {session_row now s d}"
    using none s by (auto simp: added(3) open_of_def)
  moreover have "\<exists>i c. session_row now s d = s\<lparr>ss_id := i, ss_created_at := c\<rparr>"
    unfolding session_row_def by blast
  ultimately show ?thesis using s by (auto simp: added(3))
qed

section \<open>Entering a room\<close>

definition open_sessions :: "int \<Rightarrow> world \<Rightarrow> session set" where
  "open_sessions uid w = {s \<in> set (sessions (w_db w)). open_of uid s}"

definition sessions_of_others :: "int \<Rightarrow> world \<Rightarrow> session list" where
  "sessions_of_others uid w = filter (\<lambda>s. ss_user_id s \<noteq> uid) (sessions (w_db w))"

lemma healthy_runs: "InTx f w = (Ok x, w') \<Longrightarrow> \<exists>w2. f (drop_fault w) = (Ok x, w2) \<and>
    w_db w' = w_db w2 \<and> w_cache w' = w_cache w2"
  by (auto simp: InTx_Ok_iff)

lemma enter_stages:
  assumes "onProtocolEnter m w = (Ok (), w')" and "schema_ok (w_db w)"
  obtains uid w1 w2 rm gw where "getInternalUserID (pm_user m) w = (Ok (uid, None), w1)"
    and "uid > 0 \<longrightarrow> closeSession uid w1 = (Ok (), w2)"
    and "RoomCache_ByGatewayUID (w_cache w2) (vu_room (pm_user m)) = Some rm"
    and "GatewayCache_ByName (w_cache w2) (vu_janus (pm_user m)) = Some gw"
    and "upsertRow set_infer (session_of (e_now (w_env w2)) uid (pm_user m) rm gw) w2 = (Ok (), w')"
    and "schema_ok (w_db w2)"
proof -
  from assms(1) obtain uid w1 u w2 s w3 where uid: "requireUserID (pm_user m) w = (Ok uid, w1)"
    and close: "(if uid > 0 then wrapP ''sm.closeSession'' (closeSession uid) else returnP ()) w1 = (Ok u, w2)"
    and s: "wrapP ''sm.makeSession'' (makeSession uid (pm_user m)) w2 = (Ok s, w3)"
    and up: "upsertRow set_infer s w3 = (Ok (), w')"
    unfolding onProtocolEnter_def by (elim bindP_OkE) blast
  have "within schema_rel (if uid > 0 then wrapP ''sm.closeSession'' (closeSession uid) else returnP ())"
    by (intro within_rules)
  with close have "schema_rel w1 w2" by (rule withinD' [rotated])
  moreover have "schema_rel w w1" using schema_requireUserID uid by (rule withinD')
  ultimately have "schema_ok (w_db w2)" using assms(2) by (simp add: schema_rel_def)
  moreover from s obtain rm gw where "RoomCache_ByGatewayUID (w_cache w2) (vu_room (pm_user m)) = Some rm"
    "GatewayCache_ByName (w_cache w2) (vu_janus (pm_user m)) = Some gw"
    "s = session_of (e_now (w_env w2)) uid (pm_user m) rm gw" "w3 = w2"
    by (auto simp: makeSession_Ok)
  moreover have "uid > 0 \<longrightarrow> closeSession uid w1 = (Ok (), w2)"
    using close by (auto split: if_splits)
  moreover have "getInternalUserID (pm_user m) w = (Ok (uid, None), w1)"
    using uid by (simp add: requireUserID_Ok)
  ultimately show ?thesis using up that by blast
qed

text \<open>
  C6. A successful \<^verbatim>\<open>enter\<close> leaves the user with exactly one open session, the one of the
  message: its room, gateway, handles and flags are those of the message, at this instant; whatever
  was open for the user before is closed, and the sessions of every other user are unchanged.
\<close>

theorem enter_one_open_session:
  assumes ok: "schema_ok (w_db w)" and m: "unmarshal decode_protocol_message t = Inr m"
    and enter: "pm_type m = ''enter''" and run: "HandleProtocol t w = (Ok (), w')"
  shows "\<exists>u rm gw i c.
    UserCache_ByAccountsID (w_cache w') (vu_id (pm_user m)) = Some u \<and>
    RoomCache_ByGatewayUID (w_cache w) (vu_room (pm_user m)) = Some rm \<and>
    GatewayCache_ByName (w_cache w) (vu_janus (pm_user m)) = Some gw \<and>
    open_sessions (us_id u) w' =
      {(session_of (e_now (w_env w)) (us_id u) (pm_user m) rm gw)\<lparr>ss_id := i, ss_created_at := c\<rparr>} \<and>
    sessions_of_others (us_id u) w' = sessions_of_others (us_id u) w"
proof -
  obtain we where body: "onProtocolEnter m (drop_fault w) = (Ok (), we)"
    and w': "w_db w' = w_db we" "w_cache w' = w_cache we"
    using run m enter by (auto simp: HandleProtocol_def dest: healthy_runs)
  have "schema_ok (w_db (drop_fault w))" using ok by simp
  with body obtain uid w1 w2 rm gw where
    uid: "getInternalUserID (pm_user m) (drop_fault w) = (Ok (uid, None), w1)"
    and close: "uid > 0 \<longrightarrow> closeSession uid w1 = (Ok (), w2)"
    and rm: "RoomCache_ByGatewayUID (w_cache w2) (vu_room (pm_user m)) = Some rm"
    and gw: "GatewayCache_ByName (w_cache w2) (vu_janus (pm_user m)) = Some gw"
    and up: "upsertRow set_infer (session_of (e_now (w_env w2)) uid (pm_user m) rm gw) w2 = (Ok (), we)"
    and ok2: "schema_ok (w_db w2)"
    by (rule enter_stages) blast
  have "users_only (drop_fault w) w1" using users_only_getInternalUserID uid by (rule withinD')
  then have same: "sessions (w_db w1) = sessions (w_db w)" "c_rooms (w_cache w1) = c_rooms (w_cache w)"
    "c_gw_byname (w_cache w1) = c_gw_byname (w_cache w)" "e_now (w_env w1) = e_now (w_env w)"
    by (simp_all add: users_only_def)
  let ?s = "session_of (e_now (w_env w2)) uid (pm_user m) rm gw"
  from up obtain x d' where upsert: "session_upsert (e_now (w_env w2)) set_infer ?s (w_db w2) = (Inr x, d')"
    and we: "w_db we = d'" "w_cache we = w_cache w2"
    by (rule upsertRow_Ok)
  have "session_refs (w_db w2) (session_row (e_now (w_env w2)) ?s (w_db w2))"
    using upsert by (cases rule: session_upsert_Ok)
  then have "has_key us_id uid (users (w_db w2))" by (simp add: session_refs_def session_of_def)
  then have pos: "uid > 0" using ok2 by (auto simp: schema_ok_def users_ok_def has_key_iff)
  note c = closeSession_Ok [OF mp [OF close pos]]
  have none: "\<forall>s \<in> set (sessions (w_db w2)). \<not> open_of uid s" by (auto simp: c)
  have ids: "distinct (map ss_id (sessions (w_db w2)))"
    using ok2 by (simp add: schema_ok_def sessions_ok_def)
  have "filter (\<lambda>s. ss_user_id s \<noteq> uid) (sessions (w_db w2)) = filter (\<lambda>s. ss_user_id s \<noteq> uid) (sessions (w_db w))"
    by (simp add: c same) (rule filter_map_skip, auto simp: open_of_def)
  with upsert_only_open [OF upsert ids none] obtain i k where
    only: "{s \<in> set (sessions d'). open_of uid s} = {?s\<lparr>ss_id := i, ss_created_at := k\<rparr>}"
    and others: "filter (\<lambda>s. ss_user_id s \<noteq> uid) (sessions d') = filter (\<lambda>s. ss_user_id s \<noteq> uid) (sessions (w_db w))"
    by (auto simp: session_of_def)
  obtain v where v: "UserCache_ByAccountsID (w_cache w1) (vu_id (pm_user m)) = Some v" "us_id v = uid"
    using getInternalUserID_hit [OF uid] by blast
  have now: "e_now (w_env w2) = e_now (w_env w)" using c(3) same(4) by simp
  have lookups: "RoomCache_ByGatewayUID (w_cache w) (vu_room (pm_user m)) = Some rm"
    "GatewayCache_ByName (w_cache w) (vu_janus (pm_user m)) = Some gw"
    using rm gw c(2) same by (simp_all add: RoomCache_ByGatewayUID_def GatewayCache_ByName_def)
  show ?thesis
    using v lookups only others
    by (auto simp: w' we c(2) now open_sessions_def sessions_of_others_def)
qed

definition enter_user :: v1_user where
  "enter_user = zero_user\<lparr>vu_id := ''acc1'', vu_room := ''1051'', vu_janus := ''gxy1'', vu_session := 7\<rparr>"

definition enter_text :: "string \<Rightarrow> string" where
  "enter_text rm = obj_text [(''type'', quoted ''enter''), (''user'', obj_text [(''id'', quoted ''acc1''),
     (''room'', quoted rm), (''janus'', quoted ''gxy1''), (''session'', ''7'')])]"

lemma enter_text_decodes: "unmarshal decode_protocol_message (enter_text ''1051'') =
    Inr \<lparr>pm_type = ''enter'', pm_status = False, pm_room = 0, pm_user = enter_user\<rparr>"
  by code_simp

theorem enter_one_open_session_witness:
  "\<exists>(u :: user) x. open_sessions (us_id u) (snd (HandleProtocol (enter_text ''1051'') cached_world)) = {x}"
proof -
  have "fst (HandleProtocol (enter_text ''1051'') cached_world) = Ok ()" by code_simp
  then have run: "HandleProtocol (enter_text ''1051'') cached_world =
      (Ok (), snd (HandleProtocol (enter_text ''1051'') cached_world))" by (rule fst_run)
  have "pm_type \<lparr>pm_type = ''enter'', pm_status = False, pm_room = 0, pm_user = enter_user\<rparr> = ''enter''"
    by simp
  from enter_one_open_session [OF cached_schema_ok enter_text_decodes this run] show ?thesis
    by (elim exE conjE) (intro exI, assumption)
qed

end
