(* ===== verification/Session_Close.thy ===== *)
theory Session_Close
  imports Session_Laws
begin

text \<open>
  Leaving a room, updating a session, what a rolled back message leaves in the user cache, and the
  periodic cleaner.
\<close>

section \<open>Looking up a known user\<close>

text \<open>For a user that is cached or stored the lookup answers its id and writes no table.\<close>

lemma getInternalUserID_known:
  assumes known: "known_user w (vu_id u) = Some v"
    and run: "getInternalUserID u w = (Ok (uid, err), w')"
    and ok: "err = None \<or> (\<exists>e. err = Some e \<and> as_protocol e)"
  shows "uid = us_id v \<and> w_db w' = w_db w \<and> e_now (w_env w') = e_now (w_env w)"
proof (cases "UserCache_ByAccountsID (w_cache w) (vu_id u)")
  case (Some v')
  with known run show ?thesis by (simp add: getInternalUserID_def cacheP_def known_user_def)
next
  case None
  then have v: "user_by_accounts_id (vu_id u) (w_db w) = Some v"
    using known by (simp add: known_user_def)
  show ?thesis
  proof (cases "next_fault w")
    case None
    then have "oneP (user_by_accounts_id (vu_id u)) w = (Ok v, drop_fault w)"
      using v by (simp add: oneP_apply)
    with run \<open>UserCache_ByAccountsID (w_cache w) (vu_id u) = None\<close> show ?thesis
      by (auto simp: getInternalUserID_def cacheP_def tryP_def bindP_Ok_iff UserCache_Set_def
          split: if_splits)
  next
    case (Some m)
    then have "oneP (user_by_accounts_id (vu_id u)) w = (Err (EDb m), drop_fault w)"
      by (simp add: oneP_apply)
    with run ok \<open>UserCache_ByAccountsID (w_cache w) (vu_id u) = None\<close> show ?thesis
      by (auto simp: getInternalUserID_def cacheP_def tryP_def)
  qed
qed

lemma known_user_drop [simp]: "known_user (drop_fault w) a = known_user w a"
  by (simp add: known_user_def split: option.split)

section \<open>Leaving\<close>

definition leaving_event :: "string \<Rightarrow> (string \<times> json) list \<Rightarrow> bool" where
  "leaving_event display d \<longleftrightarrow> map_of d ''display'' = Some (JStr display) \<and>
     (\<exists>t \<in> {''leaving'', ''kicked'', ''unpublished''}. event_type d = Some (JStr t))"

text \<open>
  C37. When a user leaves, is kicked or unpublishes, every open session of the user is closed at
  this instant and marked \<^verbatim>\<open>close_session\<close> in its properties, no other session changes, and this also
  holds for a disabled user, whose lookup is a protocol error.
\<close>

theorem leaving_closes_sessions:
  assumes ev: "leaving_event display d" and u: "unmarshal decode_v1_user display = Inr u"
    and known: "known_user w (vu_id u) = Some v" and id: "us_id v \<noteq> 0"
    and run: "HandleEvent (PluginEvent ''janus.plugin.videoroom'' d) w = (Ok (), w')"
  shows "sessions (w_db w') = map (\<lambda>s. if open_of (us_id v) s
    then closed ''close_session'' (e_now (w_env w)) s else s) (sessions (w_db w))"
proof -
  obtain t where t: "event_type d = Some (JStr t)" "t \<in> {''leaving'', ''kicked'', ''unpublished''}"
    and disp: "map_of d ''display'' = Some (JStr display)"
    using ev by (auto simp: leaving_event_def)
  have "InTx (wrapP ''V1SessionManager.onVideoroomLeaving'' (onVideoroomLeaving d)) w = (Ok (), w')"
    using run t by (auto simp: HandleEvent_def)
  from healthy_runs [OF this] obtain w2 where body: "onVideoroomLeaving d (drop_fault w) = (Ok (), w2)"
    and w2: "w_db w' = w_db w2"
    by auto
  obtain uid err w1 where look: "getInternalUserID u (drop_fault w) = (Ok (uid, err), w1)"
    and rest: "(case err of
        Some e \<Rightarrow> if \<not> as_protocol e then errP (EWrap ''sm.getInternalUserID'' e)
                  else if uid = 0 then returnP () else closeSession uid
      | None \<Rightarrow> if uid = 0 then returnP () else closeSession uid) w1 = (Ok (), w2)"
    using body disp u by (auto simp: onVideoroomLeaving_def bindP_Ok_iff)
  have err: "err = None \<or> (\<exists>e. err = Some e \<and> as_protocol e)"
    and close: "uid = 0 \<and> w2 = w1 \<or> closeSession uid w1 = (Ok (), w2)"
    using rest by (cases err; auto split: if_splits)+
  have "known_user (drop_fault w) (vu_id u) = Some v" using known by simp
  then have "uid = us_id v" "w_db w1 = w_db w" "e_now (w_env w1) = e_now (w_env w)"
    using getInternalUserID_known [OF _ look err] by simp_all
  with close id closeSession_Ok [of uid w1 w2] show ?thesis by (auto simp: w2)
qed

definition leave_data :: "(string \<times> json) list" where
  "leave_data = [(''event'', JStr ''leaving''), (''display'', JStr (obj_text [(''id'', quoted ''acc1'')]))]"

definition disabled_world :: world where
  "disabled_world = cached_world\<lparr>w_db := sample_db\<lparr>users := [sample_user\<lparr>us_disabled := True\<rparr>],
     sessions := [sample_session], seq_session := 2\<rparr>\<rparr>"

theorem leaving_closes_sessions_witness:
  "map ss_removed_at (sessions (w_db (snd (HandleEvent (PluginEvent ''janus.plugin.videoroom'' leave_data)
     disabled_world)))) = [Some sample_now]"
proof -
  let ?run = "HandleEvent (PluginEvent ''janus.plugin.videoroom'' leave_data) disabled_world"
  have ev: "leaving_event (obj_text [(''id'', quoted ''acc1'')]) leave_data"
    by (simp add: leaving_event_def leave_data_def event_type_def)
  have u: "unmarshal decode_v1_user (obj_text [(''id'', quoted ''acc1'')]) = Inr (zero_user\<lparr>vu_id := ''acc1''\<rparr>)"
    by code_simp
  have known: "known_user disabled_world (vu_id (zero_user\<lparr>vu_id := ''acc1''\<rparr>)) = Some (sample_user\<lparr>us_disabled := True\<rparr>)"
    by code_simp
  have "fst ?run = Ok ()" by code_simp
  from leaving_closes_sessions [OF ev u known _ fst_run [OF this]] show ?thesis
    by (simp add: sample_user_def disabled_world_def sample_session_def open_of_def cached_world_def
        sample_world_def sample_env_def sample_db_def)
qed

section \<open>Updating\<close>

lemma upsertSession_stages:
  assumes "upsertSession u w = (Ok (), w')"
  obtains uid w1 rm gw where "getInternalUserID u w = (Ok (uid, None), w1)"
    and "RoomCache_ByGatewayUID (w_cache w1) (vu_room u) = Some rm"
    and "GatewayCache_ByName (w_cache w1) (vu_janus u) = Some gw"
    and "upsertRow set_but_created_properties (session_of (e_now (w_env w1)) uid u rm gw) w1 = (Ok (), w')"
proof -
  from assms obtain uid w1 s w2 where uid: "requireUserID u w = (Ok uid, w1)"
    and s: "wrapP ''sm.makeSession'' (makeSession uid u) w1 = (Ok s, w2)"
    and up: "upsertRow set_but_created_properties s w2 = (Ok (), w')"
    unfolding upsertSession_def by (elim bindP_OkE) blast
  moreover from s obtain rm gw where "RoomCache_ByGatewayUID (w_cache w1) (vu_room u) = Some rm"
    "GatewayCache_ByName (w_cache w1) (vu_janus u) = Some gw"
    "s = session_of (e_now (w_env w1)) uid u rm gw" "w2 = w1"
    by (auto simp: makeSession_Ok)
  ultimately show ?thesis using that by (simp add: requireUserID_Ok)
qed

lemma tupdate_cong:
  "(\<And>r. r \<in> set rs \<Longrightarrow> key r = i \<Longrightarrow> f r = g r) \<Longrightarrow> tupdate key i f rs = tupdate key i g rs"
  by (simp add: tupdate_def)

text \<open>
  An update of a session that exists, open or closed, rewrites its row from the message and
  opens it again, keeps its id, its creation time and its properties (the history of closings), and
  changes no other session.
\<close>

theorem UpsertSession_revives:
  assumes ok: "schema_ok (w_db w)" and run: "UpsertSession u w = (Ok (), w')"
    and known: "known_user w (vu_id u) = Some v"
    and rm: "RoomCache_ByGatewayUID (w_cache w) (vu_room u) = Some rm"
    and gw: "GatewayCache_ByName (w_cache w) (vu_janus u) = Some gw"
    and old: "old \<in> set (sessions (w_db w))" "ss_user_id old = us_id v"
      "ss_gateway_id old = Some (gw_id gw)" "ss_gateway_session old = Some (vu_session u)"
  shows "sessions (w_db w') = tupdate ss_id (ss_id old)
    (\<lambda>_. (session_of (e_now (w_env w)) (us_id v) u rm gw)\<lparr>ss_id := ss_id old,
       ss_created_at := ss_created_at old, ss_properties := ss_properties old\<rparr>) (sessions (w_db w))"
proof -
  from run obtain we where body: "upsertSession u (drop_fault w) = (Ok (), we)" and w': "w_db w' = w_db we"
    by (auto simp: UpsertSession_def dest: healthy_runs)
  from body obtain uid w1 rm1 gw1 where look: "getInternalUserID u (drop_fault w) = (Ok (uid, None), w1)"
    and rm1: "RoomCache_ByGatewayUID (w_cache w1) (vu_room u) = Some rm1"
    and gw1: "GatewayCache_ByName (w_cache w1) (vu_janus u) = Some gw1"
    and up: "upsertRow set_but_created_properties (session_of (e_now (w_env w1)) uid u rm1 gw1) w1 = (Ok (), we)"
    by (rule upsertSession_stages)
  have "known_user (drop_fault w) (vu_id u) = Some v" using known by simp
  then have same: "uid = us_id v" "w_db w1 = w_db w" "e_now (w_env w1) = e_now (w_env w)"
    using getInternalUserID_known [OF _ look] by simp_all
  have "users_only (drop_fault w) w1" using users_only_getInternalUserID look by (rule withinD')
  then have eq: "rm1 = rm" "gw1 = gw"
    using rm gw rm1 gw1 by (simp_all add: users_only_def RoomCache_ByGatewayUID_def GatewayCache_ByName_def)
  let ?s = "session_of (e_now (w_env w)) (us_id v) u rm gw"
  let ?row = "session_row (e_now (w_env w)) ?s (w_db w)"
  from up obtain x d' where ups: "session_upsert (e_now (w_env w)) set_but_created_properties ?s (w_db w) = (Inr x, d')"
    and we: "w_db we = d'"
    by (auto simp: same eq elim: upsertRow_Ok)
  have ids: "distinct (map ss_id (sessions (w_db w)))"
    and uniq: "\<And>a b. a \<in> set (sessions (w_db w)) \<Longrightarrow> b \<in> set (sessions (w_db w)) \<Longrightarrow> same_session a b \<Longrightarrow> a = b"
    using ok by (simp_all add: schema_ok_def sessions_ok_def)
  have key: "same_session ?row old" using old by (simp add: same_session_def session_of_def)
  show ?thesis using ups
  proof (cases rule: session_upsert_Ok)
    case (replaced o')
    have "same_session o' old" using replaced(3) key same_session_sym same_session_trans by blast
    then have o': "o' = old" using uniq replaced(2) old(1) by blast
    have only: "r = old" if "r \<in> set (sessions (w_db w))" "ss_id r = ss_id old" for r
      using distinct_key_eq [OF ids that(1) old(1) that(2)] .
    show ?thesis
      unfolding w' we replaced(4) o'
      by (rule tupdate_cong) (use only in \<open>auto simp: set_but_created_properties_def session_row_def\<close>)
  next
    case added
    with key old(1) show ?thesis by (auto simp: list_ex_iff)
  qed
qed

definition revive_world :: world where
  "revive_world = cached_world\<lparr>w_db := sample_db\<lparr>sessions :=
     [sample_session\<lparr>ss_removed_at := Some 5, ss_properties := Some (JObj [])\<rparr>], seq_session := 2\<rparr>\<rparr>"

definition revive_user :: v1_user where
  "revive_user = zero_user\<lparr>vu_id := ''acc1'', vu_room := ''1052'', vu_janus := ''gxy1'', vu_session := 7\<rparr>"

theorem UpsertSession_revives_witness:
  "map (\<lambda>s. (ss_removed_at s, ss_room_id s, ss_properties s))
     (sessions (w_db (snd (UpsertSession revive_user revive_world)))) =
   [(None, Some 2, Some (JObj []))]"
proof -
  have ok: "schema_ok (w_db revive_world)"
    using sample_schema_ok
    by (simp add: revive_world_def schema_defs sample_db_def sample_session_def same_session_def
        has_key_def sample_user_def sample_room_def sample_gateway_def)
  have "fst (UpsertSession revive_user revive_world) = Ok ()" by code_simp
  note run = fst_run [OF this]
  have known: "known_user revive_world (vu_id revive_user) = Some sample_user" by code_simp
  have rm: "RoomCache_ByGatewayUID (w_cache revive_world) (vu_room revive_user) =
      Some (sample_room 2 ''1052'' ''room 2'')" by code_simp
  have gw: "GatewayCache_ByName (w_cache revive_world) (vu_janus revive_user) = Some sample_gateway"
    by code_simp
  have "sample_session\<lparr>ss_removed_at := Some 5, ss_properties := Some (JObj [])\<rparr> \<in> set (sessions (w_db revive_world))"
    by (simp add: revive_world_def)
  from UpsertSession_revives [OF ok run known rm gw this] show ?thesis
    by (simp add: sample_session_def sample_user_def sample_gateway_def revive_user_def tupdate_def
        revive_world_def session_of_def sample_room_def)
qed

end
