(* ===== verification/Session_Phantom.thy ===== *)
theory Session_Phantom
  imports Session_Close
begin

text \<open>
  The user cache outlives a rollback: the first message of a new user that names an unknown room
  leaves a user in the cache that no table holds, and the later messages of that user fail.  Last,
  the periodic cleaner.
\<close>

section \<open>A user that only the cache knows\<close>

definition not_stored :: "world \<Rightarrow> user \<Rightarrow> bool" where
  "not_stored w u \<longleftrightarrow> us_id u \<notin> us_id ` set (users (w_db w))"

definition user_fits :: "v1_user \<Rightarrow> bool" where
  "user_fits u \<longleftrightarrow> fits 36 (vu_id u) \<and> fits 255 (vu_email u) \<and> fits 255 (vu_username u)"

lemma getInternalUserID_new:
  assumes h: "healthy w" and ok: "schema_ok (w_db w)" and fits: "user_fits u"
    and none: "known_user w (vu_id u) = None"
  shows "\<exists>v w'. getInternalUserID u w = (Ok (us_id v, None), w') \<and> 0 < us_id v \<and>
    UserCache_ByAccountsID (w_cache w') (vu_id u) = Some v \<and> not_stored w v \<and> healthy w' \<and>
    c_rooms (w_cache w') = c_rooms (w_cache w)"
proof -
  let ?d = "w_db w"
  let ?row = "user_row (e_now (w_env w)) (new_user u) ?d"
  have cache: "UserCache_ByAccountsID (w_cache w) (vu_id u) = None"
    and row: "user_by_accounts_id (vu_id u) ?d = None"
    using none by (auto simp: known_user_def split: option.splits)
  have id: "us_id ?row = seq_user ?d" by (simp add: user_row_def new_user_def)
  have free: "seq_user ?d \<notin> us_id ` set (users ?d)" "0 < seq_user ?d"
    using ok by (auto simp: schema_ok_def users_ok_def)
  have "user_insert (e_now (w_env w)) (new_user u) ?d =
      (Inr ?row, ?d\<lparr>seq_user := seq_user ?d + 1, users := users ?d @ [?row]\<rparr>)"
    using fits row free
    by (auto simp: user_insert_def Let_def user_fits_def ofits_def new_user_def user_row_def
        has_key_iff user_by_accounts_id_def find_None_all list_ex_iff fits_def)
  then obtain d' where ins: "user_insert (e_now (w_env w)) (new_user u) ?d = (Inr ?row, d')" by blast
  obtain w' where set: "UserCache_Set ?row (w\<lparr>w_db := d'\<rparr>) = (Ok (), w')"
    by (simp add: UserCache_Set_def)
  have "getInternalUserID u w = (Ok (us_id ?row, None), w')"
    using h cache row ins set
    by (simp add: getInternalUserID_def cacheP_def tryP_def healthy_oneP nowP_def healthy_dbP bindP_def)
  moreover have "UserCache_ByAccountsID (w_cache w') (vu_id u) = Some ?row"
    using UserCache_Set_hit [OF set] by (simp add: user_row_def new_user_def)
  moreover have "healthy w'" "c_rooms (w_cache w') = c_rooms (w_cache w)"
    using set h by (auto simp: UserCache_Set_def healthy_def arc_add_def)
  ultimately show ?thesis using id free by (intro exI [of _ ?row]) (auto simp: not_stored_def)
qed

lemma closeSession_healthy:
  "healthy w \<Longrightarrow> \<exists>w'. closeSession uid w = (Ok (), w') \<and> healthy w' \<and> w_cache w' = w_cache w \<and>
     users (w_db w') = users (w_db w)"
  by (auto simp: closeSession_def nowP_def healthy_dbP bindP_def wrapP_def sessions_mark_def)

lemma InTx_Err:
  assumes "healthy w" "f w = (Err e, w2)" "healthy w2"
  shows "InTx f w = (Err e, undo w w2)"
  using assms by (simp add: InTx_def Let_def)

text \<open>
  C38. The first message of an unknown user that names an unknown room is answered with a protocol
  error and leaves every table as it was, but the user cache now holds a user whose id is in no
  row.
\<close>

theorem enter_unknown_room_phantom:
  assumes h: "healthy w" and ok: "schema_ok (w_db w)"
    and m: "unmarshal decode_protocol_message t = Inr m" "pm_type m = ''enter''"
    and new: "known_user w (vu_id (pm_user m)) = None" "user_fits (pm_user m)"
    and room: "RoomCache_ByGatewayUID (w_cache w) (vu_room (pm_user m)) = None"
  shows "\<exists>e w' v. HandleProtocol t w = (Err e, w') \<and> as_protocol e \<and>
    same_tables (w_db w) (w_db w') \<and>
    UserCache_ByAccountsID (w_cache w') (vu_id (pm_user m)) = Some v \<and> not_stored w' v"
proof -
  let ?u = "pm_user m"
  obtain v w1 where look: "getInternalUserID ?u w = (Ok (us_id v, None), w1)" and pos: "0 < us_id v"
    and hit: "UserCache_ByAccountsID (w_cache w1) (vu_id ?u) = Some v" and ns: "not_stored w v"
    and w1: "healthy w1" "c_rooms (w_cache w1) = c_rooms (w_cache w)"
    using getInternalUserID_new [OF h ok new(2,1)] by blast
  obtain w2 where close: "closeSession (us_id v) w1 = (Ok (), w2)" and w2: "healthy w2"
    "w_cache w2 = w_cache w1"
    using closeSession_healthy [OF w1(1)] by blast
  let ?e = "EWrap ''V1SessionManager.onProtocolEnter'' (EWrap ''sm.makeSession''
      (NewProtocolError (''Unknown room: %!d(string='' @ vu_room ?u @ '')'')))"
  have req: "requireUserID ?u w = (Ok (us_id v), w1)" using look by (simp add: requireUserID_Ok)
  have "makeSession (us_id v) ?u w2 = (Err (NewProtocolError
      (''Unknown room: %!d(string='' @ vu_room ?u @ '')'')), w2)"
    using room w1 w2 by (simp add: makeSession_def cacheP_def RoomCache_ByGatewayUID_def)
  then have "wrapP ''V1SessionManager.onProtocolEnter'' (onProtocolEnter m) w = (Err ?e, w2)"
    using req pos close by (simp add: onProtocolEnter_def wrapP_def)
  from InTx_Err [where f = "wrapP ''V1SessionManager.onProtocolEnter'' (onProtocolEnter m)", OF h this w2(1)]
  have "HandleProtocol t w = (Err ?e, undo w w2)"
    using m by (simp add: HandleProtocol_def)
  moreover have "as_protocol ?e" by (simp add: NewProtocolError_def)
  moreover have "not_stored (undo w w2) v" using ns by (simp add: not_stored_def)
  ultimately show ?thesis using hit w2 by auto
qed

theorem enter_unknown_room_phantom_witness:
  "\<exists>v. UserCache_ByAccountsID (w_cache (snd (HandleProtocol (obj_text [(''type'', quoted ''enter''),
     (''user'', obj_text [(''id'', quoted ''new''), (''room'', quoted ''9'')])]) cached_world))) ''new'' = Some v"
proof -
  let ?t = "obj_text [(''type'', quoted ''enter''), (''user'', obj_text [(''id'', quoted ''new''), (''room'', quoted ''9'')])]"
  let ?m = "\<lparr>pm_type = ''enter'', pm_status = False, pm_room = 0,
     pm_user = zero_user\<lparr>vu_id := ''new'', vu_room := ''9''\<rparr>\<rparr>"
  have m: "unmarshal decode_protocol_message ?t = Inr ?m" by code_simp
  have enter: "pm_type ?m = ''enter''" by simp
  have new: "known_user cached_world (vu_id (pm_user ?m)) = None" by code_simp
  have fits: "user_fits (pm_user ?m)" by code_simp
  have room: "RoomCache_ByGatewayUID (w_cache cached_world) (vu_room (pm_user ?m)) = None" by code_simp
  from enter_unknown_room_phantom [OF _ cached_schema_ok m enter new fits room] show ?thesis
    by (auto simp: zero_user_def)
qed

text \<open>
  While the cache holds such a user, entering a known room of a known gateway fails with an
  internal error (the foreign key of the session), which is not a protocol error, and nothing is
  written.
\<close>

theorem enter_phantom_fails:
  assumes h: "healthy w" and m: "unmarshal decode_protocol_message t = Inr m" "pm_type m = ''enter''"
    and hit: "UserCache_ByAccountsID (w_cache w) (vu_id (pm_user m)) = Some v" and ns: "not_stored w v"
    and rm: "RoomCache_ByGatewayUID (w_cache w) (vu_room (pm_user m)) = Some rm"
    and gw: "GatewayCache_ByName (w_cache w) (vu_janus (pm_user m)) = Some gw"
    and fits: "fits 512 (vu_display (pm_user m))"
  shows "\<exists>e w'. HandleProtocol t w = (Err e, w') \<and> \<not> as_protocol e \<and>
    same_tables (w_db w) (w_db w') \<and> w_cache w' = w_cache w"
proof -
  let ?u = "pm_user m" and ?uid = "us_id v"
  have req: "requireUserID ?u w = (Ok ?uid, w)"
    using hit by (simp add: requireUserID_Ok getInternalUserID_def cacheP_def)
  obtain w2 where close: "(if ?uid > 0 then wrapP ''sm.closeSession'' (closeSession ?uid) else returnP ()) w = (Ok (), w2)"
    and w2: "healthy w2" "w_cache w2 = w_cache w" "users (w_db w2) = users (w_db w)"
    using closeSession_healthy [OF h, of ?uid] h by (cases "?uid > 0") auto
  let ?s = "session_of (e_now (w_env w2)) ?uid ?u rm gw"
  have make: "makeSession ?uid ?u w2 = (Ok ?s, w2)"
    using rm gw w2 by (simp add: makeSession_Ok)
  have "\<not> has_key us_id ?uid (users (w_db w2))"
    using ns w2(3) by (simp add: has_key_iff not_stored_def)
  then have "\<exists>d'. session_upsert (e_now (w_env w2)) set_infer ?s (w_db w2) = (Inl fk_violation, d')"
    using fits by (simp add: session_upsert_def Let_def session_refs_def session_of_def ofits_def)
  then obtain w3 where up: "upsertRow set_infer ?s w2 = (Err (EWrap ''db upsert'' fk_violation), w3)"
    and w3: "healthy w3" "w_cache w3 = w_cache w2"
    using w2(1) by (auto simp: upsertRow_def nowP_def bindP_def wrapP_def healthy_dbP)
  let ?e = "EWrap ''V1SessionManager.onProtocolEnter'' (EWrap ''db upsert'' fk_violation)"
  have "wrapP ''V1SessionManager.onProtocolEnter'' (onProtocolEnter m) w = (Err ?e, w3)"
    by (cases "?uid > 0") (use req close make up in \<open>auto simp: onProtocolEnter_def wrapP_def\<close>)
  from InTx_Err [where f = "wrapP ''V1SessionManager.onProtocolEnter'' (onProtocolEnter m)", OF h this w3(1)]
  have "HandleProtocol t w = (Err ?e, undo w w3)"
    using m by (simp add: HandleProtocol_def)
  moreover have "\<not> as_protocol ?e" by (simp add: fk_violation_def)
  ultimately show ?thesis using w3 w2 by auto
qed

definition phantom_world :: world where
  "phantom_world = cached_world\<lparr>w_cache := (w_cache cached_world)\<lparr>
     c_users := [(''acc1'', sample_user\<lparr>us_id := 9\<rparr>)]\<rparr>\<rparr>"

theorem enter_phantom_fails_witness:
  "\<exists>e w'. HandleProtocol (enter_text ''1051'') phantom_world = (Err e, w') \<and> \<not> as_protocol e"
proof -
  let ?m = "\<lparr>pm_type = ''enter'', pm_status = False, pm_room = 0, pm_user = enter_user\<rparr>"
  let ?v = "sample_user\<lparr>us_id := 9\<rparr>"
  have h: "healthy phantom_world" by (simp add: phantom_world_def)
  have enter: "pm_type ?m = ''enter''" by simp
  have hit: "UserCache_ByAccountsID (w_cache phantom_world) (vu_id (pm_user ?m)) = Some ?v" by code_simp
  have ns: "not_stored phantom_world ?v" by code_simp
  have rm: "RoomCache_ByGatewayUID (w_cache phantom_world) (vu_room (pm_user ?m)) =
      Some (sample_room 1 ''1051'' ''room 1'')" by code_simp
  have gw: "GatewayCache_ByName (w_cache phantom_world) (vu_janus (pm_user ?m)) = Some sample_gateway"
    by code_simp
  have fits: "fits 512 (vu_display (pm_user ?m))" by code_simp
  from enter_phantom_fails [OF h enter_text_decodes enter hit ns rm gw fits] show ?thesis by blast
qed

section \<open>The cleaner\<close>

definition stale :: "time \<Rightarrow> session \<Rightarrow> bool" where
  "stale t s \<longleftrightarrow> ss_removed_at s = None \<and> (\<exists>u. ss_updated_at s = Some u \<and> u < t)"

lemma sessions_stale_eq: "sessions_stale t d = filter (stale t) (sessions d)"
  by (auto simp: sessions_stale_def stale_def intro!: filter_cong split: option.splits)

text \<open>
  C39. A pass of the cleaner closes exactly the open sessions whose last update is older than the
  configured period, marks them \<^verbatim>\<open>clean_session\<close>, changes no other session, and reports the ones it
  closed as they were before.
\<close>

theorem clean_closes_stale:
  assumes h: "healthy w" and ok: "schema_ok (w_db w)"
  defines "t \<equiv> e_now (w_env w) - DeadSessionPeriod (w_cfg w)"
  shows "\<exists>w'. clean w = (Ok (clean_report (filter (stale t) (sessions (w_db w)))), w') \<and>
    sessions (w_db w') = map (\<lambda>s. if stale t s then closed ''clean_session'' (e_now (w_env w)) s else s)
      (sessions (w_db w))"
proof (cases "filter (stale t) (sessions (w_db w)) = []")
  case True
  then have none: "\<forall>s \<in> set (sessions (w_db w)). \<not> stale t s" by (simp add: filter_empty_conv)
  have "clean w = (Ok ([], []), w)"
    using h True
    by (simp add: clean_def nowP_def cfgP_def tryP_def sessions_stale_eq t_def [symmetric])
  moreover have "map (\<lambda>s. if stale t s then closed ''clean_session'' (e_now (w_env w)) s else s)
      (sessions (w_db w)) = sessions (w_db w)"
    using none by (simp add: map_idI)
  ultimately show ?thesis using True by (simp add: clean_report_def)
next
  case False
  let ?ss = "filter (stale t) (sessions (w_db w))"
  let ?mark = "sessions_mark (JObj [(''clean_session'', JTime (e_now (w_env w)))]) (e_now (w_env w))
     (\<lambda>s. ss_id s \<in> set (map ss_id ?ss))"
  have ids: "distinct (map ss_id (sessions (w_db w)))"
    using ok by (simp add: schema_ok_def sessions_ok_def)
  have hit: "ss_id s \<in> set (map ss_id ?ss) \<longleftrightarrow> stale t s" if "s \<in> set (sessions (w_db w))" for s
    using distinct_key_eq [OF ids] that by auto
  let ?w' = "w\<lparr>w_db := snd (?mark (w_db w))\<rparr>"
  let ?body = "bindP (dbP ?mark) (\<lambda>_. returnP ())"
  have "?mark (w_db w) = (Inr (int (length (filter (\<lambda>s. ss_id s \<in> set (map ss_id ?ss))
      (sessions (w_db w))))), snd (?mark (w_db w)))"
    by (simp add: sessions_mark_def)
  from bindP_Ok [where m = "dbP ?mark" and f = "\<lambda>_. returnP ()", OF healthy_dbP_Inr [where st = ?mark, OF h this]]
  have "?body w = (Ok (), ?w')" by simp
  then have tx: "InTx ?body w = (Ok (), ?w')"
    using h by (simp add: InTx_def Let_def)
  have "clean w = (Ok (clean_report ?ss), ?w')"
    using h False tx
    by (simp add: clean_def nowP_def cfgP_def tryP_def sessions_stale_eq t_def [symmetric] del: set_map)
  moreover have "sessions (w_db ?w') =
      map (\<lambda>s. if stale t s then closed ''clean_session'' (e_now (w_env w)) s else s) (sessions (w_db w))"
    using hit by (simp add: sessions_mark_eq)
  ultimately show ?thesis by blast
qed

theorem clean_closes_stale_witness:
  "map ss_removed_at (sessions (w_db (snd (clean (sample_world\<lparr>w_db := sample_db\<lparr>
     sessions := [sample_session], seq_session := 2\<rparr>\<rparr>))))) = [Some sample_now]"
proof -
  let ?w = "sample_world\<lparr>w_db := sample_db\<lparr>sessions := [sample_session], seq_session := 2\<rparr>\<rparr>"
  have ok: "schema_ok (w_db ?w)"
    using sample_schema_ok
    by (simp add: schema_defs sample_db_def sample_session_def same_session_def has_key_def
        sample_user_def sample_room_def sample_gateway_def)
  have "e_now (w_env ?w) = sample_now" "0 < sample_now - DeadSessionPeriod (w_cfg ?w)"
    by (simp_all add: sample_world_def sample_env_def sample_cfg_def sample_now_def second_def newConfig_def)
  then show ?thesis
    using clean_closes_stale [of ?w, OF _ ok] by (auto simp: stale_def sample_session_def)
qed

end
