(* ===== verification/App.thy ===== *)
theory App
  imports Api_V1 Room_Stats_Race Session_Phantom
begin

text \<open>
  The composition (\<^verbatim>\<open>api/app.go\<close>): the route table, the chain of middleware around it, and the
  events of the process (requests, the ticks of the caches, the session cleaner, the
  synchronisation of gateway tokens with the observer it notifies, messages of the MQTT listener).

  Libraries of others are arguments, the record \<^verbatim>\<open>deps\<close>: the token verifier, the matching of
  \<^verbatim>\<open>gorilla/mux\<close> (the status it answers by itself, or the index of the route it chose and the
  path variables), the preflight answers of \<^verbatim>\<open>rs/cors\<close>, the parsers of \<^verbatim>\<open>janus-go\<close>, the
  page of the metrics.
\<close>

section \<open>Routes\<close>

record deps =
  d_verify :: "string \<Rightarrow> string option \<times> gerr option"
  d_mux :: "(string \<times> string) list \<Rightarrow> request \<Rightarrow> int + nat \<times> (string, string) gomap"
  d_cors :: "request \<Rightarrow> response option"
  d_parse_event :: "string \<Rightarrow> gerr + gateway_event"
  d_parse_textroom :: "string \<Rightarrow> gerr + string"
  d_metrics :: "request \<Rightarrow> response"
  d_late :: bool

text \<open>Path template, method (empty for any) and handler, in the order of \<^verbatim>\<open>initRoutes\<close>.\<close>

definition admin_routes :: "(string \<times> string \<times> handler) list" where
  "admin_routes = [
     (''/admin/gateways'', ''GET'', AdminListGateways),
     (''/admin/gateways/{gateway_id}/sessions/{session_id}/handles/{handle_id}/info'', ''GET'',
      AdminGatewaysHandleInfo),
     (''/admin/rooms'', ''GET'', AdminListRooms),
     (''/admin/rooms'', ''POST'', AdminCreateRoom),
     (''/admin/rooms/{id}'', ''GET'', AdminGetRoom),
     (''/admin/rooms/{id}'', ''PUT'', AdminUpdateRoom),
     (''/admin/rooms/{id}'', ''DELETE'', AdminDeleteRoom),
     (''/admin/rooms_statistics'', ''DELETE'', AdminDeleteRoomsStatistics),
     (''/admin/dynamic_config'', ''GET'', AdminListDynamicConfigs),
     (''/admin/dynamic_config'', ''POST'', AdminCreateDynamicConfig),
     (''/admin/dynamic_config/{id}'', ''GET'', AdminGetDynamicConfig),
     (''/admin/dynamic_config/{id}'', ''PUT'', AdminUpdateDynamicConfig),
     (''/admin/dynamic_config/{key}'', ''POST'', AdminSetDynamicConfig),
     (''/admin/dynamic_config/{id}'', ''DELETE'', AdminDeleteDynamicConfig)]"

definition routes :: "deps \<Rightarrow> (string \<times> string \<times> handler) list" where
  "routes d = [
     (''/groups'', ''GET'', V1ListGroups),
     (''/group/{id}'', ''PUT'', V1CreateGroup),
     (''/rooms'', ''GET'', V1ListRooms),
     (''/room/{id}'', ''GET'', V1GetRoom),
     (''/rooms/{id}'', ''PUT'', V1UpdateRoom),
     (''/users'', ''GET'', V1ListUsers),
     (''/users/{id}'', ''GET'', V1GetUser),
     (''/users/{id}'', ''PUT'', V1UpdateSession),
     (''/qids'', ''GET'', V1ListComposites),
     (''/qids/{id}'', ''GET'', V1GetComposite),
     (''/program/{id}'', ''GET'', V1GetComposite),
     (''/qids/{id}'', ''PUT'', V1UpdateComposite),
     (''/event'', ''POST'', V1HandleEvent (d_parse_event d)),
     (''/protocol'', ''POST'', V1HandleProtocol (d_parse_textroom d)),
     (''/protocol/service'', ''POST'', V1HandleServiceProtocol (d_parse_textroom d)),
     (''/v2/config'', ''GET'', V2GetConfig),
     (''/v2/rooms_statistics'', ''GET'', V2GetRoomsStatistics)] @
     admin_routes @
     [(''/health_check'', ''GET'', HealthCheck (d_late d)),
      (''/metrics'', [], (\<lambda>r. returnP (d_metrics d r)))]"

text \<open>
  The router with its own middleware, which notes the template; without a context it would panic.
\<close>

definition status_only :: "int \<Rightarrow> response" where
  "status_only c = \<lparr>rp_code = c, rp_payload = PText []\<rparr>"

definition Router :: "deps \<Rightarrow> handler" where
  "Router d r =
     (case d_mux d (map (\<lambda>(tpl, m, _). (tpl, m)) (routes d)) r of
        Inl c \<Rightarrow> returnP (status_only c)
      | Inr (i, vars) \<Rightarrow>
          if length (routes d) \<le> i then returnP (status_only 404)
          else if rq_context r = None then panicP nil_deref
          else (case routes d ! i of (tpl, _, h) \<Rightarrow>
            h ((on_context (\<lambda>c. c\<lparr>rc_route_name := tpl\<rparr>) r)\<lparr>rq_vars := vars\<rparr>)))"

definition corsHandler :: "(request \<Rightarrow> response option) \<Rightarrow> handler \<Rightarrow> handler" where
  "corsHandler answer next r = (case answer r of Some resp \<Rightarrow> returnP resp | None \<Rightarrow> next r)"

definition Handler :: "deps \<Rightarrow> handler" where
  "Handler d =
     ContextMiddleware
       (RecoveryMiddleware
         (RealIPMiddleware
           (corsHandler (d_cors d)
             (AuthenticationMiddleware (d_verify d) gwPwdP
               (MinimalPermissionMiddleware
                 (Router d))))))"

section \<open>Events of the process\<close>

definition Notify :: "string \<Rightarrow> unit go" where
  "Notify ev = (if ev = EventGatewayTokensChanged
     then tryP GatewayTokenCache_Reload (\<lambda>_. returnP ()) else returnP ())"

definition tokens_max_age :: time where "tokens_max_age = 3 * day"

text \<open>The application is the one observer of the token manager.\<close>

definition observers_of :: observers where
  "observers_of = AddObserver ''app'' Notify []"

datatype app_event =
    HttpRequest request
  | CacheTick int
  | CleanerTick
  | TokensTick bool
  | MqttMessage string

definition handle_event :: "deps \<Rightarrow> app_event \<Rightarrow> world \<Rightarrow> world" where
  "handle_event d ev w = (case ev of
     HttpRequest r \<Rightarrow> snd (Handler d r w)
   | CacheTick n \<Rightarrow> snd (AppCache_tick n w)
   | CleanerTick \<Rightarrow> snd (clean w)
   | TokensTick wip \<Rightarrow> snd (SyncAll observers_of tokens_max_age wip w)
   | MqttMessage p \<Rightarrow> snd (HandleServiceProtocol p w))"

text \<open>Every event meets the environment of its moment.\<close>

inductive app_step :: "deps \<Rightarrow> world \<Rightarrow> world \<Rightarrow> bool" for d :: deps where
  "app_step d w (handle_event d ev (w\<lparr>w_env := e\<rparr>))"

inductive_cases app_stepE: "app_step d w w'"

text \<open>
  \<^verbatim>\<open>InitializeWithDeps\<close>: routes, caches, the session manager, the token monitor, statistics, the
  listeners.  The one step with an effect on the state is loading the caches, whose failure ends
  the process.
\<close>

definition InitializeWithDeps :: "unit go" where
  "InitializeWithDeps = wrapP ''initialize app cache'' AppCache_Init"

end
