(* ===== verification/Handler_Rules.thy ===== *)
theory Handler_Rules
  imports App
begin

text \<open>
  The parts of the handlers that only read, for every relation of \<^verbatim>\<open>read_rel\<close> at once.
\<close>

context read_rel
begin

lemma within_requireRole [within_rules]: "within R m \<Longrightarrow> within R (requireRole roles r m)"
  unfolding requireRole_def by (intro within_rules)

lemma within_count_rows [within_rules]: "within R (dbP (count_rows P rows))"
proof -
  have "snd (count_rows P rows d) = d" for d by (simp add: count_rows_def split: sum.split)
  then show ?thesis by (intro within_dbP) (simp_all add: R_fault)
qed

lemma within_select_page [within_rules]: "within R (dbP (select_page P ord m rows))"
proof -
  have "snd (select_page P ord m rows d) = d" for d
    by (simp add: select_page_def Let_def split: sum.split)
  then show ?thesis by (intro within_dbP) (simp_all add: R_fault)
qed

lemma within_listRows [within_rules]: "within R (listRows P ord rows js p)"
  unfolding listRows_def by (auto intro!: within_rules split: prod.split)

lemma within_finds [within_rules]:
  "(\<And>x. within R (f x)) \<Longrightarrow> within R (findRoomP r f)"
  "(\<And>x. within R (g x)) \<Longrightarrow> within R (findConfigP r g)"
  unfolding findRoomP_def findConfigP_def
  by (auto intro!: within_rules split: prod.split option.split)

lemma within_small [within_rules]:
  "within R (bad_requestP m)" "within R (existsP f)"
  unfolding bad_requestP_def existsP_def by (intro within_rules)+

lemma within_messageGateways [within_rules]: "within R (messageGateways q)"
  unfolding messageGateways_def by (intro within_rules)

lemma within_checkedConfig [within_rules]: "within R m \<Longrightarrow> within R (checkedConfig data m)"
  unfolding checkedConfig_def by (intro within_rules)

lemma within_loadP [within_rules]: "within R (loadP b f)"
  unfolding loadP_def by (intro within_rules)

lemma within_loads [within_rules]:
  "within R (loadUsersP ss)" "within R (loadSessionsP b gw rs)"
  "within R (loadRoomsP ss)" "within R (loadCompositesP b cs)"
  unfolding loadRoomsP_def loadCompositesP_def loadSessionsP_def loadUsersP_def by (intro within_rules)+

lemma within_makeV1User [within_rules]: "within R (makeV1User rm l)"
  unfolding makeV1User_def by (auto intro!: within_rules split: prod.split option.split)

lemma within_makeV1Users [within_rules]: "within R (makeV1Users rm ls)"
  by (induction ls) (auto intro!: within_rules)

lemma within_makeV1Room [within_rules]: "within R (makeV1Room rm gw ls)"
  unfolding makeV1Room_def Let_def by (intro within_rules)

lemma within_makeV1Rooms [within_rules]: "within R (makeV1Rooms lrs)"
  by (induction lrs rule: makeV1Rooms.induct) (auto intro!: within_rules)

lemma within_usersByAccount [within_rules]: "within R (usersByAccount ls m)"
  by (induction ls m rule: usersByAccount.induct) (auto intro!: within_rules)

lemma within_makeV1CompositeRooms [within_rules]: "within R (makeV1CompositeRooms crs)"
  by (induction crs rule: makeV1CompositeRooms.induct) (auto intro!: within_rules)

lemma within_makeV1Composite [within_rules]: "within R (makeV1Composite c)"
  unfolding makeV1Composite_def by (intro within_rules)

lemma within_makeV1Composites [within_rules]: "within R (makeV1Composites cs)"
  by (induction cs) (auto intro!: within_rules)

lemma within_GetAllStats [within_rules]: "within R GetAllStats"
  unfolding GetAllStats_def by (intro within_rules)

lemma within_read_body [within_rules]: "(\<And>b. within R (f b)) \<Longrightarrow> within R (read_body r f)"
  unfolding read_body_def by (intro within_rules)

lemma within_middleware [within_rules]:
  "(\<And>r. within R (next r)) \<Longrightarrow> within R (MinimalPermissionMiddleware next r)"
  "(\<And>r. within R (next r)) \<Longrightarrow> within R (corsHandler c next r)"
  "(\<And>r. within R (next r)) \<Longrightarrow> within R (RealIPMiddleware next r)"
  "(\<And>r. within R (next r)) \<Longrightarrow> within R (ContextMiddleware next r)"
  unfolding MinimalPermissionMiddleware_def corsHandler_def RealIPMiddleware_def ContextMiddleware_def
  by (intro within_rules | assumption)+

lemma within_bcrypt [within_rules]: "within R (bcryptP h p)" "within R (any_bcryptP hs p)"
proof -
  show "within R (bcryptP h p)" for h unfolding bcryptP_def by (intro within_rules)
  then show "within R (any_bcryptP hs p)" by (induction hs) (auto intro!: within_rules)
qed

lemma within_Authentication [within_rules]:
  assumes "\<And>r. within R (next r)"
  shows "within R (AuthenticationMiddleware verify gwPwdP next r)"
  unfolding AuthenticationMiddleware_def gatewayAuth_def serviceAuth_def tokenAuth_def
    unauthorizedP_def gwPwdP_def Let_def
  by (auto intro!: within_rules assms split: prod.split option.split)

end

lemma within_Recovery [within_rules]:
  assumes "\<And>r. within R (next r)"
  shows "within R (RecoveryMiddleware next r)"
  using assms by (auto simp: within_def RecoveryMiddleware_def split: prod.splits res.split)
    (metis snd_conv)+

section \<open>Reading handlers\<close>

lemma reading_handlers:
  "within reads_rel (V1ListGroups r)" "within reads_rel (V1ListRooms r)"
  "within reads_rel (V1GetRoom r)" "within reads_rel (V1ListUsers r)"
  "within reads_rel (V1GetUser r)" "within reads_rel (V1ListComposites r)"
  "within reads_rel (V1GetComposite r)" "within reads_rel (V2GetConfig r)"
  "within reads_rel (V2GetRoomsStatistics r)" "within reads_rel (HealthCheck late r)"
  "within reads_rel (AdminListGateways r)" "within reads_rel (AdminGatewaysHandleInfo r)"
  "within reads_rel (AdminListRooms r)" "within reads_rel (AdminGetRoom r)"
  "within reads_rel (AdminListDynamicConfigs r)" "within reads_rel (AdminGetDynamicConfig r)"
  unfolding V1ListGroups_def V1ListRooms_def V1GetRoom_def V1ListUsers_def V1GetUser_def
    V1ListComposites_def V1GetComposite_def V2GetConfig_def V2GetRoomsStatistics_def HealthCheck_def
    AdminListGateways_def AdminGatewaysHandleInfo_def AdminListRooms_def AdminGetRoom_def
    AdminListDynamicConfigs_def AdminGetDynamicConfig_def roomCountsP_def Let_def
  by (auto intro!: within_rules split: prod.split option.split sum.split list.split)

text \<open>
  C13. Requests with the method GET are safe: no handler routed for GET changes a table or a cache,
  on any branch.
\<close>

theorem GET_reads_only:
  assumes "(tpl, ''GET'', h) \<in> set (routes d)"
  shows "w_db (snd (h r w)) = w_db w \<and> w_cache (snd (h r w)) = w_cache w"
proof -
  have "within reads_rel (h r)"
    using assms reading_handlers by (auto simp: routes_def admin_routes_def)
  then show ?thesis by (auto dest: withinD simp: reads_rel_def)
qed

theorem GET_reads_only_witness:
  "w_db (snd (V1ListRooms (get_request ''/rooms'') sample_world)) = w_db sample_world"
proof -
  have "(''/rooms'', ''GET'', V1ListRooms) \<in> set (routes d)" for d by (simp add: routes_def)
  from GET_reads_only [OF this] show ?thesis by blast
qed

end
