(* ===== verification/App_Answers.thy ===== *)
theory App_Answers
  imports App_Laws
begin

text \<open>
  Every request is answered: no handler ends with an error that nobody turns into a response
  (\<^verbatim>\<open>answers\<close>), and a panic of a handler becomes the answer 500.  Then the admin API: who is kept
  out, and that being kept out has no effect.
\<close>

section \<open>No error is left over\<close>

named_theorems answer_rules "programs that do not end with an error"

definition answers :: "'a go \<Rightarrow> bool" where
  "answers m \<longleftrightarrow> (\<forall>w e w'. m w \<noteq> (Err e, w'))"

lemma answersD: "answers m \<Longrightarrow> fst (m w) \<noteq> Err e"
  by (metis answers_def prod.collapse)

lemma answers_returnP [answer_rules]: "answers (returnP x)"
  by (simp add: answers_def)

lemma answers_Pair [answer_rules]: "answers (Pair (Ok x))"
  by (simp add: answers_def)

lemma answers_panicP [answer_rules]: "answers (panicP e)"
  by (simp add: answers_def)

lemma answers_readers [answer_rules]:
  "answers (getsP f)" "answers (cfgP g)" "answers (cacheP h)" "answers nowP" "answers (set_cacheP k)"
  by (simp_all add: answers_def cfgP_def cacheP_def nowP_def set_cacheP_def)

lemma answers_resP [answer_rules]: "(\<And>e. r \<noteq> Err e) \<Longrightarrow> answers (resP r)"
  by (simp add: answers_def resP_def)

lemma answers_bindP [answer_rules]:
  "answers m \<Longrightarrow> (\<And>x. answers (f x)) \<Longrightarrow> answers (bindP m f)"
  by (auto simp: answers_def bindP_def split: prod.splits res.splits)

text \<open>Whoever inspects the error answers for it.\<close>

lemma answers_tryP [answer_rules]: "(\<And>x. answers (f x)) \<Longrightarrow> answers (tryP m f)"
  by (auto simp: answers_def tryP_def split: prod.splits res.splits)

lemma answers_abortP [answer_rules]: "answers (abortP h)"
  by (simp add: answers_def)

lemma answers_orAbort [answer_rules]: "(\<And>x. answers (f x)) \<Longrightarrow> answers (orAbort h m f)"
  unfolding orAbort_def by (intro answer_rules) (auto intro!: answer_rules split: sum.split)

lemma answers_if [answer_rules]:
  "(b \<Longrightarrow> answers m) \<Longrightarrow> (\<not> b \<Longrightarrow> answers n) \<Longrightarrow> answers (if b then m else n)"
  by simp

lemma answers_option [answer_rules]:
  "(x = None \<Longrightarrow> answers m) \<Longrightarrow> (\<And>y. x = Some y \<Longrightarrow> answers (f y)) \<Longrightarrow>
   answers (case x of None \<Rightarrow> m | Some y \<Rightarrow> f y)"
  by (cases x) simp_all

lemma answers_sum [answer_rules]:
  "(\<And>y. x = Inl y \<Longrightarrow> answers (m y)) \<Longrightarrow> (\<And>y. x = Inr y \<Longrightarrow> answers (f y)) \<Longrightarrow>
   answers (case x of Inl y \<Rightarrow> m y | Inr y \<Rightarrow> f y)"
  by (cases x) simp_all

lemma answers_list [answer_rules]:
  "(xs = [] \<Longrightarrow> answers m) \<Longrightarrow> (\<And>y ys. xs = y # ys \<Longrightarrow> answers (f y ys)) \<Longrightarrow>
   answers (case xs of [] \<Rightarrow> m | y # ys \<Rightarrow> f y ys)"
  by (cases xs) simp_all

lemma answers_pair [answer_rules]:
  "(\<And>a b. x = (a, b) \<Longrightarrow> answers (f a b)) \<Longrightarrow> answers (case x of (a, b) \<Rightarrow> f a b)"
  by (cases x) simp

lemma answers_let [answer_rules]: "(\<And>y. answers (f y)) \<Longrightarrow> answers (let x = v in f x)"
  by (simp add: Let_def)

lemma RequestHasRole_no_Err: "RequestHasRole r roles \<noteq> Err e"
  by (simp add: RequestHasRole_def split: option.split)

lemma answers_requireRole [answer_rules]: "answers m \<Longrightarrow> answers (requireRole roles r m)"
  unfolding requireRole_def by (intro answer_rules) (auto simp: RequestHasRole_no_Err)

lemma answers_bodyP [answer_rules]: "(\<And>x. answers (f x)) \<Longrightarrow> answers (bodyP dec r f)"
  unfolding bodyP_def by (intro answer_rules)

lemma answers_read_body [answer_rules]: "(\<And>b. answers (f b)) \<Longrightarrow> answers (read_body r f)"
  unfolding read_body_def by (intro answer_rules)

lemma answers_helpers [answer_rules]:
  "answers (bad_requestP m)" "answers (existsP f)" "answers (reload_logged n)"
  unfolding bad_requestP_def existsP_def reload_logged_def by (intro answer_rules)+

lemma answers_storeRoom [answer_rules]: "answers (storeRoom data)"
  unfolding storeRoom_def by (intro answer_rules)

lemma answers_finds [answer_rules]:
  "(\<And>x. answers (f x)) \<Longrightarrow> answers (findRoomP r f)"
  "(\<And>x. answers (g x)) \<Longrightarrow> answers (findConfigP r g)"
  unfolding findRoomP_def findConfigP_def
  by (auto intro!: answer_rules split: prod.split option.split)

lemma answers_configs [answer_rules]:
  "answers (writeConfig m f)" "answers n \<Longrightarrow> answers (checkedConfig data n)"
  unfolding writeConfig_def checkedConfig_def by (intro answer_rules)+

lemma answers_listRows [answer_rules]: "answers (listRows P ord rows js p)"
  unfolding listRows_def by (intro answer_rules)

lemma answers_rooms [answer_rules]: "answers (addRoom data)" "answers (changeRoom rm data)"
  unfolding addRoom_def changeRoom_def by (intro answer_rules)+

lemma answers_admin_handlers:
  "answers (AdminListGateways r)" "answers (AdminListRooms r)" "answers (AdminListDynamicConfigs r)"
  "answers (AdminGatewaysHandleInfo r)" "answers (AdminCreateRoom r)" "answers (AdminGetRoom r)"
  "answers (AdminUpdateRoom r)" "answers (AdminDeleteRoom r)" "answers (AdminDeleteRoomsStatistics r)"
  "answers (AdminCreateDynamicConfig r)" "answers (AdminGetDynamicConfig r)"
  "answers (AdminUpdateDynamicConfig r)" "answers (AdminSetDynamicConfig r)"
  "answers (AdminDeleteDynamicConfig r)"
  unfolding AdminListGateways_def AdminListRooms_def AdminListDynamicConfigs_def
    AdminGatewaysHandleInfo_def AdminCreateRoom_def AdminGetRoom_def AdminUpdateRoom_def
    AdminDeleteRoom_def AdminDeleteRoomsStatistics_def AdminCreateDynamicConfig_def
    AdminGetDynamicConfig_def AdminUpdateDynamicConfig_def AdminSetDynamicConfig_def
    AdminDeleteDynamicConfig_def
  by (intro answer_rules)+

lemma answers_makeV1User [answer_rules]: "answers (makeV1User rm l)"
  unfolding makeV1User_def by (intro answer_rules)

lemma answers_makeV1Users [answer_rules]: "answers (makeV1Users rm ls)"
  by (induction ls) (auto intro!: answer_rules)

lemma answers_makeV1Room [answer_rules]: "answers (makeV1Room rm gw ls)"
  unfolding makeV1Room_def by (intro answer_rules)

lemma answers_makeV1Rooms [answer_rules]: "answers (makeV1Rooms lrs)"
  by (induction lrs rule: makeV1Rooms.induct) (auto intro!: answer_rules)

lemma answers_usersByAccount [answer_rules]: "answers (usersByAccount ls m)"
  by (induction ls m rule: usersByAccount.induct) (auto intro!: answer_rules)

lemma answers_makeV1CompositeRooms [answer_rules]: "answers (makeV1CompositeRooms crs)"
  by (induction crs rule: makeV1CompositeRooms.induct) (auto intro!: answer_rules)

lemma answers_makeV1Composite [answer_rules]: "answers (makeV1Composite c)"
  unfolding makeV1Composite_def by (intro answer_rules)

lemma answers_makeV1Composites [answer_rules]: "answers (makeV1Composites cs)"
  by (induction cs) (auto intro!: answer_rules)

lemma sort_infos_no_Err: "sort_infos is \<noteq> Err e"
  by (simp add: sort_infos_def)

lemma statsByRoom_no_Err: "statsByRoom ss m \<noteq> Err e"
  by (induction ss m rule: statsByRoom.induct) (auto split: option.split)

lemma answers_v1_handlers:
  "answers (V1ListGroups r)" "answers (V1CreateGroup r)" "answers (V1ListRooms r)"
  "answers (V1GetRoom r)" "answers (V1UpdateRoom r)" "answers (V1ListUsers r)"
  "answers (V1GetUser r)" "answers (V1UpdateSession r)" "answers (V1ListComposites r)"
  "answers (V1GetComposite r)" "answers (V1UpdateComposite r)" "answers (V1HandleEvent pe r)"
  "answers (V1HandleProtocol pt r)" "answers (V1HandleServiceProtocol pt r)"
  "answers (V2GetConfig r)" "answers (V2GetRoomsStatistics r)" "answers (HealthCheck late r)"
  unfolding V1ListGroups_def V1CreateGroup_def V1ListRooms_def V1GetRoom_def V1UpdateRoom_def
    V1ListUsers_def V1GetUser_def V1UpdateSession_def V1ListComposites_def V1GetComposite_def
    V1UpdateComposite_def V1HandleEvent_def V1HandleProtocol_def V1HandleServiceProtocol_def
    V2GetConfig_def V2GetRoomsStatistics_def HealthCheck_def
  by ((intro answer_rules sort_infos_no_Err statsByRoom_no_Err)+)?

lemma answers_routes: "(tpl, m, h) \<in> set (routes d) \<Longrightarrow> answers (h r)"
  using answers_admin_handlers answers_v1_handlers
  by (auto simp: handler_defs_list answers_returnP)

lemma answers_Router [answer_rules]: "answers (Router d r)"
  unfolding Router_def
  by (intro answer_rules) (metis nth_mem not_le answers_routes)

lemma answers_any_bcryptP [answer_rules]: "answers (any_bcryptP hs p)"
  by (simp add: answers_def any_bcryptP_apply)

lemma answers_Authentication [answer_rules]:
  assumes "\<And>r. answers (next r)"
  shows "answers (AuthenticationMiddleware verify gwPwdP next r)"
  unfolding AuthenticationMiddleware_def gatewayAuth_def serviceAuth_def tokenAuth_def
    unauthorizedP_def gwPwdP_def bcryptP_def
  by (intro answer_rules assms)+

lemma answers_Permission [answer_rules]:
  "(\<And>r. answers (next r)) \<Longrightarrow> answers (MinimalPermissionMiddleware next r)"
  unfolding MinimalPermissionMiddleware_def by (intro answer_rules RequestHasRole_no_Err)

lemma answers_outer [answer_rules]:
  "(\<And>r. answers (next r)) \<Longrightarrow> answers (corsHandler c next r)"
  "(\<And>r. answers (next r)) \<Longrightarrow> answers (RealIPMiddleware next r)"
  unfolding corsHandler_def RealIPMiddleware_def by (intro answer_rules | assumption)+

lemma Recovery_answers:
  "answers (next r) \<Longrightarrow> \<exists>resp. fst (RecoveryMiddleware next r w) = Ok resp"
  by (cases "next r w"; cases "fst (next r w)") (auto simp: RecoveryMiddleware_def answers_def)

text \<open>
  C11. Every request gets exactly one answer: whatever the request, the state, the failing
  statements and the libraries around, the server responds and neither panics nor loses an error.
\<close>

theorem Handler_answers: "\<exists>resp. fst (Handler d r w) = Ok resp"
  unfolding Handler_def ContextMiddleware_def
  by (intro Recovery_answers answer_rules)

end
