(* ===== verification/App_Access.thy ===== *)
theory App_Access
  imports App_Answers
begin

text \<open>
  Access to the admin API: the roles each route asks for, and the way a request is refused before
  it has any effect.
\<close>

section \<open>The guard\<close>

definition has_role :: "request \<Rightarrow> string list \<Rightarrow> bool" where
  "has_role r roles \<longleftrightarrow> RequestHasRole r roles = Ok True"

lemma requireRole_refuses:
  assumes "\<not> SkipPermissions (w_cfg w)" "rq_context r \<noteq> None" "\<not> has_role r roles"
  shows "requireRole roles r m w = (Ok (Abort NewForbiddenError), w)"
  using assms
  by (auto simp: requireRole_def has_role_def cfgP_def bindP_def getsP_def resP_def
      RequestHasRole_def ContextFromRequest_def split: option.splits)

text \<open>The roles of the admin routes, by template.\<close>

definition admin_roles :: "string \<Rightarrow> string list" where
  "admin_roles tpl =
     (if tpl = ''/admin/gateways/{gateway_id}/sessions/{session_id}/handles/{handle_id}/info''
      then [RoleAdmin, RoleRoot]
      else if tpl = ''/admin/rooms_statistics'' then [RoleShidur, RoleRoot] else [RoleRoot])"

lemma has_role_mono: "set a \<subseteq> set b \<Longrightarrow> has_role r a \<Longrightarrow> has_role r b"
  by (auto simp: has_role_def RequestHasRole_def HasAnyRole_def list_ex_iff
      split: option.splits if_splits)

definition guarded :: "string list \<Rightarrow> handler \<Rightarrow> bool" where
  "guarded roles h \<longleftrightarrow> (\<forall>r. \<exists>m. h r = requireRole roles r m)"

lemma guardedI: "(\<And>r. h r = requireRole roles r (f r)) \<Longrightarrow> guarded roles h"
  unfolding guarded_def by blast

lemma handlers_guarded:
  "guarded [RoleRoot] AdminListGateways" "guarded [RoleRoot] AdminListRooms"
  "guarded [RoleRoot] AdminCreateRoom" "guarded [RoleRoot] AdminGetRoom"
  "guarded [RoleRoot] AdminUpdateRoom" "guarded [RoleRoot] AdminDeleteRoom"
  "guarded [RoleRoot] AdminListDynamicConfigs" "guarded [RoleRoot] AdminCreateDynamicConfig"
  "guarded [RoleRoot] AdminGetDynamicConfig" "guarded [RoleRoot] AdminUpdateDynamicConfig"
  "guarded [RoleRoot] AdminSetDynamicConfig" "guarded [RoleRoot] AdminDeleteDynamicConfig"
  "guarded [RoleAdmin, RoleRoot] AdminGatewaysHandleInfo"
  "guarded [RoleShidur, RoleRoot] AdminDeleteRoomsStatistics"
  by (rule guardedI, rule AdminListGateways_def AdminListRooms_def AdminCreateRoom_def
      AdminGetRoom_def AdminUpdateRoom_def AdminDeleteRoom_def AdminListDynamicConfigs_def
      AdminCreateDynamicConfig_def AdminGetDynamicConfig_def AdminUpdateDynamicConfig_def
      AdminSetDynamicConfig_def AdminDeleteDynamicConfig_def AdminGatewaysHandleInfo_def
      AdminDeleteRoomsStatistics_def)+

lemma admin_roles_values:
  "admin_roles ''/admin/gateways'' = [RoleRoot]" "admin_roles ''/admin/rooms'' = [RoleRoot]"
  "admin_roles ''/admin/gateways/{gateway_id}/sessions/{session_id}/handles/{handle_id}/info'' =
     [RoleAdmin, RoleRoot]"
  "admin_roles ''/admin/rooms/{id}'' = [RoleRoot]"
  "admin_roles ''/admin/rooms_statistics'' = [RoleShidur, RoleRoot]"
  "admin_roles ''/admin/dynamic_config'' = [RoleRoot]"
  "admin_roles ''/admin/dynamic_config/{id}'' = [RoleRoot]"
  "admin_roles ''/admin/dynamic_config/{key}'' = [RoleRoot]"
  by (simp_all add: admin_roles_def)

lemma admin_route_refuses:
  assumes "(tpl, m, h) \<in> set admin_routes" and "\<not> SkipPermissions (w_cfg w)"
    and "rq_context r \<noteq> None" and "\<not> has_role r (admin_roles tpl)"
  shows "h r w = (Ok (Abort NewForbiddenError), w)"
proof -
  have "guarded (admin_roles tpl) h"
    using assms(1) handlers_guarded admin_roles_values by (auto simp: admin_routes_def)
  then obtain m where "h r = requireRole (admin_roles tpl) r m" unfolding guarded_def by blast
  then show ?thesis using requireRole_refuses [OF assms(2-4)] by simp
qed

text \<open>
  C1. No admin handler does anything for a caller without the role its route asks for: with
  permissions enforced, the answer is 403 and the state is the one before, whatever the path
  variables and the body.
\<close>

theorem admin_routes_guarded:
  assumes "(tpl, m, h) \<in> set admin_routes" and "\<not> SkipPermissions (w_cfg w)"
    and "rq_context r \<noteq> None" and "\<not> has_role r (admin_roles tpl)"
  shows "h r w = (Ok (Abort NewForbiddenError), w)"
  using assms by (rule admin_route_refuses)

theorem admin_routes_guarded_witness:
  "AdminDeleteRoom (get_request ''/admin/rooms/1'') sample_world = (Ok (Abort NewForbiddenError), sample_world)"
proof (rule admin_routes_guarded)
  show "(''/admin/rooms/{id}'', ''DELETE'', AdminDeleteRoom) \<in> set admin_routes"
    by (simp add: admin_routes_def)
  show "\<not> SkipPermissions (w_cfg sample_world)"
    by (simp add: sample_world_def sample_cfg_def newConfig_def)
  show "rq_context (get_request ''/admin/rooms/1'') \<noteq> None" by (simp add: get_request_def)
  show "\<not> has_role (get_request ''/admin/rooms/1'') (admin_roles ''/admin/rooms/{id}'')"
    by (simp add: has_role_def RequestHasRole_def get_request_def new_context_def ContextFromRequest_def)
qed

section \<open>The whole chain\<close>

definition protected_path :: "string \<Rightarrow> bool" where
  "protected_path p \<longleftrightarrow> \<not> open_path p \<and> \<not> gateway_path p"

text \<open>The request as authentication sees it.\<close>

definition entered :: "request \<Rightarrow> request" where
  "entered r = on_context (\<lambda>c. c\<lparr>rc_ip := GetRealIP r\<rparr>) (r\<lparr>rq_context := Some new_context\<rparr>)"

lemma header_get_context [simp]: "header_get (r\<lparr>rq_context := c\<rparr>) k = header_get r k"
  by (simp add: header_get_def)

lemma entered_simps [simp]:
  "rq_path (entered r) = rq_path r" "header_get (entered r) k = header_get r k"
  "rq_context (entered r) = Some (new_context\<lparr>rc_ip := GetRealIP r\<rparr>)"
  by (simp_all add: entered_def on_context_def header_get_def)

lemma GetRealIP_context [simp]: "GetRealIP (r\<lparr>rq_context := c\<rparr>) = GetRealIP r"
  by (simp add: GetRealIP_def header_get_def)

lemma Handler_entered:
  assumes "\<And>r. d_cors d r = None"
  shows "Handler d r = RecoveryMiddleware (\<lambda>_. AuthenticationMiddleware (d_verify d) gwPwdP
     (MinimalPermissionMiddleware (Router d)) (entered r)) r"
  using assms
  by (simp add: Handler_def ContextMiddleware_def RealIPMiddleware_def corsHandler_def fun_eq_iff
      RecoveryMiddleware_def entered_def)

lemma Recovery_Ok: "next r w = (Ok x, w') \<Longrightarrow> RecoveryMiddleware next r w = (Ok x, w')"
  by (simp add: RecoveryMiddleware_def)

lemma no_credentials:
  assumes "header_get r ''Authorization'' = []"
  shows "BasicAuth (entered r) = None" "parseToken (entered r) = []"
  using assms by (simp_all add: BasicAuth_def parseToken_def trim_space_def trim_by_def to_lower_def)

text \<open>
  Nobody passes the server anonymously: a request for a protected path without an
  \<^verbatim>\<open>Authorization\<close> header is answered with 401 before any route is looked at, and nothing changes.
\<close>

lemma unauthenticated_refused:
  assumes "protected_path (rq_path r)" and "header_get r ''Authorization'' = []"
    and "\<not> SkipAuth (w_cfg w)" and "\<And>r. d_cors d r = None"
  shows "Handler d r w =
    (Ok (Abort (NewUnauthorizedError (EText ''no `Authorization` header set''))), w)"
proof -
  note b = no_credentials [OF assms(2)]
  show ?thesis
    using assms(1,3) b unfolding Handler_entered [OF assms(4)]
    by (intro Recovery_Ok) (simp add: AuthenticationMiddleware_def protected_path_def cfgP_def
      bindP_def getsP_def tokenAuth_def unauthorizedP_def)
qed


definition user_claims :: string where
  "user_claims = obj_text [(''realm_access'', obj_text [(''roles'', ''['' @ quoted ''gxy_user'' @ '']'')])]"

definition user_request :: request where
  "user_request = (get_request ''/admin/gateways'')\<lparr>rq_header := [(''Authorization'', ''Bearer tok'')]\<rparr>"

definition user_deps :: deps where
  "user_deps = (sample_deps 17 [])\<lparr>d_verify := (\<lambda>s. (Some user_claims, None))\<rparr>"

lemma user_claims_decode:
  "unmarshal decode_claims user_claims = Inr (zero_claims\<lparr>ic_realm_access := [''gxy_user'']\<rparr>)"
  by code_simp


end
