(* ===== verification/Handler_Success.thy ===== *)
theory Handler_Success
  imports App_Access
begin

text \<open>
  From an answer back to the run: an answer below 300 means that every guard let the request
  through and every fallible step succeeded.  The errors that reach \<^verbatim>\<open>http_or_internal\<close> carry no
  success status (\<^verbatim>\<open>sane\<close>).
\<close>

section \<open>Statuses\<close>

lemma rp_code_Abort [simp]: "rp_code (Abort h) = fst h"
  by (cases h) (simp add: Abort_def RespondWithError_def RespondWithJSON_def)

lemma rp_code_simps [simp]:
  "rp_code (RespondWithJSON c j) = c" "rp_code RespondSuccess = 200" "rp_code empty_page = 200"
  by (simp_all add: RespondWithJSON_def RespondSuccess_def empty_page_def)

lemma fst_too_large [simp]: "fst too_large = 413"
  by (simp add: too_large_def NewRequestEntityTooLargeError_def NewHttpError_def)

lemma DecodeJSONBody_code: "DecodeJSONBody dec b = Inl h \<Longrightarrow> fst h \<in> {400, 413, 500}"
  by (auto simp: DecodeJSONBody_def Let_def body_type_error_def split: sum.splits bad.splits if_splits)

lemma requireRole_success:
  assumes "requireRole roles r m w = (Ok resp, w')" "rp_code resp < 300"
  shows "m w = (Ok resp, w')"
  using assms
  by (auto simp: requireRole_def bindP_Ok_iff cfgP_def resP_def split: if_splits)

lemma bodyP_success:
  assumes "bodyP dec r f w = (Ok resp, w')" "rp_code resp < 300"
  obtains x where "DecodeJSONBody dec (rq_body r) = Inr x" "f x w = (Ok resp, w')"
  using assms by (auto simp: bodyP_def dest: DecodeJSONBody_code split: sum.splits)

lemma orAbort_success:
  assumes "orAbort h m f w = (Ok resp, w')" "rp_code resp < 300"
    and "\<And>e w1. m w = (Err e, w1) \<Longrightarrow> 300 \<le> fst (h e)"
  obtains x w1 where "m w = (Ok x, w1)" "f x w1 = (Ok resp, w')"
  using assms
  by (cases "m w"; cases "fst (m w)") (auto simp: orAbort_def tryP_def)

lemma bad_requestP_success: "bad_requestP m w = (Ok resp, w') \<Longrightarrow> \<not> rp_code resp < 300"
  by (auto simp: bad_requestP_def)

lemma not_found_code: "300 \<le> fst (not_found_or_internal e)"
  by (simp add: not_found_or_internal_def)

lemma findRoomP_success:
  assumes "findRoomP r f w = (Ok resp, w')" "rp_code resp < 300"
  obtains i rm where "parse_int (var_get r ''id'') = (None, i)" "room_find i (w_db w) = Some rm"
    "f rm (drop_fault w) = (Ok resp, w')"
proof (cases "parse_int (var_get r ''id'')")
  case (Pair e i)
  with assms have e: "e = None" by (cases e) (auto simp: findRoomP_def)
  with assms Pair have "orAbort not_found_or_internal (oneP (room_find i)) f w = (Ok resp, w')"
    by (simp add: findRoomP_def)
  then obtain rm w1 where "oneP (room_find i) w = (Ok rm, w1)" "f rm w1 = (Ok resp, w')"
    by (rule orAbort_success [OF _ assms(2)]) (rule not_found_code)
  with that Pair e show ?thesis by (auto simp: oneP_apply split: option.splits)
qed

section \<open>Errors without a success status\<close>

named_theorems sane_rules "programs whose errors carry no success status"

definition sane :: "gerr \<Rightarrow> bool" where
  "sane e \<longleftrightarrow> (case as_http e of None \<Rightarrow> True | Some h \<Rightarrow> 400 \<le> fst h)"

definition sane_errors :: "'a go \<Rightarrow> bool" where
  "sane_errors m \<longleftrightarrow> (\<forall>w e w'. m w = (Err e, w') \<longrightarrow> sane e)"

lemma sane_simps [simp]:
  "sane (EText t)" "sane ENoRows" "sane (EDb t)" "sane (EAdmin n t)" "sane (ETx t e)"
  "sane (EWrap t e) = sane e" "sane (http_err h) = (400 \<le> fst h)"
  by (simp_all add: sane_def)

lemma sane_readers [sane_rules]:
  "sane_errors (returnP x)" "sane_errors (panicP e)" "sane_errors (getsP f)" "sane_errors (cfgP g)"
  "sane_errors (cacheP h)" "sane_errors nowP" "sane_errors (set_cacheP k)"
  by (simp_all add: sane_errors_def cfgP_def cacheP_def nowP_def set_cacheP_def)

lemma sane_errP [sane_rules]: "sane e \<Longrightarrow> sane_errors (errP e)"
  by (simp add: sane_errors_def)

lemma sane_resP [sane_rules]: "(\<And>e. x = Err e \<Longrightarrow> sane e) \<Longrightarrow> sane_errors (resP x)"
  by (simp add: sane_errors_def resP_def)

lemma sane_bindP [sane_rules]:
  "sane_errors m \<Longrightarrow> (\<And>x. sane_errors (f x)) \<Longrightarrow> sane_errors (bindP m f)"
  unfolding sane_errors_def bindP_def by (auto split: prod.splits res.splits)

lemma sane_tryP [sane_rules]: "(\<And>x. sane_errors (f x)) \<Longrightarrow> sane_errors (tryP m f)"
  unfolding sane_errors_def tryP_def by (auto split: prod.splits res.splits)

lemma sane_wrapP [sane_rules]: "sane_errors m \<Longrightarrow> sane_errors (wrapP s m)"
  unfolding sane_errors_def wrapP_def by (auto split: prod.splits res.splits)

lemma sane_foreachP [sane_rules]: "(\<And>x. sane_errors (f x)) \<Longrightarrow> sane_errors (foreachP xs f)"
  by (induction xs) (auto intro!: sane_rules simp del: foreachP.simps simp: foreachP.simps)

lemma sane_if [sane_rules]:
  "(b \<Longrightarrow> sane_errors m) \<Longrightarrow> (\<not> b \<Longrightarrow> sane_errors n) \<Longrightarrow> sane_errors (if b then m else n)"
  by simp

lemma sane_option [sane_rules]:
  "(x = None \<Longrightarrow> sane_errors m) \<Longrightarrow> (\<And>y. x = Some y \<Longrightarrow> sane_errors (f y)) \<Longrightarrow>
   sane_errors (case x of None \<Rightarrow> m | Some y \<Rightarrow> f y)"
  by (cases x) simp_all

lemma sane_sum [sane_rules]:
  "(\<And>y. x = Inl y \<Longrightarrow> sane_errors (m y)) \<Longrightarrow> (\<And>y. x = Inr y \<Longrightarrow> sane_errors (f y)) \<Longrightarrow>
   sane_errors (case x of Inl y \<Rightarrow> m y | Inr y \<Rightarrow> f y)"
  by (cases x) simp_all

lemma sane_callP [sane_rules]: "sane_errors (callP api c)"
  by (auto simp: sane_errors_def callP_def Let_def split: admin_resp.splits)

lemma sane_dbP:
  assumes "\<And>d e d'. st d = (Inl e, d') \<Longrightarrow> sane e" shows "sane_errors (dbP st)"
  using assms unfolding sane_errors_def dbP_def
  by (auto split: option.splits prod.splits sum.splits)

lemma sane_statements [sane_rules]:
  "sane_errors (dbP (room_insert now rm))" "sane_errors (dbP (room_update i f))"
  "sane_errors (dbP (dynamic_config_insert c))" "sane_errors (dbP (dynamic_config_update i g))"
  "sane_errors (dbP (composites_rooms_delete i))" "sane_errors (dbP (composites_room_insert cr))"
  by (rule sane_dbP, force simp: room_insert_def room_update_def dynamic_config_insert_def
      dynamic_config_update_def composites_rooms_delete_def composites_room_insert_def Let_def
      too_long_def unique_violation_def fk_violation_def split: if_splits option.splits)+

lemma Decrypt_sane: "wrapR m (Decrypt x b k) = Err e \<Longrightarrow> sane e"
  by (auto simp: wrapR_def Decrypt_def split: res.splits if_splits option.splits)

lemma sane_registry_For [sane_rules]: "sane_errors (registry_For g)"
  unfolding registry_For_def registry_Get_def registry_Set_def modifyP_def
  by (intro sane_rules) (auto simp: sane_errors_def dest: Decrypt_sane)

lemma sane_messageGateways [sane_rules]: "sane_errors (messageGateways q)"
  unfolding messageGateways_def by (intro sane_rules)

lemma sane_InTx:
  assumes "sane_errors f" shows "sane_errors (InTx f)"
  unfolding sane_errors_def
proof (intro allI impI)
  fix w e w' assume "InTx f w = (Err e, w')"
  with assms show "sane e"
    unfolding sane_errors_def by (cases rule: InTx_cases [of w f]) auto
qed

lemma http_or_internal_code: "sane e \<Longrightarrow> 300 \<le> fst (http_or_internal e)"
  by (auto simp: http_or_internal_def sane_def split: option.splits)

text \<open>The pattern of every write: a transaction whose errors are answered.\<close>

lemma write_success:
  assumes "orAbort http_or_internal (InTx m) f w = (Ok resp, w')" "rp_code resp < 300"
    and "sane_errors m"
  obtains x w1 where "InTx m w = (Ok x, w1)" "f x w1 = (Ok resp, w')"
proof (rule orAbort_success [OF assms(1,2)])
  show "300 \<le> fst (http_or_internal e)" if "InTx m w = (Err e, w1)" for e w1
    using sane_InTx [OF assms(3)] that by (auto simp: sane_errors_def intro: http_or_internal_code)
qed (rule that)

section \<open>Healthy connections stay healthy\<close>

definition healthy_rel :: "world \<Rightarrow> world \<Rightarrow> bool" where
  "healthy_rel w w' \<longleftrightarrow> (healthy w \<longrightarrow> healthy w')"

interpretation healthy_read: read_rel healthy_rel
  by unfold_locales (auto simp: healthy_rel_def snd_callP healthy_def)

interpretation healthy_tx: tx_rel healthy_rel
  by unfold_locales (auto simp: healthy_rel_def)

lemma healthy_any_dbP [within_rules]: "within healthy_rel (dbP st)"
  by (rule within_dbP) (auto simp: healthy_rel_def)

lemma healthy_any_set_cacheP [within_rules]: "within healthy_rel (set_cacheP f)"
  by (rule withinI) (simp add: healthy_rel_def)

lemma healthy_within: "within healthy_rel m \<Longrightarrow> m w = (x, w') \<Longrightarrow> healthy w \<Longrightarrow> healthy w'"
  by (auto dest: withinD' simp: healthy_rel_def)

lemma InTx_healthy_Ok:
  assumes "InTx m w = (Ok x, w')" "healthy w" "within healthy_rel m"
  shows "m w = (Ok x, w') \<and> healthy w'"
  using assms by (auto simp: InTx_Ok_iff dest: healthy_within)

end
