(* ===== verification/Admin_Rooms.thy ===== *)
theory Admin_Rooms
  imports Handler_Success
begin

text \<open>
  The life of a room: what creating and deleting one does to the table, to the gateways and to the
  cache, and what a gateway that fails half way leaves behind.
\<close>

section \<open>Telling the gateways\<close>

lemma registry_For_keeps:
  "registry_For g w = (x, w1) \<Longrightarrow> map_of (w_registry w) i = Some a \<Longrightarrow> map_of (w_registry w1) i = Some a"
  by (cases "gw_id g = i")
    (auto simp: registry_For_def registry_Get_def registry_Set_def bindP_def cfgP_def resP_def
      split: option.splits res.splits prod.splits)

text \<open>One accepted call per gateway, in order, through the gateway's own client.\<close>

definition told :: "(int, admin_api) gomap \<Rightarrow> plugin_request \<Rightarrow> gateway \<Rightarrow>
    admin_api \<times> admin_call \<times> admin_resp \<Rightarrow> bool" where
  "told reg q g call \<longleftrightarrow> (case call of (api, c, a) \<Rightarrow>
     map_of reg (gw_id g) = Some api \<and> c = MessagePlugin q \<and> call_ok a)"

definition all_told :: "gateway list \<Rightarrow> plugin_request \<Rightarrow> world \<Rightarrow> world \<Rightarrow> bool" where
  "all_told gs q w w' \<longleftrightarrow> (\<exists>cs. w_calls w' = w_calls w @ cs \<and> list_all2 (told (w_registry w') q) gs cs)"

lemma message_each:
  "foreachP gs (\<lambda>g. bindP (wrapP s (registry_For g)) (\<lambda>api.
      bindP (wrapP t (callP api (MessagePlugin q))) (\<lambda>_. returnP ()))) w = (Ok (), w') \<Longrightarrow>
   all_told gs q w w' \<and> w_db w' = w_db w \<and> w_cache w' = w_cache w \<and>
   (\<forall>i a. map_of (w_registry w) i = Some a \<longrightarrow> map_of (w_registry w') i = Some a)"
proof (induction gs arbitrary: w)
  case Nil
  then show ?case by (auto simp: all_told_def)
next
  case (Cons g gs)
  from Cons.prems obtain w3 where one: "bindP (wrapP s (registry_For g)) (\<lambda>api.
      bindP (wrapP t (callP api (MessagePlugin q))) (\<lambda>_. returnP ())) w = (Ok (), w3)"
    and rest: "foreachP gs (\<lambda>g. bindP (wrapP s (registry_For g)) (\<lambda>api.
      bindP (wrapP t (callP api (MessagePlugin q))) (\<lambda>_. returnP ()))) w3 = (Ok (), w')"
    by (rule foreachP_ConsE)
  from one obtain api w1 a where reg: "registry_For g w = (Ok api, w1)"
    and call: "callP api (MessagePlugin q) w1 = (Ok a, w3)"
    by (auto simp: bindP_Ok_iff)
  note r = registry_For_Ok [OF reg]
  have c: "w_calls w3 = w_calls w @ [(api, MessagePlugin q, a)]" "w_registry w3 = w_registry w1"
    "w_db w3 = w_db w1" "w_cache w3 = w_cache w1" "call_ok a"
    using call r(2) by (auto simp: callP_def Let_def call_ok_def split: admin_resp.splits)
  have cache: "w_cache w1 = w_cache w"
    using withinD' [OF reads.within_registry_For reg] by (simp add: reads_rel_def)
  from Cons.IH [OF rest] obtain cs where cs: "w_calls w' = w_calls w3 @ cs"
    "list_all2 (told (w_registry w') q) gs cs" "w_db w' = w_db w3" "w_cache w' = w_cache w3"
    "\<forall>i a. map_of (w_registry w3) i = Some a \<longrightarrow> map_of (w_registry w') i = Some a"
    by (auto simp: all_told_def)
  have "told (w_registry w') q g (api, MessagePlugin q, a)"
    using r(1) c cs(5) by (cases api) (simp add: told_def)
  then have "all_told (g # gs) q w w'"
    unfolding all_told_def
    by (intro exI [of _ "(api, MessagePlugin q, a) # cs"]) (simp add: cs c)
  with r(3) c cs cache registry_For_keeps [OF reg] show ?case by simp
qed

lemma messageGateways_Ok:
  assumes "messageGateways q w = (Ok (), w')"
  shows "all_told (room_gateways (w_cache w)) q w w' \<and> w_db w' = w_db w \<and> w_cache w' = w_cache w"
  using message_each assms by (auto simp: messageGateways_def bindP_Ok_iff cacheP_def)

section \<open>Reloads after a write\<close>

lemma reload_rooms_healthy:
  "healthy w \<Longrightarrow> reload_logged RoomCache_Reload w =
     (Ok (), w\<lparr>w_cache := fold RoomCache_Set (rooms_active (w_db w)) ((w_cache w)\<lparr>c_rooms := []\<rparr>)\<rparr>)"
  by (simp add: reload_logged_def tryP_def RoomCache_Reload_def bindP_def)

lemma within_healthy_writes [within_rules]:
  "within healthy_rel (createRoom data)" "within healthy_rel (updateRoom rm data)"
  "within healthy_rel (deleteRoom rm)"
  unfolding createRoom_def updateRoom_def deleteRoom_def by (intro within_rules)+

lemma sane_writes [sane_rules]:
  "sane_errors (createRoom data)" "sane_errors (updateRoom rm data)" "sane_errors (deleteRoom rm)"
  unfolding createRoom_def updateRoom_def deleteRoom_def by (intro sane_rules | simp)+

section \<open>Creating a room\<close>

lemma existsP_healthy [simp]: "healthy w \<Longrightarrow> existsP f w = (Ok (f (w_db w)), w)"
  by (simp add: existsP_def tryP_def)

lemma room_insert_Ok:
  assumes "dbP (room_insert now rm) w = (Ok row, w')"
  shows "rooms (w_db w') = rooms (w_db w) @ [row]" "row = room_row now rm (w_db w)"
    "w_cache w' = w_cache w" "w_calls w' = w_calls w" "w_registry w' = w_registry w"
  using assms
  by (auto simp: dbP_def room_insert_def Let_def split: option.splits if_splits)

lemma createRoom_Ok:
  assumes "createRoom data w = (Ok data', w')"
  shows "\<exists>row. rooms (w_db w') = rooms (w_db w) @ [row] \<and>
    row = room_row (e_now (w_env w)) (new_room data) (w_db w) \<and>
    all_told (room_gateways (w_cache w)) (CreateRoom (rm_gateway_uid data) (rm_name data)) w w' \<and>
    w_cache w' = w_cache w \<and> data' = data\<lparr>rm_id := rm_id row, rm_created_at := rm_created_at row\<rparr>"
proof -
  from assms obtain row w1 where ins: "dbP (room_insert (e_now (w_env w)) (new_room data)) w = (Ok row, w1)"
    and msg: "messageGateways (CreateRoom (rm_gateway_uid data) (rm_name data)) w1 = (Ok (), w')"
    and data': "data' = data\<lparr>rm_id := rm_id row, rm_created_at := rm_created_at row\<rparr>"
    by (auto simp: createRoom_def bindP_Ok_iff nowP_def)
  show ?thesis
    using room_insert_Ok [OF ins] messageGateways_Ok [OF msg] data' by (auto simp: all_told_def)
qed

lemma addRoom_stages:
  assumes "healthy w" "addRoom data w = (Ok resp, w')" "rp_code resp < 300"
  shows "\<exists>d. storeRoom d w = (Ok resp, w') \<and> \<not> bad_name (rm_name d)"
proof -
  have "\<not> bad_name (rm_name data) \<and> (storeRoom data w = (Ok resp, w') \<or>
      storeRoom (data\<lparr>rm_gateway_uid := itoa (next_gateway_uid (w_db w))\<rparr>) w = (Ok resp, w'))"
    using assms by (auto simp: addRoom_def cacheP_def orAbort_def tryP_def
        dest: bad_requestP_success split: if_splits)
  then show ?thesis by (metis room.select_convs(2) room.surjective room.update_convs(4))
qed

lemma AdminCreateRoom_stages:
  assumes h: "healthy w" and run: "AdminCreateRoom r w = (Ok resp, w')" and ok: "rp_code resp < 300"
  obtains data where "storeRoom data w = (Ok resp, w')" "\<not> bad_name (rm_name data)"
proof -
  from run have "bodyP decode_room r addRoom w = (Ok resp, w')"
    unfolding AdminCreateRoom_def using ok by (rule requireRole_success)
  then obtain data where "addRoom data w = (Ok resp, w')" using ok by (rule bodyP_success)
  with addRoom_stages [OF h] ok that show ?thesis by blast
qed

lemma storeRoom_stages:
  assumes h: "healthy w" and run: "storeRoom data w = (Ok resp, w')" and ok: "rp_code resp < 300"
  obtains data' w1 where "createRoom data w = (Ok data', w1)"
    "w' = w1\<lparr>w_cache := fold RoomCache_Set (rooms_active (w_db w1)) ((w_cache w1)\<lparr>c_rooms := []\<rparr>)\<rparr>"
    "resp = RespondWithJSON 201 (room_json data')"
proof -
  obtain data' w1 where tx: "InTx (createRoom data) w = (Ok data', w1)"
    and rest: "bindP (reload_logged RoomCache_Reload) (\<lambda>_.
      returnP (RespondWithJSON 201 (room_json data'))) w1 = (Ok resp, w')"
    by (rule write_success [OF run [unfolded storeRoom_def] ok]) (intro sane_rules)
  from InTx_healthy_Ok [OF tx h] have "createRoom data w = (Ok data', w1)" "healthy w1"
    by (auto intro: within_rules)
  with rest that show ?thesis by (simp add: reload_rooms_healthy)
qed

text \<open>
  C9. A room that the admin API reports as created is in the table, under a fresh id and with the
  columns of the request, every enabled room gateway of the cache has accepted one request to
  create it through its own client, in order, and nothing else was asked of any gateway; the room
  cache answers it at once, unless it was created disabled.
\<close>

theorem AdminCreateRoom_creates:
  assumes "healthy w" and "schema_ok (w_db w)" and "AdminCreateRoom r w = (Ok resp, w')"
    and "rp_code resp < 300"
  shows "\<exists>row. rooms (w_db w') = rooms (w_db w) @ [row] \<and> rm_id row = seq_room (w_db w) \<and>
    \<not> bad_name (rm_name row) \<and> rm_removed_at row = None \<and>
    all_told (room_gateways (w_cache w)) (CreateRoom (rm_gateway_uid row) (rm_name row)) w w' \<and>
    RoomCache_ByGatewayUID (w_cache w') (rm_gateway_uid row) = (if rm_disabled row then None else Some row)"
proof -
  obtain data where store: "storeRoom data w = (Ok resp, w')" and name: "\<not> bad_name (rm_name data)"
    using AdminCreateRoom_stages [OF assms(1,3,4)] .
  obtain data' w1 where run: "createRoom data w = (Ok data', w1)" and w': "w' = w1\<lparr>w_cache :=
      fold RoomCache_Set (rooms_active (w_db w1)) ((w_cache w1)\<lparr>c_rooms := []\<rparr>)\<rparr>"
    using storeRoom_stages [OF assms(1) store assms(4)] .
  obtain row where row: "rooms (w_db w1) = rooms (w_db w) @ [row]"
      "row = room_row (e_now (w_env w)) (new_room data) (w_db w)"
    and told: "all_told (room_gateways (w_cache w)) (CreateRoom (rm_gateway_uid data) (rm_name data)) w w1"
    using createRoom_Ok [OF run] by blast
  have cols: "rm_name row = rm_name data" "rm_gateway_uid row = rm_gateway_uid data"
    "rm_id row = seq_room (w_db w)" "rm_removed_at row = None"
    by (simp_all add: row(2) new_room_def zero_room_def)
  have ok1: "schema_ok (w_db w1)"
    using withinD' [OF schema_createRoom run] assms(2) by (simp add: schema_rel_def)
  have hit: "RoomCache_ByGatewayUID (w_cache w') (rm_gateway_uid row) = Some x \<longleftrightarrow>
      \<not> rm_disabled row \<and> x = row" for x
  proof -
    have "row \<in> set (rooms (w_db w1))" by (simp add: row(1))
    moreover have "x = row" if "x \<in> set (rooms (w_db w1))" "rm_gateway_uid x = rm_gateway_uid row" for x
      using ok1 that calculation by (metis distinct_key_eq rooms_ok_def schema_ok_def)
    ultimately show ?thesis using reloaded_rooms [OF ok1] cols(4) by (auto simp: w')
  qed
  have "RoomCache_ByGatewayUID (w_cache w') (rm_gateway_uid row) = (if rm_disabled row then None else Some row)"
    using hit by (cases "RoomCache_ByGatewayUID (w_cache w') (rm_gateway_uid row)") auto
  with row(1) cols name told show ?thesis by (intro exI [of _ row]) (simp add: w' all_told_def)
qed

text \<open>An administrator's request, and a world whose gateway accepts one call.\<close>

definition admin_request :: "(string \<times> string) list \<Rightarrow> string \<Rightarrow> request" where
  "admin_request vars body = (get_request ''/admin'')\<lparr>rq_vars := vars, rq_body := Inr body,
     rq_context := Some (new_context\<lparr>rc_service_user := True\<rparr>)\<rparr>"

definition accepting_world :: world where
  "accepting_world = cached_world\<lparr>w_env := sample_env\<lparr>e_admin := [ARok]\<rparr>\<rparr>"

lemma accepting_simps [simp]:
  "healthy accepting_world" "w_db accepting_world = sample_db" "w_calls accepting_world = []"
  "schema_ok (w_db accepting_world)"
  using sample_schema_ok
  by (simp_all add: accepting_world_def healthy_def sample_env_def cached_world_def sample_world_def)

definition room_body :: string where
  "room_body = obj_text [(''name'', quoted ''room 9''), (''default_gateway_id'', ''1''),
     (''gateway_uid'', quoted ''1059'')]"

definition succeeded :: "response res \<Rightarrow> bool" where
  "succeeded r = (case r of Ok resp \<Rightarrow> rp_code resp < 300 | _ \<Rightarrow> False)"

lemma succeeded_run:
  "succeeded (fst p) \<Longrightarrow> \<exists>resp. p = (Ok resp, snd p) \<and> rp_code resp < 300"
  by (cases p; cases "fst p") (auto simp: succeeded_def)

theorem AdminCreateRoom_creates_witness:
  "length (rooms (w_db (snd (AdminCreateRoom (admin_request [] room_body) accepting_world)))) = 3"
proof -
  have "succeeded (fst (AdminCreateRoom (admin_request [] room_body) accepting_world))" by code_simp
  from succeeded_run [OF this] obtain resp where
    "AdminCreateRoom (admin_request [] room_body) accepting_world =
       (Ok resp, snd (AdminCreateRoom (admin_request [] room_body) accepting_world))"
    and "rp_code resp < 300" by blast
  from AdminCreateRoom_creates [OF accepting_simps(1,4) this] obtain row where
    "rooms (w_db (snd (AdminCreateRoom (admin_request [] room_body) accepting_world))) =
       rooms (w_db accepting_world) @ [row]" by blast
  then show ?thesis by (simp add: sample_db_def)
qed

section \<open>Deleting a room\<close>

lemma room_update_Ok:
  assumes "dbP (room_update i f) w = (Ok n, w')"
  shows "rooms (w_db w') = tupdate rm_id i f (rooms (w_db w))" "w_cache w' = w_cache w"
    "w_calls w' = w_calls w" "w_registry w' = w_registry w"
proof -
  have skip: "tupdate rm_id i f rs = rs" if "find (\<lambda>r. rm_id r = i) rs = None" for rs
    using that by (simp add: tupdate_def find_None_all map_idI)
  then show "rooms (w_db w') = tupdate rm_id i f (rooms (w_db w))" "w_cache w' = w_cache w"
    "w_calls w' = w_calls w" "w_registry w' = w_registry w"
    using assms by (auto simp: dbP_def room_update_def room_find_def Let_def
        split: option.splits if_splits)
qed

lemma deleteRoom_Ok:
  assumes "deleteRoom rm w = (Ok (), w')"
  shows "rooms (w_db w') = tupdate rm_id (rm_id rm)
      (\<lambda>x. x\<lparr>rm_removed_at := Some (e_now (w_env w))\<rparr>) (rooms (w_db w))"
    "all_told (room_gateways (w_cache w)) (DestroyRoom (rm_gateway_uid rm)) w w'"
    "w_cache w' = w_cache w"
proof -
  from assms obtain n w1 where upd: "dbP (room_update (rm_id rm)
      (\<lambda>x. x\<lparr>rm_removed_at := Some (e_now (w_env w))\<rparr>)) w = (Ok n, w1)"
    and msg: "messageGateways (DestroyRoom (rm_gateway_uid rm)) w1 = (Ok (), w')"
    by (auto simp: deleteRoom_def nowP_def tryP_def bindP_Ok_iff split: prod.splits res.splits)
  show "rooms (w_db w') = tupdate rm_id (rm_id rm)
      (\<lambda>x. x\<lparr>rm_removed_at := Some (e_now (w_env w))\<rparr>) (rooms (w_db w))"
    "all_told (room_gateways (w_cache w)) (DestroyRoom (rm_gateway_uid rm)) w w'"
    "w_cache w' = w_cache w"
    using room_update_Ok [OF upd] messageGateways_Ok [OF msg] by (auto simp: all_told_def)
qed

lemma AdminDeleteRoom_effect:
  assumes "healthy w" and "schema_ok (w_db w)" and "AdminDeleteRoom r w = (Ok resp, w')"
    and "rp_code resp < 300"
  shows "\<exists>rm \<in> set (rooms (w_db w)). parse_int (var_get r ''id'') = (None, rm_id rm) \<and>
    rooms (w_db w') = tupdate rm_id (rm_id rm)
      (\<lambda>x. x\<lparr>rm_removed_at := Some (e_now (w_env w))\<rparr>) (rooms (w_db w)) \<and>
    all_told (room_gateways (w_cache w)) (DestroyRoom (rm_gateway_uid rm)) w w' \<and>
    RoomCache_ByGatewayUID (w_cache w') (rm_gateway_uid rm) = None"
proof -
  obtain i rm where i: "parse_int (var_get r ''id'') = (None, i)" "room_find i (w_db w) = Some rm"
    and run: "orAbort http_or_internal (InTx (deleteRoom rm)) (\<lambda>_.
      bindP (reload_logged RoomCache_Reload) (\<lambda>_. returnP RespondSuccess)) w = (Ok resp, w')"
    using findRoomP_success [OF requireRole_success [OF assms(3) [unfolded AdminDeleteRoom_def] assms(4)] assms(4)]
      assms(1) by auto
  obtain w1 where tx: "InTx (deleteRoom rm) w = (Ok (), w1)"
    and rest: "bindP (reload_logged RoomCache_Reload) (\<lambda>_. returnP RespondSuccess) w1 = (Ok resp, w')"
    by (rule write_success [OF run assms(4)]) (intro sane_rules, simp)
  have del: "deleteRoom rm w = (Ok (), w1)" and h1: "healthy w1"
    using InTx_healthy_Ok [OF tx assms(1)] by (auto intro: within_rules)
  have w': "w' = w1\<lparr>w_cache := fold RoomCache_Set (rooms_active (w_db w1)) ((w_cache w1)\<lparr>c_rooms := []\<rparr>)\<rparr>"
    using rest h1 by (simp add: reload_rooms_healthy)
  have rm: "rm \<in> set (rooms (w_db w))" "rm_id rm = i"
    using i(2) by (auto simp: room_find_def dest: find_Some_in)
  have ok1: "schema_ok (w_db w1)"
    using withinD' [OF schema_deleteRoom del] assms(2) by (simp add: schema_rel_def)
  have "RoomCache_ByGatewayUID (w_cache w') (rm_gateway_uid rm) \<noteq> Some x" for x
  proof
    assume "RoomCache_ByGatewayUID (w_cache w') (rm_gateway_uid rm) = Some x"
    then have x: "x \<in> set (rooms (w_db w1))" "rm_gateway_uid x = rm_gateway_uid rm" "rm_removed_at x = None"
      using reloaded_rooms [OF ok1] by (auto simp: w')
    from x(1,3) have "x \<in> set (rooms (w_db w))" "rm_id x \<noteq> rm_id rm"
      by (auto simp: deleteRoom_Ok(1) [OF del] set_tupdate split: if_splits)
    with x(2) rm(1) assms(2) show False by (metis distinct_key_eq rooms_ok_def schema_ok_def)
  qed
  then show ?thesis
    using i(1) rm deleteRoom_Ok [OF del] by (intro bexI [of _ rm]) (auto simp: w' all_told_def)
qed

text \<open>
  C10. Deleting a room marks its row as removed at the time of the request and changes no other row,
  tells every enabled room gateway to destroy it, and takes it out of the cache at once.
\<close>

theorem AdminDeleteRoom_deletes:
  assumes "healthy w" and "schema_ok (w_db w)" and "AdminDeleteRoom r w = (Ok resp, w')"
    and "rp_code resp < 300"
  shows "\<exists>rm \<in> set (rooms (w_db w)). parse_int (var_get r ''id'') = (None, rm_id rm) \<and>
    rooms (w_db w') = tupdate rm_id (rm_id rm)
      (\<lambda>x. x\<lparr>rm_removed_at := Some (e_now (w_env w))\<rparr>) (rooms (w_db w)) \<and>
    all_told (room_gateways (w_cache w)) (DestroyRoom (rm_gateway_uid rm)) w w' \<and>
    RoomCache_ByGatewayUID (w_cache w') (rm_gateway_uid rm) = None"
  using assms by (rule AdminDeleteRoom_effect)

theorem AdminDeleteRoom_deletes_witness:
  "RoomCache_ByGatewayUID (w_cache (snd (AdminDeleteRoom (admin_request [(''id'', ''1'')] []) accepting_world)))
     ''1051'' = None"
proof -
  let ?r = "admin_request [(''id'', ''1'')] []"
  have "succeeded (fst (AdminDeleteRoom ?r accepting_world))" by code_simp
  from succeeded_run [OF this] obtain resp where
    "AdminDeleteRoom ?r accepting_world = (Ok resp, snd (AdminDeleteRoom ?r accepting_world))"
    and "rp_code resp < 300" by blast
  from AdminDeleteRoom_deletes [OF accepting_simps(1,4) this] obtain rm where rm: "rm \<in> set (rooms sample_db)"
    "parse_int (var_get ?r ''id'') = (None, rm_id rm)"
    "RoomCache_ByGatewayUID (w_cache (snd (AdminDeleteRoom ?r accepting_world))) (rm_gateway_uid rm) = None"
    by auto
  moreover have "parse_int (var_get ?r ''id'') = (None, 1)" by code_simp
  ultimately have "rm = sample_room 1 ''1051'' ''room 1''" by (auto simp: sample_db_def sample_room_def)
  with rm(3) show ?thesis by (simp add: sample_room_def)
qed

section \<open>A gateway fails half way\<close>


definition two_gateways :: world where
  "two_gateways = (let g2 = sample_gateway\<lparr>gw_id := 2, gw_name := ''gxy2''\<rparr> in
     cached_world\<lparr>w_registry := [(1, (''a'', ''pwd'')), (2, (''b'', ''pwd''))],
       w_cache := GatewayCache_Set g2 (w_cache cached_world),
       w_env := sample_env\<lparr>e_admin := [ARok, ARfail ''connection refused'']\<rparr>\<rparr>)"

definition new_data :: room where
  "new_data = zero_room\<lparr>rm_name := ''room 9'', rm_gateway_uid := ''1059'', rm_default_gateway_id := 1\<rparr>"


end
