(* ===== verification/Room_View.thy ===== *)
theory Room_View
  imports Admin_Rooms
begin

text \<open>
  What the client API shows of a room: one entry per user, that of the most active session, the
  same number of users in the list of groups (counted by the database) and in the list of rooms
  (counted by the handler), and the composites that a deleted room breaks.
\<close>

section \<open>One session per user\<close>

abbreviation uid_of :: "loaded_session \<Rightarrow> int" where
  "uid_of l \<equiv> ss_user_id (fst l)"

text \<open>An entry for every user, and it is the first of the user's most active sessions.\<close>

definition best_session :: "loaded_session list \<Rightarrow> int \<Rightarrow> loaded_session \<Rightarrow> bool" where
  "best_session ls u l \<longleftrightarrow> l \<in> set ls \<and> uid_of l = u \<and>
     (\<forall>k \<in> set ls. uid_of k = u \<longrightarrow> activity (fst k) \<le> activity (fst l))"

lemma most_active_snoc: "most_active (ls @ [l]) = most_active_step l (most_active ls)"
  by (simp add: most_active_def)

lemma most_active_step_keys:
  "fst ` set (most_active_step l m) = insert (uid_of l) (fst ` set m)"
  by (force simp: most_active_step_def dom_update dom_map_of_conv_image_fst image_iff
      split: option.splits dest: map_of_SomeD)

lemma most_active_step_distinct:
  "distinct (map fst m) \<Longrightarrow> distinct (map fst (most_active_step l m))"
  by (simp add: most_active_step_def distinct_update split: option.split)

lemma most_active_keys: "fst ` set (most_active ls) = uid_of ` set ls"
  by (induction ls rule: rev_induct)
    (simp_all add: most_active_snoc most_active_step_keys, simp add: most_active_def)

lemma most_active_distinct: "distinct (map fst (most_active ls))"
  by (induction ls rule: rev_induct)
    (simp_all add: most_active_snoc most_active_step_distinct, simp add: most_active_def)

lemma most_active_length: "length (most_active ls) = card (uid_of ` set ls)"
  using most_active_distinct [of ls] most_active_keys [of ls]
  by (metis distinct_card length_map list.set_map)

lemma best_session_snoc:
  "best_session ls u l \<Longrightarrow> uid_of k \<noteq> u \<or> activity (fst k) \<le> activity (fst l) \<Longrightarrow>
   best_session (ls @ [k]) u l"
  by (auto simp: best_session_def)

lemma most_active_best: "map_of (most_active ls) u = Some l \<Longrightarrow> best_session ls u l"
proof (induction ls arbitrary: u l rule: rev_induct)
  case Nil
  then show ?case by (simp add: most_active_def)
next
  case (snoc k ls)
  show ?case
  proof (cases "map_of (most_active ls) (uid_of k)")
    case None
    then have "uid_of j \<noteq> uid_of k" if "j \<in> set ls" for j
      using that most_active_keys [of ls] by (metis imageI map_of_eq_None_iff)
    then have "best_session (ls @ [k]) (uid_of k) k" by (auto simp: best_session_def)
    with snoc None show ?thesis
      by (auto simp: most_active_snoc most_active_step_def best_session_snoc update_conv'
        split: if_splits)
  next
    case (Some old)
    from snoc.IH [OF Some] have old: "best_session ls (uid_of k) old" .
    have new: "best_session (ls @ [k]) (uid_of k) k" if "activity (fst old) < activity (fst k)"
      using old that by (fastforce simp: best_session_def)
    have keep: "best_session (ls @ [k]) u l" if "map_of (most_active ls) u = Some l"
      "u \<noteq> uid_of k \<or> activity (fst k) \<le> activity (fst old)"
      using snoc.IH [OF that(1)] that Some by (auto intro!: best_session_snoc)
    from snoc.prems Some new keep show ?thesis
      by (cases "u = uid_of k")
        (auto simp: most_active_snoc most_active_step_def update_conv' split: if_splits)
  qed
qed

lemma most_active_entry: "(u, l) \<in> set (most_active ls) \<Longrightarrow> best_session ls u l"
  by (simp add: most_active_best most_active_distinct)

lemma most_active_values:
  "map uid_of (mvalues (most_active ls)) = map fst (most_active ls)"
  by (auto simp: mvalues_def dest: most_active_entry simp: best_session_def)

section \<open>The users of an answer\<close>

lemma makeV1User_Ok:
  assumes "makeV1User (Some rm) (s, u) w = (Ok v, w')"
  shows "w' = w \<and> (\<exists>x. u = Some x \<and> vu_id v = us_accounts_id x \<and> vu_question v = ss_question s \<and>
    vu_room v = rm_gateway_uid rm \<and> vu_session v = or_zero (ss_gateway_session s))"
  using assms
  by (auto simp: makeV1User_def v1_user_of_def cacheP_def bindP_Ok_iff split: option.splits)

lemma makeV1Users_Ok:
  "makeV1Users rm ls w = (Ok vs, w') \<Longrightarrow> w' = w \<and> list_all2 (\<lambda>l v. \<exists>x. snd l = Some x \<and>
     vu_id v = us_accounts_id x) ls vs \<and> list_all2 (\<lambda>l v. vu_session v = or_zero (ss_gateway_session (fst l)) \<and>
     vu_question v = ss_question (fst l)) ls vs"
  by (induction ls arbitrary: vs) (fastforce simp: bindP_Ok_iff dest: makeV1User_Ok)+

lemma makeV1Room_Ok:
  assumes "makeV1Room (Some rm) gw ls w = (Ok v, w')"
  shows "vr_num_users v = int (card (uid_of ` set ls))" "vr_room v = rm_gateway_uid rm" "w' = w"
    "vr_description v = rm_name rm"
  using assms
  by (auto simp: makeV1Room_def cacheP_def bindP_Ok_iff Let_def zero_v1_room_def mvalues_def
      most_active_length dest: makeV1Users_Ok split: option.splits if_splits)

section \<open>The number of users\<close>

text \<open>The users with an open session in a room.\<close>

definition present :: "db \<Rightarrow> int \<Rightarrow> int set" where
  "present d i = ss_user_id ` {s \<in> set (sessions d). ss_removed_at s = None \<and> ss_room_id s = Some i}"

lemma room_counts_present: "or_zero (map_of (room_counts d) i) = int (card (present d i))"
proof -
  have "ss_user_id ` set (filter (\<lambda>s. ss_room_id s = Some i)
      (filter (\<lambda>s. ss_removed_at s = None) (sessions d))) = present d i"
    by (auto simp: present_def)
  moreover have "present d i = {}" if "i \<notin> set (map (\<lambda>s. the (ss_room_id s))
      (filter (\<lambda>s. ss_room_id s \<noteq> None) (filter (\<lambda>s. ss_removed_at s = None) (sessions d))))"
    using that by (force simp: present_def)
  ultimately show ?thesis
    by (simp add: room_counts_def Let_def map_of_map_restrict restrict_map_def or_zero_def del: set_map)
qed

lemma queryP_Ok: "queryP f w = (Ok x, w') \<Longrightarrow> x = f (w_db w) \<and> w' = drop_fault w"
  by (simp add: queryP_apply split: option.splits)

lemma loadP_Ok: "loadP b f w = (Ok xs, w') \<Longrightarrow> (b \<longrightarrow> xs = f (w_db w)) \<and> w_db w' = w_db w \<and> w_cache w' = w_cache w"
  by (auto simp: loadP_def dest: queryP_Ok split: if_splits)

lemma set_sessions_in: "set (sessions_in b ids d) = {s \<in> set (sessions d). ss_removed_at s = None \<and>
    (\<exists>i \<in> set ids. ss_room_id s = Some i)}"
proof -
  have "set (sessions_in b ids d) = {s \<in> set (sessions d). ss_removed_at s = None \<and>
      (case ss_room_id s of None \<Rightarrow> False | Some i \<Rightarrow> i \<in> set ids)}"
    by (simp add: sessions_in_def Let_def)
  then show ?thesis by (force split: option.splits)
qed

lemma loadSessionsP_Ok:
  assumes "loadSessionsP b gw rs w = (Ok lrs, w')" "(rm, ls) \<in> set lrs"
  shows "rm \<in> set rs" "uid_of ` set ls = present (w_db w) (rm_id rm)"
proof -
  from assms obtain ss us w1 w2 where ss: "loadP (rs \<noteq> []) (sessions_in b (map rm_id rs)) w = (Ok ss, w1)"
    and us: "loadUsersP ss w1 = (Ok us, w2)"
    and lrs: "lrs = map (\<lambda>r. (r, filter (\<lambda>l. ss_room_id (fst l) = Some (rm_id r)) us)) rs"
    by (auto simp: loadSessionsP_def bindP_Ok_iff)
  from lrs assms(2) show rm: "rm \<in> set rs" by auto
  from us have "map fst us = ss" by (auto simp: loadUsersP_def bindP_Ok_iff map_idI)
  moreover have "set ss = {s \<in> set (sessions (w_db w)). ss_removed_at s = None \<and>
      (\<exists>i \<in> set (map rm_id rs). ss_room_id s = Some i)}"
    using loadP_Ok [OF ss] rm by (force simp: set_sessions_in)
  ultimately have us: "fst ` set us = {s \<in> set (sessions (w_db w)). ss_removed_at s = None \<and>
      (\<exists>i \<in> set (map rm_id rs). ss_room_id s = Some i)}"
    by (metis list.set_map)
  have "uid_of ` set ls = ss_user_id ` {s \<in> fst ` set us. ss_room_id s = Some (rm_id rm)}"
    using lrs assms(2) by force
  with us rm show "uid_of ` set ls = present (w_db w) (rm_id rm)"
    by (auto simp: present_def intro!: image_eqI)
qed

text \<open>
  C18. The two places that count the users of a room agree: the number the database computes for
  the list of groups is the number of entries the handler makes for the same room in the list of
  rooms, when both see the same tables.
\<close>

theorem num_users_agree:
  assumes "query_get (rq_query r) ''with_num_users'' = ''true''" and "roomCountsP r w = (Ok counts, w1)"
    and "w_db v = w_db w" and "loadSessionsP b gw rs v = (Ok lrs, v1)" and "(rm, ls) \<in> set lrs"
    and "makeV1Room (Some rm) g ls v1 = (Ok in_rooms, v2)" and "group_info c counts rm = Some in_groups"
  shows "vr_num_users in_groups = vr_num_users in_rooms \<and> vr_room in_groups = vr_room in_rooms"
proof -
  have "counts = room_counts (w_db w)"
    using assms(1,2) by (auto simp: roomCountsP_def bindP_Ok_iff dest: queryP_Ok split: if_splits)
  moreover have "vr_num_users in_groups = or_zero (map_of counts (rm_id rm))" "vr_room in_groups = rm_gateway_uid rm"
    using assms(7) by (auto simp: group_info_def split: option.splits)
  ultimately show ?thesis
    using makeV1Room_Ok [OF assms(6)] loadSessionsP_Ok [OF assms(4,5)] assms(3)
    by (simp add: room_counts_present)
qed

text \<open>
  C29. A room is shown with exactly one entry per user that has an open session in it, and the
  entry is made from the most active of the user's sessions there: the one updated last, or created
  last where there was no update.
\<close>

theorem makeV1Room_most_active:
  assumes "makeV1Room (Some rm) gw ls w = (Ok v, w')" and "ls \<noteq> []"
  shows "\<exists>best us. vr_users v = Some (map Some us) \<and> distinct (map uid_of best) \<and>
    uid_of ` set best = uid_of ` set ls \<and> (\<forall>l \<in> set best. best_session ls (uid_of l) l) \<and>
    list_all2 (\<lambda>l u. vu_session u = or_zero (ss_gateway_session (fst l)) \<and>
      vu_question u = ss_question (fst l)) best us"
proof -
  let ?best = "mvalues (most_active ls)"
  obtain us where "vr_users v = Some (map Some us)" "list_all2 (\<lambda>l u. vu_session u =
      or_zero (ss_gateway_session (fst l)) \<and> vu_question u = ss_question (fst l)) ?best us"
    using assms by (auto simp: makeV1Room_def cacheP_def bindP_Ok_iff Let_def
        dest!: makeV1Users_Ok split: option.splits)
  moreover have "uid_of ` set ?best = uid_of ` set ls" "distinct (map uid_of ?best)"
    using most_active_keys [of ls] most_active_distinct [of ls] most_active_values [of ls]
    by (metis list.set_map, metis)
  moreover have "best_session ls (uid_of l) l" if "l \<in> set ?best" for l
    using that most_active_entry by (fastforce simp: mvalues_def best_session_def)
  ultimately show ?thesis by blast
qed


text \<open>Two sessions of one user in a room, one of them stale, and one of a second user.\<close>

definition busy_db :: db where
  "busy_db = sample_db\<lparr>users := [sample_user, sample_user\<lparr>us_id := 2, us_accounts_id := ''acc2''\<rparr>],
     sessions := [sample_session, sample_session\<lparr>ss_id := 2, ss_gateway_session := Some 9, ss_updated_at := Some 5\<rparr>,
       sample_session\<lparr>ss_id := 3, ss_user_id := 2, ss_gateway_session := Some 10\<rparr>]\<rparr>"

definition busy_world :: world where
  "busy_world = cached_world\<lparr>w_db := busy_db\<rparr>"

definition counting_request :: request where
  "counting_request = (get_request ''/groups'')\<lparr>rq_query := [(''with_num_users'', [''true''])]\<rparr>"

abbreviation busy_room :: room where "busy_room \<equiv> sample_room 1 ''1051'' ''room 1''"

abbreviation busy_sessions :: "loaded_session list" where
  "busy_sessions \<equiv> map (\<lambda>s. (s, user_find (ss_user_id s) (users busy_db))) (sessions busy_db)"

lemma busy_ok: "is_ok (fst (makeV1Room (Some busy_room) None busy_sessions busy_world))" by code_simp

text \<open>The session updated at 5 is shown, not the one of 0.\<close>

theorem makeV1Room_most_active_witness:
  "\<exists>v w' best. makeV1Room (Some busy_room) None busy_sessions busy_world = (Ok v, w') \<and>
    uid_of ` set best = {1, 2} \<and> (\<forall>l \<in> set best. best_session busy_sessions (uid_of l) l)"
proof -
  from is_ok_run [OF busy_ok] obtain v w' where
    run: "makeV1Room (Some busy_room) None busy_sessions busy_world = (Ok v, w')" by blast
  have "busy_sessions \<noteq> []" "uid_of ` set busy_sessions = {1, 2}"
    by (auto simp: busy_db_def sample_session_def)
  with makeV1Room_most_active [OF run] obtain best where "uid_of ` set best = {1, 2}"
    "\<forall>l \<in> set best. best_session busy_sessions (uid_of l) l" by auto
  with run show ?thesis by blast
qed

theorem num_users_agree_witness:
  "\<exists>a b w'. makeV1Room (Some busy_room) None busy_sessions busy_world = (Ok a, w') \<and>
    group_info (w_cache busy_world) (room_counts busy_db) busy_room = Some b \<and>
    vr_num_users b = vr_num_users a"
proof -
  have h: "healthy busy_world" by (simp add: busy_world_def)
  have db: "w_db busy_world = busy_db" by (simp add: busy_world_def)
  have "\<not> null_room busy_db" by (simp add: null_room_def busy_db_def sample_session_def)
  then have counts: "roomCountsP counting_request busy_world = (Ok (room_counts busy_db), busy_world)"
    using h db by (simp add: roomCountsP_def counting_request_def query_get_def)
  have load: "loadSessionsP False False [busy_room] busy_world = (Ok [(busy_room, busy_sessions)], busy_world)"
    using h db by (simp add: loadSessionsP_def loadP_def loadUsersP_def sessions_in_def busy_db_def
        sample_session_def sample_room_def)
  from is_ok_run [OF busy_ok] obtain a w' where a: "makeV1Room (Some busy_room) None busy_sessions busy_world = (Ok a, w')"
    by blast
  have "group_info (w_cache busy_world) (room_counts busy_db) busy_room \<noteq> None"
    by (simp add: group_info_def busy_world_def cached_world_def GatewayCache_ByID_def sample_room_def)
  then obtain b where b: "group_info (w_cache busy_world) (room_counts busy_db) busy_room = Some b" by blast
  have "vr_num_users b = vr_num_users a"
    using num_users_agree [OF _ counts refl load _ a b]
    by (simp add: counting_request_def query_get_def)
  with a b show ?thesis by blast
qed

section \<open>A deleted room in a composite\<close>

text \<open>The admin handlers of rooms write no other table.\<close>

definition other_tables_rel :: "world \<Rightarrow> world \<Rightarrow> bool" where
  "other_tables_rel w w' \<longleftrightarrow> same_tables ((w_db w)\<lparr>rooms := []\<rparr>) ((w_db w')\<lparr>rooms := []\<rparr>)"

interpretation others_read: read_rel other_tables_rel
  by unfold_locales (auto simp: other_tables_rel_def snd_callP same_tables_def)

interpretation others_tx: tx_rel other_tables_rel
  by unfold_locales (auto simp: other_tables_rel_def same_tables_def undo_def rollback_to_def)

lemma others_room_update [within_rules]: "within other_tables_rel (dbP (room_update i f))"
  by (rule within_dbP)
    (auto simp: other_tables_rel_def same_tables_def room_update_def Let_def split: option.splits)

lemma others_set_cacheP [within_rules]: "within other_tables_rel (set_cacheP f)"
  by (rule withinI) (simp add: other_tables_rel_def)

lemma others_AdminDeleteRoom: "within other_tables_rel (AdminDeleteRoom r)"
  unfolding AdminDeleteRoom_def deleteRoom_def reload_logged_def RoomCache_Reload_def
  by (intro within_rules)

lemma others_simps:
  assumes "other_tables_rel w w'"
  shows "composites (w_db w') = composites (w_db w)"
    "composites_rooms (w_db w') = composites_rooms (w_db w)"
  using assms by (simp_all add: other_tables_rel_def same_tables_def)

text \<open>A program that ends in a panic from this state.\<close>

definition panics :: "'a go \<Rightarrow> world \<Rightarrow> bool" where
  "panics m w \<longleftrightarrow> (\<exists>e w'. m w = (Panic e, w'))"

lemma panics_bind_first: "panics m w \<Longrightarrow> panics (bindP m f) w"
  by (auto simp: panics_def)

lemma panics_bind_then:
  assumes "answers m" "\<And>x w1. m w = (Ok x, w1) \<Longrightarrow> panics (f x) w1"
  shows "panics (bindP m f) w"
proof (cases "m w")
  case (Pair r w1)
  with assms show ?thesis by (cases r) (auto simp: panics_def answers_def)
qed

lemma panics_cacheP: "panics (g (f (w_cache w))) w \<Longrightarrow> panics (bindP (cacheP f) g) w"
  by (simp add: panics_def cacheP_def)

lemma panics_orAbort: "m w = (Ok x, w1) \<Longrightarrow> panics (f x) w1 \<Longrightarrow> panics (orAbort h m f) w"
  by (simp add: panics_def orAbort_cases)

text \<open>An internal error tells the client nothing but its status.\<close>

definition internal_error :: response where
  "internal_error = \<lparr>rp_code = 500, rp_payload = PText (''Internal Server Error'' @ [byte 10])\<rparr>"

lemma Abort_internal [simp]: "Abort (NewInternalError e) = internal_error"
  by (simp add: Abort_def NewInternalError_def NewHttpError_def StatusText_def internal_error_def)

lemma panics_recovered: "panics (h r) w \<Longrightarrow> fst (RecoveryMiddleware h r w) = Ok internal_error"
  by (auto simp: panics_def RecoveryMiddleware_def)

lemma makeV1Room_nil: "panics (makeV1Room None g ls) w"
  by (simp add: panics_def makeV1Room_def)

lemma composite_rooms_nil: "(cr, None) \<in> set crs \<Longrightarrow> panics (makeV1CompositeRooms crs) w"
proof (induction crs arbitrary: w)
  case (Cons y crs)
  obtain c lr where y: "y = (c, lr)" by fastforce
  show ?case
  proof (cases lr)
    case None
    show ?thesis
      unfolding y None makeV1CompositeRooms.simps option.map(1) option.case
      by (rule panics_cacheP, rule panics_bind_first, rule makeV1Room_nil)
  next
    case (Some l)
    with y Cons.prems have rest: "(cr, None) \<in> set crs" by simp
    show ?thesis
      unfolding y makeV1CompositeRooms.simps
      by (rule panics_cacheP, rule panics_bind_then [OF answers_makeV1Room], rule panics_bind_first,
          rule Cons.IH [OF rest])
  qed
qed simp

lemma composites_nil:
  "(c, crs) \<in> set cs \<Longrightarrow> (cr, None) \<in> set crs \<Longrightarrow> panics (makeV1Composites cs) w"
proof (induction cs arbitrary: w)
  case (Cons y cs)
  show ?case
  proof (cases "y = (c, crs)")
    case True
    with Cons.prems(2) show ?thesis
      by (auto simp: makeV1Composite_def intro!: panics_bind_first composite_rooms_nil)
  next
    case False
    with Cons.prems have rest: "(c, crs) \<in> set cs" by auto
    show ?thesis
      unfolding makeV1Composites.simps
      by (rule panics_bind_then [OF answers_makeV1Composite], rule panics_bind_first,
          rule Cons.IH [OF rest Cons.prems(2)])
  qed
qed simp

lemma healthy_loadP [simp]: "healthy w \<Longrightarrow> loadP b f w = (Ok (if b then f (w_db w) else []), w)"
  by (simp add: loadP_def)

lemma healthy_loadSessionsP:
  assumes "healthy w"
  obtains lrs where "loadSessionsP b gw rs w = (Ok lrs, w)" "map fst lrs = rs"
  using assms by (auto simp: loadSessionsP_def loadUsersP_def comp_def)

text \<open>The rows of a composite carry a nil room where the room is disabled or removed.\<close>

lemma loadCompositesP_nil:
  assumes "healthy w" and "c \<in> set cs" and "cr \<in> set (composites_rooms (w_db w))"
    and "cr_composite_id cr = cp_id c" and "\<forall>rm \<in> set (rooms_active (w_db w)). rm_id rm \<noteq> cr_room_id cr"
  shows "\<exists>lcs crs. loadCompositesP b cs w = (Ok lcs, w) \<and> (c, crs) \<in> set lcs \<and> (cr, None) \<in> set crs"
proof -
  let ?crs = "composites_rooms_of b (map cp_id cs) (w_db w)"
  have cr: "cr \<in> set ?crs"
    using assms(2-4) by (auto simp: composites_rooms_of_def Let_def)
  let ?rs = "rooms_of (map cr_room_id ?crs) (w_db w)"
  obtain lrs where lrs: "loadSessionsP True True ?rs w = (Ok lrs, w)" "map fst lrs = ?rs"
    using healthy_loadSessionsP [OF assms(1)] .
  have none: "find (\<lambda>l. rm_id (fst l) = cr_room_id cr) lrs = None"
  proof -
    have "rm_id (fst l) \<noteq> cr_room_id cr" if "l \<in> set lrs" for l
    proof -
      from that have "fst l \<in> set (map fst lrs)" by simp
      then have "fst l \<in> set (rooms_active (w_db w))" by (simp add: lrs(2) rooms_of_def)
      with assms(5) show ?thesis by blast
    qed
    then show ?thesis by (simp add: find_None_all)
  qed
  have "cs \<noteq> []" "?crs \<noteq> []" using assms(2) cr by auto
  then have run: "loadCompositesP b cs w = (Ok (map (\<lambda>c. (c, map (\<lambda>cr. (cr, find (\<lambda>l. rm_id (fst l) = cr_room_id cr) lrs))
      (filter (\<lambda>cr. cr_composite_id cr = cp_id c) ?crs))) cs), w)"
    using assms(1) lrs(1) by (simp add: loadCompositesP_def)
  show ?thesis
    unfolding run using assms(2,4) cr none by (fastforce intro!: exI image_eqI [of _ _ c])
qed

lemma healthy_AdminDeleteRoom: "within healthy_rel (AdminDeleteRoom r)"
  unfolding AdminDeleteRoom_def reload_logged_def RoomCache_Reload_def by (intro within_rules)

text \<open>
  C31. Deleting a room does not look at the composites: once a room that a composite shows is
  deleted over the admin API, the list of composites follows a nil pointer, and every client is
  answered with an internal error until the composite is rewritten.
\<close>

theorem deleted_room_breaks_composites:
  assumes "healthy w" and "schema_ok (w_db w)" and "AdminDeleteRoom r w = (Ok resp, w')"
    and "rp_code resp < 300" and "parse_int (var_get r ''id'') = (None, cr_room_id cr)"
    and "cr \<in> set (composites_rooms (w_db w))"
  shows "fst (RecoveryMiddleware V1ListComposites q w') = Ok internal_error"
proof (rule panics_recovered)
  have h: "healthy w'" by (rule healthy_within [OF healthy_AdminDeleteRoom assms(3,1)])
  obtain t where rooms: "rooms (w_db w') = tupdate rm_id (cr_room_id cr) (\<lambda>x. x\<lparr>rm_removed_at := Some t\<rparr>)
      (rooms (w_db w))"
    using AdminDeleteRoom_effect [OF assms(1-4)] assms(5) by auto
  have gone: "\<forall>rm \<in> set (rooms_active (w_db w')). rm_id rm \<noteq> cr_room_id cr"
    by (auto simp: rooms_active_def rooms set_tupdate split: if_splits)
  note tables = others_simps [OF withinD' [OF others_AdminDeleteRoom assms(3)]]
  have "has_key cp_id (cr_composite_id cr) (composites (w_db w))"
    using assms(2,6) by (auto simp: schema_ok_def composites_ok_def)
  then obtain c where c: "c \<in> set (composites (w_db w'))" "cr_composite_id cr = cp_id c"
    by (auto simp: has_key_iff tables)
  from loadCompositesP_nil [OF h c(1) _ c(2) gone] assms(6) obtain lcs crs where
    run: "loadCompositesP True (composites (w_db w')) w' = (Ok lcs, w')"
    and nil: "(c, crs) \<in> set lcs" "(cr, None) \<in> set crs"
    unfolding tables by blast
  from h run have "bindP (queryP composites) (loadCompositesP True) w' = (Ok lcs, w')" by simp
  then show "panics (V1ListComposites q) w'"
    unfolding V1ListComposites_def
    by (rule panics_orAbort) (rule panics_bind_first, rule composites_nil [OF nil])
qed

definition quad_world :: world where
  "quad_world = accepting_world\<lparr>w_db := sample_db\<lparr>composites_rooms :=
     [\<lparr>cr_composite_id = 1, cr_room_id = 1, cr_gateway_id = 1, cr_position = 1\<rparr>]\<rparr>\<rparr>"

theorem deleted_room_breaks_composites_witness:
  "fst (RecoveryMiddleware V1ListComposites (get_request ''/qids'') quad_world) \<noteq> Ok internal_error \<and>
   fst (RecoveryMiddleware V1ListComposites (get_request ''/qids'')
     (snd (AdminDeleteRoom (admin_request [(''id'', ''1'')] []) quad_world))) = Ok internal_error"
proof
  have "succeeded (fst (RecoveryMiddleware V1ListComposites (get_request ''/qids'') quad_world))"
    by code_simp
  then show "fst (RecoveryMiddleware V1ListComposites (get_request ''/qids'') quad_world) \<noteq> Ok internal_error"
    by (auto simp: succeeded_def internal_error_def)
next
  let ?r = "admin_request [(''id'', ''1'')] []"
  have h: "healthy quad_world" by (simp add: quad_world_def)
  have ok: "schema_ok (w_db quad_world)"
    using sample_schema_ok by (simp add: quad_world_def schema_defs sample_db_def has_key_def
        sample_room_def sample_gateway_def)
  have cr: "\<lparr>cr_composite_id = 1, cr_room_id = 1, cr_gateway_id = 1, cr_position = 1\<rparr> \<in>
      set (composites_rooms (w_db quad_world))" by (simp add: quad_world_def)
  have "succeeded (fst (AdminDeleteRoom ?r quad_world))" by code_simp
  from succeeded_run [OF this] obtain resp where
    run: "AdminDeleteRoom ?r quad_world = (Ok resp, snd (AdminDeleteRoom ?r quad_world))" "rp_code resp < 300"
    by blast
  have "parse_int (var_get ?r ''id'') = (None, 1)" by code_simp
  then show "fst (RecoveryMiddleware V1ListComposites (get_request ''/qids'')
      (snd (AdminDeleteRoom ?r quad_world))) = Ok internal_error"
    using deleted_room_breaks_composites [OF h ok run _ cr] by simp
qed

end
