(* ===== verification/Config_View.thy ===== *)
theory Config_View
  imports Room_View
begin

text \<open>
  What the clients see of the configuration (\<^verbatim>\<open>V2GetConfig\<close>), as a function of the tables: the
  enabled gateways with their tokens and the dynamic configuration.  Loading the caches establishes
  it, the admin API changes both sides together, and a failed change shows what happens when the
  cache is written before the table.
\<close>

section \<open>Maps filled in a loop\<close>

lemma find_by_key:
  "distinct (map f xs) \<Longrightarrow> x \<in> set xs \<Longrightarrow> find (\<lambda>y. f y = f x) xs = Some x"
  by (induction xs) (auto simp: image_iff)

lemma find_rev_distinct:
  "distinct (map f xs) \<Longrightarrow> find (\<lambda>x. f x = k) (rev xs) = find (\<lambda>x. f x = k) xs"
proof (induction xs)
  case (Cons x xs)
  then have "find (\<lambda>x. f x = k) xs = None" if "f x = k"
    using that unfolding find_None_all by (metis distinct.simps(2) image_eqI list.map(2) list.set_map)
  with Cons show ?case by (auto simp: find_append split: option.split)
qed simp

lemma map_of_fold_update:
  "map_of (fold (\<lambda>x. AList.update (f x) (g x)) xs m) k =
     (case find (\<lambda>x. f x = k) (rev xs) of None \<Rightarrow> map_of m k | Some x \<Rightarrow> Some (g x))"
  by (induction xs arbitrary: m) (auto simp: find_append update_conv' split: option.split)

lemma map_of_fold_update_distinct:
  "distinct (map f xs) \<Longrightarrow> map_of (fold (\<lambda>x. AList.update (f x) (g x)) xs []) k =
     map_option g (find (\<lambda>x. f x = k) xs)"
  by (simp add: map_of_fold_update find_rev_distinct split: option.split)

lemma update_fresh: "k \<notin> fst ` set m \<Longrightarrow> AList.update k v m = m @ [(k, v)]"
  by (induction m) auto

lemma fold_update_fresh:
  "distinct (map f xs) \<Longrightarrow> f ` set xs \<inter> fst ` set m = {} \<Longrightarrow>
   fold (\<lambda>x. AList.update (f x) (g x)) xs m = m @ map (\<lambda>x. (f x, g x)) xs"
proof (induction xs arbitrary: m)
  case (Cons x xs)
  then have "f ` set xs \<inter> fst ` set (m @ [(f x, g x)]) = {}" by auto
  with Cons show ?case by (simp add: update_fresh)
qed simp

section \<open>Reloaded caches, as lists\<close>

lemma reloaded_gateway_list:
  assumes "distinct (map gw_id gs)"
  shows "GatewayCache_Values (fold GatewayCache_Set gs (c\<lparr>c_gw_byid := [], c_gw_byname := []\<rparr>)) = gs"
proof -
  have "c_gw_byid (fold GatewayCache_Set gs c) = fold (\<lambda>g. AList.update (gw_id g) g) gs (c_gw_byid c)" for c
    by (induction gs arbitrary: c) (simp_all add: GatewayCache_Set_def)
  with assms show ?thesis
    by (simp add: GatewayCache_Values_def mvalues_def fold_update_fresh comp_def)
qed

lemma reloaded_config_list:
  assumes "distinct (map dc_key kvs)"
  shows "DynamicConfigCache_Values (fold DynamicConfigCache_Set kvs (c\<lparr>c_dynamic := []\<rparr>)) = kvs"
proof -
  have "c_dynamic (fold DynamicConfigCache_Set kvs c) = fold (\<lambda>kv. AList.update (dc_key kv) kv) kvs (c_dynamic c)" for c
    by (induction kvs arbitrary: c) (simp_all add: DynamicConfigCache_Set_def)
  with assms show ?thesis
    by (simp add: DynamicConfigCache_Values_def mvalues_def fold_update_fresh comp_def)
qed

lemma reloaded_last_modified:
  "c_last_modified (fold DynamicConfigCache_Set kvs c) = fold max (map dc_updated_at kvs) (c_last_modified c)"
  by (induction kvs arbitrary: c) (simp_all add: DynamicConfigCache_Set_def max.commute max_def)

section \<open>The configuration as a function of the tables\<close>

definition enabled :: "gateway \<Rightarrow> bool" where
  "enabled g \<longleftrightarrow> \<not> gw_disabled g \<and> gw_removed_at g = None"

text \<open>The entry of a gateway under its type and name.\<close>

definition gateway_entry :: "v2_config \<Rightarrow> string \<Rightarrow> string \<Rightarrow> v2_gateway option" where
  "gateway_entry f t n = (case map_of (vf_gateways f) t of None \<Rightarrow> None | Some m \<Rightarrow> map_of m n)"

lemma add_v2_gateway_entry:
  "(case map_of (add_v2_gateway c g m) t of None \<Rightarrow> None | Some x \<Rightarrow> map_of x n) =
     (if enabled g \<and> gw_type g = t \<and> gw_name g = n then Some (v2_gateway_of c g)
      else case map_of m t of None \<Rightarrow> None | Some x \<Rightarrow> map_of x n)"
  by (auto simp: add_v2_gateway_def enabled_def update_conv' split: option.split)

lemma fold_v2_gateway_entry:
  "(case map_of (fold (add_v2_gateway c) gs m) t of None \<Rightarrow> None | Some x \<Rightarrow> map_of x n) =
     (case find (\<lambda>g. enabled g \<and> gw_type g = t \<and> gw_name g = n) (rev gs) of
        Some g \<Rightarrow> Some (v2_gateway_of c g)
      | None \<Rightarrow> (case map_of m t of None \<Rightarrow> None | Some x \<Rightarrow> map_of x n))"
  by (induction gs arbitrary: m) (auto simp: find_append add_v2_gateway_entry split: option.split)

definition spec_gateway :: "db \<Rightarrow> (gateway \<Rightarrow> string) \<Rightarrow> string \<Rightarrow> string \<Rightarrow> v2_gateway option" where
  "spec_gateway d tok t n = map_option
     (\<lambda>g. \<lparr>vg_name = gw_name g, vg_url = gw_url g, vg_type = gw_type g, vg_token = tok g\<rparr>)
     (find (\<lambda>g. enabled g \<and> gw_type g = t \<and> gw_name g = n) (gateways d))"

definition spec_dynamic :: "db \<Rightarrow> string \<Rightarrow> string option" where
  "spec_dynamic d k = map_option dc_value (find (\<lambda>kv. dc_key kv = k) (dynamic_configs d))"

definition token_of :: "world \<Rightarrow> gateway \<Rightarrow> string" where
  "token_of w g = (case ActiveToken (w_ext w) (Secret (w_cfg w)) g of Ok t \<Rightarrow> t | _ \<Rightarrow> [])"

lemma find_rev_unique:
  assumes "distinct (map f xs)" "\<And>x. P x \<Longrightarrow> f x = k"
  shows "find P (rev xs) = find P xs"
  using assms(1)
proof (induction xs)
  case (Cons x xs)
  have "find P xs = None" if "P x"
    unfolding find_None_all using that Cons.prems assms(2) by (metis distinct.simps(2) image_eqI list.map(2) list.set_map)
  with Cons show ?case by (auto simp: find_append split: option.split)
qed simp

text \<open>The configuration a cache shows whose lists are those of the tables.\<close>

lemma v2_config_shows:
  assumes ok: "schema_ok d" and gws: "GatewayCache_Values c = gateways d"
    and kvs: "DynamicConfigCache_Values c = dynamic_configs d"
    and toks: "\<And>g. g \<in> set (gateways d) \<Longrightarrow> or_empty (GatewayTokenCache_ByID c (gw_id g)) = tok g"
  shows "gateway_entry (v2_config_of ice c) t n = spec_gateway d tok t n"
    "map_of (vf_dynamic_config (v2_config_of ice c)) k = spec_dynamic d k"
    "vf_last_modified (v2_config_of ice c) = c_last_modified c"
proof -
  let ?P = "\<lambda>g. enabled g \<and> gw_type g = t \<and> gw_name g = n"
  have "distinct (map gw_name (gateways d))" using ok by (simp add: schema_ok_def gateways_ok_def)
  then have "find ?P (rev (gateways d)) = find ?P (gateways d)" by (rule find_rev_unique) simp
  moreover have "v2_gateway_of c g = \<lparr>vg_name = gw_name g, vg_url = gw_url g, vg_type = gw_type g, vg_token = tok g\<rparr>"
    if "find ?P (gateways d) = Some g" for g
    using toks find_Some_in [OF that] by (simp add: v2_gateway_of_def)
  ultimately show "gateway_entry (v2_config_of ice c) t n = spec_gateway d tok t n"
    by (auto simp: gateway_entry_def v2_config_of_def gws fold_v2_gateway_entry spec_gateway_def split: option.split)
  have "distinct (map dc_key (dynamic_configs d))" using ok by (simp add: schema_ok_def configs_ok_def)
  then show "map_of (vf_dynamic_config (v2_config_of ice c)) k = spec_dynamic d k"
    by (simp add: v2_config_of_def kvs map_of_fold_update_distinct spec_dynamic_def)
  show "vf_last_modified (v2_config_of ice c) = c_last_modified c"
    by (simp add: v2_config_of_def DynamicConfigCache_LastModified_def)
qed

section \<open>Loading the caches\<close>

lemma fold_keeps: "(\<And>x c. f (g x c) = f c) \<Longrightarrow> f (fold g xs c) = f c"
  by (induction xs arbitrary: c) simp_all

lemma reloads_keep [simp]:
  "c_gw_byid (fold RoomCache_Set rs c) = c_gw_byid c" "c_tokens (fold RoomCache_Set rs c) = c_tokens c"
  "c_last_modified (fold RoomCache_Set rs c) = c_last_modified c"
  "c_gw_byid (fold (arc_add []) us c) = c_gw_byid c" "c_tokens (fold (arc_add []) us c) = c_tokens c"
  "c_last_modified (fold (arc_add []) us c) = c_last_modified c"
  "c_gw_byid (fold DynamicConfigCache_Set kvs c) = c_gw_byid c"
  "c_tokens (fold DynamicConfigCache_Set kvs c) = c_tokens c"
  "c_last_modified (fold GatewayCache_Set gs c) = c_last_modified c"
  by (rule fold_keeps, simp add: RoomCache_Set_def arc_add_def DynamicConfigCache_Set_def GatewayCache_Set_def)+

text \<open>The token cache is filled beside the others.\<close>

definition tokens_only :: "world \<Rightarrow> world \<Rightarrow> bool" where
  "tokens_only w w' \<longleftrightarrow> w_db w' = w_db w \<and> w_ext w' = w_ext w \<and> w_cfg w' = w_cfg w \<and>
     c_gw_byid (w_cache w') = c_gw_byid (w_cache w) \<and> c_last_modified (w_cache w') = c_last_modified (w_cache w)"

interpretation tokens_only: read_rel tokens_only
  by unfold_locales (auto simp: tokens_only_def snd_callP)

lemma tokens_only_set [within_rules]:
  "within tokens_only (set_cacheP (\<lambda>c. c\<lparr>c_tokens := f c\<rparr>))"
  by (rule withinI) (simp add: tokens_only_def)

lemma tokens_only_reload [within_rules]: "within tokens_only (reloadTokens gs)"
proof (induction gs)
  case (Cons g gs)
  then show ?case unfolding reloadTokens.simps by (intro within_rules)
qed (simp add: tokens_only.within_Pair)

lemma GatewayTokenCache_Reload_Ok:
  assumes "GatewayTokenCache_Reload w = (Ok (), w')" "schema_ok (w_db w)"
  shows "tokens_only w w'"
    "g \<in> set (gateways (w_db w)) \<Longrightarrow> or_empty (GatewayTokenCache_ByID (w_cache w') (gw_id g)) = token_of w g"
proof -
  have "within tokens_only GatewayTokenCache_Reload"
    unfolding GatewayTokenCache_Reload_def by (intro within_rules)
  then show "tokens_only w w'" using assms(1) by (rule withinD')
  assume g: "g \<in> set (gateways (w_db w))"
  have d: "distinct (map gw_id (gateways (w_db w)))"
    using assms(2) by (simp add: schema_ok_def gateways_ok_def)
  then have f: "find (\<lambda>h. gw_id h = gw_id g) (gateways (w_db w)) = Some g"
    using g by (rule find_by_key)
  from assms(1) obtain w1 where "reloadTokens (gateways (w_db w)) w1 = (Ok (), w')"
    "w_ext w1 = w_ext w" "w_cfg w1 = w_cfg w"
    by (auto simp: GatewayTokenCache_Reload_def bindP_Ok_iff dest!: queryP_Ok)
  with reloadTokens_Ok [OF this(1) d, of "gw_id g"] f
  show "or_empty (GatewayTokenCache_ByID (w_cache w') (gw_id g)) = token_of w g"
    by (auto simp: GatewayTokenCache_ByID_def token_of_def or_empty_def split: res.split)
qed

lemma AppCache_Init_loads:
  assumes ok: "schema_ok (w_db w)" and run: "AppCache_Init w = (Ok (), w')"
  shows "GatewayCache_Values (w_cache w') = gateways (w_db w)"
    "DynamicConfigCache_Values (w_cache w') = dynamic_configs (w_db w)"
    "g \<in> set (gateways (w_db w)) \<Longrightarrow> or_empty (GatewayTokenCache_ByID (w_cache w') (gw_id g)) = token_of w g"
    "c_last_modified (w_cache w') = fold max (map dc_updated_at (dynamic_configs (w_db w))) zero_time"
proof -
  from run obtain w1 w2 w3 w4 where
    gw: "GatewayCache_Reload (w\<lparr>w_cache := fresh_cache\<rparr>) = (Ok (), w1)"
    and tok: "GatewayTokenCache_Reload w1 = (Ok (), w2)"
    and rooms: "RoomCache_Reload w2 = (Ok (), w3)" and users: "UserCache_Reload w3 = (Ok (), w4)"
    and dyn: "DynamicConfigCache_Reload w4 = (Ok (), w')"
    by (auto simp: AppCache_Init_def AppCache_ReloadAll_def bindP_Ok_iff)
  note c1 = query_then_cache [OF gw [unfolded GatewayCache_Reload_def]]
  note c3 = query_then_cache [OF rooms [unfolded RoomCache_Reload_def]]
  note c4 = query_then_cache [OF users [unfolded UserCache_Reload_def]]
  note c5 = query_then_cache [OF dyn [unfolded DynamicConfigCache_Reload_def]]
  have ok1: "schema_ok (w_db w1)" using c1 ok by simp
  note c2 = GatewayTokenCache_Reload_Ok [OF tok ok1]
  have db: "w_db w1 = w_db w" "w_db w4 = w_db w"
    using c1 c2(1) c3 c4 by (simp_all add: tokens_only_def)
  have w1: "w_ext w1 = w_ext w" "w_cfg w1 = w_cfg w"
    using gw by (auto simp: GatewayCache_Reload_def bindP_Ok_iff dest!: queryP_Ok)
  have byid: "c_gw_byid (w_cache w') = c_gw_byid (w_cache w1)" "c_tokens (w_cache w') = c_tokens (w_cache w2)"
    using c2(1) c3 c4 c5 by (simp_all add: tokens_only_def)
  have ids: "distinct (map gw_id (gateways (w_db w)))" "distinct (map dc_key (dynamic_configs (w_db w)))"
    using ok by (simp_all add: schema_ok_def gateways_ok_def configs_ok_def)
  show "GatewayCache_Values (w_cache w') = gateways (w_db w)"
    using byid c1 reloaded_gateway_list [OF ids(1)] by (simp add: GatewayCache_Values_def)
  show "DynamicConfigCache_Values (w_cache w') = dynamic_configs (w_db w)"
    using c5 db reloaded_config_list [OF ids(2)] by simp
  show "g \<in> set (gateways (w_db w)) \<Longrightarrow> or_empty (GatewayTokenCache_ByID (w_cache w') (gw_id g)) = token_of w g"
    using c2(2) [of g] db byid w1 by (simp add: GatewayTokenCache_ByID_def token_of_def)
  show "c_last_modified (w_cache w') = fold max (map dc_updated_at (dynamic_configs (w_db w))) zero_time"
    using c1 c2(1) c3 c4 c5 db by (simp add: reloaded_last_modified tokens_only_def fresh_cache_def)
qed

text \<open>
  C16. A freshly started server publishes its tables: the configuration answered to a client has an
  entry under a type and a name exactly where an enabled gateway that is not removed has them, with
  the gateway's url and the plain text of its active token, the dynamic configuration maps every
  key to its value, and the time of the last change is the latest of its rows.
\<close>

theorem V2GetConfig_reflects:
  assumes "schema_ok (w_db w)" and "AppCache_Init w = (Ok (), w')"
  shows "\<exists>f. V2GetConfig r w' = (Ok (RespondWithJSON 200 (v2_config_json f)), w') \<and>
    (\<forall>t n. gateway_entry f t n = spec_gateway (w_db w) (token_of w) t n) \<and>
    (\<forall>k. map_of (vf_dynamic_config f) k = spec_dynamic (w_db w) k) \<and>
    vf_last_modified f = fold max (map dc_updated_at (dynamic_configs (w_db w))) zero_time"
proof -
  note loads = AppCache_Init_loads [OF assms]
  note view = v2_config_shows [where c = "w_cache w'" and tok = "token_of w", OF assms(1) loads(1,2,3)]
  show ?thesis
    using view loads(4) by (auto simp: V2GetConfig_def cfgP_def cacheP_def)
qed

theorem V2GetConfig_reflects_witness:
  "\<exists>f w'. AppCache_Init sample_world = (Ok (), w') \<and>
     V2GetConfig (get_request ''/v2/config'') w' = (Ok (RespondWithJSON 200 (v2_config_json f)), w') \<and>
     gateway_entry f ''rooms'' ''gxy1'' \<noteq> None"
proof -
  have "fst (AppCache_Init sample_world) = Ok ()" by code_simp
  then have run: "AppCache_Init sample_world = (Ok (), snd (AppCache_Init sample_world))" by (rule fst_run)
  have "schema_ok (w_db sample_world)" using sample_schema_ok by (simp add: sample_world_def)
  from V2GetConfig_reflects [OF this run] obtain f where
    f: "V2GetConfig (get_request ''/v2/config'') (snd (AppCache_Init sample_world)) =
      (Ok (RespondWithJSON 200 (v2_config_json f)), snd (AppCache_Init sample_world))"
    "gateway_entry f ''rooms'' ''gxy1'' = spec_gateway (w_db sample_world) (token_of sample_world) ''rooms'' ''gxy1''"
    by blast
  have "spec_gateway (w_db sample_world) (token_of sample_world) ''rooms'' ''gxy1'' \<noteq> None"
    by (simp add: spec_gateway_def sample_world_def sample_db_def enabled_def sample_gateway_def GatewayTypeRooms_def)
  with f run show ?thesis by metis
qed

section \<open>Changes over the admin API\<close>

lemma reload_configs_healthy:
  "healthy w \<Longrightarrow> reload_logged DynamicConfigCache_Reload w = (Ok (), w\<lparr>w_cache :=
     fold DynamicConfigCache_Set (dynamic_configs (w_db w)) ((w_cache w)\<lparr>c_dynamic := []\<rparr>)\<rparr>)"
  by (simp add: reload_logged_def tryP_def DynamicConfigCache_Reload_def bindP_def)

lemma writeConfig_stages:
  assumes run: "writeConfig m f w = (Ok resp, w')" and ok: "rp_code resp < 300" and h: "healthy w"
    and rules: "sane_errors m" "within healthy_rel m"
  obtains x w1 where "m w = (Ok x, w1)" "resp = f x" "w' = w1\<lparr>w_cache :=
    fold DynamicConfigCache_Set (dynamic_configs (w_db w1)) ((w_cache w1)\<lparr>c_dynamic := []\<rparr>)\<rparr>"
proof -
  obtain x w1 where tx: "InTx m w = (Ok x, w1)"
    and rest: "bindP (reload_logged DynamicConfigCache_Reload) (\<lambda>_. returnP (f x)) w1 = (Ok resp, w')"
    by (rule write_success [OF run [unfolded writeConfig_def] ok rules(1)])
  from InTx_healthy_Ok [OF tx h rules(2)] have "m w = (Ok x, w1)" "healthy w1" by auto
  with rest that show ?thesis by (simp add: reload_configs_healthy)
qed

lemma reloaded_config_view:
  assumes "schema_ok d"
  shows "map_of (vf_dynamic_config (v2_config_of ice (fold DynamicConfigCache_Set (dynamic_configs d)
      (c\<lparr>c_dynamic := []\<rparr>)))) k = spec_dynamic d k"
  using assms
  by (simp add: v2_config_of_def reloaded_config_list map_of_fold_update_distinct spec_dynamic_def
      schema_ok_def configs_ok_def)

lemma fold_max_ge: "x \<in> set xs \<Longrightarrow> x \<le> fold max xs (a::int)"
  by (metis Max.set_eq_fold Max_ge List.finite_set list.set_intros(2))

lemma find_map_key: "(\<And>x. g (h x) = g x) \<Longrightarrow> find (\<lambda>x. g x = k) (map h rs) = map_option h (find (\<lambda>x. g x = k) rs)"
  by (induction rs) simp_all

lemma tupdate_find:
  assumes "distinct (map key rs)" "distinct (map g rs)" "r \<in> set rs" and g: "\<And>x. g (f x) = g x"
  shows "find (\<lambda>x. g x = k) (tupdate key (key r) f rs) =
     (if k = g r then Some (f r) else find (\<lambda>x. g x = k) rs)"
proof -
  let ?h = "\<lambda>x. if key x = key r then f x else x"
  have "find (\<lambda>x. g x = k) (tupdate key (key r) f rs) = map_option ?h (find (\<lambda>x. g x = k) rs)"
    unfolding tupdate_def by (rule find_map_key) (simp add: g)
  moreover have "find (\<lambda>x. g x = g r) rs = Some r" by (rule find_by_key [OF assms(2,3)])
  moreover have "key x \<noteq> key r" if "find (\<lambda>x. g x = k) rs = Some x" "k \<noteq> g r" for x
    using find_Some_in [OF that(1)] that(2) distinct_key_eq [OF assms(1), of x r] assms(3) by auto
  ultimately show ?thesis
    by (cases "k = g r"; cases "find (\<lambda>x. g x = k) rs") simp_all
qed

lemma within_setConfig [within_rules]: "within healthy_rel (setConfig k kv v)"
  unfolding setConfig_def by (intro within_rules)

lemma sane_setConfig [sane_rules]: "sane_errors (setConfig k kv v)"
  unfolding setConfig_def Let_def by (intro sane_rules)

lemma setConfig_Ok:
  assumes "healthy w" "setConfig key kv v w = (Ok (), w')" "dynamic_config_find (dc_id kv) (w_db w) = Some kv"
  shows "dynamic_configs (w_db w') = tupdate dc_id (dc_id kv)
    (\<lambda>c. c\<lparr>dc_value := v, dc_updated_at := e_now (w_env w)\<rparr>) (dynamic_configs (w_db w))"
  using assms
  by (auto simp: setConfig_def Let_def nowP_def bindP_Ok_iff dynamic_config_update_def healthy_dbP
      split: if_splits)

lemma AdminSetDynamicConfig_stages:
  assumes run: "AdminSetDynamicConfig r w = (Ok resp, w')" and ok: "rp_code resp < 300"
  obtains kv data where "DynamicConfigCache_ByKey (w_cache w) (var_get r ''key'') = Some kv"
    "DecodeJSONBody decode_dynamic_config (rq_body r) = Inr data"
    "writeConfig (setConfig (var_get r ''key'') kv (dc_value data)) (\<lambda>_. RespondSuccess) w = (Ok resp, w')"
proof -
  note body = requireRole_success [OF run [unfolded AdminSetDynamicConfig_def] ok]
  from body ok obtain kv where kv: "DynamicConfigCache_ByKey (w_cache w) (var_get r ''key'') = Some kv"
    by (cases "DynamicConfigCache_ByKey (w_cache w) (var_get r ''key'')")
      (auto simp: Let_def cacheP_def NewNotFoundError_def NewHttpError_def)
  with body have "bodyP decode_dynamic_config r (\<lambda>data.
      if length (dc_value data) = 0 then bad_requestP ''value is missing''
      else writeConfig (setConfig (var_get r ''key'') kv (dc_value data)) (\<lambda>_. RespondSuccess)) w = (Ok resp, w')"
    by (simp add: Let_def cacheP_def)
  then obtain data where "DecodeJSONBody decode_dynamic_config (rq_body r) = Inr data"
    "writeConfig (setConfig (var_get r ''key'') kv (dc_value data)) (\<lambda>_. RespondSuccess) w = (Ok resp, w')"
    using ok by (rule bodyP_success) (use ok in \<open>auto dest: bad_requestP_success split: if_splits\<close>)
  with kv that show ?thesis by blast
qed

text \<open>
  C17. Setting a key over the admin API sets it everywhere: in the table the key has the value of
  the body and every other key is as before, and the configuration that the clients read next has
  the same values and a time of change that is not before the request.
\<close>

theorem AdminSetDynamicConfig_sets:
  assumes "healthy w" and "schema_ok (w_db w)" and "AdminSetDynamicConfig r w = (Ok resp, w')"
    and "rp_code resp < 300"
    and "\<And>k. DynamicConfigCache_ByKey (w_cache w) k = find (\<lambda>kv. dc_key kv = k) (dynamic_configs (w_db w))"
  shows "\<exists>data. DecodeJSONBody decode_dynamic_config (rq_body r) = Inr data \<and>
    spec_dynamic (w_db w') = (spec_dynamic (w_db w))(var_get r ''key'' \<mapsto> dc_value data) \<and>
    (\<forall>k. map_of (vf_dynamic_config (v2_config_of ice (w_cache w'))) k = spec_dynamic (w_db w') k) \<and>
    e_now (w_env w) \<le> vf_last_modified (v2_config_of ice (w_cache w'))"
proof -
  let ?key = "var_get r ''key''" and ?t = "e_now (w_env w)"
  obtain kv data where hit: "DynamicConfigCache_ByKey (w_cache w) ?key = Some kv"
    and data: "DecodeJSONBody decode_dynamic_config (rq_body r) = Inr data"
    and wr: "writeConfig (setConfig ?key kv (dc_value data)) (\<lambda>_. RespondSuccess) w = (Ok resp, w')"
    using AdminSetDynamicConfig_stages [OF assms(3,4)] .
  obtain w1 where run: "setConfig ?key kv (dc_value data) w = (Ok (), w1)" and w': "w' = w1\<lparr>w_cache :=
      fold DynamicConfigCache_Set (dynamic_configs (w_db w1)) ((w_cache w1)\<lparr>c_dynamic := []\<rparr>)\<rparr>"
    by (rule writeConfig_stages [OF wr assms(4,1)]) (auto intro: sane_rules within_rules)
  have kv: "kv \<in> set (dynamic_configs (w_db w))" "dc_key kv = ?key"
    using hit assms(5) by (auto dest: find_Some_in)
  have ids: "distinct (map dc_id (dynamic_configs (w_db w)))" "distinct (map dc_key (dynamic_configs (w_db w)))"
    using assms(2) by (simp_all add: schema_ok_def configs_ok_def)
  then have "dynamic_config_find (dc_id kv) (w_db w) = Some kv"
    using kv(1) by (simp add: dynamic_config_find_def find_by_key)
  note rows = setConfig_Ok [OF assms(1) run this]
  have "spec_dynamic (w_db w1) = (spec_dynamic (w_db w))(?key \<mapsto> dc_value data)"
    using tupdate_find [where g = dc_key, OF ids kv(1)] kv(2)
    by (auto simp: spec_dynamic_def rows fun_eq_iff)
  moreover have ok1: "schema_ok (w_db w1)"
    using withinD' [OF schema_setConfig run] assms(2) by (simp add: schema_rel_def)
  moreover have "?t \<le> c_last_modified (w_cache w')"
  proof -
    have "kv\<lparr>dc_value := dc_value data, dc_updated_at := ?t\<rparr> \<in> set (dynamic_configs (w_db w1))"
      using kv(1) by (force simp: rows set_tupdate)
    then have "dc_updated_at (kv\<lparr>dc_value := dc_value data, dc_updated_at := ?t\<rparr>) \<in>
        set (map dc_updated_at (dynamic_configs (w_db w1)))" unfolding set_map by (rule imageI)
    then show ?thesis by (simp add: w' reloaded_last_modified fold_max_ge)
  qed
  ultimately show ?thesis
    using data reloaded_config_view [OF ok1]
    by (auto simp: w' v2_config_of_def DynamicConfigCache_LastModified_def)
qed

definition setting_row :: dynamic_config where
  "setting_row = \<lparr>dc_id = 1, dc_key = ''k'', dc_value = ''old'', dc_updated_at = 0\<rparr>"

definition setting_world :: world where
  "setting_world = cached_world\<lparr>
     w_db := sample_db\<lparr>dynamic_configs := [setting_row], seq_dynamic_config := 2\<rparr>,
     w_cache := (w_cache cached_world)\<lparr>c_dynamic := [(''k'', setting_row)]\<rparr>\<rparr>"

definition setting_request :: request where
  "setting_request = admin_request [(''key'', ''k'')] (obj_text [(''value'', quoted ''new'')])"

lemma setting_world_ok: "healthy setting_world" "schema_ok (w_db setting_world)"
  using sample_schema_ok
  by (simp_all add: setting_world_def setting_row_def schema_defs sample_db_def has_key_def
      sample_room_def sample_gateway_def sample_user_def)

lemma setting_request_data:
  "DecodeJSONBody decode_dynamic_config (rq_body setting_request) = Inr (zero_config\<lparr>dc_value := ''new''\<rparr>)"
  by code_simp

theorem AdminSetDynamicConfig_sets_witness:
  "spec_dynamic (w_db (snd (AdminSetDynamicConfig setting_request setting_world))) ''k'' = Some ''new''"
proof -
  have "succeeded (fst (AdminSetDynamicConfig setting_request setting_world))" by code_simp
  from succeeded_run [OF this] obtain resp where
    run: "AdminSetDynamicConfig setting_request setting_world =
      (Ok resp, snd (AdminSetDynamicConfig setting_request setting_world))" "rp_code resp < 300" by blast
  have "DynamicConfigCache_ByKey (w_cache setting_world) k =
      find (\<lambda>kv. dc_key kv = k) (dynamic_configs (w_db setting_world))" for k
    by (simp add: setting_world_def setting_row_def DynamicConfigCache_ByKey_def)
  moreover have "var_get setting_request ''key'' = ''k''"
    by (simp add: setting_request_def admin_request_def var_get_def)
  ultimately show ?thesis
    using AdminSetDynamicConfig_sets [OF setting_world_ok run] setting_request_data by fastforce
qed

section \<open>A change that fails\<close>

lemma requireRole_not_403:
  assumes "requireRole roles r m w = (Ok resp, w')" "rp_code resp \<noteq> 403"
  shows "m w = (Ok resp, w')"
  using assms by (auto simp: requireRole_def bindP_Ok_iff cfgP_def resP_def NewForbiddenError_def
      NewHttpError_def split: if_splits)

lemma internal_error_code [simp]: "rp_code internal_error = 500"
  by (simp add: internal_error_def)

lemma find_mvalues:
  "\<forall>(k, v) \<in> set m. f v = k \<Longrightarrow> find (\<lambda>v. f v = k) (mvalues m) = map_of m k"
  by (induction m) (auto simp: mvalues_def)

lemma config_view_of_map:
  assumes "wf_map (c_dynamic c)" "\<forall>(k, kv) \<in> set (c_dynamic c). dc_key kv = k"
  shows "map_of (vf_dynamic_config (v2_config_of ice c)) k = map_option dc_value (map_of (c_dynamic c) k)"
proof -
  have "map dc_key (mvalues (c_dynamic c)) = map fst (c_dynamic c)"
    using assms(2) by (auto simp: mvalues_def)
  then have "distinct (map dc_key (mvalues (c_dynamic c)))" using assms(1) by (simp add: wf_map_def)
  then show ?thesis
    using find_mvalues [OF assms(2)]
    by (simp add: v2_config_of_def DynamicConfigCache_Values_def map_of_fold_update_distinct)
qed

lemma w_cache_dbP [simp]: "w_cache (snd (dbP st w)) = w_cache w"
  by (auto simp: dbP_def split: option.split prod.split sum.split)

lemma snd_bind_return [simp]: "snd (bindP m (\<lambda>_. returnP ()) w) = snd (m w)"
  by (simp add: bindP_def split: prod.split res.split)

lemma setConfig_cache:
  "w_cache (snd (setConfig key kv v w)) = (w_cache w)\<lparr>c_dynamic := AList.update key
     (kv\<lparr>dc_value := v, dc_updated_at := e_now (w_env w)\<rparr>) (c_dynamic (w_cache w))\<rparr>"
  by (simp add: setConfig_def nowP_def Let_def)

lemma in_set_updateD: "(k, x) \<in> set (AList.update j v m) \<Longrightarrow> (k = j \<and> x = v) \<or> (k, x) \<in> set m"
  by (induction m) (auto split: if_splits)

lemma setting_fails:
  assumes "InTx (setConfig key kv v) w = (Err e, w')" "next_fault w = None"
  shows "same_tables (w_db w) (w_db w') \<and> w_cache w' = (w_cache w)\<lparr>c_dynamic := AList.update key
     (kv\<lparr>dc_value := v, dc_updated_at := e_now (w_env w)\<rparr>) (c_dynamic (w_cache w))\<rparr>"
proof -
  have "w_cache w2 = (w_cache w)\<lparr>c_dynamic := AList.update key
     (kv\<lparr>dc_value := v, dc_updated_at := e_now (w_env w)\<rparr>) (c_dynamic (w_cache w))\<rparr>"
    if "setConfig key kv v (drop_fault w) = (x, w2)" for x w2
    using setConfig_cache [of key kv v "drop_fault w"] that by simp
  with assms show ?thesis
    by (cases rule: InTx_cases [of w "setConfig key kv v"]) auto
qed

text \<open>
  The handler writes through the pointer of the cache before it writes the table: when the
  transaction fails after it began, the client is told of an internal error and every table is as
  before, but the next configuration that is read carries the refused value, until the cache is
  reloaded.
\<close>

theorem AdminSetDynamicConfig_leaks:
  assumes "AdminSetDynamicConfig r w = (Ok internal_error, w')" and "next_fault w = None"
    and "DecodeJSONBody decode_dynamic_config (rq_body r) = Inr data"
    and "wf_map (c_dynamic (w_cache w))" and "\<forall>(k, kv) \<in> set (c_dynamic (w_cache w)). dc_key kv = k"
  shows "same_tables (w_db w) (w_db w') \<and>
    map_of (vf_dynamic_config (v2_config_of ice (w_cache w'))) (var_get r ''key'') = Some (dc_value data)"
proof -
  let ?key = "var_get r ''key''"
  have body: "(case DynamicConfigCache_ByKey (w_cache w) ?key of None \<Rightarrow> abortP NewNotFoundError
      | Some kv \<Rightarrow> bodyP decode_dynamic_config r (\<lambda>data.
          if dc_value data = [] then bad_requestP ''value is missing''
          else writeConfig (setConfig ?key kv (dc_value data)) (\<lambda>_. RespondSuccess))) w = (Ok internal_error, w')"
    using requireRole_not_403 [OF assms(1) [unfolded AdminSetDynamicConfig_def]] by (simp add: Let_def cacheP_def)
  then obtain kv where kv: "DynamicConfigCache_ByKey (w_cache w) ?key = Some kv"
    by (cases "DynamicConfigCache_ByKey (w_cache w) ?key")
      (auto simp: NewNotFoundError_def NewHttpError_def dest: arg_cong [where f = rp_code])
  with body assms(3) have "writeConfig (setConfig ?key kv (dc_value data)) (\<lambda>_. RespondSuccess) w = (Ok internal_error, w')"
    by (auto simp: bodyP_def bad_requestP_def NewBadRequestError_def NewHttpError_def
        dest: arg_cong [where f = rp_code] split: if_splits)
  then obtain e where "InTx (setConfig ?key kv (dc_value data)) w = (Err e, w')"
    by (auto simp: writeConfig_def orAbort_def tryP_def bindP_Ok_iff RespondSuccess_def RespondWithJSON_def
        internal_error_def split: prod.splits res.splits)
  note dirty = setting_fails [OF this assms(2)]
  have "dc_key kv = ?key" using kv assms(5) by (auto simp: DynamicConfigCache_ByKey_def dest: map_of_SomeD)
  then have "\<forall>(k, x) \<in> set (c_dynamic (w_cache w')). dc_key x = k"
    using assms(5) dirty by (auto dest!: in_set_updateD)
  with dirty assms(4) show ?thesis by (simp add: config_view_of_map)
qed

definition failing_world :: world where
  "failing_world = setting_world\<lparr>w_env := sample_env\<lparr>e_faults := [None, Some ''connection reset'']\<rparr>\<rparr>"

theorem AdminSetDynamicConfig_leaks_witness:
  "dynamic_configs (w_db (snd (AdminSetDynamicConfig setting_request failing_world))) = [setting_row] \<and>
   map_of (vf_dynamic_config (v2_config_of [] (w_cache (snd (AdminSetDynamicConfig setting_request failing_world))))) ''k'' =
     Some ''new''"
proof -
  have "fst (AdminSetDynamicConfig setting_request failing_world) = Ok internal_error" by code_simp
  then have run: "AdminSetDynamicConfig setting_request failing_world =
      (Ok internal_error, snd (AdminSetDynamicConfig setting_request failing_world))" by (rule fst_run)
  have "next_fault failing_world = None" by (simp add: failing_world_def next_fault_def)
  moreover have "wf_map (c_dynamic (w_cache failing_world))"
    "\<forall>(k, kv) \<in> set (c_dynamic (w_cache failing_world)). dc_key kv = k"
    "dynamic_configs (w_db failing_world) = [setting_row]"
    by (simp_all add: failing_world_def setting_world_def setting_row_def wf_map_def)
  moreover have "var_get setting_request ''key'' = ''k''"
    by (simp add: setting_request_def admin_request_def var_get_def)
  ultimately show ?thesis
    using AdminSetDynamicConfig_leaks [OF run _ setting_request_data, where ice = "[]"]
    by (simp add: same_tables_def)
qed

section \<open>A key cannot keep its name\<close>

lemma requireRole_cases:
  "rq_context r \<noteq> None \<Longrightarrow> requireRole roles r m w = m w \<or>
     requireRole roles r m w = (Ok (Abort NewForbiddenError), w)"
  by (auto simp: requireRole_def cfgP_def bindP_def resP_def RequestHasRole_def ContextFromRequest_def
      split: option.split)

text \<open>
  The check that a key is free counts the row that is being updated: a request to change the
  value of a setting by its id that keeps the key is refused, whatever the value, and changes
  nothing.
\<close>

theorem AdminUpdateDynamicConfig_same_key:
  assumes "healthy w" and "rq_context r \<noteq> None" and "parse_int (var_get r ''id'') = (None, i)"
    and "dynamic_config_find i (w_db w) = Some kv"
    and "DecodeJSONBody decode_dynamic_config (rq_body r) = Inr data" and "dc_key data = dc_key kv"
  shows "\<exists>resp. AdminUpdateDynamicConfig r w = (Ok resp, w) \<and> rp_code resp \<in> {400, 403}"
proof -
  have taken: "dynamic_config_exists (dc_key data) (w_db w)"
    using assms(4,6) by (auto simp: dynamic_config_find_def dynamic_config_exists_def list_ex_iff dest: find_Some_in)
  have refused: "\<exists>resp. checkedConfig data m w = (Ok resp, w) \<and> rp_code resp = 400" for m
    using taken assms(1) by (simp add: checkedConfig_def bad_requestP_def NewBadRequestError_def NewHttpError_def)
  let ?m = "\<lambda>f. findConfigP r (\<lambda>kv. bodyP decode_dynamic_config r (\<lambda>data. checkedConfig data (f data kv)))"
  have "\<exists>f. AdminUpdateDynamicConfig r = requireRole [RoleRoot] r (?m f)"
    unfolding AdminUpdateDynamicConfig_def by (rule exI, rule refl)
  then obtain f where f: "AdminUpdateDynamicConfig r = requireRole [RoleRoot] r (?m f)" ..
  obtain resp where "?m f w = (Ok resp, w)" "rp_code resp = 400"
    using refused [of "f data kv"] assms(1,3,4,5)
    by (auto simp: findConfigP_def orAbort_def tryP_def healthy_oneP bodyP_def)
  then show ?thesis
    unfolding f using requireRole_cases [OF assms(2), of "[RoleRoot]" "?m f" w] by auto
qed

definition renaming_request :: request where
  "renaming_request = admin_request [(''id'', ''1'')]
     (obj_text [(''key'', quoted ''k''), (''value'', quoted ''new'')])"

theorem AdminUpdateDynamicConfig_same_key_witness:
  "\<exists>resp. AdminUpdateDynamicConfig renaming_request setting_world = (Ok resp, setting_world)"
proof -
  have "rq_context renaming_request \<noteq> None" "parse_int (var_get renaming_request ''id'') = (None, 1)"
    by (simp add: renaming_request_def admin_request_def) code_simp
  moreover have "dynamic_config_find 1 (w_db setting_world) = Some setting_row"
    by (simp add: setting_world_def setting_row_def dynamic_config_find_def)
  moreover have "DecodeJSONBody decode_dynamic_config (rq_body renaming_request) =
      Inr (zero_config\<lparr>dc_key := ''k'', dc_value := ''new''\<rparr>)" by code_simp
  moreover have "dc_key (zero_config\<lparr>dc_key := ''k'', dc_value := ''new''\<rparr>) = dc_key setting_row"
    by (simp add: setting_row_def)
  ultimately show ?thesis
    using AdminUpdateDynamicConfig_same_key [OF setting_world_ok(1)] by blast
qed

end
