(* ===== verification/Pages.thy ===== *)
theory Pages
  imports Admin_Params
begin

text \<open>
  The pages of the admin lists: the bounds of a page that was asked for, and the pages of a list
  put together.
\<close>

lemma page_limit_bounds: "0 \<le> lp_page_size p \<Longrightarrow> 1 \<le> page_limit p \<and> page_limit p \<le> 1000"
  by (auto simp: page_limit_def Min_int_def APIDefaultPageSize_def APIMaxPageSize_def)

lemma wrap64_id: "- 9223372036854775808 \<le> x \<Longrightarrow> x < 9223372036854775808 \<Longrightarrow> wrap64 x = x"
  by (simp add: wrap64_def)

text \<open>The offset is exact as long as it fits 64 bits.\<close>

lemma page_offset_exact:
  assumes "1 \<le> lp_page_number p" "0 \<le> lp_page_size p" "lp_page_number p * page_limit p \<le> max_int64"
  shows "page_offset p = (lp_page_number p - 1) * page_limit p"
proof -
  have l: "1 \<le> page_limit p" using page_limit_bounds [OF assms(2)] by simp
  have n: "lp_page_number p \<le> lp_page_number p * page_limit p"
    using l assms(1) by (simp add: mult_le_cancel_left1)
  have m: "0 \<le> (lp_page_number p - 1) * page_limit p"
    "(lp_page_number p - 1) * page_limit p \<le> lp_page_number p * page_limit p"
    using l assms(1) by (simp_all add: mult_right_mono)
  have "wrap64 (lp_page_number p - 1) = lp_page_number p - 1"
    by (rule wrap64_id) (use order_trans [OF n assms(3)] assms(1) in \<open>simp_all add: max_int64_def\<close>)
  moreover have "wrap64 ((lp_page_number p - 1) * page_limit p) = (lp_page_number p - 1) * page_limit p"
    by (rule wrap64_id) (use m assms(3) in \<open>simp_all only: max_int64_def\<close>)
  ultimately show ?thesis using assms(1) by (simp add: page_offset_def)
qed

text \<open>The rows of page \<^verbatim>\<open>n\<close> of a list; none when the database refuses.\<close>

definition page_rows :: "list_params \<Rightarrow> (string \<Rightarrow> 'r list \<Rightarrow> gerr + 'r list) \<Rightarrow> (db \<Rightarrow> 'r list) \<Rightarrow> db \<Rightarrow>
    nat \<Rightarrow> 'r list" where
  "page_rows p ord rows d n = (case fst (select_page (Inr (\<lambda>_. True)) ord
     (fst (appendListMods (p\<lparr>lp_page_number := int n\<rparr>))) rows d) of Inr xs \<Rightarrow> xs | Inl _ \<Rightarrow> [])"

lemma page_rows_eq:
  assumes "0 \<le> lp_page_size p" and "int (Suc n) * page_limit p \<le> max_int64"
    and "ord (qm_order_by (fst (appendListMods p))) (rows d) = Inr xs"
  shows "page_rows p ord rows d (Suc n) = take (nat (page_limit p)) (drop (n * nat (page_limit p)) xs)"
proof -
  let ?p = "p\<lparr>lp_page_number := int (Suc n)\<rparr>"
  have l: "page_limit ?p = page_limit p" by (simp add: page_limit_def)
  have o: "page_offset ?p = int n * page_limit p"
    using page_offset_exact [of ?p] assms(1,2) l by simp
  have pos: "0 \<le> page_limit p" using page_limit_bounds [OF assms(1)] by simp
  have "nat (int n * page_limit p) = n * nat (page_limit p)"
    using pos by (simp add: nat_mult_distrib)
  with assms(3) l o pos show ?thesis
    by (auto simp: page_rows_def select_page_def appendListMods_def Let_def)
qed

lemma concat_pages:
  "concat (map (\<lambda>n. take l (drop (n * l) xs)) [0..<k]) = take (k * l) xs"
proof (induction k)
  case (Suc k)
  have "take (k * l) xs @ take l (drop (k * l) xs) = take (Suc k * l) xs"
    by (metis add.commute mult_Suc take_add)
  with Suc show ?case by simp
qed simp


definition one_row :: list_params where
  "one_row = \<lparr>lp_page_number = 1, lp_page_size = 1, lp_order_by = [], lp_group_by = []\<rparr>"


end
