(* ===== verification/Go_Duration.thy ===== *)
theory Go_Duration
  imports Go_Std
begin

text \<open>
  \<^verbatim>\<open>time.ParseDuration\<close> as the library of Go 1.22 computes it: unsigned 64-bit sums and the fraction
  of a term in double precision.  A duration is a number of nanoseconds.  The lemmas read back
  what is printed as a sequence of numbers with units.
\<close>

section \<open>Double precision\<close>

text \<open>
  A positive double is a fraction of integers.  \<^verbatim>\<open>fl p q\<close> is the double nearest to \<^verbatim>\<open>p / q\<close>, ties to
  the even mantissa of 53 bits; exponents are not bounded, which makes no difference here because
  a quotient too small for a double is cut to 0 in the end, as 0 is.
\<close>

function bitlen :: "int \<Rightarrow> int" where
  "bitlen n = (if n \<le> 0 then 0 else 1 + bitlen (n div 2))"
  by pat_completeness auto
termination
  by (relation "measure nat") auto

declare bitlen.simps [simp del]

definition half_even :: "int \<Rightarrow> int \<Rightarrow> int" where
  "half_even a b = (let d = a div b; r = a mod b in
     if 2 * r < b \<or> (2 * r = b \<and> even d) then d else d + 1)"

definition scaled :: "int \<Rightarrow> int \<Rightarrow> int \<Rightarrow> int \<times> int" where
  "scaled p q e = (if e \<ge> 0 then (p, q * 2 ^ nat e) else (p * 2 ^ nat (- e), q))"

definition fl :: "int \<Rightarrow> int \<Rightarrow> int \<times> int" where
  "fl p q = (if p = 0 then (0, 1)
     else let e0 = bitlen p - bitlen q - 53;
              e = (case scaled p q e0 of (a, b) \<Rightarrow> if a div b < 2 ^ 53 then e0 else e0 + 1);
              m = (case scaled p q e of (a, b) \<Rightarrow> half_even a b)
          in if e \<ge> 0 then (m * 2 ^ nat e, 1) else (m, 2 ^ nat (- e)))"

text \<open>\<^verbatim>\<open>uint64(float64(f) * (float64(unit) / scale))\<close>\<close>

definition fraction_ns :: "int \<Rightarrow> int \<Rightarrow> int \<Rightarrow> int" where
  "fraction_ns f unit scale =
     (case fl f 1 of (a, b) \<Rightarrow> case fl unit scale of (c, d) \<Rightarrow>
      case fl (a * c) (b * d) of (p, q) \<Rightarrow> p div q)"

text \<open>\<^verbatim>\<open>scale *= 10\<close>\<close>

definition scale10 :: "int \<Rightarrow> int" where
  "scale10 s = (case fl (s * 10) 1 of (p, q) \<Rightarrow> p div q)"

section \<open>time.ParseDuration\<close>

definition two63 :: int where "two63 = 9223372036854775808"

fun leading_int :: "int \<Rightarrow> string \<Rightarrow> (int \<times> string) option" where
  "leading_int x [] = Some (x, [])"
| "leading_int x (c # cs) =
     (if \<not> is_digit c then Some (x, c # cs)
      else if x > two63 div 10 then None
      else if x * 10 + (int (code c) - 48) > two63 then None
      else leading_int (x * 10 + (int (code c) - 48)) cs)"

fun leading_fraction :: "bool \<Rightarrow> int \<Rightarrow> int \<Rightarrow> string \<Rightarrow> int \<times> int \<times> string" where
  "leading_fraction overflow x scale [] = (x, scale, [])"
| "leading_fraction overflow x scale (c # cs) =
     (if \<not> is_digit c then (x, scale, c # cs)
      else if overflow \<or> x > max_int64 div 10 then leading_fraction True x scale cs
      else let y = x * 10 + (int (code c) - 48) in
        if y > two63 then leading_fraction True x scale cs
        else leading_fraction False y (scale10 scale) cs)"

text \<open>The fraction after a point: its digits as a number, its scale, whether it has digits, the rest.\<close>

definition fraction_part :: "string \<Rightarrow> int \<times> int \<times> bool \<times> string" where
  "fraction_part s = (case s of
     c # cs \<Rightarrow> if c = CHR ''.''
       then (case leading_fraction False 0 1 cs of (f, scale, r) \<Rightarrow> (f, scale, length r \<noteq> length cs, r))
       else (0, 1, False, s)
   | [] \<Rightarrow> (0, 1, False, []))"

definition unit_char :: "char \<Rightarrow> bool" where
  "unit_char c \<longleftrightarrow> \<not> (c = CHR ''.'' \<or> is_digit c)"

text \<open>The two spellings of a microsecond with a Greek letter are given by their bytes.\<close>

definition unit_ns :: "string \<Rightarrow> int option" where
  "unit_ns u = map_of [(''ns'', 1), (''us'', 1000), ([byte 194, byte 181, CHR ''s''], 1000),
     ([byte 206, byte 188, CHR ''s''], 1000), (''ms'', 1000000), (''s'', second),
     (''m'', 60 * second), (''h'', 3600 * second)] u"

definition hex_digit :: "nat \<Rightarrow> char" where
  "hex_digit n = (if n < 10 then byte (48 + n) else byte (87 + n))"

definition quote_char :: "char \<Rightarrow> string" where
  "quote_char c = (if code c \<ge> 128 \<or> code c < 32
       then [byte 92, CHR ''x'', hex_digit (code c div 16), hex_digit (code c mod 16)]
     else if code c = 34 \<or> code c = 92 then [byte 92, c] else [c])"

definition go_quote :: "string \<Rightarrow> string" where
  "go_quote s = byte 34 # concat (map quote_char s) @ [byte 34]"

definition bad_duration :: "string \<Rightarrow> gerr" where
  "bad_duration orig = EText (''time: invalid duration '' @ go_quote orig)"

lemma leading_int_length: "leading_int x s = Some (v, r) \<Longrightarrow> length r \<le> length s"
  by (induction x s rule: leading_int.induct) (auto split: if_splits)

lemma leading_fraction_length: "leading_fraction b x sc s = (f, sc', r) \<Longrightarrow> length r \<le> length s"
proof (induction b x sc s arbitrary: f sc' r rule: leading_fraction.induct)
  case (2 b x sc c cs)
  then show ?case by (fastforce simp: Let_def split: if_splits)
qed simp

lemma fraction_part_length: "fraction_part s = (f, sc, b, r) \<Longrightarrow> length r \<le> length s"
  by (auto simp: fraction_part_def split: list.splits if_splits prod.splits
      dest: leading_fraction_length)

lemma terms_shrink:
  assumes "leading_int x s = Some (v, r)" and "fraction_part r = (f, sc, b, r')"
    and "takeWhile unit_char r' \<noteq> []"
  shows "length (dropWhile unit_char r') < length s"
proof -
  have "length (dropWhile unit_char r') < length r'"
    using assms(3) by (cases r') (auto simp: length_dropWhile_le le_imp_less_Suc split: if_splits)
  with leading_int_length [OF assms(1)] fraction_part_length [OF assms(2)] show ?thesis by simp
qed

text \<open>
  The terms of a duration.  \<^verbatim>\<open>d\<close> is an unsigned 64-bit sum: two terms of 2 to the 63 add up to 0.
\<close>

function duration_terms :: "string \<Rightarrow> int \<Rightarrow> string \<Rightarrow> gerr + int" where
  "duration_terms orig d s =
     (if s = [] then Inr d
      else if unit_char (hd s) then Inl (bad_duration orig)
      else case leading_int 0 s of
        None \<Rightarrow> Inl (bad_duration orig)
      | Some (v, r) \<Rightarrow>
          (case fraction_part r of (f, scale, post, r') \<Rightarrow>
             if length r = length s \<and> \<not> post then Inl (bad_duration orig)
             else if takeWhile unit_char r' = []
             then Inl (EText (''time: missing unit in duration '' @ go_quote orig))
             else case unit_ns (takeWhile unit_char r') of
               None \<Rightarrow> Inl (EText (''time: unknown unit '' @ go_quote (takeWhile unit_char r') @
                         '' in duration '' @ go_quote orig))
             | Some unit \<Rightarrow>
                 if v > two63 div unit then Inl (bad_duration orig)
                 else let v' = v * unit + (if f > 0 then fraction_ns f unit scale else 0);
                          d' = (d + v') mod 18446744073709551616
                      in if v' > two63 \<or> d' > two63 then Inl (bad_duration orig)
                         else duration_terms orig d' (dropWhile unit_char r')))"
  by pat_completeness auto
termination
  by (relation "measure (\<lambda>(orig, d, s). length s)") (auto intro: terms_shrink [OF _ sym])

declare duration_terms.simps [simp del]

definition ParseDuration :: "string \<Rightarrow> gerr + int" where
  "ParseDuration s =
     (let neg = (take 1 s = ''-'');
          body = (if take 1 s = ''-'' \<or> take 1 s = ''+'' then tl s else s)
      in if body = ''0'' then Inr 0
         else if body = [] then Inl (bad_duration s)
         else case duration_terms s 0 body of
           Inl e \<Rightarrow> Inl e
         | Inr d \<Rightarrow> if neg then Inr (- d)
                    else if d > max_int64 then Inl (bad_duration s) else Inr d)"

lemma ParseDuration_examples:
  "ParseDuration ''90s'' = Inr (90 * second)"
  "ParseDuration ''-1.5h'' = Inr (- 5400 * second)"
  "ParseDuration ''60'' = Inl (EText (''time: missing unit in duration '' @ go_quote ''60''))"
  by code_simp+

text \<open>A duration that was read fits 64 bits.\<close>

lemma duration_terms_range:
  "duration_terms orig d s = Inr r \<Longrightarrow> 0 \<le> d \<Longrightarrow> d \<le> two63 \<Longrightarrow> 0 \<le> r \<and> r \<le> two63"
proof (induction orig d s rule: duration_terms.induct)
  case (1 orig d s)
  from "1.prems" show ?case
    by (subst (asm) duration_terms.simps)
      (auto simp: Let_def split: if_splits option.splits prod.splits dest!: "1.IH")
qed

lemma ParseDuration_range: "ParseDuration s = Inr d \<Longrightarrow> - max_int64 - 1 \<le> d \<and> d \<le> max_int64"
  using duration_terms_range [of s 0 "if take 1 s = ''-'' \<or> take 1 s = ''+'' then tl s else s"]
  by (auto simp: ParseDuration_def Let_def max_int64_def two63_def split: if_splits sum.splits)

subsection \<open>Reading a printed duration\<close>

lemma digits_val_le: "digits_val a s = Some n \<Longrightarrow> a \<le> n"
  by (induction s arbitrary: a) (fastforce split: if_splits)+

lemma leading_int_digits:
  assumes "digits_val a s = Some n" and "int n \<le> two63" and "r = [] \<or> \<not> is_digit (hd r)"
  shows "leading_int (int a) (s @ r) = Some (int n, r)"
  using assms
proof (induction s arbitrary: a)
  case Nil
  then show ?case by (cases r) auto
next
  case (Cons c cs)
  then have d: "is_digit c" and rest: "digits_val (10 * a + (code c - 48)) cs = Some n"
    by (simp_all split: if_splits)
  have c: "int (10 * a + (code c - 48)) = int a * 10 + (int (code c) - 48)"
    using d by (simp add: is_digit_def)
  have "int (10 * a + (code c - 48)) \<le> two63"
    using digits_val_le [OF rest] Cons.prems(2) by linarith
  then have "int a * 10 + (int (code c) - 48) \<le> two63" "int a \<le> two63 div 10"
    using d unfolding c [symmetric] by (simp_all add: two63_def is_digit_def)
  then show ?case
    using Cons.IH [OF rest Cons.prems(2,3)] d unfolding c by simp
qed

definition duration_text :: "(nat \<times> string) list \<Rightarrow> string" where
  "duration_text ts = concat (map (\<lambda>(n, u). show_nat n @ u) ts)"

definition duration_sum :: "(nat \<times> string) list \<Rightarrow> int" where
  "duration_sum ts = sum_list (map (\<lambda>(n, u). int n * the (unit_ns u)) ts)"

lemma byte_neq: "n < 256 \<Longrightarrow> n \<noteq> code c \<Longrightarrow> byte n \<noteq> c"
  by auto

lemma unit_ns_Some:
  assumes "unit_ns u = Some k"
  shows "u \<noteq> []" "\<forall>c \<in> set u. unit_char c" "0 < k"
proof -
  have "(u, k) \<in> set [(''ns'', 1), (''us'', 1000), ([byte 194, byte 181, CHR ''s''], 1000),
     ([byte 206, byte 188, CHR ''s''], 1000), (''ms'', 1000000), (''s'', second),
     (''m'', 60 * second), (''h'', 3600 * second)]"
    using assms unfolding unit_ns_def by (rule map_of_SomeD)
  moreover have "byte 194 \<noteq> CHR ''.''" "byte 181 \<noteq> CHR ''.''" "byte 206 \<noteq> CHR ''.''" "byte 188 \<noteq> CHR ''.''"
    by (rule byte_neq, simp, simp add: code_def)+
  ultimately show "u \<noteq> []" "\<forall>c \<in> set u. unit_char c" "0 < k"
    by (auto simp: unit_char_def is_digit_def second_def code_def byte_def)
qed

lemma show_nat_digit: "\<not> unit_char (hd (show_nat n @ r))"
  using hd_show_nat [of n] show_nat_not_Nil [of n] by (cases "show_nat n") (auto simp: unit_char_def)

text \<open>A term at the front of the text is read and added.\<close>

lemma duration_terms_term:
  assumes u: "unit_ns u = Some k" and r: "r = [] \<or> \<not> unit_char (hd r)"
    and d: "0 \<le> d" "d + int n * k \<le> max_int64"
  shows "duration_terms orig d (show_nat n @ u @ r) = duration_terms orig (d + int n * k) r"
proof -
  note u' = unit_ns_Some [OF u]
  have pos: "0 \<le> int n * k" using u'(3) by simp
  have "int n \<le> int n * k" using u'(3) by (simp add: mult_le_cancel_left1)
  then have n: "int n \<le> two63" using d by (simp add: max_int64_def two63_def)
  have hd: "unit_char (hd (u @ r))" using u'(1,2) by (cases u) auto
  then have "\<not> is_digit (hd (u @ r))" by (simp add: unit_char_def)
  then have li: "leading_int 0 (show_nat n @ u @ r) = Some (int n, u @ r)"
    using leading_int_digits [OF digits_val_show_nat n, of "u @ r"] by simp
  have fp: "fraction_part (u @ r) = (0, 1, False, u @ r)"
    using hd by (auto simp: fraction_part_def unit_char_def split: list.split)
  have tw: "takeWhile unit_char (u @ r) = u" "dropWhile unit_char (u @ r) = r"
    using u'(2) r by (cases r; simp add: takeWhile_append2 dropWhile_append2)+
  have "int n * k div k \<le> two63 div k"
    using u'(3) d pos by (intro zdiv_mono1) (simp_all add: two63_def max_int64_def)
  then have "int n \<le> two63 div k" using u'(3) by simp
  moreover have "(d + int n * k) mod 18446744073709551616 = d + int n * k" "int n * k \<le> two63"
    "d + int n * k \<le> two63"
    using d pos by (simp_all add: max_int64_def two63_def)
  ultimately show ?thesis
    using show_nat_digit [of n "u @ r"] show_nat_not_Nil [of n] u'(1) u
    by (subst duration_terms.simps) (simp add: li fp tw)
qed

lemma duration_text_front: "duration_text ts = [] \<or> \<not> unit_char (hd (duration_text ts))"
  by (cases ts) (auto simp: duration_text_def show_nat_digit)

lemma duration_sum_nonneg: "\<forall>(n, u) \<in> set ts. unit_ns u \<noteq> None \<Longrightarrow> 0 \<le> duration_sum ts"
  unfolding duration_sum_def by (rule sum_list_nonneg) (use unit_ns_Some(3) in \<open>fastforce intro: mult_nonneg_nonneg less_imp_le\<close>)

lemma duration_terms_text:
  assumes "\<forall>(n, u) \<in> set ts. unit_ns u \<noteq> None" and "0 \<le> d" and "d + duration_sum ts \<le> max_int64"
  shows "duration_terms orig d (duration_text ts) = Inr (d + duration_sum ts)"
  using assms
proof (induction ts arbitrary: d)
  case Nil
  then show ?case by (subst duration_terms.simps) (simp add: duration_text_def duration_sum_def)
next
  case (Cons t ts)
  obtain n u where t: "t = (n, u)" by fastforce
  with Cons.prems obtain k where k: "unit_ns u = Some k" by auto
  have rest: "\<forall>(n, u) \<in> set ts. unit_ns u \<noteq> None" using Cons.prems by simp
  have sum: "duration_sum (t # ts) = int n * k + duration_sum ts" by (simp add: duration_sum_def t k)
  have "0 \<le> duration_sum ts" "0 \<le> int n * k"
    using duration_sum_nonneg [OF rest] unit_ns_Some(3) [OF k] by simp_all
  then have "duration_terms orig d (show_nat n @ u @ duration_text ts) =
      duration_terms orig (d + int n * k) (duration_text ts)"
    using Cons.prems duration_text_front sum by (intro duration_terms_term [OF k]) auto
  also have "\<dots> = Inr (d + int n * k + duration_sum ts)"
    using Cons.prems sum \<open>0 \<le> int n * k\<close> by (intro Cons.IH rest) auto
  finally show ?case using sum by (simp add: duration_text_def t add.assoc)
qed

text \<open>
  A duration printed as numbers with units, such as \<^verbatim>\<open>1h15m30s\<close>, is read back as the sum of its
  terms in nanoseconds, whenever the sum fits 64 bits.
\<close>

lemma ParseDuration_text:
  assumes "ts \<noteq> []" and "\<forall>(n, u) \<in> set ts. unit_ns u \<noteq> None" and "duration_sum ts \<le> max_int64"
  shows "ParseDuration (duration_text ts) = Inr (duration_sum ts)"
proof -
  obtain n u ts' where ts: "ts = (n, u) # ts'" using assms(1) by (cases ts) auto
  then obtain k where k: "unit_ns u = Some k" using assms(2) by auto
  obtain c cs where c: "show_nat n = c # cs" using show_nat_not_Nil by (metis neq_Nil_conv)
  have front: "duration_text ts = c # cs @ u @ duration_text ts'" by (simp add: ts duration_text_def c)
  have "c \<noteq> CHR ''-''" "c \<noteq> CHR ''+''" using hd_show_nat [OF c] not_sign by blast+
  moreover have "duration_terms (duration_text ts) 0 (duration_text ts) = Inr (duration_sum ts)"
    using duration_terms_text [OF assms(2), of 0] assms(3) by simp
  moreover have "duration_text ts \<noteq> []" by (simp add: front)
  ultimately show ?thesis using assms(3) unit_ns_Some(1) [OF k]
    by (simp add: ParseDuration_def front Let_def)
qed

end
