(* ===== verification/Config_Env.thy ===== *)
theory Config_Env
  imports Config Go_Duration
begin

text \<open>
  Reading the configuration from the process environment (\<^verbatim>\<open>Init\<close> of \<^verbatim>\<open>common/config.go\<close>).  The
  environment is a function that answers the empty string for a variable that is not set, as
  \<^verbatim>\<open>os.Getenv\<close> does.  A value that cannot be read is a panic, which ends the process.
\<close>

section \<open>Init\<close>

text \<open>The values a variable may have; the second component of \<^verbatim>\<open>Inl\<close> is the value of the panic.\<close>

definition env_duration :: "string \<Rightarrow> gerr + int" where
  "env_duration v = ParseDuration v"

definition env_int :: "string \<Rightarrow> gerr + int" where
  "env_int v = (case atoi v of
     (None, n) \<Rightarrow> Inr n
   | (Some ErrSyntax, _) \<Rightarrow> Inl (EText (''strconv.Atoi: parsing '' @ go_quote v @ '': invalid syntax''))
   | (Some ErrRange, _) \<Rightarrow> Inl (EText (''strconv.Atoi: parsing '' @ go_quote v @ '': value out of range'')))"

definition env_period :: "string \<Rightarrow> gerr + int" where
  "env_period v = (case ParseDuration v of Inl e \<Rightarrow> Inl e
   | Inr d \<Rightarrow> if d \<le> 0 then Inl (EText (''DEAD_SESSION_PERIOD must be positive, got '' @ itoa d))
              else Inr d)"

text \<open>
  One block \<^verbatim>\<open>if val := os.Getenv(name); val != ""\<close> of \<^verbatim>\<open>Init\<close>: the name and what is done with the value.
\<close>

type_synonym setting = "string \<times> (string \<Rightarrow> config \<Rightarrow> gerr + config)"

definition plain :: "(string \<Rightarrow> config \<Rightarrow> config) \<Rightarrow> string \<Rightarrow> config \<Rightarrow> gerr + config" where
  "plain f v c = Inr (f v c)"

definition parsed :: "(string \<Rightarrow> gerr + 'a) \<Rightarrow> ('a \<Rightarrow> config \<Rightarrow> config) \<Rightarrow> string \<Rightarrow> config \<Rightarrow> gerr + config" where
  "parsed rd f v c = (case rd v of Inl e \<Rightarrow> Inl e | Inr x \<Rightarrow> Inr (f x c))"

definition is_true :: "string \<Rightarrow> bool" where "is_true v \<longleftrightarrow> v = ''true''"

definition comma_list :: "string \<Rightarrow> string list" where "comma_list v = split_on CHR '','' v"

definition settings :: "setting list" where
  "settings = [
     (''LISTEN_ADDRESS'', plain (\<lambda>v c. c\<lparr>ListenAddress := v\<rparr>)),
     (''DB_URL'', plain (\<lambda>v c. c\<lparr>DBUrl := v\<rparr>)),
     (''ACCOUNTS_URL'', plain (\<lambda>v c. c\<lparr>AccountsUrls := comma_list v\<rparr>)),
     (''SKIP_AUTH'', plain (\<lambda>v c. c\<lparr>SkipAuth := is_true v\<rparr>)),
     (''SKIP_EVENTS_AUTH'', plain (\<lambda>v c. c\<lparr>SkipEventsAuth := is_true v\<rparr>)),
     (''SKIP_PERMISSIONS'', plain (\<lambda>v c. c\<lparr>SkipPermissions := is_true v\<rparr>)),
     (''ICE_SERVERS_ROOMS'', plain (\<lambda>v c. c\<lparr>IceServers := AList.update ''rooms'' (comma_list v) (IceServers c)\<rparr>)),
     (''ICE_SERVERS_STREAMING'', plain (\<lambda>v c. c\<lparr>IceServers := AList.update ''streaming'' (comma_list v) (IceServers c)\<rparr>)),
     (''SERVICE_PASSWORDS'', plain (\<lambda>v c. c\<lparr>ServicePasswords := comma_list v\<rparr>)),
     (''SECRET'', plain (\<lambda>v c. c\<lparr>Secret := v\<rparr>)),
     (''MONITOR_GATEWAY_TOKENS'', plain (\<lambda>v c. c\<lparr>MonitorGatewayTokens := is_true v\<rparr>)),
     (''GATEWAY_ROOMS_SECRET'', plain (\<lambda>v c. c\<lparr>GatewayRoomsSecret := v\<rparr>)),
     (''GATEWAY_PLUGIN_ADMIN_KEY'', plain (\<lambda>v c. c\<lparr>GatewayPluginAdminKey := v\<rparr>)),
     (''COLLECT_PERIODIC_STATS'', plain (\<lambda>v c. c\<lparr>CollectPeriodicStats := is_true v\<rparr>)),
     (''CLEAN_SESSIONS_INTERVAL'', parsed env_duration (\<lambda>d c. c\<lparr>CleanSessionsInterval := d\<rparr>)),
     (''DEAD_SESSION_PERIOD'', parsed env_period (\<lambda>d c. c\<lparr>DeadSessionPeriod := d\<rparr>)),
     (''DB_MAX_IDLE_CONNS'', parsed env_int (\<lambda>n c. c\<lparr>DBMaxIdleConns := n\<rparr>)),
     (''DB_MAX_OPEN_CONNS'', parsed env_int (\<lambda>n c. c\<lparr>DBMaxOpenConns := n\<rparr>)),
     (''DB_CONN_MAX_LIFETIME'', parsed env_duration (\<lambda>d c. c\<lparr>DBConnMaxLifetime := d\<rparr>)),
     (''MQTT_BROKER_URL'', plain (\<lambda>v c. c\<lparr>MQTTBrokerUrl := v\<rparr>)),
     (''MQTT_CLIENT_ID'', plain (\<lambda>v c. c\<lparr>MQTTClientID := v\<rparr>)),
     (''MQTT_PASSWORD'', plain (\<lambda>v c. c\<lparr>MQTTPassword := v\<rparr>)),
     (''MQTT_SECURE'', plain (\<lambda>v c. c\<lparr>MQTTSecure := is_true v\<rparr>))]"

fun apply_settings :: "setting list \<Rightarrow> (string \<Rightarrow> string) \<Rightarrow> config \<Rightarrow> config res" where
  "apply_settings [] env c = Ok c"
| "apply_settings ((k, f) # ss) env c =
     (if env k = [] then apply_settings ss env c
      else case f (env k) c of Inl e \<Rightarrow> Panic e | Inr c' \<Rightarrow> apply_settings ss env c')"

definition Init :: "(string \<Rightarrow> string) \<Rightarrow> config res" where
  "Init env = apply_settings settings env newConfig"

lemma Init_empty: "Init (\<lambda>_. []) = Ok newConfig"
  by code_simp

section \<open>What a configuration that was read holds\<close>

definition int64 :: "int \<Rightarrow> bool" where
  "int64 n \<longleftrightarrow> - max_int64 - 1 \<le> n \<and> n \<le> max_int64"

definition config_ok :: "config \<Rightarrow> bool" where
  "config_ok c \<longleftrightarrow> AccountsUrls c \<noteq> [] \<and> wf_map (IceServers c) \<and>
     fst ` set (IceServers c) \<subseteq> {GatewayTypeRooms, GatewayTypeStreaming} \<and>
     0 < DeadSessionPeriod c \<and> int64 (DeadSessionPeriod c) \<and> int64 (CleanSessionsInterval c) \<and>
     int64 (DBConnMaxLifetime c) \<and> int64 (DBMaxIdleConns c) \<and> int64 (DBMaxOpenConns c)"

text \<open>The variables whose value can be refused, and when it is.\<close>

definition env_refused :: "(string \<Rightarrow> string) \<Rightarrow> bool" where
  "env_refused env \<longleftrightarrow>
     (\<exists>k \<in> {''CLEAN_SESSIONS_INTERVAL'', ''DB_CONN_MAX_LIFETIME''}.
        env k \<noteq> [] \<and> isl (ParseDuration (env k))) \<or>
     (\<exists>k \<in> {''DB_MAX_IDLE_CONNS'', ''DB_MAX_OPEN_CONNS''}. env k \<noteq> [] \<and> fst (atoi (env k)) \<noteq> None) \<or>
     (env ''DEAD_SESSION_PERIOD'' \<noteq> [] \<and>
        (case ParseDuration (env ''DEAD_SESSION_PERIOD'') of Inl _ \<Rightarrow> True | Inr d \<Rightarrow> d \<le> 0))"

lemma atoi_range:
  assumes "atoi v = (None, n)"
  shows "int64 n"
proof -
  define b where "b = (case v of c # cs \<Rightarrow> if c = CHR ''-'' \<or> c = CHR ''+'' then cs else v | [] \<Rightarrow> [])"
  obtain e x where u: "parse_uint b = (e, x)" by fastforce
  have "0 \<le> x" using u by (auto simp: parse_uint_def max_uint64_def split: if_splits option.splits)
  with assms u show ?thesis
    unfolding atoi_def parse_int_def int64_def Let_def b_def [symmetric]
    by (auto simp: max_int64_def split: option.splits num_error.splits if_splits)
qed

lemma env_range:
  "env_duration v = Inr d \<Longrightarrow> int64 d" "env_int v = Inr n \<Longrightarrow> int64 n"
  "env_period v = Inr d \<Longrightarrow> int64 d \<and> 0 < d"
proof -
  show "env_duration v = Inr d \<Longrightarrow> int64 d"
    using ParseDuration_range by (simp add: env_duration_def int64_def)
  show "env_int v = Inr n \<Longrightarrow> int64 n"
    using atoi_range by (auto simp: env_int_def split: prod.splits option.splits num_error.splits)
  show "env_period v = Inr d \<Longrightarrow> int64 d \<and> 0 < d"
    using ParseDuration_range by (auto simp: env_period_def int64_def split: sum.splits if_splits)
qed

lemma apply_settings_inv:
  assumes "\<forall>(k, f) \<in> set ss. \<forall>v c c'. I c \<longrightarrow> f v c = Inr c' \<longrightarrow> I c'"
    and "I c" and "apply_settings ss env c = Ok c'"
  shows "I c'"
  using assms by (induction ss env c rule: apply_settings.induct) (auto split: if_splits sum.splits)

definition keeps_ok :: "(string \<Rightarrow> config \<Rightarrow> gerr + config) \<Rightarrow> bool" where
  "keeps_ok f \<longleftrightarrow> (\<forall>v c c'. config_ok c \<longrightarrow> f v c = Inr c' \<longrightarrow> config_ok c')"

lemma keeps_plain: "(\<And>v c. config_ok c \<Longrightarrow> config_ok (g v c)) \<Longrightarrow> keeps_ok (plain g)"
  by (simp add: keeps_ok_def plain_def)

lemma keeps_parsed:
  "(\<And>v x c. rd v = Inr x \<Longrightarrow> config_ok c \<Longrightarrow> config_ok (g x c)) \<Longrightarrow> keeps_ok (parsed rd g)"
  by (auto simp: keeps_ok_def parsed_def split: sum.splits)

lemma config_ok_ice:
  "config_ok c \<Longrightarrow> k \<in> {GatewayTypeRooms, GatewayTypeStreaming} \<Longrightarrow>
   config_ok (c\<lparr>IceServers := AList.update k v (IceServers c)\<rparr>)"
  by (simp add: config_ok_def dom_update)

lemma settings_keep_config_ok: "list_all (\<lambda>(k, f). keeps_ok f) settings"
  unfolding settings_def list.pred_inject prod.case
  by (intro conjI TrueI keeps_plain keeps_parsed config_ok_ice;
      (simp add: config_ok_def comma_list_def env_range GatewayTypeRooms_def GatewayTypeStreaming_def))

lemma newConfig_ok: "config_ok newConfig"
  by (simp add: config_ok_def newConfig_def int64_def max_int64_def second_def)

text \<open>Whether a setting is refused depends on its value alone.\<close>

lemma apply_settings_Ok_iff:
  assumes "\<forall>(k, f) \<in> set ss. \<forall>v c c'. isl (f v c) = isl (f v c')"
  shows "is_ok (apply_settings ss env c) \<longleftrightarrow> (\<forall>(k, f) \<in> set ss. env k = [] \<or> \<not> isl (f (env k) c0))"
  using assms
proof (induction ss env c rule: apply_settings.induct)
  case (2 k f ss env c)
  then have "isl (f (env k) c) = isl (f (env k) c0)" by auto
  with 2 show ?case by (cases "f (env k) c") (auto simp: is_ok_def)
qed (simp add: is_ok_def)

lemma apply_settings_not_Err: "apply_settings ss env c \<noteq> Err e"
  by (induction ss env c rule: apply_settings.induct) (auto split: sum.splits)

lemma isl_setting: "isl (plain f v c) \<longleftrightarrow> False" "isl (parsed rd g v c) \<longleftrightarrow> isl (rd v)"
  by (auto simp: plain_def parsed_def split: sum.split)

lemma isl_env:
  "isl (env_duration v) \<longleftrightarrow> isl (ParseDuration v)" "isl (env_int v) \<longleftrightarrow> fst (atoi v) \<noteq> None"
  "isl (env_period v) \<longleftrightarrow> (case ParseDuration v of Inl _ \<Rightarrow> True | Inr d \<Rightarrow> d \<le> 0)"
  by (auto simp: env_duration_def env_int_def env_period_def
      split: prod.split option.split num_error.split sum.split)

lemma Init_Ok_iff: "is_ok (Init env) \<longleftrightarrow> \<not> env_refused env"
  unfolding Init_def
  by (subst apply_settings_Ok_iff [where c0 = newConfig])
    (auto simp: settings_def isl_setting isl_env env_refused_def)

text \<open>
  C12. Reading the environment ends with a well-formed configuration or with a panic, and it panics
  exactly when a duration or a number that is set cannot be read, or the period after which a
  session is dead is not positive.  Well-formed: a positive period, all numbers within 64 bits, ice
  servers for the two types of gateways only, at least one accounts server.
\<close>

theorem Init_well_formed:
  "case Init env of Ok c \<Rightarrow> config_ok c \<and> \<not> env_refused env | Panic e \<Rightarrow> env_refused env | Err e \<Rightarrow> False"
proof (cases "Init env")
  case (Ok c)
  then have "config_ok c"
    unfolding Init_def
    by (rule apply_settings_inv [rotated 2]) (use settings_keep_config_ok newConfig_ok in \<open>auto simp: list_all_iff keeps_ok_def\<close>)
  with Ok Init_Ok_iff [of env] show ?thesis by (simp add: is_ok_def)
next
  case (Err e)
  then show ?thesis using apply_settings_not_Err by (simp add: Init_def)
next
  case (Panic e)
  with Init_Ok_iff [of env] show ?thesis by (simp add: is_ok_def)
qed

section \<open>Printing a configuration as an environment\<close>

fun join_comma :: "string list \<Rightarrow> string" where
  "join_comma [] = []"
| "join_comma [x] = x"
| "join_comma (x # xs) = x @ CHR '','' # join_comma xs"

definition listable :: "string list \<Rightarrow> bool" where
  "listable xs \<longleftrightarrow> xs \<noteq> [] \<and> xs \<noteq> [[]] \<and> (\<forall>x \<in> set xs. CHR '','' \<notin> set x)"

lemma split_on_word: "c \<notin> set x \<Longrightarrow> split_on c x = [x]"
  by (induction x) auto

lemma split_on_step: "c \<notin> set x \<Longrightarrow> split_on c (x @ c # s) = x # split_on c s"
  by (induction x) auto

lemma split_join: "listable xs \<Longrightarrow> comma_list (join_comma xs) = xs"
proof -
  have "xs \<noteq> [] \<Longrightarrow> \<forall>x \<in> set xs. CHR '','' \<notin> set x \<Longrightarrow> split_on CHR '','' (join_comma xs) = xs"
    by (induction xs rule: join_comma.induct) (simp_all add: split_on_word split_on_step)
  then show "listable xs \<Longrightarrow> comma_list (join_comma xs) = xs" by (simp add: listable_def comma_list_def)
qed

lemma join_not_Nil: "listable xs \<Longrightarrow> join_comma xs \<noteq> []"
  by (cases xs rule: join_comma.cases) (auto simp: listable_def)

definition show_bool :: "bool \<Rightarrow> string" where
  "show_bool b = (if b then ''true'' else ''false'')"

definition show_duration :: "int \<Rightarrow> string" where
  "show_duration d = show_nat (nat d) @ ''ns''"

definition env_of :: "config \<Rightarrow> string \<Rightarrow> string" where
  "env_of c k = (case map_of [
     (''LISTEN_ADDRESS'', ListenAddress c), (''DB_URL'', DBUrl c),
     (''ACCOUNTS_URL'', join_comma (AccountsUrls c)), (''SKIP_AUTH'', show_bool (SkipAuth c)),
     (''SKIP_EVENTS_AUTH'', show_bool (SkipEventsAuth c)),
     (''SKIP_PERMISSIONS'', show_bool (SkipPermissions c)),
     (''ICE_SERVERS_ROOMS'', join_comma (the (map_of (IceServers c) ''rooms''))),
     (''ICE_SERVERS_STREAMING'', join_comma (the (map_of (IceServers c) ''streaming''))),
     (''SERVICE_PASSWORDS'', join_comma (ServicePasswords c)), (''SECRET'', Secret c),
     (''MONITOR_GATEWAY_TOKENS'', show_bool (MonitorGatewayTokens c)),
     (''GATEWAY_ROOMS_SECRET'', GatewayRoomsSecret c),
     (''GATEWAY_PLUGIN_ADMIN_KEY'', GatewayPluginAdminKey c),
     (''COLLECT_PERIODIC_STATS'', show_bool (CollectPeriodicStats c)),
     (''CLEAN_SESSIONS_INTERVAL'', show_duration (CleanSessionsInterval c)),
     (''DEAD_SESSION_PERIOD'', show_duration (DeadSessionPeriod c)),
     (''DB_MAX_IDLE_CONNS'', itoa (DBMaxIdleConns c)), (''DB_MAX_OPEN_CONNS'', itoa (DBMaxOpenConns c)),
     (''DB_CONN_MAX_LIFETIME'', show_duration (DBConnMaxLifetime c)),
     (''MQTT_BROKER_URL'', MQTTBrokerUrl c), (''MQTT_CLIENT_ID'', MQTTClientID c),
     (''MQTT_PASSWORD'', MQTTPassword c), (''MQTT_SECURE'', show_bool (MQTTSecure c))] k of
       None \<Rightarrow> [] | Some v \<Rightarrow> v)"

text \<open>
  A configuration that an environment can express: texts whose default is not empty are not empty,
  lists have no commas in their parts, durations are not negative.
\<close>

definition expressible :: "config \<Rightarrow> bool" where
  "expressible c \<longleftrightarrow> ListenAddress c \<noteq> [] \<and> DBUrl c \<noteq> [] \<and> MQTTClientID c \<noteq> [] \<and>
     listable (AccountsUrls c) \<and> listable (ServicePasswords c) \<and>
     (\<exists>rs ss. IceServers c = [(''rooms'', rs), (''streaming'', ss)] \<and> listable rs \<and> listable ss) \<and>
     0 < DeadSessionPeriod c \<and> DeadSessionPeriod c \<le> max_int64 \<and>
     0 \<le> CleanSessionsInterval c \<and> CleanSessionsInterval c \<le> max_int64 \<and>
     0 \<le> DBConnMaxLifetime c \<and> DBConnMaxLifetime c \<le> max_int64 \<and>
     int64 (DBMaxIdleConns c) \<and> int64 (DBMaxOpenConns c)"

lemma show_duration_read:
  "0 \<le> d \<Longrightarrow> d \<le> max_int64 \<Longrightarrow> ParseDuration (show_duration d) = Inr d"
  using ParseDuration_text [of "[(nat d, ''ns'')]"]
  by (simp add: duration_text_def duration_sum_def unit_ns_def show_duration_def)

lemma env_values_read:
  "0 \<le> d \<Longrightarrow> d \<le> max_int64 \<Longrightarrow> env_duration (show_duration d) = Inr d"
  "0 < d \<Longrightarrow> d \<le> max_int64 \<Longrightarrow> env_period (show_duration d) = Inr d"
  "int64 n \<Longrightarrow> env_int (itoa n) = Inr n" "is_true (show_bool b) = b"
  by (simp_all add: env_duration_def env_period_def env_int_def show_duration_read atoi_def int64_def
      parse_int_itoa is_true_def show_bool_def)

lemma shown_not_Nil: "show_bool b \<noteq> []" "show_duration d \<noteq> []" "itoa n \<noteq> []"
  by (simp_all add: show_bool_def show_duration_def itoa_def show_nat_not_Nil)

lemma env_of_simps:
  "env_of c ''LISTEN_ADDRESS'' = ListenAddress c"
  "env_of c ''DB_URL'' = DBUrl c"
  "env_of c ''ACCOUNTS_URL'' = join_comma (AccountsUrls c)"
  "env_of c ''SKIP_AUTH'' = show_bool (SkipAuth c)"
  "env_of c ''SKIP_EVENTS_AUTH'' = show_bool (SkipEventsAuth c)"
  "env_of c ''SKIP_PERMISSIONS'' = show_bool (SkipPermissions c)"
  "env_of c ''ICE_SERVERS_ROOMS'' = join_comma (the (map_of (IceServers c) ''rooms''))"
  "env_of c ''ICE_SERVERS_STREAMING'' = join_comma (the (map_of (IceServers c) ''streaming''))"
  "env_of c ''SERVICE_PASSWORDS'' = join_comma (ServicePasswords c)"
  "env_of c ''SECRET'' = Secret c"
  "env_of c ''MONITOR_GATEWAY_TOKENS'' = show_bool (MonitorGatewayTokens c)"
  "env_of c ''GATEWAY_ROOMS_SECRET'' = GatewayRoomsSecret c"
  "env_of c ''GATEWAY_PLUGIN_ADMIN_KEY'' = GatewayPluginAdminKey c"
  "env_of c ''COLLECT_PERIODIC_STATS'' = show_bool (CollectPeriodicStats c)"
  "env_of c ''CLEAN_SESSIONS_INTERVAL'' = show_duration (CleanSessionsInterval c)"
  "env_of c ''DEAD_SESSION_PERIOD'' = show_duration (DeadSessionPeriod c)"
  "env_of c ''DB_MAX_IDLE_CONNS'' = itoa (DBMaxIdleConns c)"
  "env_of c ''DB_MAX_OPEN_CONNS'' = itoa (DBMaxOpenConns c)"
  "env_of c ''DB_CONN_MAX_LIFETIME'' = show_duration (DBConnMaxLifetime c)"
  "env_of c ''MQTT_BROKER_URL'' = MQTTBrokerUrl c"
  "env_of c ''MQTT_CLIENT_ID'' = MQTTClientID c"
  "env_of c ''MQTT_PASSWORD'' = MQTTPassword c"
  "env_of c ''MQTT_SECURE'' = show_bool (MQTTSecure c)"
  by (simp_all add: env_of_def)

lemma run_plain:
  "env k = v \<Longrightarrow> (v = [] \<Longrightarrow> f v c = c) \<Longrightarrow> apply_settings ss env (f v c) = r \<Longrightarrow>
   apply_settings ((k, plain f) # ss) env c = r"
  by (auto simp: plain_def)

lemma run_parsed:
  "env k = v \<Longrightarrow> v \<noteq> [] \<Longrightarrow> rd v = Inr x \<Longrightarrow> apply_settings ss env (f x c) = r \<Longrightarrow>
   apply_settings ((k, parsed rd f) # ss) env c = r"
  by (auto simp: parsed_def)

text \<open>
  C35. Every setting can be given: the configuration read from the environment that prints a
  configuration is that configuration, whatever the defaults are.
\<close>

theorem Init_env_of:
  assumes "expressible c"
  shows "Init (env_of c) = Ok c"
proof -
  obtain rs ss where ice: "IceServers c = [(''rooms'', rs), (''streaming'', ss)]" "listable rs" "listable ss"
    using assms by (auto simp: expressible_def)
  note e = assms [unfolded expressible_def]
  have nn: "ListenAddress c \<noteq> []" "DBUrl c \<noteq> []" "MQTTClientID c \<noteq> []"
    "listable (AccountsUrls c)" "listable (ServicePasswords c)"
    using e by simp_all
  have b: "0 \<le> CleanSessionsInterval c" "CleanSessionsInterval c \<le> max_int64"
    "0 < DeadSessionPeriod c" "DeadSessionPeriod c \<le> max_int64" "int64 (DBMaxIdleConns c)"
    "int64 (DBMaxOpenConns c)" "0 \<le> DBConnMaxLifetime c" "DBConnMaxLifetime c \<le> max_int64"
    using e by simp_all
  show ?thesis
    unfolding Init_def settings_def
    apply ((rule run_plain, rule env_of_simps, (simp add: ice nn shown_not_Nil join_not_Nil newConfig_def; fail))+)
    apply ((rule run_parsed, rule env_of_simps, rule shown_not_Nil, rule env_values_read, (rule b)+)+)
    apply ((rule run_plain, rule env_of_simps, (simp add: ice nn shown_not_Nil join_not_Nil newConfig_def; fail))+)
    apply (simp add: env_values_read split_join ice nn newConfig_def)
    done
qed

definition env_config :: config where
  "env_config = newConfig\<lparr>SkipPermissions := True, AccountsUrls := [''https://a'', ''https://b''],
     IceServers := [(''rooms'', [''stun:r'']), (''streaming'', [''stun:s'', ''turn:s''])],
     ServicePasswords := [''hash1'', ''hash2''], DBMaxIdleConns := - 1, Secret := ''s''\<rparr>"

theorem Init_env_of_witness: "Init (env_of env_config) = Ok env_config"
proof -
  have "expressible env_config"
    by (simp add: expressible_def env_config_def newConfig_def listable_def int64_def max_int64_def second_def)
  then show ?thesis by (rule Init_env_of)
qed

section \<open>The switches of the access checks\<close>

lemma apply_settings_append: "apply_settings (ss @ ts) env c =
    (case apply_settings ss env c of Ok c' \<Rightarrow> apply_settings ts env c' | r \<Rightarrow> r)"
  by (induction ss env c rule: apply_settings.induct) (auto split: sum.split res.split)

lemma keep_flags:
  assumes "list_all (\<lambda>(k, f). \<forall>v c c'. f v c = Inr c' \<longrightarrow> F c' = F c) ss"
    and "apply_settings ss env c = Ok c'"
  shows "F c' = F c"
  by (rule apply_settings_inv [where I = "\<lambda>x. F x = F c", OF _ _ assms(2)])
    (use assms(1) in \<open>auto simp: list_all_iff\<close>)

text \<open>The checks of users, gateways and roles are off exactly when their variable is \<^verbatim>\<open>true\<close>.\<close>

lemma Init_flags:
  assumes "Init env = Ok c"
  shows "SkipAuth c \<longleftrightarrow> env ''SKIP_AUTH'' = ''true''"
    "SkipEventsAuth c \<longleftrightarrow> env ''SKIP_EVENTS_AUTH'' = ''true''"
    "SkipPermissions c \<longleftrightarrow> env ''SKIP_PERMISSIONS'' = ''true''"
proof -
  let ?F = "\<lambda>c. (SkipAuth c, SkipEventsAuth c, SkipPermissions c)"
  have parts: "settings = take 3 settings @ take 3 (drop 3 settings) @ drop 6 settings"
    by (simp add: settings_def)
  obtain c1 c2 where c1: "apply_settings (take 3 settings) env newConfig = Ok c1"
    and c2: "apply_settings (take 3 (drop 3 settings)) env c1 = Ok c2"
    and c: "apply_settings (drop 6 settings) env c2 = Ok c"
    using assms unfolding Init_def by (subst (asm) parts) (auto simp: apply_settings_append split: res.splits)
  have "?F c1 = ?F newConfig"
    by (rule keep_flags [OF _ c1]) (simp add: settings_def plain_def)
  moreover have "?F c = ?F c2"
    by (rule keep_flags [OF _ c]) (simp add: settings_def plain_def parsed_def split: sum.split)
  ultimately show "SkipAuth c \<longleftrightarrow> env ''SKIP_AUTH'' = ''true''"
    "SkipEventsAuth c \<longleftrightarrow> env ''SKIP_EVENTS_AUTH'' = ''true''"
    "SkipPermissions c \<longleftrightarrow> env ''SKIP_PERMISSIONS'' = ''true''"
    using c2 by (auto simp: settings_def plain_def newConfig_def is_true_def split: if_splits)
qed

end
