(* ===== verification/Deployment.thy ===== *)
theory Deployment
  imports App_Access Config_Env
begin

text \<open>
  From the environment of the process to the answers of the server: nothing the process does
  changes its configuration, so the access checks that the environment leaves on stay on.
\<close>

section \<open>No event changes the configuration\<close>

interpretation frame_read: read_rel frame_rel
  by unfold_locales (auto simp: frame_rel_def snd_callP)

lemma frame_reloads [within_rules]:
  "within frame_rel GatewayCache_Reload" "within frame_rel GatewayTokenCache_Reload"
  "within frame_rel RoomCache_Reload" "within frame_rel UserCache_Reload"
  "within frame_rel DynamicConfigCache_Reload"
  unfolding GatewayCache_Reload_def GatewayTokenCache_Reload_def RoomCache_Reload_def
    UserCache_Reload_def DynamicConfigCache_Reload_def Let_def
  by (auto intro!: within_rules)

lemma frame_reload_logged [within_rules]: "within frame_rel n \<Longrightarrow> within frame_rel (reload_logged n)"
  unfolding reload_logged_def by (intro within_rules)

lemma frame_session_parts [within_rules]:
  "within frame_rel (requireUserID u)" "within frame_rel (closeSession uid)"
  "within frame_rel (makeSession uid u)" "within frame_rel (upsertRow upd s)"
  unfolding requireUserID_def closeSession_def makeSession_def upsertRow_def
  by (auto intro!: within_rules split: prod.split option.split)

lemma frame_sessions [within_rules]:
  "within frame_rel (upsertSession u)" "within frame_rel (onProtocolEnter m)"
  "within frame_rel (onVideoroomLeaving d)"
  unfolding upsertSession_def onProtocolEnter_def onVideoroomLeaving_def
  by (auto intro!: within_rules split: prod.split option.split sum.split json.split)

lemma frame_session_handlers [within_rules]:
  "within frame_rel (HandleEvent ev)" "within frame_rel (HandleProtocol t)"
  "within frame_rel (UpsertSession u)" "within frame_rel clean"
  unfolding HandleEvent_def HandleProtocol_def UpsertSession_def clean_def
    onProtocolQuestion_def onProtocolCamera_def onProtocolSoundTest_def
  by (auto intro!: within_rules split: prod.split option.split sum.split json.split gateway_event.split)

lemma frame_tokens [within_rules]:
  "within frame_rel (listTokens g)" "within frame_rel (saveTokens g p v)"
  "within frame_rel (syncSupported a g p ts gw)"
  unfolding listTokens_def saveTokens_def syncSupported_def Let_def
  by (auto intro!: within_rules split: prod.split option.split sum.split)

lemma frame_syncGatewayTokens [within_rules]: "within frame_rel (syncGatewayTokens a g)"
  unfolding syncGatewayTokens_def
  by (auto intro!: within_rules split: prod.split option.split sum.split admin_resp.split)

lemma frame_SyncAll: "within frame_rel (SyncAll observers_of a wip)"
proof -
  have "within frame_rel (syncEach a gs b)" for gs b
    by (induction gs arbitrary: b) (auto intro!: within_rules)
  then show ?thesis
    unfolding SyncAll_def NotifyAll_def observers_of_def AddObserver_def Notify_def
    by (auto intro!: within_rules simp: mvalues_def)
qed

lemma frame_admin_handlers:
  "within frame_rel (AdminListGateways r)" "within frame_rel (AdminListRooms r)"
  "within frame_rel (AdminListDynamicConfigs r)" "within frame_rel (AdminGatewaysHandleInfo r)"
  "within frame_rel (AdminCreateRoom r)" "within frame_rel (AdminGetRoom r)"
  "within frame_rel (AdminUpdateRoom r)" "within frame_rel (AdminDeleteRoom r)"
  "within frame_rel (AdminDeleteRoomsStatistics r)" "within frame_rel (AdminCreateDynamicConfig r)"
  "within frame_rel (AdminGetDynamicConfig r)" "within frame_rel (AdminUpdateDynamicConfig r)"
  "within frame_rel (AdminSetDynamicConfig r)" "within frame_rel (AdminDeleteDynamicConfig r)"
  unfolding AdminListGateways_def AdminListRooms_def AdminListDynamicConfigs_def
    AdminGatewaysHandleInfo_def AdminCreateRoom_def AdminGetRoom_def AdminUpdateRoom_def
    AdminDeleteRoom_def AdminDeleteRoomsStatistics_def AdminCreateDynamicConfig_def
    AdminGetDynamicConfig_def AdminUpdateDynamicConfig_def AdminSetDynamicConfig_def
    AdminDeleteDynamicConfig_def addRoom_def changeRoom_def storeRoom_def createRoom_def
    updateRoom_def deleteRoom_def writeConfig_def setConfig_def ResetStats_def Let_def
  by (auto intro!: within_rules split: prod.split option.split sum.split)

lemma frame_messages [within_rules]: "within frame_rel (HandleMessage t)"
  unfolding HandleMessage_def OnAir_def getOrCreate_def updateStats_def by (intro within_rules)

lemma frame_api_handlers:
  "within frame_rel (V1ListGroups r)" "within frame_rel (V1CreateGroup r)"
  "within frame_rel (V1ListRooms r)" "within frame_rel (V1GetRoom r)"
  "within frame_rel (V1UpdateRoom r)" "within frame_rel (V1ListUsers r)"
  "within frame_rel (V1GetUser r)" "within frame_rel (V1UpdateSession r)"
  "within frame_rel (V1ListComposites r)" "within frame_rel (V1GetComposite r)"
  "within frame_rel (V1UpdateComposite r)"
  "within frame_rel (V1HandleEvent pe r)" "within frame_rel (V1HandleProtocol pt r)"
  "within frame_rel (V1HandleServiceProtocol pt r)" "within frame_rel (V2GetConfig r)"
  "within frame_rel (V2GetRoomsStatistics r)" "within frame_rel (HealthCheck late r)"
  unfolding V1ListGroups_def V1CreateGroup_def V1ListRooms_def V1GetRoom_def V1UpdateRoom_def
    V1ListUsers_def V1GetUser_def V1UpdateSession_def V1ListComposites_def V1GetComposite_def
    V1UpdateComposite_def roomCountsP_def V1HandleEvent_def V1HandleProtocol_def
    V1HandleServiceProtocol_def V2GetConfig_def V2GetRoomsStatistics_def HealthCheck_def
    replaceComposite_def addCompositesRooms_def upsertGroup_def Let_def
  by (auto intro!: within_rules split: prod.split option.split sum.split list.split)

lemma frame_Handler: "within frame_rel (Handler d r)"
proof -
  have "within frame_rel (h q)" if "(tpl, m, h) \<in> set (routes d)" for tpl m h q
    using that frame_admin_handlers frame_api_handlers
    by (auto simp: handler_defs_list frame.within_returnP)
  then have "within frame_rel (Router d q)" for q
    unfolding Router_def
    by (auto intro!: within_rules split: sum.split prod.split) (metis nth_mem not_le)
  then show ?thesis unfolding Handler_def by (intro within_rules)
qed

lemma frame_ticks: "within frame_rel (AppCache_tick n)" "within frame_rel (HandleServiceProtocol p)"
  unfolding AppCache_tick_def HandleServiceProtocol_def by (intro within_rules)+

lemma handle_event_frame: "frame_rel w (handle_event d ev w)"
  using withinD [OF frame_Handler, of w] withinD [OF frame_ticks(1), of w] withinD [OF frame_ticks(2), of w]
    withinD [OF frame_session_handlers(4), of w] withinD [OF frame_SyncAll, of w]
  by (auto simp: handle_event_def split: app_event.split)

lemma app_steps_config:
  assumes "(app_step d)\<^sup>*\<^sup>* w w'"
  shows "w_cfg w' = w_cfg w \<and> w_ext w' = w_ext w"
  using assms
proof (induction rule: rtranclp_induct)
  case (step u v)
  from step(2) obtain ev e where "v = handle_event d ev (u\<lparr>w_env := e\<rparr>)" by (rule app_stepE)
  with handle_event_frame [of "u\<lparr>w_env := e\<rparr>" d ev] step.IH show ?case
    by (simp add: frame_rel_def)
qed simp

section \<open>A deployment without switches\<close>

definition switches_off :: "(string \<Rightarrow> string) \<Rightarrow> bool" where
  "switches_off env \<longleftrightarrow> env ''SKIP_AUTH'' \<noteq> ''true'' \<and> env ''SKIP_EVENTS_AUTH'' \<noteq> ''true'' \<and>
     env ''SKIP_PERMISSIONS'' \<noteq> ''true''"

lemma deployed_checks:
  assumes "Init env = Ok (w_cfg w)" "switches_off env" "(app_step d)\<^sup>*\<^sup>* w w'"
  shows "\<not> SkipAuth (w_cfg w')" "\<not> SkipEventsAuth (w_cfg w')" "\<not> SkipPermissions (w_cfg w')"
  using assms(2) Init_flags [OF assms(1)] app_steps_config [OF assms(3)] by (simp_all add: switches_off_def)

lemma gateway_unauthenticated:
  assumes "gateway_path (rq_path r)" and "\<not> open_path (rq_path r)" and "header_get r ''Authorization'' = []"
    and "\<not> SkipEventsAuth (w_cfg w)" and "\<And>r. d_cors d r = None"
  shows "Handler d r w =
    (Ok (Abort (NewUnauthorizedError (EText ''no `Authorization` header set''))), w)"
proof -
  note b = no_credentials [OF assms(3)]
  show ?thesis
    using assms(1,2,4) b unfolding Handler_entered [OF assms(5)]
    by (intro Recovery_Ok) (simp add: AuthenticationMiddleware_def gatewayAuth_def cfgP_def
      bindP_def getsP_def unauthorizedP_def)
qed


definition bare_env :: "string \<Rightarrow> string" where
  "bare_env k = (if k = ''SKIP_AUTH'' then ''yes'' else [])"


end
