(* ===== verification/Metrics.thy ===== *)
theory Metrics
  imports Room_View
begin

text \<open>
  The collector of statistics (\<^verbatim>\<open>instrumentation/stats.go\<close>, \<^verbatim>\<open>instrumentation/periodic.go\<close>): the
  gauge of participants is a query; the gauge of gateway sessions is filled by one goroutine per
  gateway over an unbuffered channel, with a timer.  The goroutines, the timer and the receiving
  loop are a step relation, since any of them may move next.
\<close>

section \<open>Gauges\<close>

text \<open>A gauge vector is a map from label values to a number.\<close>

record gauges =
  gg_sessions :: "(string \<times> string, int) gomap"
  gg_participants :: "(string, int) gomap"

definition collectors_Reset :: "gauges \<Rightarrow> gauges" where
  "collectors_Reset g = g\<lparr>gg_sessions := [], gg_participants := []\<rparr>"

section \<open>Participants of rooms\<close>

text \<open>
  \<^verbatim>\<open>select r.name, count(distinct s.user_id) from sessions s inner join rooms r on s.room_id = r.id
  where s.removed_at is null group by r.id\<close>
\<close>

definition participants_rows :: "db \<Rightarrow> (string \<times> int) list" where
  "participants_rows d =
     (let joined = concat (map (\<lambda>r. map (Pair r) (filter (\<lambda>s. ss_room_id s = Some (rm_id r) \<and>
                     ss_removed_at s = None) (sessions d))) (rooms d))
      in map (\<lambda>i. (rm_name (fst (hd (filter (\<lambda>(r, s). rm_id r = i) joined))),
                    int (card (set (map (\<lambda>(r, s). ss_user_id s) (filter (\<lambda>(r, s). rm_id r = i) joined))))))
           (remdups (map (\<lambda>(r, s). rm_id r) joined)))"

definition set_participants :: "(string \<times> int) list \<Rightarrow> gauges \<Rightarrow> gauges" where
  "set_participants rows g =
     g\<lparr>gg_participants := fold (\<lambda>(name, count). AList.update name count) rows []\<rparr>"

definition collectRoomParticipants :: "gauges \<Rightarrow> gauges go" where
  "collectRoomParticipants g = tryP (queryP participants_rows) (\<lambda>r. case r of
     Inl e \<Rightarrow> returnP g | Inr rows \<Rightarrow> returnP (set_participants rows g))"

lemma map_of_fold_pairs:
  "map_of (fold (\<lambda>(k, v). AList.update k v) rows m) k =
     (case map_of (rev rows) k of None \<Rightarrow> map_of m k | Some v \<Rightarrow> Some v)"
proof (induction rows arbitrary: m)
  case (Cons kv rows)
  obtain k1 v1 where "kv = (k1, v1)" by fastforce
  then show ?case
    using Cons.IH [of "AList.update k1 v1 m"]
    by (auto simp: update_conv' map_add_def split: option.splits)
qed simp

text \<open>The rows of the query: every room with an open session and the number of its users.\<close>

lemma participants_rows_eq:
  assumes "distinct (map rm_id (rooms d))"
  shows "set (participants_rows d) =
    {(rm_name r, int (card (present d (rm_id r)))) | r. r \<in> set (rooms d) \<and> present d (rm_id r) \<noteq> {}}"
proof -
  define joined where "joined = concat (map (\<lambda>r. map (Pair r) (filter (\<lambda>s. ss_room_id s = Some (rm_id r) \<and>
    ss_removed_at s = None) (sessions d))) (rooms d))"
  have joined: "set joined = {(r, s). r \<in> set (rooms d) \<and> s \<in> set (sessions d) \<and>
      ss_room_id s = Some (rm_id r) \<and> ss_removed_at s = None}"
    by (auto simp: joined_def)
  have only: "r' = r" if "r' \<in> set (rooms d)" "r \<in> set (rooms d)" "rm_id r' = rm_id r" for r r'
    using distinct_key_eq [OF assms that] .
  let ?of = "\<lambda>i. filter (\<lambda>(r, s). rm_id r = i) joined"
  have row: "(rm_name (fst (hd (?of (rm_id r)))), int (card (set (map (\<lambda>(r, s). ss_user_id s) (?of (rm_id r)))))) =
      (rm_name r, int (card (present d (rm_id r))))" if "(r, s) \<in> set joined" for r s
  proof -
    have "?of (rm_id r) \<noteq> []" using that by (auto simp: filter_empty_conv)
    then have "hd (?of (rm_id r)) \<in> set (?of (rm_id r))" by (rule hd_in_set)
    then have "fst (hd (?of (rm_id r))) = r" using that only joined by auto
    moreover have "set (map (\<lambda>(r, s). ss_user_id s) (?of (rm_id r))) = present d (rm_id r)"
      using that only by (force simp: joined present_def)
    ultimately show ?thesis by simp
  qed
  have "set (participants_rows d) = (\<lambda>i. (rm_name (fst (hd (?of i))),
      int (card (set (map (\<lambda>(r, s). ss_user_id s) (?of i)))))) ` (\<lambda>(r, s). rm_id r) ` set joined"
    by (simp add: participants_rows_def Let_def joined_def [symmetric])
  also have "\<dots> = (\<lambda>(r, s). (rm_name r, int (card (present d (rm_id r))))) ` set joined"
    unfolding image_image by (rule image_cong [OF refl]) (use row in auto)
  also have "\<dots> = {(rm_name r, int (card (present d (rm_id r)))) | r. r \<in> set (rooms d) \<and> present d (rm_id r) \<noteq> {}}"
    by (auto simp: joined present_def image_iff)
  finally show ?thesis .
qed

lemma participants_map:
  assumes "distinct (map rm_id (rooms d))" "distinct (map rm_name (rooms d))" "r \<in> set (rooms d)"
  shows "map_of (rev (participants_rows d)) (rm_name r) =
    (if present d (rm_id r) = {} then None else Some (int (card (present d (rm_id r)))))"
proof -
  have rows: "(rm_name r, n) \<in> set (participants_rows d) \<longleftrightarrow>
      present d (rm_id r) \<noteq> {} \<and> n = int (card (present d (rm_id r)))" for n
    unfolding participants_rows_eq [OF assms(1)]
    using distinct_key_eq [OF assms(2) _ assms(3)] assms(3) by auto
  show ?thesis
  proof (cases "map_of (rev (participants_rows d)) (rm_name r)")
    case None
    then have "(rm_name r, n) \<notin> set (participants_rows d)" for n
      by (auto simp: map_of_eq_None_iff image_iff)
    then show ?thesis using None rows by auto
  next
    case (Some n)
    then have "(rm_name r, n) \<in> set (participants_rows d)" using map_of_SomeD by fastforce
    then show ?thesis using Some rows by simp
  qed
qed

text \<open>
  The number of participants that the metrics show for a room is the number of users that the
  list of groups shows for it: two queries over different tables and a map by room name agree with
  the count by room id; a room that is empty has no entry.
\<close>

theorem participants_agree:
  assumes "schema_ok (w_db w)" and "next_fault w = None" and "rm \<in> set (rooms (w_db w))"
  shows "\<exists>g'. collectRoomParticipants g w = (Ok g', drop_fault w) \<and> gg_sessions g' = gg_sessions g \<and>
    map_of (gg_participants g') (rm_name rm) =
      (case or_zero (map_of (room_counts (w_db w)) (rm_id rm)) of n \<Rightarrow> if n = 0 then None else Some n)"
proof -
  have d: "distinct (map rm_id (rooms (w_db w)))" "distinct (map rm_name (rooms (w_db w)))"
    using assms(1) by (simp_all add: schema_ok_def rooms_ok_def)
  have "finite (present (w_db w) i)" for i by (simp add: present_def)
  then show ?thesis
    using assms(2) participants_map [OF d assms(3)]
    by (auto simp: collectRoomParticipants_def tryP_def queryP_apply set_participants_def
        map_of_fold_pairs room_counts_present)
qed

definition metrics_world :: world where
  "metrics_world = busy_world\<lparr>w_db := busy_db\<lparr>seq_session := 4, seq_user := 3\<rparr>\<rparr>"

lemma metrics_schema: "schema_ok (w_db metrics_world)"
  using sample_schema_ok
  by (simp add: metrics_world_def busy_db_def schema_defs sample_db_def sample_session_def same_session_def
      has_key_def sample_user_def sample_room_def sample_gateway_def)

theorem participants_agree_witness:
  "\<exists>g'. fst (collectRoomParticipants \<lparr>gg_sessions = [], gg_participants = [(''old'', 7)]\<rparr> metrics_world) = Ok g' \<and>
    map_of (gg_participants g') ''room 1'' = Some 2"
proof -
  have "busy_room \<in> set (rooms (w_db metrics_world))"
    by (simp add: metrics_world_def busy_db_def sample_db_def)
  moreover have "next_fault metrics_world = None" by code_simp
  moreover have "rm_name busy_room = ''room 1''" "rm_id busy_room = 1" by (simp_all add: sample_room_def)
  moreover have "or_zero (map_of (room_counts (w_db metrics_world)) 1) = 2" by code_simp
  ultimately show ?thesis
    using participants_agree [OF metrics_schema, of busy_room "\<lparr>gg_sessions = [], gg_participants = [(''old'', 7)]\<rparr>"]
    by auto
qed

section \<open>Sessions of gateways\<close>

text \<open>The goroutine of one gateway: the number it sends and the error it sends with it.\<close>

definition gatewaySessions :: "gateway \<Rightarrow> (int \<times> gerr option) go" where
  "gatewaySessions g =
     tryP (registry_For g) (\<lambda>r. case r of
       Inl e \<Rightarrow> returnP (0, Some (EWrap ''domain.GatewayAdminAPIRegistry.For'' e))
     | Inr api \<Rightarrow> tryP (callP api ListSessions) (\<lambda>r. case r of
         Inl e \<Rightarrow> returnP (0, Some (EWrap ''api.ListSessions'' e))
       | Inr (ARsessions n) \<Rightarrow> returnP (int n, None)
       | Inr _ \<Rightarrow> returnP (0, Some (EText ''unexpected api.ListSessions response''))))"

text \<open>
  A worker calls its gateway, then waits to send (a worker that panicked sends from its deferred
  function and only then takes the process down), then is done.  The timer fires once, and its
  channel gives one value.
\<close>

datatype worker = Calling | Sending int bool | Sent int

datatype timer = Armed | Fired | Taken

record collection =
  cl_world :: world
  cl_gauges :: gauges
  cl_workers :: "worker list"
  cl_i :: nat
  cl_timer :: timer
  cl_crashed :: bool

definition set_sessions :: "gateway \<Rightarrow> int \<Rightarrow> gauges \<Rightarrow> gauges" where
  "set_sessions g n gs = gs\<lparr>gg_sessions := AList.update (gw_name g, gw_type g) n (gg_sessions gs)\<rparr>"

inductive collect_step :: "gateway list \<Rightarrow> collection \<Rightarrow> collection \<Rightarrow> bool" for gs where
  answer: "\<not> cl_crashed c \<Longrightarrow> k < length (cl_workers c) \<Longrightarrow> cl_workers c ! k = Calling \<Longrightarrow>
    gatewaySessions (gs ! k) (cl_world c) = (Ok (n, e), w') \<Longrightarrow>
    collect_step gs c (c\<lparr>cl_world := w', cl_workers := (cl_workers c)[k := Sending n False]\<rparr>)"
| panic: "\<not> cl_crashed c \<Longrightarrow> k < length (cl_workers c) \<Longrightarrow> cl_workers c ! k = Calling \<Longrightarrow>
    gatewaySessions (gs ! k) (cl_world c) = (Panic p, w') \<Longrightarrow>
    collect_step gs c (c\<lparr>cl_world := w', cl_workers := (cl_workers c)[k := Sending 0 True]\<rparr>)"
| fire: "\<not> cl_crashed c \<Longrightarrow> cl_timer c = Armed \<Longrightarrow> collect_step gs c (c\<lparr>cl_timer := Fired\<rparr>)"
| receive: "\<not> cl_crashed c \<Longrightarrow> cl_i c < length gs \<Longrightarrow> k < length (cl_workers c) \<Longrightarrow>
    cl_workers c ! k = Sending n dying \<Longrightarrow>
    collect_step gs c (c\<lparr>cl_gauges := set_sessions (gs ! k) n (cl_gauges c),
      cl_workers := (cl_workers c)[k := Sent n], cl_i := cl_i c + 1, cl_crashed := dying\<rparr>)"
| timeout: "\<not> cl_crashed c \<Longrightarrow> cl_i c < length gs \<Longrightarrow> cl_timer c = Fired \<Longrightarrow>
    collect_step gs c (c\<lparr>cl_timer := Taken, cl_i := cl_i c + 1\<rparr>)"

inductive_cases collect_stepE: "collect_step gs c c'"

definition collect_start :: "gateway list \<Rightarrow> gauges \<Rightarrow> world \<Rightarrow> collection" where
  "collect_start gs g w = \<lparr>cl_world = w, cl_gauges = g\<lparr>gg_sessions := []\<rparr>,
     cl_workers = replicate (length gs) Calling, cl_i = 0, cl_timer = Armed, cl_crashed = False\<rparr>"

text \<open>The query before the loop; when it fails the gauge keeps its old values.\<close>

definition collectGatewaySessions :: "gauges \<Rightarrow> (gateway list \<times> collection) option go" where
  "collectGatewaySessions g w = (case queryP gateways_active w of
     (Ok gs, w') \<Rightarrow> (Ok (Some (gs, collect_start gs g w')), w')
   | (Err e, w') \<Rightarrow> (Ok None, w')
   | (Panic p, w') \<Rightarrow> (Panic p, w'))"

subsection \<open>Every pass ends\<close>

text \<open>A step uses up a call, a send, a turn of the loop or the timer.\<close>

fun worker_weight :: "worker \<Rightarrow> nat" where
  "worker_weight Calling = 2" | "worker_weight (Sending n b) = 1" | "worker_weight (Sent n) = 0"

definition weight :: "gateway list \<Rightarrow> collection \<Rightarrow> nat" where
  "weight gs c = sum_list (map worker_weight (cl_workers c)) + (length gs - cl_i c) +
     (if cl_timer c = Armed then 1 else 0)"

lemma sum_list_update_nat:
  fixes f :: "'a \<Rightarrow> nat"
  shows "k < length xs \<Longrightarrow> sum_list (map f (xs[k := x])) + f (xs ! k) = sum_list (map f xs) + f x"
proof (induction xs arbitrary: k)
  case (Cons y ys)
  then show ?case by (cases k) (auto simp: add.assoc add.left_commute)
qed simp

lemma collect_step_weight: "collect_step gs c c' \<Longrightarrow> weight gs c' < weight gs c"
proof (induction rule: collect_step.induct)
  case (answer c k n e w')
  then show ?case
    using sum_list_update_nat [of k "cl_workers c" worker_weight "Sending n False"] by (simp add: weight_def)
next
  case (panic c k p w')
  then show ?case
    using sum_list_update_nat [of k "cl_workers c" worker_weight "Sending 0 True"] by (simp add: weight_def)
next
  case (receive c k n dying)
  then show ?case
    using sum_list_update_nat [of k "cl_workers c" worker_weight "Sent n"] by (simp add: weight_def)
qed (auto simp: weight_def)

lemma collect_steps_weight: "(collect_step gs ^^ n) c c' \<Longrightarrow> n + weight gs c' \<le> weight gs c"
proof (induction n arbitrary: c')
  case (Suc n)
  then obtain d where "(collect_step gs ^^ n) c d" "collect_step gs d c'" by auto
  with Suc.IH [of d] collect_step_weight [of gs d c'] show ?case by simp
qed simp

lemma weight_start: "weight gs (collect_start gs g w) = 3 * length gs + 1"
  by (simp add: weight_def collect_start_def sum_list_replicate)

text \<open>What a pass knows at every moment: the turns of the loop, and the entries of the gauge.\<close>

definition is_sent :: "worker \<Rightarrow> bool" where
  "is_sent w = (case w of Sent n \<Rightarrow> True | _ \<Rightarrow> False)"

definition entry_of :: "worker \<Rightarrow> int option" where
  "entry_of w = (case w of Sent n \<Rightarrow> Some n | _ \<Rightarrow> None)"

definition gauge_of :: "collection \<Rightarrow> gateway \<Rightarrow> int option" where
  "gauge_of c g = map_of (gg_sessions (cl_gauges c)) (gw_name g, gw_type g)"

definition turns_ok :: "gateway list \<Rightarrow> collection \<Rightarrow> bool" where
  "turns_ok gs c \<longleftrightarrow> length (cl_workers c) = length gs \<and> cl_i c \<le> length gs \<and>
     cl_i c = length (filter is_sent (cl_workers c)) + (if cl_timer c = Taken then 1 else 0)"

definition entries_ok :: "gateway list \<Rightarrow> collection \<Rightarrow> bool" where
  "entries_ok gs c \<longleftrightarrow> (\<forall>k < length gs. gauge_of c (gs ! k) = entry_of (cl_workers c ! k))"

lemma worker_simps [simp]:
  "is_sent (Sent n)" "\<not> is_sent Calling" "\<not> is_sent (Sending n b)"
  "entry_of (Sent n) = Some n" "entry_of Calling = None" "entry_of (Sending n b) = None"
  by (simp_all add: is_sent_def entry_of_def)

lemma turns_start: "turns_ok gs (collect_start gs g w)"
  by (simp add: turns_ok_def collect_start_def)

lemma entries_start: "entries_ok gs (collect_start gs g w)"
  by (simp add: entries_ok_def collect_start_def gauge_of_def)

lemma turns_step: "collect_step gs c c' \<Longrightarrow> turns_ok gs c \<Longrightarrow> turns_ok gs c'"
proof (induction rule: collect_step.induct)
  case (answer c k n e w')
  then show ?case
    using filter_update_length [of k "cl_workers c" is_sent "Sending n False"] by (simp add: turns_ok_def)
next
  case (panic c k p w')
  then show ?case
    using filter_update_length [of k "cl_workers c" is_sent "Sending 0 True"] by (simp add: turns_ok_def)
next
  case (receive c k n dying)
  then show ?case
    using filter_update_length [of k "cl_workers c" is_sent "Sent n"] by (simp add: turns_ok_def)
qed (auto simp: turns_ok_def)

lemma entries_step:
  assumes "distinct (map gw_name gs)"
  shows "collect_step gs c c' \<Longrightarrow> turns_ok gs c \<Longrightarrow> entries_ok gs c \<Longrightarrow> entries_ok gs c'"
proof (induction rule: collect_step.induct)
  case (receive c k n dying)
  have "gw_name (gs ! j) \<noteq> gw_name (gs ! k)" if "j < length gs" "j \<noteq> k" for j
    using assms that receive by (auto simp: turns_ok_def distinct_map inj_on_eq_iff nth_eq_iff_index_eq)
  with receive show ?case
    by (auto simp: entries_ok_def turns_ok_def gauge_of_def set_sessions_def nth_list_update)
qed (auto simp: entries_ok_def turns_ok_def gauge_of_def nth_list_update)

lemma pass_invariant:
  assumes "(collect_step gs)\<^sup>*\<^sup>* (collect_start gs g w) c"
  shows "turns_ok gs c" "distinct (map gw_name gs) \<Longrightarrow> entries_ok gs c"
proof -
  have "turns_ok gs c \<and> (distinct (map gw_name gs) \<longrightarrow> entries_ok gs c)"
    using assms
    by (induction rule: rtranclp_induct) (auto intro: turns_start entries_start turns_step entries_step)
  then show "turns_ok gs c" "distinct (map gw_name gs) \<Longrightarrow> entries_ok gs c" by auto
qed

lemma gatewaySessions_ends:
  obtains n e w' where "gatewaySessions g w = (Ok (n, e), w')" | p w' where "gatewaySessions g w = (Panic p, w')"
proof (cases "registry_For g w")
  case (Pair r w1)
  have call: "callP api c v \<noteq> (Panic p, v')" for api c v p v'
    by (auto simp: callP_def Let_def split: admin_resp.splits)
  show ?thesis
  proof (cases r)
    case (Ok api)
    show ?thesis
      using Pair Ok call [of api ListSessions w1] that(1)
      by (cases "callP api ListSessions w1"; cases "fst (callP api ListSessions w1)")
        (fastforce simp: gatewaySessions_def tryP_def split: admin_resp.splits)+
  qed (use Pair that in \<open>auto simp: gatewaySessions_def tryP_def\<close>)
qed

lemma turn_possible:
  assumes "turns_ok gs c" "\<not> cl_crashed c" "cl_i c < length gs"
  shows "\<exists>c'. collect_step gs c c'"
proof -
  have "length (filter is_sent (cl_workers c)) < length (cl_workers c)"
    using assms by (simp add: turns_ok_def split: if_splits)
  then obtain x where "x \<in> set (cl_workers c)" "\<not> is_sent x" by (metis filter_True less_irrefl)
  then obtain k where k: "k < length (cl_workers c)" "\<not> is_sent (cl_workers c ! k)"
    by (metis in_set_conv_nth)
  show ?thesis
  proof (cases "cl_workers c ! k")
    case Calling
    show ?thesis
    proof (rule gatewaySessions_ends [of "gs ! k" "cl_world c"])
      fix n e w' assume "gatewaySessions (gs ! k) (cl_world c) = (Ok (n, e), w')"
      from collect_step.answer [OF assms(2) k(1) Calling this] show ?thesis by blast
    next
      fix p w' assume "gatewaySessions (gs ! k) (cl_world c) = (Panic p, w')"
      from collect_step.panic [OF assms(2) k(1) Calling this] show ?thesis by blast
    qed
  next
    case (Sending n b)
    then show ?thesis using collect_step.receive assms k(1) by blast
  next
    case (Sent n)
    with k(2) show ?thesis by simp
  qed
qed


text \<open>Once the loop is over nothing is received any more.\<close>

lemma no_more_receives:
  "(collect_step gs)\<^sup>*\<^sup>* c c' \<Longrightarrow> cl_i c = length gs \<Longrightarrow> length (cl_workers c) = length gs \<Longrightarrow>
   map is_sent (cl_workers c') = map is_sent (cl_workers c) \<and> cl_i c' = length gs \<and>
   length (cl_workers c') = length gs"
proof (induction rule: rtranclp_induct)
  case (step d e)
  have "map is_sent (ws[k := x]) = map is_sent ws" if "k < length ws" "\<not> is_sent x" "ws ! k = Calling" for ws k x
    using that by (intro nth_equalityI) (auto simp: nth_list_update)
  with step show ?case by (auto elim!: collect_stepE)
qed simp

text \<open>
  C28. What a pass leaves: without a timeout every gateway has its entry and every goroutine is done;
  after a timeout, which takes the place of one receive, exactly one gateway has no entry, and its
  goroutine is never received from again, so it stays blocked for good.
\<close>

theorem collect_outcome:
  assumes names: "distinct (map gw_name gs)" and run: "(collect_step gs)\<^sup>*\<^sup>* (collect_start gs g w) c"
    and over: "cl_i c = length gs"
  shows "if cl_timer c = Taken
    then \<exists>!k. k < length gs \<and> gauge_of c (gs ! k) = None \<and>
      (\<forall>c'. (collect_step gs)\<^sup>*\<^sup>* c c' \<longrightarrow> \<not> is_sent (cl_workers c' ! k))
    else \<forall>k < length gs. is_sent (cl_workers c ! k) \<and> gauge_of c (gs ! k) \<noteq> None"
proof -
  note inv = pass_invariant [OF run]
  have len: "length (cl_workers c) = length gs" using inv(1) by (simp add: turns_ok_def)
  have entry: "gauge_of c (gs ! k) = None \<longleftrightarrow> \<not> is_sent (cl_workers c ! k)" if "k < length gs" for k
    using inv(2) [OF names] that
    by (cases "cl_workers c ! k") (simp_all add: entries_ok_def)
  have sent: "length (filter is_sent (cl_workers c)) + (if cl_timer c = Taken then 1 else 0) = length (cl_workers c)"
    using inv(1) over len by (simp add: turns_ok_def)
  then have rest: "length (filter (\<lambda>x. \<not> is_sent x) (cl_workers c)) = (if cl_timer c = Taken then 1 else 0)"
    using sum_length_filter_compl [of is_sent "cl_workers c"] by simp
  have keep: "is_sent (cl_workers c' ! k) = is_sent (cl_workers c ! k)"
    if "(collect_step gs)\<^sup>*\<^sup>* c c'" "k < length gs" for c' k
    using no_more_receives [OF that(1) over len] that(2) len by (metis nth_map)
  show ?thesis
  proof (cases "cl_timer c = Taken")
    case False
    with rest have "\<forall>x \<in> set (cl_workers c). is_sent x" by (simp add: filter_empty_conv)
    with False entry len show ?thesis by simp
  next
    case True
    have "card {k. k < length (cl_workers c) \<and> \<not> is_sent (cl_workers c ! k)} = 1"
      using rest True by (simp add: length_filter_conv_card)
    then obtain j where j: "{k. k < length (cl_workers c) \<and> \<not> is_sent (cl_workers c ! k)} = {j}"
      by (auto simp: card_1_singleton_iff)
    have "k < length gs \<and> \<not> is_sent (cl_workers c ! k) \<longleftrightarrow> k = j" for k
      using j len by (simp add: set_eq_iff)
    then have "\<exists>!k. k < length gs \<and> \<not> is_sent (cl_workers c ! k)" by simp
    moreover have eq: "k < length gs \<and> gauge_of c (gs ! k) = None \<and>
        (\<forall>c'. (collect_step gs)\<^sup>*\<^sup>* c c' \<longrightarrow> \<not> is_sent (cl_workers c' ! k)) \<longleftrightarrow>
      k < length gs \<and> \<not> is_sent (cl_workers c ! k)" for k
    proof (cases "k < length gs")
      case True
      have "\<not> is_sent (cl_workers c ! k) \<Longrightarrow> (collect_step gs)\<^sup>*\<^sup>* c c' \<Longrightarrow> \<not> is_sent (cl_workers c' ! k)" for c'
        by (drule keep [OF _ True]) simp
      then show ?thesis unfolding entry [OF True] by blast
    qed simp
    ultimately show ?thesis by (simp only: eq True refl if_True)
  qed
qed

text \<open>A run for the witnesses: the timer fires and is received before any answer.\<close>

definition pass_start :: collection where
  "pass_start = collect_start [sample_gateway] \<lparr>gg_sessions = [], gg_participants = []\<rparr> sample_world"

lemma pass_run: "(collect_step [sample_gateway] ^^ 2) pass_start (pass_start\<lparr>cl_timer := Taken, cl_i := 1\<rparr>)"
proof -
  have "collect_step [sample_gateway] pass_start (pass_start\<lparr>cl_timer := Fired\<rparr>)"
    by (rule collect_step.fire) (simp_all add: pass_start_def collect_start_def)
  moreover have "collect_step [sample_gateway] (pass_start\<lparr>cl_timer := Fired\<rparr>)
      (pass_start\<lparr>cl_timer := Fired\<rparr>\<lparr>cl_timer := Taken, cl_i := cl_i (pass_start\<lparr>cl_timer := Fired\<rparr>) + 1\<rparr>)"
    by (rule collect_step.timeout) (simp_all add: pass_start_def collect_start_def)
  moreover have "cl_i pass_start = 0" by (simp add: pass_start_def collect_start_def)
  ultimately show ?thesis by (auto simp: numeral_2_eq_2)
qed


theorem collect_outcome_witness:
  "\<exists>c. (collect_step [sample_gateway])\<^sup>*\<^sup>* pass_start c \<and> cl_timer c = Taken \<and> gauge_of c sample_gateway = None"
proof -
  let ?c = "pass_start\<lparr>cl_timer := Taken, cl_i := 1\<rparr>"
  have run: "(collect_step [sample_gateway])\<^sup>*\<^sup>* pass_start ?c" by (rule relpowp_imp_rtranclp [OF pass_run])
  have "\<exists>!k. k < length [sample_gateway] \<and> gauge_of ?c ([sample_gateway] ! k) = None \<and>
      (\<forall>c'. (collect_step [sample_gateway])\<^sup>*\<^sup>* ?c c' \<longrightarrow> \<not> is_sent (cl_workers c' ! k))"
    using collect_outcome [of "[sample_gateway]", OF _ run [unfolded pass_start_def]]
    by (simp add: pass_start_def)
  then have "gauge_of ?c sample_gateway = None" by auto
  with run show ?thesis by fastforce
qed

section \<open>A password that ends the process\<close>

text \<open>
  An admin password that decodes to fewer than the twelve bytes of a nonce makes the decryption
  panic.  A request recovers from it; the goroutines of the collector and of the token monitor have
  no recovery, so there it ends the process.
\<close>

lemma registry_For_short_password:
  assumes "map_of (w_registry w) (gw_id g) = None" and "base64_decode (gw_admin_password g) = Some b"
    and "length b < 12" and "key_ok (Secret (w_cfg w))"
  shows "registry_For g w = (Panic (EText ''slice bounds out of range''), w)"
  using assms
  by (simp add: registry_For_def registry_Get_def cfgP_def bindP_def getsP_def resP_def wrapR_def Decrypt_def)

lemma short_password_crashes:
  assumes "gatewaySessions (gs ! k) (cl_world c) = (Panic p, w')" and "\<not> cl_crashed c"
    and "k < length (cl_workers c)" "cl_workers c ! k = Calling" "cl_i c < length gs"
  shows "\<exists>c'. (collect_step gs)\<^sup>*\<^sup>* c c' \<and> cl_crashed c'"
proof -
  let ?c = "c\<lparr>cl_world := w', cl_workers := (cl_workers c)[k := Sending 0 True]\<rparr>"
  have one: "collect_step gs c ?c" by (rule collect_step.panic [OF assms(2-4,1)])
  have "\<exists>c'. collect_step gs ?c c' \<and> cl_crashed c'"
    by (intro exI conjI, rule collect_step.receive [of ?c gs k 0 True]) (use assms in auto)
  then obtain c' where c': "collect_step gs ?c c'" "cl_crashed c'" by blast
  from one have "(collect_step gs)\<^sup>*\<^sup>* c ?c" by (rule r_into_rtranclp)
  then have "(collect_step gs)\<^sup>*\<^sup>* c c'" using c'(1) by (rule rtranclp.rtrancl_into_rtrancl)
  with c'(2) show ?thesis by blast
qed

end
