(* ===== verification/Lifecycle.thy ===== *)
theory Lifecycle
  imports App_Laws Metrics
begin

text \<open>
  The life of the process (\<^verbatim>\<open>api/app.go\<close>, and the \<^verbatim>\<open>Start\<close>, \<^verbatim>\<open>Monitor\<close>, \<^verbatim>\<open>Close\<close> and \<^verbatim>\<open>run\<close> of the
  periodic services): what a configuration starts, the goroutines that wait for their tickers, and
  the calls of \<^verbatim>\<open>Shutdown\<close>.  Requests, messages, ticks, passes and the shutdown interleave freely, so
  they are a step relation.  A ticker's channel holds at most one tick and \<^verbatim>\<open>Stop\<close> does not close it; a
  panic in a goroutine that does not recover ends the process.  \<^verbatim>\<open>Run\<close> defers \<^verbatim>\<open>Shutdown\<close>; here it may be
  called at any moment while the process serves.
\<close>

section \<open>Services\<close>

datatype service = CacheReloader | SessionCleaner | TokenMonitor | StatsCollector

fun starts :: "config \<Rightarrow> service \<Rightarrow> bool" where
  "starts c CacheReloader \<longleftrightarrow> True"
| "starts c SessionCleaner \<longleftrightarrow> cleaner_starts c"
| "starts c TokenMonitor \<longleftrightarrow> MonitorGatewayTokens c"
| "starts c StatsCollector \<longleftrightarrow> CollectPeriodicStats c"

definition mqtt_starts :: "config \<Rightarrow> bool" where
  "mqtt_starts c \<longleftrightarrow> MQTTBrokerUrl c \<noteq> []"

text \<open>A ticker, with whether a tick waits in its channel, and the goroutine that ranges over it.\<close>

datatype ticker = NoTicker | Ticking bool | Stopped bool | ClosedChannel

datatype goroutine = NoGoroutine | Waiting | Working | Returned

text \<open>The calls of \<^verbatim>\<open>Shutdown\<close>, one after the other; those of absent parts are skipped.\<close>

datatype shutdown_call = StopTicker service | AwaitMonitor | DisconnectBroker | CloseDb

definition Shutdown :: "config \<Rightarrow> shutdown_call list" where
  "Shutdown c =
     (if MonitorGatewayTokens c then [StopTicker TokenMonitor, AwaitMonitor] else []) @
     (if CollectPeriodicStats c then [StopTicker StatsCollector] else []) @
     (if mqtt_starts c then [DisconnectBroker] else []) @
     [StopTicker SessionCleaner, StopTicker CacheReloader, CloseDb]"

fun stop :: "ticker \<Rightarrow> ticker" where
  "stop (Ticking b) = Stopped b"
| "stop t = t"

record process =
  pr_world :: world
  pr_gauges :: gauges
  pr_ticker :: "service \<Rightarrow> ticker"
  pr_goroutine :: "service \<Rightarrow> goroutine"
  pr_ticks :: int
  pr_wg :: int
  pr_broker :: bool
  pr_todo :: "shutdown_call list option"
  pr_db_open :: bool
  pr_crashed :: bool

text \<open>
  \<^verbatim>\<open>InitializeWithDeps\<close>: the caches are loaded, the services of the configuration are started, the broker
  is connected (\<^verbatim>\<open>connected\<close> is the outcome); a failure of either ends the process.
\<close>

definition launch :: "bool \<Rightarrow> world \<Rightarrow> process option" where
  "launch connected w = (let c = w_cfg w in case InitializeWithDeps w of
     (Ok _, w') \<Rightarrow>
       if mqtt_starts c \<and> \<not> connected then None
       else Some \<lparr>pr_world = w', pr_gauges = \<lparr>gg_sessions = [], gg_participants = []\<rparr>,
         pr_ticker = (\<lambda>s. if starts c s then Ticking False else NoTicker),
         pr_goroutine = (\<lambda>s. if starts c s then Waiting else NoGoroutine),
         pr_ticks = 0, pr_wg = (if MonitorGatewayTokens c then 1 else 0),
         pr_broker = mqtt_starts c, pr_todo = None, pr_db_open = True, pr_crashed = False\<rparr>
   | _ \<Rightarrow> None)"

section \<open>Passes\<close>

text \<open>What a goroutine does for one tick; the collector's pass has its own goroutines.\<close>

definition pass_of :: "service \<Rightarrow> int \<Rightarrow> unit go" where
  "pass_of s n = (case s of
     CacheReloader \<Rightarrow> AppCache_tick n
   | SessionCleaner \<Rightarrow> bindP clean (\<lambda>_. returnP ())
   | TokenMonitor \<Rightarrow> SyncAll observers_of tokens_max_age False
   | StatsCollector \<Rightarrow> returnP ())"

text \<open>The outcomes of one pass of the collector: the gauges, the world, and whether it crashed.\<close>

inductive stats_pass :: "gauges \<Rightarrow> world \<Rightarrow> gauges \<Rightarrow> world \<Rightarrow> bool \<Rightarrow> bool" where
  no_gateways: "collectRoomParticipants g w = (Ok g1, w1) \<Longrightarrow>
    collectGatewaySessions g1 w1 = (Ok None, w2) \<Longrightarrow> stats_pass g w g1 w2 False"
| over: "collectRoomParticipants g w = (Ok g1, w1) \<Longrightarrow>
    collectGatewaySessions g1 w1 = (Ok (Some (gs, c0)), w2) \<Longrightarrow>
    (collect_step gs)\<^sup>*\<^sup>* c0 c \<Longrightarrow> cl_i c = length gs \<or> cl_crashed c \<Longrightarrow>
    stats_pass g w (cl_gauges c) (cl_world c) (cl_crashed c)"

definition is_panic :: "'a res \<Rightarrow> bool" where
  "is_panic r \<longleftrightarrow> (case r of Panic _ \<Rightarrow> True | _ \<Rightarrow> False)"

definition at :: "env \<Rightarrow> process \<Rightarrow> world" where
  "at e p = (pr_world p)\<lparr>w_env := e\<rparr>"

definition serving :: "process \<Rightarrow> bool" where
  "serving p \<longleftrightarrow> pr_todo p = None \<and> \<not> pr_crashed p"

inductive process_step :: "deps \<Rightarrow> config \<Rightarrow> process \<Rightarrow> process \<Rightarrow> bool" for d c where
  request: "serving p \<Longrightarrow>
    process_step d c p (p\<lparr>pr_world := handle_event d (HttpRequest r) (at e p)\<rparr>)"
| message: "pr_broker p \<Longrightarrow> \<not> pr_crashed p \<Longrightarrow> HandleServiceProtocol m (at e p) = (res, w') \<Longrightarrow>
    process_step d c p (p\<lparr>pr_world := w', pr_crashed := is_panic res\<rparr>)"
| tick: "pr_ticker p s = Ticking b \<Longrightarrow> \<not> pr_crashed p \<Longrightarrow>
    process_step d c p (p\<lparr>pr_ticker := (pr_ticker p)(s := Ticking True)\<rparr>)"
| receive: "pr_ticker p s \<in> {Ticking True, Stopped True} \<Longrightarrow> pr_goroutine p s = Waiting \<Longrightarrow> \<not> pr_crashed p \<Longrightarrow>
    process_step d c p (p\<lparr>pr_ticker := (pr_ticker p)(s := (if pr_ticker p s = Ticking True then Ticking False else Stopped False)),
      pr_goroutine := (pr_goroutine p)(s := Working)\<rparr>)"
| pass: "pr_goroutine p s = Working \<Longrightarrow> s \<noteq> StatsCollector \<Longrightarrow> \<not> pr_crashed p \<Longrightarrow>
    pass_of s (pr_ticks p) (at e p) = (res, w') \<Longrightarrow>
    process_step d c p (p\<lparr>pr_world := w', pr_goroutine := (pr_goroutine p)(s := Waiting),
      pr_ticks := pr_ticks p + (if s = CacheReloader then 1 else 0), pr_crashed := is_panic res\<rparr>)"
| collect: "pr_goroutine p StatsCollector = Working \<Longrightarrow> \<not> pr_crashed p \<Longrightarrow>
    stats_pass (pr_gauges p) (at e p) g' w' crash \<Longrightarrow>
    process_step d c p (p\<lparr>pr_world := w', pr_gauges := g',
      pr_goroutine := (pr_goroutine p)(StatsCollector := Waiting), pr_crashed := crash\<rparr>)"
| range_ends: "pr_ticker p s = ClosedChannel \<Longrightarrow> pr_goroutine p s = Waiting \<Longrightarrow> \<not> pr_crashed p \<Longrightarrow>
    process_step d c p (p\<lparr>pr_goroutine := (pr_goroutine p)(s := Returned),
      pr_wg := pr_wg p - (if s = TokenMonitor then 1 else 0)\<rparr>)"
| shutdown: "serving p \<Longrightarrow> process_step d c p (p\<lparr>pr_todo := Some (Shutdown c)\<rparr>)"
| stop_ticker: "pr_todo p = Some (StopTicker s # cs) \<Longrightarrow> \<not> pr_crashed p \<Longrightarrow>
    process_step d c p (p\<lparr>pr_ticker := (pr_ticker p)(s := stop (pr_ticker p s)), pr_todo := Some cs\<rparr>)"
| await: "pr_todo p = Some (AwaitMonitor # cs) \<Longrightarrow> pr_wg p = 0 \<Longrightarrow> \<not> pr_crashed p \<Longrightarrow>
    process_step d c p (p\<lparr>pr_todo := Some cs\<rparr>)"
| disconnect: "pr_todo p = Some (DisconnectBroker # cs) \<Longrightarrow> \<not> pr_crashed p \<Longrightarrow>
    process_step d c p (p\<lparr>pr_broker := False, pr_todo := Some cs\<rparr>)"
| close_db: "pr_todo p = Some (CloseDb # cs) \<Longrightarrow> \<not> pr_crashed p \<Longrightarrow>
    process_step d c p (p\<lparr>pr_db_open := False, pr_todo := Some cs\<rparr>)"

inductive_cases process_stepE: "process_step d c p p'"

section \<open>Shutting down\<close>

text \<open>What holds as long as no call of \<^verbatim>\<open>Shutdown\<close> closes a channel, which none does.\<close>

definition service_ok :: "bool \<Rightarrow> ticker \<Rightarrow> goroutine \<Rightarrow> bool" where
  "service_ok started t g \<longleftrightarrow> t \<noteq> ClosedChannel \<and> g \<noteq> Returned \<and>
     (started \<longleftrightarrow> g \<noteq> NoGoroutine) \<and> (started \<longleftrightarrow> t \<noteq> NoTicker)"

definition services_ok :: "config \<Rightarrow> process \<Rightarrow> bool" where
  "services_ok c p \<longleftrightarrow> (\<forall>s. service_ok (starts c s) (pr_ticker p s) (pr_goroutine p s)) \<and>
     pr_wg p = (if MonitorGatewayTokens c then 1 else 0)"

text \<open>What the calls made so far have done.\<close>

definition after_calls :: "config \<Rightarrow> process \<Rightarrow> shutdown_call list \<Rightarrow> bool" where
  "after_calls c p ds \<longleftrightarrow> (pr_db_open p \<longleftrightarrow> CloseDb \<notin> set ds) \<and>
     (pr_broker p \<longleftrightarrow> mqtt_starts c \<and> DisconnectBroker \<notin> set ds) \<and>
     (\<forall>s. starts c s \<longrightarrow> (\<exists>b. pr_ticker p s = (if StopTicker s \<in> set ds then Stopped b else Ticking b))) \<and>
     (MonitorGatewayTokens c \<longrightarrow> AwaitMonitor \<notin> set ds)"

definition shutdown_ok :: "config \<Rightarrow> process \<Rightarrow> bool" where
  "shutdown_ok c p \<longleftrightarrow> (case pr_todo p of
     None \<Rightarrow> after_calls c p [] | Some cs \<Rightarrow> \<exists>ds. Shutdown c = ds @ cs \<and> after_calls c p ds)"

lemma launched:
  assumes "launch connected w = Some p0"
  shows "services_ok (w_cfg w) p0" "shutdown_ok (w_cfg w) p0"
  using assms by (auto simp: launch_def Let_def services_ok_def service_ok_def shutdown_ok_def after_calls_def split: prod.splits res.splits if_splits)

lemma service_ok_moves:
  "service_ok b (Ticking x) g \<Longrightarrow> service_ok b (Ticking y) g"
  "service_ok b (Ticking x) g \<Longrightarrow> g' \<in> {Waiting, Working} \<Longrightarrow> service_ok b (Ticking y) g'"
  "service_ok b (Stopped x) g \<Longrightarrow> g' \<in> {Waiting, Working} \<Longrightarrow> service_ok b (Stopped y) g'"
  "service_ok b t g \<Longrightarrow> service_ok b (stop t) g"
  "service_ok b t g \<Longrightarrow> g = Working \<Longrightarrow> service_ok b t Waiting"
  "\<not> service_ok b ClosedChannel g"
  by (cases t; auto simp: service_ok_def)+

lemma services_step:
  assumes "process_step d c p p'" and "services_ok c p"
  shows "services_ok c p'"
proof -
  have ok: "service_ok (starts c s) (pr_ticker p s) (pr_goroutine p s)" for s
    using assms(2) by (simp add: services_ok_def)
  have wg: "pr_wg p = (if MonitorGatewayTokens c then 1 else 0)" using assms(2) by (simp add: services_ok_def)
  show ?thesis
    using assms(1)
  proof (cases rule: process_step.cases)
    case (tick s b)
    then show ?thesis using ok wg service_ok_moves(1) [of "starts c s" b] by (auto simp: services_ok_def) metis
  next
    case (receive s)
    then show ?thesis
      using ok [of s] ok wg service_ok_moves(2,3) [of "starts c s" True Waiting Working False]
      by (auto simp: services_ok_def)
  next
    case (pass s res w' e)
    then show ?thesis using ok wg service_ok_moves(5) [OF ok] by (simp add: services_ok_def)
  next
    case (collect e g' w' crash)
    then have "service_ok (starts c StatsCollector) (pr_ticker p StatsCollector) Waiting"
      using service_ok_moves(5) [OF ok] by blast
    with collect show ?thesis using ok wg by (simp add: services_ok_def)
  next
    case (range_ends s)
    then show ?thesis using ok [of s] service_ok_moves(6) by simp
  next
    case (stop_ticker s cs)
    then show ?thesis using ok wg service_ok_moves(4) [OF ok] by (simp add: services_ok_def)
  qed (use ok wg in \<open>simp_all add: services_ok_def\<close>)
qed

lemma shutdown_call:
  assumes "pr_todo p = Some (x # cs)" and "shutdown_ok c p" and "pr_todo p' = Some cs"
    and "\<And>ds. after_calls c p ds \<Longrightarrow> after_calls c p' (ds @ [x])"
  shows "shutdown_ok c p'"
proof -
  obtain ds where "Shutdown c = ds @ x # cs" "after_calls c p ds"
    using assms(1,2) by (auto simp: shutdown_ok_def)
  then have "Shutdown c = (ds @ [x]) @ cs" "after_calls c p' (ds @ [x])" using assms(4) by simp_all
  then show ?thesis unfolding shutdown_ok_def assms(3) by auto
qed

lemma shutdown_keep:
  assumes "shutdown_ok c p" and "pr_todo p' = pr_todo p" and "\<And>ds. after_calls c p ds \<Longrightarrow> after_calls c p' ds"
  shows "shutdown_ok c p'"
  using assms by (cases "pr_todo p") (auto simp: shutdown_ok_def)

lemma after_calls_ticker:
  assumes "after_calls c p ds" and "\<And>b. pr_ticker p s = Ticking b \<Longrightarrow> \<exists>b. t = Ticking b"
    and "\<And>b. pr_ticker p s = Stopped b \<Longrightarrow> \<exists>b. t = Stopped b"
  shows "after_calls c (p\<lparr>pr_ticker := (pr_ticker p)(s := t)\<rparr>) ds"
proof -
  have "\<exists>b. ((pr_ticker p)(s := t)) u = (if StopTicker u \<in> set ds then Stopped b else Ticking b)" if "starts c u" for u
  proof -
    obtain b where "pr_ticker p u = (if StopTicker u \<in> set ds then Stopped b else Ticking b)"
      using assms(1) \<open>starts c u\<close> unfolding after_calls_def by blast
    then show ?thesis using assms(2,3) by (cases "u = s"; cases "StopTicker u \<in> set ds") auto
  qed
  then show ?thesis using assms(1) by (simp add: after_calls_def)
qed

lemma after_calls_cong:
  "pr_db_open p' = pr_db_open p \<Longrightarrow> pr_broker p' = pr_broker p \<Longrightarrow> pr_ticker p' = pr_ticker p \<Longrightarrow>
   after_calls c p ds \<Longrightarrow> after_calls c p' ds"
  by (simp add: after_calls_def)

lemma after_stop:
  assumes "after_calls c p ds"
  shows "after_calls c (p\<lparr>pr_ticker := (pr_ticker p)(s := stop (pr_ticker p s)), pr_todo := q\<rparr>) (ds @ [StopTicker s])"
proof -
  have "\<exists>b. ((pr_ticker p)(s := stop (pr_ticker p s))) t =
      (if StopTicker t \<in> set (ds @ [StopTicker s]) then Stopped b else Ticking b)" if "starts c t" for t
  proof -
    obtain b where "pr_ticker p t = (if StopTicker t \<in> set ds then Stopped b else Ticking b)"
      using assms \<open>starts c t\<close> unfolding after_calls_def by blast
    then show ?thesis by (cases "t = s"; cases "StopTicker t \<in> set ds") auto
  qed
  then show ?thesis using assms by (simp add: after_calls_def)
qed

lemma shutdown_same:
  assumes "shutdown_ok c p" and "pr_todo p' = pr_todo p" and "pr_db_open p' = pr_db_open p"
    and "pr_broker p' = pr_broker p" and "pr_ticker p' = pr_ticker p"
  shows "shutdown_ok c p'"
  by (rule shutdown_keep [OF assms(1,2)]) (rule after_calls_cong [OF assms(3-5)])

lemma shutdown_step:
  assumes "process_step d c p p'" and "services_ok c p" and ok: "shutdown_ok c p"
  shows "shutdown_ok c p'"
  using assms(1)
proof (cases rule: process_step.cases)
  case (stop_ticker s cs)
  show ?thesis by (rule shutdown_call [OF stop_ticker(2) ok]) (simp_all add: stop_ticker(1) after_stop)
next
  case (await cs)
  then have "\<not> MonitorGatewayTokens c" using assms(2) by (auto simp: services_ok_def)
  then show ?thesis by (intro shutdown_call [OF await(2) ok]) (simp_all add: await(1) after_calls_def)
next
  case (disconnect cs)
  show ?thesis by (rule shutdown_call [OF disconnect(2) ok]) (simp_all add: disconnect(1) after_calls_def)
next
  case (close_db cs)
  show ?thesis by (rule shutdown_call [OF close_db(2) ok]) (simp_all add: close_db(1) after_calls_def)
next
  case (tick s b)
  show ?thesis by (rule shutdown_keep [OF ok]) (simp_all add: tick(1), rule after_calls_ticker, auto simp: tick(2))
next
  case (receive s)
  let ?t = "if pr_ticker p s = Ticking True then Ticking False else Stopped False"
  have "after_calls c (p\<lparr>pr_ticker := (pr_ticker p)(s := ?t)\<rparr>) ds" if "after_calls c p ds" for ds
    by (rule after_calls_ticker [OF that]) (use receive(2) in auto)
  then have "after_calls c p' ds" if "after_calls c p ds" for ds
    by (rule after_calls_cong [rotated 3]) (use that in \<open>simp_all add: receive(1)\<close>)
  then show ?thesis by (intro shutdown_keep [OF ok]) (simp_all add: receive(1))
next
  case shutdown
  then show ?thesis using ok by (simp add: shutdown_ok_def serving_def after_calls_def)
qed (rule shutdown_same [OF ok], (simp; fail)+)+

lemma process_steps_ok:
  assumes "launch connected w = Some p0" and "(process_step d (w_cfg w))\<^sup>*\<^sup>* p0 p"
  shows "services_ok (w_cfg w) p" "shutdown_ok (w_cfg w) p"
proof -
  have "services_ok (w_cfg w) p \<and> shutdown_ok (w_cfg w) p"
    using assms(2) launched [OF assms(1)]
    by (induction rule: rtranclp_induct) (auto intro: services_step shutdown_step)
  then show "services_ok (w_cfg w) p" "shutdown_ok (w_cfg w) p" by simp_all
qed

text \<open>
  C24. Where the tokens of the gateways are monitored, \<^verbatim>\<open>Shutdown\<close> never gets past the token manager:
  whatever happens, \<^verbatim>\<open>Close\<close> waits for a goroutine whose channel nobody closes, so the other services
  keep ticking, the broker stays connected and the database is never closed.
\<close>

theorem shutdown_hangs:
  assumes "MonitorGatewayTokens (w_cfg w)" and "launch connected w = Some p0"
    and "(process_step d (w_cfg w))\<^sup>*\<^sup>* p0 p"
  shows "pr_db_open p \<and> (pr_broker p \<longleftrightarrow> mqtt_starts (w_cfg w)) \<and>
    pr_goroutine p TokenMonitor \<in> {Waiting, Working} \<and>
    (\<forall>s. s \<noteq> TokenMonitor \<longrightarrow> starts (w_cfg w) s \<longrightarrow> (\<exists>b. pr_ticker p s = Ticking b))"
proof -
  note ok = process_steps_ok [OF assms(2,3)]
  have "service_ok True (pr_ticker p TokenMonitor) (pr_goroutine p TokenMonitor)"
    using ok(1) assms(1) starts.simps(3) [of "w_cfg w"] unfolding services_ok_def by metis
  then have g: "pr_goroutine p TokenMonitor \<in> {Waiting, Working}"
    by (cases "pr_goroutine p TokenMonitor") (auto simp: service_ok_def)
  show ?thesis
  proof (cases "pr_todo p")
    case None
    with ok(2) g show ?thesis by (simp add: shutdown_ok_def after_calls_def)
  next
    case (Some cs)
    with ok(2) assms(1) obtain ds where ds: "Shutdown (w_cfg w) = ds @ cs" "AwaitMonitor \<notin> set ds"
      "pr_db_open p \<longleftrightarrow> CloseDb \<notin> set ds" "pr_broker p \<longleftrightarrow> mqtt_starts (w_cfg w) \<and> DisconnectBroker \<notin> set ds"
      "\<And>s. starts (w_cfg w) s \<Longrightarrow> \<exists>b. pr_ticker p s = (if StopTicker s \<in> set ds then Stopped b else Ticking b)"
      by (auto simp: shutdown_ok_def after_calls_def)
    obtain rest where "Shutdown (w_cfg w) = StopTicker TokenMonitor # AwaitMonitor # rest"
      using assms(1) by (simp add: Shutdown_def)
    with ds(1,2) have "ds = [] \<or> ds = [StopTicker TokenMonitor]"
      by (cases ds; cases "tl ds") (auto simp: append_eq_Cons_conv Cons_eq_append_conv)
    with ds g show ?thesis by fastforce
  qed
qed

text \<open>What is left to do once nothing ticks any more: a waiting tick is two steps, a pass is one.\<close>

definition left :: "process \<Rightarrow> service \<Rightarrow> nat" where
  "left p s = (if pr_ticker p s = Stopped True then 2 else 0) + (if pr_goroutine p s = Working then 1 else 0)"

definition services :: "service list" where
  "services = [CacheReloader, SessionCleaner, TokenMonitor, StatsCollector]"

definition left_over :: "process \<Rightarrow> nat" where
  "left_over p = sum_list (map (left p) services)"

definition quiet :: "process \<Rightarrow> bool" where
  "quiet p \<longleftrightarrow> pr_todo p = Some [] \<and> \<not> pr_broker p \<and>
     (\<forall>s. pr_ticker p s = NoTicker \<or> (\<exists>b. pr_ticker p s = Stopped b))"

lemma services_UNIV: "s \<in> set services"
  by (cases s) (simp_all add: services_def)

lemma left_over_less:
  assumes "left p' s < left p s" and "\<And>t. t \<noteq> s \<Longrightarrow> left p' t = left p t"
  shows "left_over p' < left_over p"
proof -
  have "\<forall>t. left p' t \<le> left p t" using assms by (metis le_eq_less_or_eq)
  then show ?thesis
    using assms by (cases s) (auto simp: left_over_def services_def add_less_le_mono add_le_less_mono add_mono)
qed

lemma quiet_ticker: "quiet p \<Longrightarrow> pr_ticker p s = NoTicker \<or> (\<exists>b. pr_ticker p s = Stopped b)"
  by (simp add: quiet_def)

lemma quiet_step: "process_step d c p p' \<Longrightarrow> quiet p \<Longrightarrow> quiet p' \<and> left_over p' < left_over p"
proof (induction rule: process_step.induct)
  case (receive p s)
  have st: "pr_ticker p s = Stopped True" using quiet_ticker [OF receive(4), of s] receive(1) by auto
  show ?case
    using receive st by (auto simp: quiet_def left_def intro!: left_over_less [of _ s])
next
  case (pass p s e res w')
  then show ?case by (auto simp: quiet_def left_def intro!: left_over_less [of _ s])
next
  case (collect p e g' w' crash)
  then show ?case by (auto simp: quiet_def left_def intro!: left_over_less [of _ StatsCollector])
next
  case (tick p s b)
  then show ?case using quiet_ticker [of p s] by auto
next
  case (range_ends p s)
  then show ?case using quiet_ticker [of p s] by auto
qed (auto simp: quiet_def serving_def)

lemma quiet_steps: "(process_step d c ^^ n) p p' \<Longrightarrow> quiet p \<Longrightarrow> quiet p' \<and> n + left_over p' \<le> left_over p"
proof (induction n arbitrary: p')
  case (Suc n)
  then obtain q where "(process_step d c ^^ n) p q" "process_step d c q p'" by auto
  with Suc.IH [of q] Suc.prems(2) quiet_step [of d c q p'] show ?case by simp
qed simp

lemma shutdown_over:
  assumes "shutdown_ok c p" and "services_ok c p" and "pr_todo p = Some []"
  shows "quiet p \<and> \<not> pr_db_open p"
proof -
  have ds: "after_calls c p (Shutdown c)" using assms(1,3) by (simp add: shutdown_ok_def)
  have "StopTicker s \<in> set (Shutdown c)" if "starts c s" for s
    using that by (cases s) (simp_all add: Shutdown_def)
  then have "\<exists>b. pr_ticker p s = Stopped b" if "starts c s" for s
    using ds that unfolding after_calls_def by metis
  moreover have "pr_ticker p s = NoTicker" if "\<not> starts c s" for s
    using assms(2) that unfolding services_ok_def service_ok_def by metis
  moreover have "\<not> pr_db_open p" "\<not> pr_broker p" using ds by (auto simp: after_calls_def Shutdown_def)
  ultimately show ?thesis using assms(3) unfolding quiet_def by metis
qed

lemma shutdown_call_possible:
  assumes "pr_todo p = Some (x # cs)" and "\<not> pr_crashed p" and "pr_wg p = 0"
  shows "\<exists>p'. process_step d c p p' \<and> pr_todo p' = Some cs"
proof (cases x)
  case (StopTicker s)
  then show ?thesis using process_step.stop_ticker [of p s cs d c] assms by auto
next
  case AwaitMonitor
  then show ?thesis using process_step.await [of p cs d c] assms by auto
next
  case DisconnectBroker
  then show ?thesis using process_step.disconnect [of p cs d c] assms by auto
next
  case CloseDb
  then show ?thesis using process_step.close_db [of p cs d c] assms by auto
qed


section \<open>A pass that ends the process\<close>

lemma GenerateUID_fixed:
  "e_rand (w_env w) = [] \<Longrightarrow> GenerateUID n w = (Ok (replicate n (uidBytes ! 0)), w)"
  by (induction n) (simp_all add: pickP_def randP_def bindP_def)

lemma createToken_null:
  assumes "registry_For g v = (Ok api, v)" and "e_admin (w_env v) = [ARok]" and "e_nonce (w_env v) = [[]]"
    and "key_ok (Secret (w_cfg v))"
  shows "\<exists>t v'. createToken g tok v = (Ok t, v')"
  using assms
  by (simp add: createToken_def nowP_def cfgP_def callP_def next_resp_def Encrypt_def nonceP_def Let_def
      wrapP_def bindP_def getsP_def returnP_def)

lemma syncSupported_null:
  assumes "registry_For g v = (Ok api, v)" and "e_admin (w_env v) = [ARok]" and "e_nonce (w_env v) = [[]]"
    and "e_rand (w_env v) = []" and "key_ok (Secret (w_cfg v))"
  shows "\<exists>x v'. syncSupported a g None [] [] v = (Panic x, v')"
proof -
  obtain t v' where "createToken g (replicate 16 (uidBytes ! 0)) v = (Ok t, v')"
    using createToken_null [OF assms(1-3,5)] by blast
  then show ?thesis
    using GenerateUID_fixed [OF assms(4), of 16]
    by (simp add: syncSupported_def nowP_def cfgP_def resP_def sync_init_def saveTokens_def Let_def
        bindP_def wrapP_def getsP_def returnP_def panicP_def)
qed

lemma SyncAll_null_panics:
  assumes "gateways_active (w_db w) = g # gs" and "gw_properties g = Some JNull"
    and "map_of (w_registry w) (gw_id g) = Some api" and "key_ok (Secret (w_cfg w))"
  shows "\<exists>e x w'. SyncAll os a False (w\<lparr>w_env := e\<rparr>) = (Panic x, w')"
proof -
  let ?e = "\<lparr>e_now = 0, e_faults = [], e_evict = [], e_admin = [ARtokens [], ARok], e_rand = [], e_nonce = [[]]\<rparr>"
  let ?w = "w\<lparr>w_env := ?e\<rparr>"
  let ?v = "?w\<lparr>w_env := ?e\<lparr>e_admin := [ARok]\<rparr>, w_calls := w_calls w @ [(api, ListTokens, ARtokens [])]\<rparr>"
  have reg: "registry_For g u = (Ok api, u)" if "w_registry u = w_registry w" for u
    using assms(3) that by (intro registry_For_registered) simp
  have list: "listTokens g ?w = (Ok (ARtokens []), ?v)"
    using reg [of ?w] by (simp add: listTokens_def callP_def next_resp_def wrapP_def bindP_def)
  have "\<exists>x v'. syncSupported a g None [] [] ?v = (Panic x, v')"
    by (rule syncSupported_null) (simp_all add: reg assms(4))
  then obtain x v' where "syncSupported a g None [] [] ?v = (Panic x, v')" by blast
  then have "syncGatewayTokens a g ?w = (Panic x, v')"
    using assms(2) list by (simp add: syncGatewayTokens_def decode_props_def props_get_def tryP_def)
  moreover have "queryP gateways_active ?w = (Ok (g # gs), ?w)"
    using assms(1) by (simp add: healthy_def)
  ultimately have "SyncAll os a False ?w = (Panic x, v')"
    by (simp add: SyncAll_def tryP_def bindP_def)
  then show ?thesis by blast
qed

text \<open>
  C26. One row can end the server: while the tokens are monitored and nobody shuts the process down, a
  first active gateway whose properties hold the JSON value \<^verbatim>\<open>null\<close> lets the next synchronisation
  panic in a goroutine that does not recover.
\<close>

theorem null_gateway_ends_process:
  assumes "MonitorGatewayTokens (w_cfg w)" and "launch connected w = Some p0"
    and "(process_step d (w_cfg w))\<^sup>*\<^sup>* p0 p" and "\<not> pr_crashed p" and "pr_todo p = None"
    and "gateways_active (w_db (pr_world p)) = g # gs" and "gw_properties g = Some JNull"
    and "map_of (w_registry (pr_world p)) (gw_id g) = Some api" and "key_ok (Secret (w_cfg (pr_world p)))"
  shows "\<exists>p'. (process_step d (w_cfg w))\<^sup>*\<^sup>* p p' \<and> pr_crashed p'"
proof -
  let ?S = "process_step d (w_cfg w)"
  note ok = process_steps_ok [OF assms(2,3)]
  obtain e x w' where "SyncAll observers_of tokens_max_age False ((pr_world p)\<lparr>w_env := e\<rparr>) = (Panic x, w')"
    using SyncAll_null_panics [OF assms(6-9)] by blast
  then have pass: "pass_of TokenMonitor (pr_ticks q) (at e q) = (Panic x, w')" if "pr_world q = pr_world p" for q
    using that by (simp add: pass_of_def at_def)
  have crash: "\<exists>p'. ?S q p' \<and> pr_crashed p'"
    if "pr_world q = pr_world p" "\<not> pr_crashed q" "pr_goroutine q TokenMonitor = Working" for q
    using process_step.pass [OF that(3) _ that(2) pass [OF that(1)], of d "w_cfg w"] by (auto simp: is_panic_def)
  have "service_ok True (pr_ticker p TokenMonitor) (pr_goroutine p TokenMonitor)"
    using ok(1) assms(1) starts.simps(3) [of "w_cfg w"] unfolding services_ok_def by metis
  then have g: "pr_goroutine p TokenMonitor \<in> {Waiting, Working}"
    by (cases "pr_goroutine p TokenMonitor") (auto simp: service_ok_def)
  obtain b where t: "pr_ticker p TokenMonitor = Ticking b"
    using ok(2) assms(1,5) by (auto simp: shutdown_ok_def after_calls_def dest: spec [of _ TokenMonitor])
  show ?thesis
  proof (cases "pr_goroutine p TokenMonitor = Working")
    case True
    then show ?thesis using crash [OF refl assms(4)] by blast
  next
    case False
    let ?q = "p\<lparr>pr_ticker := (pr_ticker p)(TokenMonitor := Ticking True)\<rparr>"
    let ?r = "?q\<lparr>pr_ticker := (pr_ticker ?q)(TokenMonitor := Ticking False),
      pr_goroutine := (pr_goroutine ?q)(TokenMonitor := Working)\<rparr>"
    have "?S p ?q" by (rule process_step.tick [OF t assms(4)])
    moreover have "?S ?q ?r"
      using process_step.receive [of ?q TokenMonitor d "w_cfg w"] g False assms(4) by simp
    moreover obtain p' where "?S ?r p'" "pr_crashed p'" using crash [of ?r] assms(4) by auto
    ultimately show ?thesis by (meson converse_rtranclp_into_rtranclp r_into_rtranclp)
  qed
qed

section \<open>The invariant of the tables over the whole life\<close>

lemma schema_gatewaySessions: "within schema_rel (gatewaySessions g)"
  unfolding gatewaySessions_def by (auto intro!: within_rules split: sum.split admin_resp.split)

lemma schema_collectRoomParticipants: "within schema_rel (collectRoomParticipants g)"
  unfolding collectRoomParticipants_def by (auto intro!: within_rules split: sum.split)

lemma schema_collectGatewaySessions:
  assumes "collectGatewaySessions g w = (Ok x, w')"
  shows "schema_rel w w'" "x = Some (gs, c0) \<Longrightarrow> cl_world c0 = w'"
proof -
  obtain r w1 where q: "queryP gateways_active w = (r, w1)" by fastforce
  have "schema_rel w w1" using schema_queryP q by (rule withinD')
  with q assms show "schema_rel w w'" "x = Some (gs, c0) \<Longrightarrow> cl_world c0 = w'"
    by (auto simp: collectGatewaySessions_def collect_start_def split: res.splits)
qed

lemma schema_collect_step: "collect_step gs c c' \<Longrightarrow> schema_rel (cl_world c) (cl_world c')"
proof (induction rule: collect_step.induct)
  case (answer c k n e w')
  then show ?case using withinD' [OF schema_gatewaySessions] by simp
next
  case (panic c k p w')
  then show ?case using withinD' [OF schema_gatewaySessions] by simp
qed (simp_all add: schema.R_refl)

lemma schema_collect_steps: "(collect_step gs)\<^sup>*\<^sup>* c c' \<Longrightarrow> schema_rel (cl_world c) (cl_world c')"
  by (induction rule: rtranclp_induct) (auto intro: schema.R_refl schema.R_trans schema_collect_step)

lemma schema_stats_pass: "stats_pass g w g' w' b \<Longrightarrow> schema_rel w w'"
proof (induction rule: stats_pass.induct)
  case (no_gateways g w g1 w1 w2)
  then show ?case
    using schema.R_trans [OF withinD' [OF schema_collectRoomParticipants] schema_collectGatewaySessions(1)] by blast
next
  case (over g w g1 w1 gs c0 w2 c)
  have "schema_rel w w1" using schema_collectRoomParticipants over(1) by (rule withinD')
  moreover have "schema_rel w1 (cl_world c0)" using schema_collectGatewaySessions [OF over(2)] by simp
  moreover have "schema_rel (cl_world c0) (cl_world c)" by (rule schema_collect_steps [OF over(3)])
  ultimately show ?case by (blast intro: schema.R_trans)
qed

lemma schema_pass_of: "within schema_rel (pass_of s n)"
  unfolding pass_of_def
  by (cases s) (auto intro!: within_rules schema_tick schema_clean schema_SyncAll)

lemma schema_rel_env: "schema_rel (at e p) w' \<longleftrightarrow> schema_rel (pr_world p) w'"
  by (simp add: schema_rel_def at_def)

lemma process_step_schema: "process_step d c p p' \<Longrightarrow> schema_rel (pr_world p) (pr_world p')"
proof (induction rule: process_step.induct)
  case (request p r e)
  have "schema_rel (at e p) (handle_event d (HttpRequest r) (at e p))"
    using handle_event_schema [of "at e p"] by (simp add: schema_rel_def)
  then show ?case by (simp add: schema_rel_env)
next
  case (message p m e res w')
  then show ?case using withinD' [OF schema_mqtt message(3)] by (simp add: schema_rel_env)
next
  case (pass p s e res w')
  then show ?case using withinD' [OF schema_pass_of pass(4)] by (simp add: schema_rel_env)
next
  case (collect p e g' w' crash)
  then show ?case using schema_stats_pass [OF collect(3)] by (simp add: schema_rel_env)
qed (simp_all add: schema.R_refl)

lemma launch_schema:
  assumes "launch connected w = Some p0"
  shows "schema_rel w (pr_world p0)"
proof -
  have "within schema_rel InitializeWithDeps"
    unfolding InitializeWithDeps_def AppCache_Init_def AppCache_ReloadAll_def by (intro within_rules)
  then have "schema_rel w (snd (InitializeWithDeps w))" by (rule withinD)
  then show ?thesis
    using assms by (auto simp: launch_def Let_def split: prod.splits res.splits if_splits)
qed


section \<open>Runs for the witnesses\<close>

definition life_world :: "bool \<Rightarrow> json option \<Rightarrow> world" where
  "life_world monitored props = sample_world\<lparr>
     w_cfg := sample_cfg\<lparr>MonitorGatewayTokens := monitored, CollectPeriodicStats := False, MQTTBrokerUrl := []\<rparr>,
     w_db := sample_db\<lparr>gateways := [sample_gateway\<lparr>gw_properties := props\<rparr>]\<rparr>\<rparr>"

definition life_start :: "bool \<Rightarrow> json option \<Rightarrow> process" where
  "life_start m props = the (launch True (life_world m props))"

lemma life_cfg: "w_cfg (life_world m props) =
    sample_cfg\<lparr>MonitorGatewayTokens := m, CollectPeriodicStats := False, MQTTBrokerUrl := []\<rparr>"
  by (simp add: life_world_def)

lemma life_launch:
  "launch True (life_world True None) = Some (life_start True None)"
  "launch True (life_world True (Some JNull)) = Some (life_start True (Some JNull))"
  "launch True (life_world False None) = Some (life_start False None)"
proof -
  have init: "launch True (life_world m props) = Some (life_start m props)"
    if "fst (InitializeWithDeps (life_world m props)) = Ok ()" for m props
  proof -
    have "InitializeWithDeps (life_world m props) = (Ok (), snd (InitializeWithDeps (life_world m props)))"
      by (rule fst_run) (rule that)
    then obtain w' where "InitializeWithDeps (life_world m props) = (Ok (), w')" by blast
    then show ?thesis by (simp add: life_start_def launch_def Let_def mqtt_starts_def life_cfg)
  qed
  show "launch True (life_world True None) = Some (life_start True None)"
    by (rule init) code_simp
  show "launch True (life_world True (Some JNull)) = Some (life_start True (Some JNull))"
    by (rule init) code_simp
  show "launch True (life_world False None) = Some (life_start False None)"
    by (rule init) code_simp
qed

lemma life_fields:
  assumes "launch connected w = Some p"
  shows "pr_todo p = None" "\<not> pr_crashed p" "pr_world p = snd (InitializeWithDeps w)"
  using assms by (auto simp: launch_def Let_def split: prod.splits res.splits if_splits)

definition closing :: "process \<Rightarrow> process" where
  "closing p = p\<lparr>pr_ticker := (pr_ticker p)(TokenMonitor := stop (pr_ticker p TokenMonitor)),
     pr_todo := Some [AwaitMonitor, StopTicker SessionCleaner, StopTicker CacheReloader, CloseDb]\<rparr>"

lemma closing_run: "(process_step d (w_cfg (life_world True None)))\<^sup>*\<^sup>* (life_start True None) (closing (life_start True None))"
proof -
  let ?p = "life_start True None" and ?c = "w_cfg (life_world True None)"
  let ?q = "?p\<lparr>pr_todo := Some (Shutdown ?c)\<rparr>"
  note f = life_fields [OF life_launch(1)]
  have sd: "Shutdown ?c = [StopTicker TokenMonitor, AwaitMonitor, StopTicker SessionCleaner, StopTicker CacheReloader, CloseDb]"
    by (simp add: Shutdown_def mqtt_starts_def life_cfg)
  have "process_step d ?c ?p ?q" using f by (intro process_step.shutdown) (simp add: serving_def)
  moreover have "process_step d ?c ?q (closing ?p)"
    using process_step.stop_ticker [of ?q TokenMonitor _ d ?c] f sd by (simp add: closing_def)
  ultimately show ?thesis by (meson converse_rtranclp_into_rtranclp r_into_rtranclp)
qed

theorem shutdown_hangs_witness:
  "\<exists>p. (process_step (sample_deps 0 []) (w_cfg (life_world True None)))\<^sup>*\<^sup>* (life_start True None) p \<and>
    pr_todo p = Some [AwaitMonitor, StopTicker SessionCleaner, StopTicker CacheReloader, CloseDb] \<and> pr_db_open p"
proof -
  have "pr_db_open (closing (life_start True None))"
    using shutdown_hangs [OF _ life_launch(1) closing_run [of "sample_deps 0 []"]] by (simp add: life_cfg)
  moreover have "pr_todo (closing (life_start True None)) =
      Some [AwaitMonitor, StopTicker SessionCleaner, StopTicker CacheReloader, CloseDb]"
    by (simp add: closing_def)
  ultimately show ?thesis using closing_run by blast
qed

definition closed_down :: "process \<Rightarrow> process" where
  "closed_down p = p\<lparr>pr_ticker := (pr_ticker p)(SessionCleaner := stop (pr_ticker p SessionCleaner),
      CacheReloader := stop (pr_ticker p CacheReloader)), pr_db_open := False, pr_todo := Some []\<rparr>"

lemma closed_down_run:
  "(process_step d (w_cfg (life_world False None)))\<^sup>*\<^sup>* (life_start False None) (closed_down (life_start False None))"
proof -
  let ?p = "life_start False None" and ?c = "w_cfg (life_world False None)"
  let ?q = "?p\<lparr>pr_todo := Some (Shutdown ?c)\<rparr>"
  let ?r = "?p\<lparr>pr_ticker := (pr_ticker ?p)(SessionCleaner := stop (pr_ticker ?p SessionCleaner)),
      pr_todo := Some [StopTicker CacheReloader, CloseDb]\<rparr>"
  let ?s = "?p\<lparr>pr_ticker := (pr_ticker ?p)(SessionCleaner := stop (pr_ticker ?p SessionCleaner),
      CacheReloader := stop (pr_ticker ?p CacheReloader)), pr_todo := Some [CloseDb]\<rparr>"
  note f = life_fields [OF life_launch(3)]
  have sd: "Shutdown ?c = [StopTicker SessionCleaner, StopTicker CacheReloader, CloseDb]"
    by (simp add: Shutdown_def mqtt_starts_def life_cfg)
  have "process_step d ?c ?p ?q" using f by (intro process_step.shutdown) (simp add: serving_def)
  moreover have "process_step d ?c ?q ?r"
    using process_step.stop_ticker [of ?q SessionCleaner _ d ?c] f sd by simp
  moreover have "process_step d ?c ?r ?s"
    using process_step.stop_ticker [of ?r CacheReloader _ d ?c] f by simp
  moreover have "process_step d ?c ?s (closed_down ?p)"
    using process_step.close_db [of ?s _ d ?c] f by (simp add: closed_down_def)
  ultimately show ?thesis by (meson converse_rtranclp_into_rtranclp r_into_rtranclp)
qed


theorem null_gateway_ends_process_witness:
  "\<exists>p'. (process_step (sample_deps 0 []) (w_cfg (life_world True (Some JNull))))\<^sup>*\<^sup>*
    (life_start True (Some JNull)) p' \<and> pr_crashed p'"
proof (rule null_gateway_ends_process [OF _ life_launch(2)])
  note f = life_fields [OF life_launch(2)]
  let ?w = "snd (InitializeWithDeps (life_world True (Some JNull)))"
  show "\<not> pr_crashed (life_start True (Some JNull))" "pr_todo (life_start True (Some JNull)) = None"
    using f by simp_all
  have "gateways_active (w_db ?w) = [sample_gateway\<lparr>gw_properties := Some JNull\<rparr>]" by code_simp
  then show "gateways_active (w_db (pr_world (life_start True (Some JNull)))) = sample_gateway\<lparr>gw_properties := Some JNull\<rparr> # []"
    using f by simp
  have "map_of (w_registry ?w) 1 = Some (''a'', ''pwd'')" by code_simp
  then show "map_of (w_registry (pr_world (life_start True (Some JNull)))) (gw_id (sample_gateway\<lparr>gw_properties := Some JNull\<rparr>)) =
      Some (''a'', ''pwd'')"
    using f by (simp add: sample_gateway_def)
  have "key_ok (Secret (w_cfg ?w))" by code_simp
  then show "key_ok (Secret (w_cfg (pr_world (life_start True (Some JNull)))))" using f by simp
qed (simp_all add: life_cfg)


end
