(* ===== verification/Presence.thy ===== *)
theory Presence
  imports Session_Phantom
begin

text \<open>
  Who is where: the abstract state of the session manager is, for every account, the set of places
  (room, gateway, session on the gateway) in which it has an open session.  Every message either
  fails and changes nothing of it, or acts on it as a small specification says; the rows, the user
  table and the user cache, which a rollback leaves behind the tables, are details below it.
\<close>

section \<open>The abstract state\<close>

type_synonym place = "int option \<times> int option \<times> int option"

definition place_of :: "session \<Rightarrow> place" where
  "place_of s = (ss_room_id s, ss_gateway_id s, ss_gateway_session s)"

definition stored :: "db \<Rightarrow> string \<Rightarrow> int \<Rightarrow> bool" where
  "stored d a i \<longleftrightarrow> (\<exists>r \<in> set (users d). us_id r = i \<and> us_accounts_id r = a)"

definition presence :: "db \<Rightarrow> string \<Rightarrow> place set" where
  "presence d a = place_of ` {s \<in> set (sessions d). ss_removed_at s = None \<and> stored d a (ss_user_id s)}"

definition places :: "db \<Rightarrow> int \<Rightarrow> place set" where
  "places d i = place_of ` {s \<in> set (sessions d). open_of i s}"

lemma stored_unique:
  assumes "schema_ok d"
  shows "stored d a i \<Longrightarrow> stored d a j \<Longrightarrow> i = j" "stored d a i \<Longrightarrow> stored d b i \<Longrightarrow> a = b"
proof -
  have u: "distinct (map us_id (users d))" "distinct (map us_accounts_id (users d))"
    using assms by (simp_all add: schema_ok_def users_ok_def)
  show "stored d a i \<Longrightarrow> stored d a j \<Longrightarrow> i = j"
    using distinct_key_eq [OF u(2)] unfolding stored_def by blast
  show "stored d a i \<Longrightarrow> stored d b i \<Longrightarrow> a = b"
    using distinct_key_eq [OF u(1)] unfolding stored_def by blast
qed

lemma presence_places:
  assumes "schema_ok d" "stored d a i"
  shows "presence d a = places d i"
  using stored_unique [OF assms(1)] assms(2) unfolding presence_def places_def open_of_def by blast

lemma presence_unknown: "(\<And>i. \<not> stored d a i) \<Longrightarrow> presence d a = {}"
  by (simp add: presence_def)

section \<open>The user cache and the user table\<close>

text \<open>
  Every entry of the cache stands for the row of its account, or for a user whose insertion was
  rolled back: then no row has the account or the id, and the sequence is past the id.
\<close>

definition cache_inv :: "db \<Rightarrow> app_cache \<Rightarrow> bool" where
  "cache_inv d c \<longleftrightarrow> (\<forall>a u. UserCache_ByAccountsID c a = Some u \<longrightarrow>
     0 < us_id u \<and> us_id u < seq_user d \<and>
     (stored d a (us_id u) \<or> (\<forall>i. \<not> stored d a i) \<and> (\<forall>b. \<not> stored d b (us_id u))))"

definition manager_inv :: "world \<Rightarrow> bool" where
  "manager_inv w \<longleftrightarrow> schema_ok (w_db w) \<and> cache_inv (w_db w) (w_cache w)"

text \<open>At most one user is added, under a fresh id and an account that had no row.\<close>

definition users_grow :: "db \<Rightarrow> db \<Rightarrow> bool" where
  "users_grow d d' \<longleftrightarrow> seq_user d \<le> seq_user d' \<and> (users d' = users d \<or>
     (\<exists>n. users d' = users d @ [n] \<and> us_id n = seq_user d \<and> (\<forall>i. \<not> stored d (us_accounts_id n) i)))"

definition same_users :: "world \<Rightarrow> world \<Rightarrow> bool" where
  "same_users w w' \<longleftrightarrow> users (w_db w') = users (w_db w) \<and> seq_user (w_db w') = seq_user (w_db w) \<and>
     c_users (w_cache w') = c_users (w_cache w)"

interpretation same_users: step_rel same_users
  by unfold_locales (auto simp: same_users_def)

lemma stored_cong: "users d' = users d \<Longrightarrow> stored d' = stored d"
  by (simp add: stored_def fun_eq_iff)

lemma cache_inv_mono:
  "cache_inv d c \<Longrightarrow> users d' = users d \<Longrightarrow> seq_user d \<le> seq_user d' \<Longrightarrow> c_users c' = c_users c \<Longrightarrow> cache_inv d' c'"
  by (fastforce simp: cache_inv_def UserCache_ByAccountsID_def stored_def)

lemma cache_inv_put:
  assumes "cache_inv d c" "stored d (us_accounts_id y) (us_id y)" "0 < us_id y" "us_id y < seq_user d"
  shows "cache_inv d (arc_add ev y c)"
  unfolding cache_inv_def
proof (intro allI impI)
  fix a u assume "UserCache_ByAccountsID (arc_add ev y c) a = Some u"
  then have "(a = us_accounts_id y \<and> u = y) \<or> UserCache_ByAccountsID c a = Some u"
    by (rule user_cache.look_put_SomeD)
  with assms show "0 < us_id u \<and> us_id u < seq_user d \<and>
     (stored d a (us_id u) \<or> (\<forall>i. \<not> stored d a i) \<and> (\<forall>b. \<not> stored d b (us_id u)))"
    unfolding cache_inv_def by blast
qed

lemma stored_seq: "schema_ok d \<Longrightarrow> stored d a i \<Longrightarrow> 0 < i \<and> i < seq_user d"
  by (auto simp: stored_def schema_ok_def users_ok_def)

text \<open>Inserting a user of an account that neither the cache nor the table knows.\<close>

lemma user_insert_grows:
  assumes ok: "schema_ok d" and inv: "cache_inv d c" and miss: "UserCache_ByAccountsID c (us_accounts_id u) = None"
    and ins: "user_insert now u d = (r, d')" and new: "us_id u = 0"
  shows "users_grow d d' \<and> cache_inv d' c \<and> sessions d' = sessions d \<and>
    (\<forall>x. r = Inr x \<longrightarrow> stored d' (us_accounts_id x) (us_id x) \<and> us_id x = seq_user d \<and> 0 < us_id x \<and>
      us_id x < seq_user d')"
proof (cases r)
  case (Inl e)
  then have "users d' = users d" "seq_user d \<le> seq_user d'" "sessions d' = sessions d"
    using ins by (auto simp: user_insert_def Let_def split: if_splits)
  with inv Inl show ?thesis by (auto simp: users_grow_def intro: cache_inv_mono)
next
  case (Inr x)
  then have x: "us_id x = seq_user d" "us_accounts_id x = us_accounts_id u"
    and d': "users d' = users d @ [x]" "seq_user d' = seq_user d + 1" "sessions d' = sessions d"
    and free: "\<forall>r \<in> set (users d). us_accounts_id r \<noteq> us_accounts_id x"
    using ins new by (auto simp: user_insert_def Let_def user_row_def list_ex_iff split: if_splits)
  have pos: "0 < seq_user d" using ok by (simp add: schema_ok_def users_ok_def)
  have st: "stored d' a i \<longleftrightarrow> stored d a i \<or> (a = us_accounts_id x \<and> i = us_id x)" for a i
    by (auto simp: stored_def d')
  have "cache_inv d' c"
    unfolding cache_inv_def
  proof (intro allI impI)
    fix a v assume hit: "UserCache_ByAccountsID c a = Some v"
    then have "0 < us_id v" "us_id v < seq_user d"
      "stored d a (us_id v) \<or> (\<forall>i. \<not> stored d a i) \<and> (\<forall>b. \<not> stored d b (us_id v))"
      using inv by (simp_all add: cache_inv_def)
    moreover have "a \<noteq> us_accounts_id x" using hit miss x by auto
    ultimately show "0 < us_id v \<and> us_id v < seq_user d' \<and>
      (stored d' a (us_id v) \<or> (\<forall>i. \<not> stored d' a i) \<and> (\<forall>b. \<not> stored d' b (us_id v)))"
      using x by (auto simp: st d')
  qed
  moreover have "users_grow d d'" using d' x free by (auto simp: users_grow_def stored_def)
  ultimately show ?thesis using Inr x d' pos by (auto simp: st)
qed

lemma users_grow_refl [simp]: "users_grow d d"
  by (simp add: users_grow_def)

lemma UserCache_Set_apply: "\<exists>ev e. UserCache_Set y w = (Ok (), w\<lparr>w_cache := arc_add ev y (w_cache w), w_env := e\<rparr>)"
  by (auto simp: UserCache_Set_def)

text \<open>What the lookup of a user leaves behind, on every branch.\<close>

definition looked_up :: "world \<Rightarrow> world \<Rightarrow> bool" where
  "looked_up w w' \<longleftrightarrow> cache_inv (w_db w') (w_cache w') \<and> users_grow (w_db w) (w_db w') \<and>
     sessions (w_db w') = sessions (w_db w)"

lemma cached_row:
  assumes "looked_up w w1" "stored (w_db w1) (us_accounts_id y) (us_id y)" "0 < us_id y"
    "us_id y < seq_user (w_db w1)" "UserCache_Set y w1 = (Ok x, w2)"
  shows "looked_up w w2" "w_db w2 = w_db w1"
proof -
  obtain ev e where "w2 = w1\<lparr>w_cache := arc_add ev y (w_cache w1), w_env := e\<rparr>"
    using UserCache_Set_apply [of y w1] assms(5) by auto
  then show "looked_up w w2" "w_db w2 = w_db w1"
    using assms(1) cache_inv_put [OF _ assms(2-4)] by (simp_all add: looked_up_def)
qed

lemma find_row: "user_by_accounts_id a d = Some y \<Longrightarrow> stored d a (us_id y) \<and> us_accounts_id y = a"
  using find_Some_in by (fastforce simp: user_by_accounts_id_def stored_def)

lemma lookup_row:
  assumes inv: "manager_inv w" and miss: "UserCache_ByAccountsID (w_cache w) (vu_id u) = None"
    and one: "oneP (user_by_accounts_id (vu_id u)) w = (Ok y, w1)" and run: "getInternalUserID u w = (r, w')"
  shows "looked_up w w' \<and> (\<forall>uid e. r = Ok (uid, Some e) \<longrightarrow> stored (w_db w') (vu_id u) uid)"
proof -
  have y: "stored (w_db w) (vu_id u) (us_id y)" "us_accounts_id y = vu_id u" and w1: "w1 = drop_fault w"
    using one find_row by (auto simp: oneP_apply split: option.splits)
  have L: "looked_up w w1" using inv by (simp add: looked_up_def manager_inv_def w1)
  have ids: "0 < us_id y" "us_id y < seq_user (w_db w1)"
    using stored_seq y(1) inv by (auto simp: manager_inv_def w1)
  show ?thesis
  proof (cases "us_disabled y")
    case True
    then have "r = Ok (us_id y, Some (NewProtocolError (''Disabled user: '' @ vu_id u)))" "w' = w1"
      using run miss one by (simp_all add: getInternalUserID_def cacheP_def tryP_def)
    with L y show ?thesis by (simp add: w1)
  next
    case False
    obtain ev e where set: "UserCache_Set y w1 = (Ok (), w1\<lparr>w_cache := arc_add ev y (w_cache w1), w_env := e\<rparr>)"
      using UserCache_Set_apply by blast
    then have "r = Ok (us_id y, None)" and w': "UserCache_Set y w1 = (Ok (), w')"
      using run miss one False by (simp_all add: getInternalUserID_def cacheP_def tryP_def bindP_def)
    then show ?thesis using cached_row [OF L _ ids w'] y by (simp add: w1)
  qed
qed

lemma lookup_new:
  assumes inv: "manager_inv w" and miss: "UserCache_ByAccountsID (w_cache w) (vu_id u) = None"
    and one: "oneP (user_by_accounts_id (vu_id u)) w = (Err e, w1)" and run: "getInternalUserID u w = (r, w')"
  shows "looked_up w w' \<and> (\<forall>uid e. r = Ok (uid, Some e) \<longrightarrow> \<not> as_protocol e)"
proof -
  have w1: "w1 = drop_fault w" using one by (auto simp: oneP_apply split: option.splits)
  have e: "e = ENoRows \<or> (\<exists>m. e = EDb m)" using one by (auto simp: oneP_apply split: option.splits)
  have L: "looked_up w w1" using inv by (simp add: looked_up_def manager_inv_def w1)
  show ?thesis
  proof (cases "is_no_rows e")
    case False
    then have "r = Ok (0, Some (EWrap ''db fetch userID'' e))" "w' = w1"
      using run miss one by (simp_all add: getInternalUserID_def cacheP_def tryP_def)
    with L e show ?thesis by auto
  next
    case True
    let ?ins = "user_insert (e_now (w_env w1)) (new_user u)"
    obtain r2 w2 where db: "dbP ?ins w1 = (r2, w2)" by fastforce
    have rest: "(r, w') = (case r2 of Ok y \<Rightarrow> bindP (UserCache_Set y) (\<lambda>_. returnP (us_id y, None)) w2
        | Err e \<Rightarrow> (Ok (0, Some (EWrap ''db create user'' e)), w2) | Panic e \<Rightarrow> (Panic e, w2))"
      using run miss one True db
      by (simp add: getInternalUserID_def cacheP_def tryP_def nowP_def split: res.splits)
    show ?thesis
    proof (cases "next_fault w1")
      case (Some m)
      with db have "r2 = Err (EDb m)" "w2 = drop_fault w1" by (simp_all add: dbP_def)
      with rest L show ?thesis by (simp add: looked_up_def)
    next
      case None
      obtain x d' where ins: "?ins (w_db w1) = (x, d')" by fastforce
      have id: "us_accounts_id (new_user u) = vu_id u" "us_id (new_user u) = 0" by (simp_all add: new_user_def)
      note G = user_insert_grows [OF _ _ _ ins id(2)]
      have g: "users_grow (w_db w) d' \<and> cache_inv d' (w_cache w) \<and> sessions d' = sessions (w_db w) \<and>
        (\<forall>y. x = Inr y \<longrightarrow> stored d' (us_accounts_id y) (us_id y) \<and> us_id y = seq_user (w_db w) \<and> 0 < us_id y \<and>
          us_id y < seq_user d')"
        using G [of "w_cache w"] inv miss id(1) unfolding w1 manager_inv_def drop_fault_simps by auto
      have w2: "w2 = (drop_fault w1)\<lparr>w_db := d'\<rparr>" and r2: "r2 = (case x of Inl e \<Rightarrow> Err e | Inr y \<Rightarrow> Ok y)"
        using db ins None by (auto simp: dbP_def split: sum.splits)
      have L2: "looked_up w w2" using g by (simp add: looked_up_def w2 w1)
      show ?thesis
      proof (cases x)
        case (Inl e2)
        then have "\<not> as_protocol e2" using ins by (auto simp: user_insert_def Let_def too_long_def unique_violation_def split: if_splits)
        with Inl rest r2 L2 show ?thesis by simp
      next
        case (Inr y)
        obtain ev en where set: "UserCache_Set y w2 = (Ok (), w2\<lparr>w_cache := arc_add ev y (w_cache w2), w_env := en\<rparr>)"
          using UserCache_Set_apply by blast
        then have ret: "r = Ok (us_id y, None)" and w': "UserCache_Set y w2 = (Ok (), w')"
          using rest r2 Inr by (simp_all add: bindP_def)
        have "stored (w_db w2) (us_accounts_id y) (us_id y)" "0 < us_id y" "us_id y < seq_user (w_db w2)"
          using g Inr by (auto simp: w2)
        then have "looked_up w w'" using cached_row(1) [OF L2 _ _ _ w'] by blast
        with ret show ?thesis by simp
      qed
    qed
  qed
qed

lemma lookup_inv:
  assumes inv: "manager_inv w" and run: "getInternalUserID u w = (r, w')"
  shows "looked_up w w'" "r = Ok (uid, Some e) \<Longrightarrow> as_protocol e \<Longrightarrow> stored (w_db w') (vu_id u) uid"
proof -
  have "looked_up w w' \<and> (\<forall>uid e. r = Ok (uid, Some e) \<longrightarrow> as_protocol e \<longrightarrow> stored (w_db w') (vu_id u) uid)"
  proof (cases "UserCache_ByAccountsID (w_cache w) (vu_id u)")
    case (Some v)
    with run have "r = Ok (us_id v, None)" "w' = w" by (simp_all add: getInternalUserID_def cacheP_def)
    with inv show ?thesis by (simp add: looked_up_def manager_inv_def)
  next
    case None
    obtain q w1 where q: "oneP (user_by_accounts_id (vu_id u)) w = (q, w1)" by fastforce
    show ?thesis
    proof (cases q)
      case (Ok y)
      with lookup_row [OF inv None _ run] q show ?thesis by blast
    next
      case (Err e)
      with lookup_new [OF inv None _ run] q show ?thesis by blast
    next
      case (Panic e)
      with q show ?thesis by (auto simp: oneP_apply split: option.splits)
    qed
  qed
  then show "looked_up w w'" "r = Ok (uid, Some e) \<Longrightarrow> as_protocol e \<Longrightarrow> stored (w_db w') (vu_id u) uid"
    by blast+
qed

section \<open>Transactions keep the invariant\<close>

lemma same_users_parts [within_rules]:
  "within same_users nowP" "within same_users (cacheP f)"
  "within same_users (dbP (sessions_mark b t P))" "within same_users (dbP (session_upsert now upd s))"
proof -
  show "within same_users nowP" "within same_users (cacheP f)"
    by (simp_all add: nowP_def cacheP_def same_users.within_getsP)
  show "within same_users (dbP (sessions_mark b t P))"
    by (rule within_dbP) (auto simp: same_users_def sessions_mark_def)
  show "within same_users (dbP (session_upsert now upd s))"
    by (rule within_dbP) (auto simp: same_users_def session_upsert_def Let_def split: option.split)
qed

lemma same_users_sessions [within_rules]:
  "within same_users (closeSession i)" "within same_users (makeSession i u)" "within same_users (upsertRow upd s)"
  unfolding closeSession_def makeSession_def upsertRow_def by (intro within_rules)+

definition kept :: "world \<Rightarrow> world \<Rightarrow> bool" where
  "kept w w' \<longleftrightarrow> cache_inv (w_db w') (w_cache w') \<and> users_grow (w_db w) (w_db w')"

lemma kept_refl: "manager_inv w \<Longrightarrow> kept w w"
  by (simp add: kept_def manager_inv_def)

lemma kept_lookup:
  assumes "manager_inv w" and "\<And>x. within same_users (f x)" and "bindP (getInternalUserID u) f w = (r, w')"
  shows "kept w w'"
proof -
  obtain q w1 where q: "getInternalUserID u w = (q, w1)" by fastforce
  have L: "looked_up w w1" using lookup_inv(1) [OF assms(1) q] .
  have "same_users w1 w'"
  proof (cases q)
    case (Ok x)
    with q assms(3) have "f x w1 = (r, w')" by simp
    with assms(2) show ?thesis by (rule withinD')
  qed (use q assms(3) in \<open>auto simp: same_users_def\<close>)
  with L show ?thesis
    by (auto simp: kept_def looked_up_def same_users_def users_grow_def intro: cache_inv_mono)
qed

lemma users_grow_stored: "users_grow d d1 \<Longrightarrow> stored d1 a i \<Longrightarrow>
    stored d a i \<or> (i = seq_user d \<and> (\<forall>j. \<not> stored d a j))"
  by (auto simp: users_grow_def stored_def)

lemma users_grow_mono: "users_grow d d1 \<Longrightarrow> stored d a i \<Longrightarrow> stored d1 a i"
  by (auto simp: users_grow_def stored_def)

text \<open>After a rollback a user that was just inserted is known to the cache only.\<close>

lemma cache_inv_rollback:
  assumes ok: "schema_ok d" and inv: "cache_inv d1 c" and grow: "users_grow d d1"
    and seq: "seq_user d1 = seq_user d2"
  shows "cache_inv (rollback_to d d2) c"
  unfolding cache_inv_def
proof (intro allI impI)
  fix a u assume "UserCache_ByAccountsID c a = Some u"
  then have u: "0 < us_id u" "us_id u < seq_user d2"
    "stored d1 a (us_id u) \<or> (\<forall>i. \<not> stored d1 a i) \<and> (\<forall>b. \<not> stored d1 b (us_id u))"
    using inv seq by (simp_all add: cache_inv_def)
  have roll: "stored (rollback_to d d2) = stored d" "seq_user (rollback_to d d2) = seq_user d2"
    by (rule stored_cong) (simp_all add: rollback_to_def)
  have "stored d a (us_id u) \<or> (\<forall>i. \<not> stored d a i) \<and> (\<forall>b. \<not> stored d b (us_id u))"
    using u(3) users_grow_mono [OF grow] users_grow_stored [OF grow] stored_seq [OF ok] by (metis less_irrefl)
  with u show "0 < us_id u \<and> us_id u < seq_user (rollback_to d d2) \<and>
      (stored (rollback_to d d2) a (us_id u) \<or>
       (\<forall>i. \<not> stored (rollback_to d d2) a i) \<and> (\<forall>b. \<not> stored (rollback_to d d2) b (us_id u)))"
    by (simp add: roll)
qed

lemma manager_inv_drop [simp]: "manager_inv (drop_fault w) = manager_inv w"
  by (simp add: manager_inv_def)

lemma InTx_manager_inv:
  assumes inv: "manager_inv w" and schema: "within schema_rel (InTx f)"
    and body: "\<And>r v. f (drop_fault w) = (r, v) \<Longrightarrow> kept (drop_fault w) v"
    and run: "InTx f w = (r, w')"
  shows "manager_inv w'"
proof -
  have "schema_rel w w'" using schema run by (rule withinD')
  then have ok: "schema_ok (w_db w')" using inv by (simp add: schema_rel_def manager_inv_def)
  have rolled: "cache_inv (rollback_to (w_db w) (w_db v)) (w_cache v) \<and> cache_inv (w_db v) (w_cache v)"
    if "f (drop_fault w) = (q, v)" for q v
    using body [OF that] inv cache_inv_rollback [of "w_db w" "w_db v" "w_cache v" "w_db v"]
    by (auto simp: kept_def manager_inv_def)
  have "cache_inv (w_db w') (w_cache w')"
    using run inv
    by (cases rule: InTx_cases [of w f])
      (auto simp: kept_def manager_inv_def dest!: rolled)
  with ok show ?thesis by (simp add: manager_inv_def)
qed

section \<open>Presence under growth and under failure\<close>

lemma session_user_stored:
  assumes "schema_ok d" "s \<in> set (sessions d)"
  shows "\<exists>a. stored d a (ss_user_id s)"
proof -
  have "has_key us_id (ss_user_id s) (users d)"
    using assms by (auto simp: schema_ok_def sessions_ok_def session_refs_def)
  then show ?thesis unfolding has_key_iff stored_def by (metis imageE)
qed

lemma presence_grow:
  assumes ok: "schema_ok d" and grow: "users_grow d d1" and same: "sessions d1 = sessions d"
  shows "presence d1 = presence d"
proof (rule ext)
  fix a
  have "stored d1 a (ss_user_id s) \<longleftrightarrow> stored d a (ss_user_id s)" if s: "s \<in> set (sessions d)" for s
  proof
    assume "stored d1 a (ss_user_id s)"
    moreover have "ss_user_id s < seq_user d"
      using session_user_stored [OF ok s] stored_seq [OF ok] by blast
    ultimately show "stored d a (ss_user_id s)" using users_grow_stored [OF grow] by fastforce
  next
    assume "stored d a (ss_user_id s)"
    then show "stored d1 a (ss_user_id s)" by (rule users_grow_mono [OF grow])
  qed
  then show "presence d1 a = presence d a" by (auto simp: presence_def same)
qed

lemma presence_same: "sessions d1 = sessions d \<Longrightarrow> users d1 = users d \<Longrightarrow> presence d1 = presence d"
  using stored_cong [of d1 d] by (simp add: presence_def fun_eq_iff)

lemma presence_same_tables: "same_tables d d1 \<Longrightarrow> presence d1 = presence d"
  by (rule presence_same) (simp_all add: same_tables_def)

section \<open>What the statements do to the places\<close>

lemma places_others: "filter (\<lambda>s. ss_user_id s \<noteq> i) (sessions d1) = filter (\<lambda>s. ss_user_id s \<noteq> i) (sessions d) \<Longrightarrow>
    j \<noteq> i \<Longrightarrow> places d1 j = places d j"
proof -
  assume eq: "filter (\<lambda>s. ss_user_id s \<noteq> i) (sessions d1) = filter (\<lambda>s. ss_user_id s \<noteq> i) (sessions d)"
    and "j \<noteq> i"
  then have parts: "{s \<in> set (sessions e). open_of j s} =
      {s \<in> set (filter (\<lambda>s. ss_user_id s \<noteq> i) (sessions e)). open_of j s}" for e
    by (auto simp: open_of_def)
  show "places d1 j = places d j"
    unfolding places_def parts [of d1] parts [of d] eq ..
qed

lemma presence_change:
  assumes ok: "schema_ok d" and i: "stored d a i" and users: "users d1 = users d"
    and others: "\<And>j. j \<noteq> i \<Longrightarrow> places d1 j = places d j"
  shows "presence d1 = (presence d)(a := places d1 i)"
proof (rule ext)
  fix b
  have st: "stored d1 = stored d" by (rule stored_cong [OF users])
  have by_places: "presence e c = (\<Union>j \<in> {j. stored e c j}. places e j)" for e c
    by (auto simp: presence_def places_def open_of_def)
  show "presence d1 b = ((presence d)(a := places d1 i)) b"
  proof (cases "b = a")
    case True
    have "{j. stored d a j} = {i}" using stored_unique(1) [OF ok i] i by blast
    then show ?thesis using True by (simp add: by_places st)
  next
    case False
    have "j \<noteq> i" if "stored d b j" for j using stored_unique(2) [OF ok i] that False by blast
    then show ?thesis using False others by (simp add: by_places st)
  qed
qed

definition same_key :: "place \<Rightarrow> place \<Rightarrow> bool" where
  "same_key p q \<longleftrightarrow> snd p = snd q"

lemma same_session_place:
  "ss_gateway_id s \<noteq> None \<Longrightarrow> ss_gateway_session s \<noteq> None \<Longrightarrow> same_session s t \<longleftrightarrow>
     ss_user_id s = ss_user_id t \<and> same_key (place_of s) (place_of t)"
  by (auto simp: same_session_def same_key_def place_of_def)

text \<open>An upsert of an open session moves it to its place, or adds it.\<close>

lemma upsert_places:
  assumes up: "session_upsert now upd s d = (Inr x, d')" and ok: "schema_ok d"
    and upd: "\<And>old new. place_of (upd old new) = place_of new \<and> ss_user_id (upd old new) = ss_user_id new \<and>
      ss_removed_at (upd old new) = ss_removed_at new"
    and s: "ss_removed_at s = None" "ss_gateway_id s \<noteq> None" "ss_gateway_session s \<noteq> None" "ss_user_id s = i"
  shows "places d' i = insert (place_of s) {q \<in> places d i. \<not> same_key (place_of s) q}"
    "\<And>j. j \<noteq> i \<Longrightarrow> places d' j = places d j" "users d' = users d"
proof -
  let ?row = "session_row now s d"
  have row: "ss_user_id ?row = i" "ss_removed_at ?row = None" "place_of ?row = place_of s"
    "ss_gateway_id ?row \<noteq> None" "ss_gateway_session ?row \<noteq> None"
    using s by (simp_all add: session_row_def place_of_def)
  have uniq: "\<And>a b. a \<in> set (sessions d) \<Longrightarrow> b \<in> set (sessions d) \<Longrightarrow> same_session a b \<Longrightarrow> a = b"
    and ids: "distinct (map ss_id (sessions d))"
    using ok by (simp_all add: schema_ok_def sessions_ok_def)
  have sk: "same_session ?row t \<longleftrightarrow> ss_user_id t = i \<and> same_key (place_of s) (place_of t)" for t
    using same_session_place [OF row(4,5), of t] unfolding row(1,3) by blast
  show "users d' = users d"
    using up by (auto simp: session_upsert_def Let_def split: if_splits option.splits)
  have "places d' i = insert (place_of s) {q \<in> places d i. \<not> same_key (place_of s) q} \<and>
    (\<forall>j. j \<noteq> i \<longrightarrow> places d' j = places d j)"
    using up
  proof (cases rule: session_upsert_Ok)
    case (replaced old)
    have only: "t = old" if "t \<in> set (sessions d)" "ss_id t = ss_id old" for t
      using distinct_key_eq [OF ids that(1) replaced(2) that(2)] .
    have old: "ss_user_id old = i" using replaced(3) sk by blast
    have "set (sessions d') = (\<lambda>r. if r = old then upd old ?row else r) ` set (sessions d)"
      unfolding replaced(4) set_tupdate by (rule image_cong [OF refl]) (use only in auto)
    then have mem: "set (sessions d') = insert (upd old ?row) (set (sessions d) - {old})"
      using replaced(2) by auto
    have keys: "same_key (place_of s) (place_of t) \<longleftrightarrow> t = old" if "t \<in> set (sessions d)" "ss_user_id t = i" for t
    proof
      assume "same_key (place_of s) (place_of t)"
      then have "same_session ?row t" using sk that by simp
      then have "same_session old t" using replaced(3) same_session_sym same_session_trans by blast
      then show "t = old" using uniq that(1) replaced(2) by blast
    qed (use replaced(3) sk in blast)
    have new: "ss_user_id (upd old ?row) = i" "ss_removed_at (upd old ?row) = None" "place_of (upd old ?row) = place_of s"
      using upd row by simp_all
    have "{t \<in> set (sessions d'). open_of i t} = insert (upd old ?row) ({t \<in> set (sessions d). open_of i t} - {old})"
      unfolding mem using new by (auto simp: open_of_def)
    then have "places d' i = insert (place_of s) (place_of ` ({t \<in> set (sessions d). open_of i t} - {old}))"
      using new by (simp add: places_def)
    also have "place_of ` ({t \<in> set (sessions d). open_of i t} - {old}) = {q \<in> places d i. \<not> same_key (place_of s) q}"
      using keys unfolding places_def open_of_def by blast
    finally have mine: "places d' i = insert (place_of s) {q \<in> places d i. \<not> same_key (place_of s) q}" .
    have "{t \<in> set (sessions d'). open_of j t} = {t \<in> set (sessions d). open_of j t}" if "j \<noteq> i" for j
      unfolding mem using new old that by (auto simp: open_of_def)
    with mine show ?thesis by (simp add: places_def)
  next
    case added
    have "\<not> same_key (place_of s) (place_of t)" if "t \<in> set (sessions d)" "ss_user_id t = i" for t
      using added(2) sk that by (auto simp: list_ex_iff)
    then have free: "{q \<in> places d i. \<not> same_key (place_of s) q} = places d i"
      by (auto simp: places_def open_of_def)
    have "{t \<in> set (sessions d'). open_of i t} = insert ?row {t \<in> set (sessions d). open_of i t}"
      using row by (auto simp: added(3) open_of_def)
    then have "places d' i = insert (place_of s) (places d i)" using row by (simp add: places_def)
    with free have mine: "places d' i = insert (place_of s) {q \<in> places d i. \<not> same_key (place_of s) q}" by simp
    have "{t \<in> set (sessions d'). open_of j t} = {t \<in> set (sessions d). open_of j t}" if "j \<noteq> i" for j
      using row that by (auto simp: added(3) open_of_def)
    with mine show ?thesis by (simp add: places_def)
  qed
  then show "places d' i = insert (place_of s) {q \<in> places d i. \<not> same_key (place_of s) q}"
    "\<And>j. j \<noteq> i \<Longrightarrow> places d' j = places d j" by auto
qed

lemma closed_places:
  assumes "sessions d1 = map (\<lambda>s. if open_of i s then closed m t s else s) (sessions d)"
  shows "places d1 i = {}" "j \<noteq> i \<Longrightarrow> places d1 j = places d j"
proof -
  have "\<not> open_of i (if open_of i s then closed m t s else s)" for s by simp
  then show "places d1 i = {}" using assms by (auto simp: places_def)
  have "open_of j (if open_of i s then closed m t s else s) \<longleftrightarrow> open_of j s" if "j \<noteq> i" for s
    using that by (auto simp: open_of_def)
  moreover have "(if open_of i s then closed m t s else s) = s" if "open_of j s" "j \<noteq> i" for s
    using that by (simp add: open_of_def)
  ultimately have "{s \<in> set (sessions d1). open_of j s} = {s \<in> set (sessions d). open_of j s}" if "j \<noteq> i"
    using that unfolding assms by (force simp: image_iff)
  then show "j \<noteq> i \<Longrightarrow> places d1 j = places d j" by (simp add: places_def)
qed

end
