(* ===== verification/Presence_Spec.thy ===== *)
theory Presence_Spec
  imports Presence
begin

text \<open>
  The session manager implements a small specification: over any sequence of messages, with any
  faults of the connection and any evictions from the user cache, who is where is the fold of the
  accepted messages over a map from accounts to places.
\<close>

section \<open>The messages\<close>

datatype session_msg =
    Protocol string
  | Gateway gateway_event
  | Update v1_user

fun handle_msg :: "session_msg \<Rightarrow> unit go" where
  "handle_msg (Protocol t) = HandleProtocol t"
| "handle_msg (Gateway ev) = HandleEvent ev"
| "handle_msg (Update u) = UpsertSession u"

section \<open>The specification\<close>

datatype presence_act =
    Enter string place
  | Move string place
  | Leave string
  | Nothing

fun perform :: "presence_act \<Rightarrow> (string \<Rightarrow> place set) \<Rightarrow> string \<Rightarrow> place set" where
  "perform (Enter a p) P = P(a := {p})"
| "perform (Move a p) P = P(a := insert p {q \<in> P a. \<not> same_key p q})"
| "perform (Leave a) P = P(a := {})"
| "perform Nothing P = P"

definition place_in :: "app_cache \<Rightarrow> v1_user \<Rightarrow> place option" where
  "place_in c u = (case (RoomCache_ByGatewayUID c (vu_room u), GatewayCache_ByName c (vu_janus u)) of
     (Some rm, Some gw) \<Rightarrow> Some (Some (rm_id rm), Some (gw_id gw), Some (vu_session u))
   | _ \<Rightarrow> None)"

definition act_at :: "app_cache \<Rightarrow> (string \<Rightarrow> place \<Rightarrow> presence_act) \<Rightarrow> v1_user \<Rightarrow> presence_act" where
  "act_at c act u = (case place_in c u of None \<Rightarrow> Nothing | Some p \<Rightarrow> act (vu_id u) p)"

definition leaving_user :: "(string \<times> json) list \<Rightarrow> v1_user option" where
  "leaving_user d = (case map_of d ''display'' of
     Some (JStr s) \<Rightarrow> (case unmarshal decode_v1_user s of Inl _ \<Rightarrow> None | Inr u \<Rightarrow> Some u)
   | _ \<Rightarrow> None)"

definition leaving_types :: "string list" where
  "leaving_types = [''leaving'', ''kicked'', ''unpublished'']"

definition update_types :: "string list" where
  "update_types = [''question'', ''camera'', ''sound-test'']"

fun act_of :: "app_cache \<Rightarrow> session_msg \<Rightarrow> presence_act" where
  "act_of c (Protocol t) = (case unmarshal decode_protocol_message t of
     Inl _ \<Rightarrow> Nothing
   | Inr m \<Rightarrow> if pm_type m = ''enter'' then act_at c Enter (pm_user m)
             else if pm_type m \<in> set update_types then act_at c Move (pm_user m) else Nothing)"
| "act_of c (Gateway (PluginEvent plugin d)) =
     (if plugin = ''janus.plugin.videoroom'' \<and> event_type d \<in> Some ` JStr ` set leaving_types
      then (case leaving_user d of None \<Rightarrow> Nothing | Some u \<Rightarrow> Leave (vu_id u)) else Nothing)"
| "act_of c (Gateway OtherEvent) = Nothing"
| "act_of c (Update u) = act_at c Move u"

section \<open>The bodies of the transactions\<close>

definition body_ok :: "unit go \<Rightarrow> bool" where
  "body_ok f \<longleftrightarrow> within schema_rel (InTx f) \<and> (\<forall>w r w'. manager_inv w \<longrightarrow> f w = (r, w') \<longrightarrow> kept w w')"

lemma wrapP_state: "wrapP s f w = (r, w') \<Longrightarrow> \<exists>q. f w = (q, w')"
  by (auto simp: wrapP_def split: prod.splits res.splits)

lemma body_ok_wrapP: "body_ok f \<Longrightarrow> within schema_rel f \<Longrightarrow> body_ok (wrapP s f)"
  unfolding body_ok_def
proof (elim conjE, intro conjI allI impI)
  assume f: "within schema_rel f" "\<forall>w r w'. manager_inv w \<longrightarrow> f w = (r, w') \<longrightarrow> kept w w'"
  show "within schema_rel (InTx (wrapP s f))" using f(1) by (intro within_rules)
  show "kept w w'" if "manager_inv w" "wrapP s f w = (r, w')" for w r w'
    using f(2) that(1) wrapP_state [OF that(2)] by blast
qed

lemma body_ok_return [simp]: "body_ok (returnP ())"
  by (auto simp: body_ok_def kept_refl intro: within_rules)

lemma body_ok_err [simp]: "body_ok (errP e)"
  by (auto simp: body_ok_def kept_refl intro: within_rules)

lemma body_ok_lookup:
  assumes "\<And>x. within same_users (f x)" "within schema_rel (bindP (getInternalUserID u) f)"
  shows "body_ok (bindP (getInternalUserID u) f)"
  unfolding body_ok_def
proof (intro conjI allI impI)
  show "within schema_rel (InTx (bindP (getInternalUserID u) f))"
    using assms(2) by (rule schema_tx.within_InTx)
qed (rule kept_lookup [OF _ assms(1)])

lemma requireUserID_bind: "bindP (requireUserID u) f = bindP (getInternalUserID u) (\<lambda>x. case snd x of
    None \<Rightarrow> f (fst x) | Some e \<Rightarrow> errP (EWrap ''sm.getInternalUserID'' e))"
  by (rule ext)
    (auto simp: requireUserID_def bindP_assoc bindP_def split: prod.splits res.splits option.splits)

lemma body_ok_upsertSession: "body_ok (upsertSession u)"
  using schema_upsertSession [of u] unfolding upsertSession_def requireUserID_bind
  by (rule body_ok_lookup [rotated]) (intro within_rules)

lemma body_ok_onProtocolEnter: "body_ok (onProtocolEnter m)"
  using schema_onProtocolEnter [of m] unfolding onProtocolEnter_def requireUserID_bind
  by (rule body_ok_lookup [rotated]) (intro within_rules)

lemma body_ok_onVideoroomLeaving: "body_ok (onVideoroomLeaving d)"
proof -
  have "body_ok (bindP (getInternalUserID u) (\<lambda>(uid, err).
      case err of
        Some e \<Rightarrow> if \<not> as_protocol e then errP (EWrap ''sm.getInternalUserID'' e)
                  else if uid = 0 then returnP () else closeSession uid
      | None \<Rightarrow> if uid = 0 then returnP () else closeSession uid))" for u
    unfolding case_prod_beta by (intro body_ok_lookup within_rules)
  then show ?thesis
    unfolding onVideoroomLeaving_def by (auto split: option.split json.split sum.split)
qed

text \<open>Every message is refused before its transaction, or runs one of these bodies in it.\<close>

lemma body_in_tx:
  assumes "body_ok f" "manager_inv w" "InTx f w = (r, w')"
  shows "manager_inv w'"
  using assms(1) unfolding body_ok_def
  by (intro InTx_manager_inv [OF assms(2) _ _ assms(3)]) (simp_all add: assms(2))

lemma handle_msg_inv:
  assumes "manager_inv w" "handle_msg m w = (r, w')"
  shows "manager_inv w'"
proof (cases m)
  case (Protocol t)
  show ?thesis
  proof (cases "unmarshal decode_protocol_message t")
    case (Inl e)
    with assms Protocol show ?thesis by (simp add: HandleProtocol_def)
  next
    case (Inr p)
    let ?f = "if pm_type p = ''enter''
        then wrapP ''V1SessionManager.onProtocolEnter'' (onProtocolEnter p)
        else if pm_type p = ''question''
        then wrapP ''V1SessionManager.onProtocolQuestion'' (onProtocolQuestion p)
        else if pm_type p = ''camera''
        then wrapP ''V1SessionManager.onProtocolCamera'' (onProtocolCamera p)
        else if pm_type p = ''sound-test''
        then wrapP ''V1SessionManager.onProtocolSoundTest'' (onProtocolSoundTest p)
        else returnP ()"
    have "body_ok ?f"
      by (simp add: onProtocolQuestion_def onProtocolCamera_def onProtocolSoundTest_def body_ok_wrapP
          body_ok_onProtocolEnter body_ok_upsertSession schema_onProtocolEnter schema_upsertSession)
    then show ?thesis
      using body_in_tx [OF _ assms(1)] assms(2) Protocol Inr by (simp add: HandleProtocol_def)
  qed
next
  case (Gateway ev)
  have leave: "body_ok (wrapP s (onVideoroomLeaving d))" for s d
    by (rule body_ok_wrapP [OF body_ok_onVideoroomLeaving schema_onVideoroomLeaving])
  have "\<exists>f. HandleEvent ev = InTx f \<and> body_ok f"
    unfolding HandleEvent_def
    by (intro exI conjI, rule refl) (use leave in \<open>auto split: gateway_event.split option.split json.split\<close>)
  then show ?thesis using body_in_tx [OF _ assms(1)] assms(2) Gateway by auto
next
  case (Update u)
  then show ?thesis
    using body_in_tx [OF body_ok_upsertSession assms(1)] assms(2) by (simp add: UpsertSession_def)
qed

section \<open>What an accepted message does\<close>

text \<open>The id that a message acts on: the row of its account, or a user that only the cache holds.\<close>

definition acts_on :: "db \<Rightarrow> string \<Rightarrow> int \<Rightarrow> bool" where
  "acts_on d a i \<longleftrightarrow> stored d a i \<or> (\<forall>j. \<not> stored d a j) \<and> (\<forall>b. \<not> stored d b i)"

lemma after_lookup:
  assumes inv: "manager_inv w" and run: "getInternalUserID u w = (Ok (uid, err), w1)"
    and err: "err = None \<or> (\<exists>e. err = Some e \<and> as_protocol e)"
  shows "manager_inv w1" "presence (w_db w1) = presence (w_db w)" "acts_on (w_db w1) (vu_id u) uid" "0 < uid"
    "c_rooms (w_cache w1) = c_rooms (w_cache w)" "c_gw_byname (w_cache w1) = c_gw_byname (w_cache w)"
proof -
  have look: "looked_up w w1" by (rule lookup_inv(1) [OF inv run])
  have "schema_rel w w1" using schema_getInternalUserID run by (rule withinD')
  with inv look show inv1: "manager_inv w1" by (simp add: manager_inv_def schema_rel_def looked_up_def)
  show "presence (w_db w1) = presence (w_db w)"
    using presence_grow [of "w_db w" "w_db w1"] inv look by (simp add: manager_inv_def looked_up_def)
  have "acts_on (w_db w1) (vu_id u) uid \<and> 0 < uid"
  proof (cases err)
    case None
    with run obtain v where "UserCache_ByAccountsID (w_cache w1) (vu_id u) = Some v" "us_id v = uid"
      using getInternalUserID_hit by blast
    with inv1 show ?thesis by (auto simp: manager_inv_def cache_inv_def acts_on_def)
  next
    case (Some e)
    with err run have st: "stored (w_db w1) (vu_id u) uid" using lookup_inv(2) [OF inv run] by blast
    then show ?thesis using inv1 stored_seq by (auto simp: acts_on_def manager_inv_def)
  qed
  then show "acts_on (w_db w1) (vu_id u) uid" "0 < uid" by simp_all
  have "users_only w w1" using users_only_getInternalUserID run by (rule withinD')
  then show "c_rooms (w_cache w1) = c_rooms (w_cache w)" "c_gw_byname (w_cache w1) = c_gw_byname (w_cache w)"
    by (simp_all add: users_only_def)
qed

lemma close_presence:
  assumes ok: "schema_ok d" and i: "acts_on d a i" and users: "users d' = users d"
    and s: "sessions d' = map (\<lambda>s. if open_of i s then closed m t s else s) (sessions d)"
  shows "presence d' = (presence d)(a := {})"
proof (cases "stored d a i")
  case True
  show ?thesis
    using presence_change [OF ok True users closed_places(2) [OF s]] closed_places(1) [OF s] by simp
next
  case False
  with i have none: "\<And>j. \<not> stored d a j" "\<And>b. \<not> stored d b i" by (auto simp: acts_on_def)
  then have "\<not> open_of i r" if "r \<in> set (sessions d)" for r
    using session_user_stored [OF ok that] by (auto simp: open_of_def)
  then have "sessions d' = sessions d" unfolding s by (simp add: map_idI)
  then have "presence d' = presence d" using users by (intro presence_same) simp_all
  then show ?thesis using presence_unknown [OF none(1)] by (simp add: fun_upd_idem)
qed

lemma closeSession_presence:
  assumes run: "closeSession i w = (Ok (), w')" and ok: "schema_ok (w_db w)" and i: "acts_on (w_db w) a i"
  shows "presence (w_db w') = (presence (w_db w))(a := {})"
  using ok i
  by (rule close_presence [where m = "''close_session''" and t = "e_now (w_env w)"])
    (simp_all add: closeSession_Ok(1) [OF run])

lemma place_of_session: "place_of (session_of now i u rm gw) =
    (Some (rm_id rm), Some (gw_id gw), Some (vu_session u))"
  by (simp add: place_of_def session_of_def)

lemma upsert_presence:
  assumes ok: "schema_ok d" and i: "acts_on d a i"
    and up: "session_upsert now upd (session_of now' i u rm gw) d = (Inr x, d')"
    and upd: "\<And>old new. place_of (upd old new) = place_of new \<and> ss_user_id (upd old new) = ss_user_id new \<and>
      ss_removed_at (upd old new) = ss_removed_at new"
  shows "presence d' = (presence d)(a := insert (Some (rm_id rm), Some (gw_id gw), Some (vu_session u))
    {q \<in> presence d a. \<not> same_key (Some (rm_id rm), Some (gw_id gw), Some (vu_session u)) q})"
proof -
  let ?s = "session_of now' i u rm gw"
  have "session_refs d (session_row now ?s d)" using up by (cases rule: session_upsert_Ok)
  then have "has_key us_id i (users d)" by (simp add: session_refs_def session_of_def)
  then obtain b where "stored d b i" unfolding has_key_iff stored_def by (metis imageE)
  with i have st: "stored d a i" by (auto simp: acts_on_def)
  have s: "ss_removed_at ?s = None" "ss_gateway_id ?s \<noteq> None" "ss_gateway_session ?s \<noteq> None" "ss_user_id ?s = i"
    by (simp_all add: session_of_def)
  note P = upsert_places [OF up ok upd s]
  show ?thesis
    using presence_change [OF ok st P(3) P(2)] P(1) presence_places [OF ok st] by (simp add: place_of_session)
qed

lemma upd_places:
  "place_of (set_infer old new) = place_of new \<and> ss_user_id (set_infer old new) = ss_user_id new \<and>
     ss_removed_at (set_infer old new) = ss_removed_at new"
  "place_of (set_but_created_properties old new) = place_of new \<and>
     ss_user_id (set_but_created_properties old new) = ss_user_id new \<and>
     ss_removed_at (set_but_created_properties old new) = ss_removed_at new"
  by (simp_all add: place_of_def set_infer_def set_but_created_properties_def)

lemma enter_presence:
  assumes inv: "manager_inv w" and run: "onProtocolEnter m w = (Ok (), w')"
  shows "presence (w_db w') = perform (act_at (w_cache w) Enter (pm_user m)) (presence (w_db w))"
proof -
  have "schema_ok (w_db w)" using inv by (simp add: manager_inv_def)
  with run obtain uid w1 w2 rm gw where
    uid: "getInternalUserID (pm_user m) w = (Ok (uid, None), w1)"
    and close: "uid > 0 \<longrightarrow> closeSession uid w1 = (Ok (), w2)"
    and rm: "RoomCache_ByGatewayUID (w_cache w2) (vu_room (pm_user m)) = Some rm"
    and gw: "GatewayCache_ByName (w_cache w2) (vu_janus (pm_user m)) = Some gw"
    and up: "upsertRow set_infer (session_of (e_now (w_env w2)) uid (pm_user m) rm gw) w2 = (Ok (), w')"
    and ok2: "schema_ok (w_db w2)"
    by (rule enter_stages) blast
  note L = after_lookup [OF inv uid]
  note c = closeSession_Ok [OF mp [OF close L(4)]]
  have ok1: "schema_ok (w_db w1)" using L(1) by (simp add: manager_inv_def)
  have P2: "presence (w_db w2) = (presence (w_db w))(vu_id (pm_user m) := {})"
    using closeSession_presence [OF mp [OF close L(4)] ok1 L(3)] L(2) by simp
  have on2: "acts_on (w_db w2) (vu_id (pm_user m)) uid"
    using L(3) stored_cong [of "w_db w2" "w_db w1"] by (simp add: acts_on_def c)
  from up obtain x d' where upsert: "session_upsert (e_now (w_env w2)) set_infer
      (session_of (e_now (w_env w2)) uid (pm_user m) rm gw) (w_db w2) = (Inr x, d')"
    and w': "w_db w' = d'"
    by (rule upsertRow_Ok)
  have "place_in (w_cache w) (pm_user m) = Some (Some (rm_id rm), Some (gw_id gw), Some (vu_session (pm_user m)))"
    using rm gw c(2) L(5,6) by (simp add: place_in_def RoomCache_ByGatewayUID_def GatewayCache_ByName_def)
  then show ?thesis
    using upsert_presence [OF ok2 on2 upsert upd_places(1)] by (simp add: w' P2 act_at_def)
qed

lemma update_presence:
  assumes inv: "manager_inv w" and run: "upsertSession u w = (Ok (), w')"
  shows "presence (w_db w') = perform (act_at (w_cache w) Move u) (presence (w_db w))"
proof -
  from run obtain uid w1 rm gw where uid: "getInternalUserID u w = (Ok (uid, None), w1)"
    and rm: "RoomCache_ByGatewayUID (w_cache w1) (vu_room u) = Some rm"
    and gw: "GatewayCache_ByName (w_cache w1) (vu_janus u) = Some gw"
    and up: "upsertRow set_but_created_properties (session_of (e_now (w_env w1)) uid u rm gw) w1 = (Ok (), w')"
    by (rule upsertSession_stages)
  note L = after_lookup [OF inv uid]
  have ok1: "schema_ok (w_db w1)" using L(1) by (simp add: manager_inv_def)
  from up obtain x d' where upsert: "session_upsert (e_now (w_env w1)) set_but_created_properties
      (session_of (e_now (w_env w1)) uid u rm gw) (w_db w1) = (Inr x, d')"
    and w': "w_db w' = d'"
    by (rule upsertRow_Ok)
  have "place_in (w_cache w) u = Some (Some (rm_id rm), Some (gw_id gw), Some (vu_session u))"
    using rm gw L(5,6) by (simp add: place_in_def RoomCache_ByGatewayUID_def GatewayCache_ByName_def)
  then show ?thesis
    using upsert_presence [OF ok1 L(3) upsert upd_places(2)] L(2) by (simp add: w' act_at_def)
qed

lemma leaving_presence:
  assumes inv: "manager_inv w" and run: "onVideoroomLeaving d w = (Ok (), w')"
  shows "presence (w_db w') =
    perform (case leaving_user d of None \<Rightarrow> Nothing | Some u \<Rightarrow> Leave (vu_id u)) (presence (w_db w))"
proof (cases "leaving_user d")
  case None
  then have "w' = w"
    using run by (auto simp: onVideoroomLeaving_def leaving_user_def split: option.splits json.splits sum.splits)
  with None show ?thesis by simp
next
  case (Some u)
  then have body: "bindP (getInternalUserID u) (\<lambda>(uid, err). case err of
        Some e \<Rightarrow> if \<not> as_protocol e then errP (EWrap ''sm.getInternalUserID'' e)
                  else if uid = 0 then returnP () else closeSession uid
      | None \<Rightarrow> if uid = 0 then returnP () else closeSession uid) w = (Ok (), w')"
    using run by (auto simp: onVideoroomLeaving_def leaving_user_def split: option.splits json.splits sum.splits)
  then obtain uid err w1 where look: "getInternalUserID u w = (Ok (uid, err), w1)"
    and rest: "(case err of
        Some e \<Rightarrow> if \<not> as_protocol e then errP (EWrap ''sm.getInternalUserID'' e)
                  else if uid = 0 then returnP () else closeSession uid
      | None \<Rightarrow> if uid = 0 then returnP () else closeSession uid) w1 = (Ok (), w')"
    by (auto simp: bindP_Ok_iff)
  have err: "err = None \<or> (\<exists>e. err = Some e \<and> as_protocol e)"
    using rest by (cases err) (auto split: if_splits)
  note L = after_lookup [OF inv look err]
  have close: "closeSession uid w1 = (Ok (), w')" using rest L(4) by (cases err) (auto split: if_splits)
  have "schema_ok (w_db w1)" using L(1) by (simp add: manager_inv_def)
  from closeSession_presence [OF close this L(3)] show ?thesis using L(2) Some by simp
qed

lemma handle_msg_refused:
  assumes run: "handle_msg m w = (r, w')" and r: "r \<noteq> Ok ()"
  shows "presence (w_db w') = presence (w_db w)"
proof -
  have "\<exists>f. handle_msg m w = InTx f w \<or> (\<exists>e. handle_msg m w = (Err e, w))"
    by (cases m) (auto simp: HandleProtocol_def HandleEvent_def UpsertSession_def split: sum.split)
  then have "same_tables (w_db w) (w_db w')"
    using run r InTx_not_Ok_tables [of _ w r w'] by (cases r) auto
  then show ?thesis by (rule presence_same_tables)
qed

lemma handle_msg_Ok:
  assumes inv: "manager_inv w" and run: "handle_msg m w = (Ok (), w')"
  shows "presence (w_db w') = perform (act_of (w_cache w) m) (presence (w_db w))"
proof (cases m)
  case (Protocol t)
  then obtain p where p: "unmarshal decode_protocol_message t = Inr p"
    using run by (auto simp: HandleProtocol_def split: sum.splits)
  have inv0: "manager_inv (drop_fault w)" using inv by simp
  show ?thesis
    using run Protocol p enter_presence [OF inv0] update_presence [OF inv0]
    by (auto simp: HandleProtocol_def update_types_def onProtocolQuestion_def onProtocolCamera_def
        onProtocolSoundTest_def dest!: healthy_runs split: if_splits)
next
  case (Gateway ev)
  have inv0: "manager_inv (drop_fault w)" using inv by simp
  show ?thesis
  proof (cases ev)
    case (PluginEvent plugin d)
    show ?thesis
      using run Gateway PluginEvent leaving_presence [OF inv0, of d]
      by (auto simp: HandleEvent_def leaving_types_def dest!: healthy_runs split: if_splits option.splits json.splits)
  next
    case OtherEvent
    with run Gateway show ?thesis by (auto simp: HandleEvent_def InTx_Ok_iff)
  qed
next
  case (Update u)
  have inv0: "manager_inv (drop_fault w)" using inv by simp
  show ?thesis
    using run Update update_presence [OF inv0] by (auto simp: UpsertSession_def dest!: healthy_runs)
qed

section \<open>Sequences of messages\<close>

text \<open>The caches of rooms and gateways, by which the places are named, are not written by a message.\<close>

definition same_directory :: "world \<Rightarrow> world \<Rightarrow> bool" where
  "same_directory w w' \<longleftrightarrow> c_rooms (w_cache w') = c_rooms (w_cache w) \<and>
     c_gw_byname (w_cache w') = c_gw_byname (w_cache w)"

interpretation directory: step_rel same_directory
  by unfold_locales (auto simp: same_directory_def)

interpretation directory_tx: tx_rel same_directory
  by unfold_locales (auto simp: same_directory_def)

lemma directory_parts [within_rules]:
  "within same_directory (dbP st)" "within same_directory (oneP f)" "within same_directory (cacheP c)"
  "within same_directory nowP" "within same_directory (UserCache_Set y)"
proof -
  show "within same_directory (dbP st)" by (rule within_dbP) (simp_all add: same_directory_def)
  show "within same_directory (oneP f)" by (rule withinI) (simp add: same_directory_def)
  show "within same_directory (cacheP c)" "within same_directory nowP"
    by (simp_all add: cacheP_def nowP_def directory.within_getsP)
  show "within same_directory (UserCache_Set y)"
    by (rule withinI) (simp add: same_directory_def UserCache_Set_def arc_add_def)
qed

lemma directory_bodies [within_rules]:
  "within same_directory (upsertSession u)" "within same_directory (onProtocolEnter p)"
  "within same_directory (onVideoroomLeaving d)"
  unfolding upsertSession_def onProtocolEnter_def onVideoroomLeaving_def requireUserID_def
    getInternalUserID_def closeSession_def makeSession_def upsertRow_def case_prod_beta
  by (auto split: option.split json.split sum.split intro!: within_rules)

lemma directory_handle_msg: "within same_directory (handle_msg m)"
  by (cases m) (auto simp: HandleProtocol_def HandleEvent_def UpsertSession_def onProtocolQuestion_def
      onProtocolCamera_def onProtocolSoundTest_def
      split: sum.split gateway_event.split option.split json.split intro!: within_rules)

lemma act_of_cong:
  assumes "c_rooms c' = c_rooms c" "c_gw_byname c' = c_gw_byname c"
  shows "act_of c' = act_of c"
proof -
  have "place_in c' = place_in c"
    using assms by (simp add: place_in_def RoomCache_ByGatewayUID_def GatewayCache_ByName_def fun_eq_iff)
  then have at: "act_at c' = act_at c" by (simp add: act_at_def fun_eq_iff)
  show ?thesis
  proof (rule ext)
    fix m show "act_of c' m = act_of c m"
      by (cases "(c, m)" rule: act_of.cases) (simp_all add: at split: sum.split)
  qed
qed

text \<open>Every message arrives in its own environment: an instant, faults, evictions.\<close>

fun handle_msgs :: "(env \<times> session_msg) list \<Rightarrow> world \<Rightarrow> unit res list \<times> world" where
  "handle_msgs [] w = ([], w)"
| "handle_msgs ((e, m) # ms) w =
     (let (r, w1) = handle_msg m (w\<lparr>w_env := e\<rparr>); (rs, w2) = handle_msgs ms w1 in (r # rs, w2))"

fun accepted :: "session_msg list \<Rightarrow> unit res list \<Rightarrow> session_msg list" where
  "accepted (m # ms) (Ok _ # rs) = m # accepted ms rs"
| "accepted (m # ms) (_ # rs) = accepted ms rs"
| "accepted _ _ = []"

lemma handle_msgs_presence:
  assumes "manager_inv w" "handle_msgs ms w = (rs, w')"
  shows "manager_inv w' \<and> presence (w_db w') =
    fold (perform \<circ> act_of (w_cache w)) (accepted (map snd ms) rs) (presence (w_db w))"
  using assms
proof (induction ms arbitrary: w rs)
  case (Cons x ms)
  obtain e m where x: "x = (e, m)" by fastforce
  obtain r w1 where r: "handle_msg m (w\<lparr>w_env := e\<rparr>) = (r, w1)" by fastforce
  obtain rs1 where rs1: "handle_msgs ms w1 = (rs1, w')" and out: "rs = r # rs1"
    using Cons.prems(2) x r by (auto split: prod.splits)
  have inv: "manager_inv (w\<lparr>w_env := e\<rparr>)" using Cons.prems(1) by (simp add: manager_inv_def)
  have inv1: "manager_inv w1" by (rule handle_msg_inv [OF inv r])
  have "same_directory (w\<lparr>w_env := e\<rparr>) w1" using directory_handle_msg r by (rule withinD')
  then have acts: "act_of (w_cache w1) = act_of (w_cache w)"
    by (intro act_of_cong) (simp_all add: same_directory_def)
  note IH = Cons.IH [OF inv1 rs1]
  show ?case
  proof (cases r)
    case (Ok y)
    with handle_msg_Ok [OF inv] r have "presence (w_db w1) = perform (act_of (w_cache w) m) (presence (w_db w))"
      by simp
    with IH Ok show ?thesis by (simp add: out x acts)
  next
    case (Err e2)
    with handle_msg_refused [OF r] IH show ?thesis by (simp add: out x acts)
  next
    case (Panic p)
    with handle_msg_refused [OF r] IH show ?thesis by (simp add: out x acts)
  qed
qed simp

text \<open>
  C5. The session manager implements its specification.  Start from tables that satisfy the schema
  and a user cache without entries; whatever messages of clients, events of gateways and updates
  arrive, with whatever faults of the connection, evictions and instants, the open sessions of every
  account are the fold of the accepted messages: entering a room makes it the only place, an
  update adds its place or moves the session of the same gateway to it, leaving empties the account,
  and a message that is refused or fails changes nothing, even where a rolled back user stays in
  the cache.
\<close>

theorem sessions_refine_presence:
  assumes "schema_ok (w_db w)" and "c_users (w_cache w) = []" and "handle_msgs ms w = (rs, w')"
  shows "presence (w_db w') =
    fold (perform \<circ> act_of (w_cache w)) (accepted (map snd ms) rs) (presence (w_db w))"
proof -
  have "manager_inv w"
    using assms(1,2) by (simp add: manager_inv_def cache_inv_def UserCache_ByAccountsID_def)
  then show ?thesis using handle_msgs_presence [OF _ assms(3)] by blast
qed

definition fresh_world :: world where
  "fresh_world = cached_world\<lparr>w_cache := (w_cache cached_world)\<lparr>c_users := []\<rparr>\<rparr>"

definition visit :: "(env \<times> session_msg) list" where
  "visit = [(sample_env, Protocol (enter_text ''1051'')), (sample_env, Update revive_user),
     (sample_env, Protocol (enter_text ''9999'')), (sample_env, Gateway OtherEvent)]"

theorem sessions_refine_presence_witness:
  "presence (w_db (snd (handle_msgs visit fresh_world))) ''acc1'' = {(Some 2, Some 1, Some 7)}"
proof -
  have ok: "schema_ok (w_db fresh_world)" using cached_schema_ok by (simp add: fresh_world_def)
  have users: "c_users (w_cache fresh_world) = []" by (simp add: fresh_world_def)
  have "accepted (map snd visit) (fst (handle_msgs visit fresh_world)) =
    [Protocol (enter_text ''1051''), Update revive_user, Gateway OtherEvent]"
    by code_simp
  moreover have "act_of (w_cache fresh_world) (Protocol (enter_text ''1051'')) = Enter ''acc1'' (Some 1, Some 1, Some 7)"
    "act_of (w_cache fresh_world) (Update revive_user) = Move ''acc1'' (Some 2, Some 1, Some 7)"
    by code_simp+
  ultimately show ?thesis
    using sessions_refine_presence [OF ok users, of visit "fst (handle_msgs visit fresh_world)"
        "snd (handle_msgs visit fresh_world)"]
    by (auto simp: same_key_def)
qed

end
