(* ===== verification/Boil.thy ===== *)
theory Boil
  imports Prelude Go_Std
begin

text \<open>
  The statements of the model layer at the level of their text (\<^verbatim>\<open>models/*.go\<close>).  Every table
  has the same functions with other names: the definitions here take a \<^verbatim>\<open>table\<close> (the names and
  column lists of the \<^verbatim>\<open>var\<close> blocks) and follow \<^verbatim>\<open>models/users.go\<close>;
  \<^verbatim>\<open>Boil_Tables\<close> applies them to the nine tables.

  An object of a model is the function from its \<^verbatim>\<open>boil\<close> tags to its values.  What the code
  takes from SQLBoiler (\<^verbatim>\<open>boil.Columns\<close>, \<^verbatim>\<open>queries\<close>, \<^verbatim>\<open>qm\<close>, \<^verbatim>\<open>strmangle\<close>) is the
  record \<^verbatim>\<open>boil\<close>, what it takes from \<^verbatim>\<open>database/sql\<close> the record \<^verbatim>\<open>executor\<close>.
  \<^verbatim>\<open>boil.DebugMode\<close> only prints and is off.
\<close>

section \<open>Tables, column sets and the libraries\<close>

type_synonym 'v obj = "string \<Rightarrow> 'v"

record table =
  tab :: string
  sing :: string
  typeName :: string
  allColumns :: "string list"
  columnsWithoutDefault :: "string list"
  columnsWithDefault :: "string list"
  primaryKeyColumns :: "string list"

text \<open>\<^verbatim>\<open>boil.Columns\<close>: the kind of the set and the columns it names.\<close>

record columns =
  Kind :: int
  Cols :: "string list"

text \<open>
  \<^verbatim>\<open>boil.Executor\<close>.  The value of \<^verbatim>\<open>exec_stmt\<close> is the result's \<^verbatim>\<open>RowsAffected\<close>, the value
  of \<^verbatim>\<open>query_row\<close> the row that \<^verbatim>\<open>Scan\<close> reads (\<^verbatim>\<open>ErrNoRows\<close> when there is none).
\<close>

record ('v, 'w) executor =
  exec_stmt :: "string \<Rightarrow> 'v list \<Rightarrow> ('w, gerr + int) prog"
  query_row :: "string \<Rightarrow> 'v list \<Rightarrow> ('w, 'v list) prog"

text \<open>
  A mapping (\<^verbatim>\<open>[]uint64\<close>) is the list of paths to the fields of a struct;
  \<^verbatim>\<open>ScanFields\<close> is \<^verbatim>\<open>Scan(PtrsFromMapping(value, mapping)...)\<close>, which may fail after it has
  set some of the fields.  \<^verbatim>\<open>'q\<close> is \<^verbatim>\<open>queries.Query\<close>, \<^verbatim>\<open>'d\<close> a \<^verbatim>\<open>qm.QueryMod\<close>.
\<close>

record ('v, 'q, 'd, 'w) boil =
  InsertColumnSet :: "columns \<Rightarrow> string list \<Rightarrow> string list \<Rightarrow> string list \<Rightarrow> string list \<Rightarrow>
    string list \<times> string list"
  UpdateColumnSet :: "columns \<Rightarrow> string list \<Rightarrow> string list \<Rightarrow> string list"
  NonZeroDefaultSet :: "string list \<Rightarrow> 'v obj \<Rightarrow> string list"
  BindMapping :: "string \<Rightarrow> string list \<Rightarrow> gerr + nat list"
  ValuesFromMapping :: "'v obj \<Rightarrow> nat list \<Rightarrow> 'v list"
  ScanFields :: "'v obj \<Rightarrow> nat list \<Rightarrow> 'v list \<Rightarrow> gerr option \<times> 'v obj"
  Placeholders :: "bool \<Rightarrow> nat \<Rightarrow> nat \<Rightarrow> nat \<Rightarrow> string"
  SetParamNames :: "string \<Rightarrow> string \<Rightarrow> nat \<Rightarrow> string list \<Rightarrow> string"
  WhereClause :: "string \<Rightarrow> string \<Rightarrow> nat \<Rightarrow> string list \<Rightarrow> string"
  WhereClauseRepeated :: "string \<Rightarrow> string \<Rightarrow> nat \<Rightarrow> string list \<Rightarrow> nat \<Rightarrow> string"
  IdentQuote :: "char \<Rightarrow> char \<Rightarrow> string \<Rightarrow> string"
  IdentQuoteSlice :: "char \<Rightarrow> char \<Rightarrow> string list \<Rightarrow> string list"
  ApplyMods :: "'d list \<Rightarrow> 'q"
  FromMod :: "string \<Rightarrow> 'd"
  Raw :: "string \<Rightarrow> 'v list \<Rightarrow> 'q"
  SetLimit :: "'q \<Rightarrow> int \<Rightarrow> 'q"
  SetSelectNone :: "'q \<Rightarrow> 'q"
  SetCount :: "'q \<Rightarrow> 'q"
  SetUpdate :: "'q \<Rightarrow> (string, 'v) gomap \<Rightarrow> 'q"
  SetDelete :: "'q \<Rightarrow> 'q"
  BindOne :: "('v, 'w) executor \<Rightarrow> 'q \<Rightarrow> ('w, 'v obj) prog"
  BindAll :: "('v, 'w) executor \<Rightarrow> 'q \<Rightarrow> ('w, 'v obj list) prog"
  QueryRowInt :: "('v, 'w) executor \<Rightarrow> 'q \<Rightarrow> ('w, int) prog"
  ExecQuery :: "('v, 'w) executor \<Rightarrow> 'q \<Rightarrow> ('w, gerr + int) prog"
  AsBool :: "'v list \<Rightarrow> gerr + bool"

text \<open>The quotes of \<^verbatim>\<open>dialect\<close>, and \<^verbatim>\<open>UseIndexPlaceholders\<close>.\<close>

definition LQ :: char where "LQ = CHR 0x22"
definition RQ :: char where "RQ = CHR 0x22"
definition UseIndexPlaceholders :: bool where "UseIndexPlaceholders = True"

section \<open>Text\<close>

definition dquoted :: "string \<Rightarrow> string" where
  "dquoted s = CHR 0x22 # s @ [CHR 0x22]"

fun strings_Join :: "string list \<Rightarrow> string \<Rightarrow> string" where
  "strings_Join [] sep = []"
| "strings_Join [x] sep = x"
| "strings_Join (x # y # xs) sep = x @ sep @ strings_Join (y # xs) sep"

text \<open>
  \<^verbatim>\<open>fmt.Sprintf\<close> of strings, for formats whose verbs are \<^verbatim>\<open>%s\<close> and \<^verbatim>\<open>%%\<close>: an argument too
  few is \<^verbatim>\<open>%!s(MISSING)\<close>, another verb \<^verbatim>\<open>%!c(string=...)\<close>, an argument too many the
  \<^verbatim>\<open>EXTRA\<close> tail.
\<close>

fun sprintf :: "string \<Rightarrow> string list \<Rightarrow> string" where
  "sprintf [] [] = []"
| "sprintf [] (a # as) = ''%!(EXTRA '' @ strings_Join (map ((@) ''string='') (a # as)) '', '' @ '')''"
| "sprintf [c] as = (if c = CHR ''%'' then ''%!(NOVERB)'' @ sprintf [] as else c # sprintf [] as)"
| "sprintf (c # d # f) as =
     (if c \<noteq> CHR ''%'' then c # sprintf (d # f) as
      else if d = CHR ''%'' then CHR ''%'' # sprintf f as
      else case as of
             [] \<Rightarrow> ''%!'' @ [d] @ ''(MISSING)'' @ sprintf f []
           | a # as' \<Rightarrow> (if d = CHR ''s'' then a
                        else ''%!'' @ [d] @ ''(string='' @ a @ '')'') @ sprintf f as')"

text \<open>\<^verbatim>\<open>"a"=$1 AND "b"=$2\<close>, as the templates write the primary key into their literals.\<close>

fun pkWhere :: "nat \<Rightarrow> string list \<Rightarrow> string" where
  "pkWhere i [] = []"
| "pkWhere i [c] = dquoted c @ ''=$'' @ itoa (int i)"
| "pkWhere i (c # d # cs) = dquoted c @ ''=$'' @ itoa (int i) @ '' AND '' @ pkWhere (Suc i) (d # cs)"

section \<open>Statement caches\<close>

record insertCache =
  query :: string
  retQuery :: string
  valueMapping :: "nat list"
  retMapping :: "nat list"

record updateCache =
  uquery :: string
  uvalueMapping :: "nat list"

definition makeCacheKey :: "columns \<Rightarrow> string list \<Rightarrow> string" where
  "makeCacheKey cs nzDefaults =
     itoa (Kind cs) @ concat (Cols cs) @
     (if nzDefaults \<noteq> [] then ''.'' else []) @ concat nzDefaults"

definition upsertKey :: "bool \<Rightarrow> string list \<Rightarrow> columns \<Rightarrow> columns \<Rightarrow> string list \<Rightarrow> string" where
  "upsertKey updateOnConflict conflictColumns updateColumns insertColumns nzDefaults =
     (if updateOnConflict then ''t'' else ''f'') @ ''.'' @ concat conflictColumns @ ''.'' @
     itoa (Kind updateColumns) @ concat (Cols updateColumns) @ ''.'' @
     itoa (Kind insertColumns) @ concat (Cols insertColumns) @ ''.'' @ concat nzDefaults"

text \<open>
  The state a method of a table's model works on: the object its receiver points to
  (\<^verbatim>\<open>None\<close>: a nil pointer), the table's three caches and the database behind the executor.
\<close>

record ('v, 'w) model_state =
  receiver :: "'v obj option"
  tabInsertCache :: "(string, insertCache) gomap"
  tabUpdateCache :: "(string, updateCache) gomap"
  tabUpsertCache :: "(string, insertCache) gomap"
  database :: 'w

definition onDb :: "('w, 'a) prog \<Rightarrow> (('v, 'w) model_state, 'a) prog" where
  "onDb m = (\<lambda>s. case m (database s) of (r, w) \<Rightarrow> (r, s\<lparr>database := w\<rparr>))"

definition sumP :: "gerr + 'a \<Rightarrow> ('s, 'a) prog" where
  "sumP x = (case x of Inl e \<Rightarrow> errP e | Inr a \<Rightarrow> returnP a)"

text \<open>\<^verbatim>\<open>if err != nil { return err }\<close> between the steps of a pure computation.\<close>

definition bindSum :: "gerr + 'a \<Rightarrow> ('a \<Rightarrow> gerr + 'b) \<Rightarrow> gerr + 'b" where
  "bindSum x f = (case x of Inl e \<Rightarrow> Inl e | Inr a \<Rightarrow> f a)"

definition failP :: "string \<Rightarrow> ('s, 'a) prog" where
  "failP msg = errP (EText msg)"

text \<open>\<^verbatim>\<open>reflect.Indirect\<close> of a nil pointer, read by \<^verbatim>\<open>ValuesFromMapping\<close>.\<close>

definition nil_value :: gerr where
  "nil_value = EText ''reflect: call of reflect.Value.Field on zero Value''"

definition scanP :: "('v, 'q, 'd, 'w) boil \<Rightarrow> 'v obj \<Rightarrow> nat list \<Rightarrow> 'v list \<Rightarrow>
    (('v, 'w) model_state, unit) prog" where
  "scanP L o' mapping row = (case ScanFields L o' mapping row of (e, o2) \<Rightarrow>
     bindP (modifyP (\<lambda>s. s\<lparr>receiver := Some o2\<rparr>))
       (\<lambda>_. case e of None \<Rightarrow> returnP () | Some e \<Rightarrow> errP e))"

definition primaryKeyMapping :: "('v, 'q, 'd, 'w) boil \<Rightarrow> table \<Rightarrow> nat list" where
  "primaryKeyMapping L T = (case BindMapping L (typeName T) (primaryKeyColumns T) of
     Inl e \<Rightarrow> [] | Inr m \<Rightarrow> m)"

section \<open>Insert\<close>

definition buildInsert :: "('v, 'q, 'd, 'w) boil \<Rightarrow> table \<Rightarrow> columns \<Rightarrow> string list \<Rightarrow>
    gerr + insertCache" where
  "buildInsert L T cs nzDefaults =
     (case InsertColumnSet L cs (allColumns T) (columnsWithDefault T) (columnsWithoutDefault T)
             nzDefaults of
        (wl, returnColumns) \<Rightarrow>
      bindSum (BindMapping L (typeName T) wl) (\<lambda>vm.
      bindSum (BindMapping L (typeName T) returnColumns) (\<lambda>rm.
      let q = (if length wl \<noteq> 0
               then sprintf (''INSERT INTO '' @ dquoted (tab T) @ '' ('' @ dquoted ''%s'' @
                      '') %%sVALUES (%s)%%s'')
                      [strings_Join wl (dquoted '',''),
                       Placeholders L UseIndexPlaceholders (length wl) 1 1]
               else ''INSERT INTO '' @ dquoted (tab T) @ '' %sDEFAULT VALUES%s'');
          queryOutput = [];
          queryReturning = (if length rm \<noteq> 0
               then sprintf ('' RETURNING '' @ dquoted ''%s'') [strings_Join returnColumns (dquoted '','')]
               else [])
      in Inr \<lparr>query = sprintf q [queryOutput, queryReturning], retQuery = [],
              valueMapping = vm, retMapping = rm\<rparr>)))"

definition Insert :: "('v, 'q, 'd, 'w) boil \<Rightarrow> ('v, 'w) executor \<Rightarrow> table \<Rightarrow> columns \<Rightarrow>
    (('v, 'w) model_state, unit) prog" where
  "Insert L X T cs = bindP (getsP receiver) (\<lambda>o'. case o' of
     None \<Rightarrow> failP (''models: no '' @ tab T @ '' provided for insertion'')
   | Some obj \<Rightarrow>
       (let nzDefaults = NonZeroDefaultSet L (columnsWithDefault T) obj;
            key = makeCacheKey cs nzDefaults
        in bindP (getsP (\<lambda>s. map_of (tabInsertCache s) key)) (\<lambda>cached.
           bindP (case cached of Some c \<Rightarrow> returnP c
                  | None \<Rightarrow> sumP (buildInsert L T cs nzDefaults)) (\<lambda>cache.
           let vals = ValuesFromMapping L obj (valueMapping cache)
           in bindP (wrapP (''models: unable to insert into '' @ tab T)
                (if length (retMapping cache) \<noteq> 0
                 then bindP (onDb (query_row X (query cache) vals)) (scanP L obj (retMapping cache))
                 else bindP (onDb (exec_stmt X (query cache) vals)) (\<lambda>_. returnP ()))) (\<lambda>_.
              case cached of Some c \<Rightarrow> returnP ()
              | None \<Rightarrow> modifyP (\<lambda>s. s\<lparr>tabInsertCache := AList.update key cache (tabInsertCache s)\<rparr>))))))"

section \<open>Update\<close>

definition buildUpdate :: "('v, 'q, 'd, 'w) boil \<Rightarrow> table \<Rightarrow> columns \<Rightarrow> gerr + updateCache" where
  "buildUpdate L T cs =
     (let wl = UpdateColumnSet L cs (allColumns T) (primaryKeyColumns T)
      in if length wl = 0
         then Inl (EText (''models: unable to update '' @ tab T @ '', could not build whitelist''))
         else let q = sprintf (''UPDATE '' @ dquoted (tab T) @ '' SET %s WHERE %s'')
                  [SetParamNames L [LQ] [RQ] 1 wl,
                   WhereClause L [LQ] [RQ] (length wl + 1) (primaryKeyColumns T)]
              in bindSum (BindMapping L (typeName T) (wl @ primaryKeyColumns T))
                   (\<lambda>m. Inr \<lparr>uquery = q, uvalueMapping = m\<rparr>))"

definition Update :: "('v, 'q, 'd, 'w) boil \<Rightarrow> ('v, 'w) executor \<Rightarrow> table \<Rightarrow> columns \<Rightarrow>
    (('v, 'w) model_state, int) prog" where
  "Update L X T cs =
     (let key = makeCacheKey cs []
      in bindP (getsP (\<lambda>s. map_of (tabUpdateCache s) key)) (\<lambda>cached.
         bindP (case cached of Some c \<Rightarrow> returnP c | None \<Rightarrow> sumP (buildUpdate L T cs)) (\<lambda>cache.
         bindP (getsP receiver) (\<lambda>o'. case o' of None \<Rightarrow> panicP nil_value | Some obj \<Rightarrow>
         let values = ValuesFromMapping L obj (uvalueMapping cache)
         in bindP (wrapP (''models: unable to update '' @ tab T @ '' row'')
              (onDb (exec_stmt X (uquery cache) values))) (\<lambda>result.
            bindP (wrapP (''models: failed to get rows affected by update for '' @ tab T)
              (sumP result)) (\<lambda>rowsAff.
            bindP (case cached of Some c \<Rightarrow> returnP ()
              | None \<Rightarrow> modifyP (\<lambda>s. s\<lparr>tabUpdateCache := AList.update key cache (tabUpdateCache s)\<rparr>))
              (\<lambda>_. returnP rowsAff)))))))"

section \<open>Upsert\<close>

fun excludedSet :: "(string \<Rightarrow> string) \<Rightarrow> nat \<Rightarrow> string list \<Rightarrow> string" where
  "excludedSet quote i [] = []"
| "excludedSet quote i (v # vs) =
     (if i \<noteq> 0 then '','' else []) @ quote v @ '' = EXCLUDED.'' @ quote v @
     excludedSet quote (Suc i) vs"

definition buildUpsertQueryPostgres :: "('v, 'q, 'd, 'w) boil \<Rightarrow> string \<Rightarrow> bool \<Rightarrow> string list \<Rightarrow>
    string list \<Rightarrow> string list \<Rightarrow> string list \<Rightarrow> string" where
  "buildUpsertQueryPostgres L tableName updateOnConflict ret update conflict whitelist =
     (let conflict = IdentQuoteSlice L LQ RQ conflict;
          whitelist = IdentQuoteSlice L LQ RQ whitelist;
          ret = IdentQuoteSlice L LQ RQ ret;
          columns = (if length whitelist \<noteq> 0
            then sprintf ''(%s) VALUES (%s)'' [strings_Join whitelist '', '',
                   Placeholders L UseIndexPlaceholders (length whitelist) 1 1]
            else ''DEFAULT VALUES'')
      in sprintf ''INSERT INTO %s %s ON CONFLICT '' [tableName, columns] @
         (if \<not> updateOnConflict \<or> length update = 0 then ''DO NOTHING''
          else ''('' @ strings_Join conflict '', '' @ '') DO UPDATE SET '' @
               excludedSet (IdentQuote L LQ RQ) 0 update) @
         (if length ret \<noteq> 0 then '' RETURNING '' @ strings_Join ret '', '' else []))"

definition buildUpsert :: "('v, 'q, 'd, 'w) boil \<Rightarrow> table \<Rightarrow> bool \<Rightarrow> string list \<Rightarrow> columns \<Rightarrow>
    columns \<Rightarrow> string list \<Rightarrow> gerr + insertCache" where
  "buildUpsert L T updateOnConflict conflictColumns updateColumns insertColumns nzDefaults =
     (case InsertColumnSet L insertColumns (allColumns T) (columnsWithDefault T)
             (columnsWithoutDefault T) nzDefaults of
        (ins, ret) \<Rightarrow>
      let update = UpdateColumnSet L updateColumns (allColumns T) (primaryKeyColumns T)
      in if updateOnConflict \<and> length update = 0
         then Inl (EText (''models: unable to upsert '' @ tab T @
                '', could not build update column list''))
         else let conflict = (if length conflictColumns = 0 then primaryKeyColumns T
                              else conflictColumns);
                  q = buildUpsertQueryPostgres L (dquoted (tab T)) updateOnConflict ret update
                        conflict ins
              in bindSum (BindMapping L (typeName T) ins) (\<lambda>vm.
                 bindSum (if length ret \<noteq> 0 then BindMapping L (typeName T) ret else Inr []) (\<lambda>rm.
                 Inr \<lparr>query = q, retQuery = [], valueMapping = vm, retMapping = rm\<rparr>)))"

definition Upsert :: "('v, 'q, 'd, 'w) boil \<Rightarrow> ('v, 'w) executor \<Rightarrow> table \<Rightarrow> bool \<Rightarrow>
    string list \<Rightarrow> columns \<Rightarrow> columns \<Rightarrow> (('v, 'w) model_state, unit) prog" where
  "Upsert L X T updateOnConflict conflictColumns updateColumns insertColumns =
   bindP (getsP receiver) (\<lambda>o'. case o' of
     None \<Rightarrow> failP (''models: no '' @ tab T @ '' provided for upsert'')
   | Some obj \<Rightarrow>
       (let nzDefaults = NonZeroDefaultSet L (columnsWithDefault T) obj;
            key = upsertKey updateOnConflict conflictColumns updateColumns insertColumns nzDefaults
        in bindP (getsP (\<lambda>s. map_of (tabUpsertCache s) key)) (\<lambda>cached.
           bindP (case cached of Some c \<Rightarrow> returnP c
                  | None \<Rightarrow> sumP (buildUpsert L T updateOnConflict conflictColumns updateColumns
                             insertColumns nzDefaults)) (\<lambda>cache.
           let vals = ValuesFromMapping L obj (valueMapping cache)
           in bindP (wrapP (''models: unable to upsert '' @ tab T)
                (if length (retMapping cache) \<noteq> 0
                 then tryP (bindP (onDb (query_row X (query cache) vals))
                              (scanP L obj (retMapping cache)))
                        (\<lambda>r. case r of
                             Inr u \<Rightarrow> returnP ()
                           | Inl e \<Rightarrow> if e = ENoRows then returnP () else errP e)
                 else bindP (onDb (exec_stmt X (query cache) vals)) (\<lambda>_. returnP ()))) (\<lambda>_.
              case cached of Some c \<Rightarrow> returnP ()
              | None \<Rightarrow> modifyP (\<lambda>s. s\<lparr>tabUpsertCache := AList.update key cache (tabUpsertCache s)\<rparr>))))))"

section \<open>Delete, Find, Reload, Exists\<close>

definition rowsAffectedP :: "string \<Rightarrow> string \<Rightarrow> ('w, gerr + int) prog \<Rightarrow> ('w, int) prog" where
  "rowsAffectedP failed noCount m = bindP (wrapP failed m) (\<lambda>result. wrapP noCount (sumP result))"

definition deleteText :: "table \<Rightarrow> string" where
  "deleteText T = ''DELETE FROM '' @ dquoted (tab T) @ '' WHERE '' @ pkWhere 1 (primaryKeyColumns T)"

definition Delete :: "('v, 'q, 'd, 'w) boil \<Rightarrow> ('v, 'w) executor \<Rightarrow> table \<Rightarrow> 'v obj option \<Rightarrow>
    ('w, int) prog" where
  "Delete L X T o' = (case o' of
     None \<Rightarrow> failP (''models: no '' @ typeName T @ '' provided for delete'')
   | Some obj \<Rightarrow>
       (let args = ValuesFromMapping L obj (primaryKeyMapping L T)
        in rowsAffectedP (''models: unable to delete from '' @ tab T)
             (''models: failed to get rows affected by delete for '' @ tab T)
             (exec_stmt X (deleteText T) args)))"

definition findText :: "('v, 'q, 'd, 'w) boil \<Rightarrow> table \<Rightarrow> string list \<Rightarrow> string" where
  "findText L T selectCols =
     (let sel = (if length selectCols > 0 then strings_Join (IdentQuoteSlice L LQ RQ selectCols) '',''
                 else ''*'')
      in sprintf (''select %s from '' @ dquoted (tab T) @ '' where '' @
           pkWhere 1 (primaryKeyColumns T)) [sel])"

definition noRowsP :: "string \<Rightarrow> ('w, 'a) prog \<Rightarrow> ('w, 'a) prog" where
  "noRowsP msg m = tryP m (\<lambda>r. case r of
     Inr x \<Rightarrow> returnP x
   | Inl e \<Rightarrow> if is_no_rows e then errP ENoRows else errP (EWrap msg e))"

definition Find :: "('v, 'q, 'd, 'w) boil \<Rightarrow> ('v, 'w) executor \<Rightarrow> table \<Rightarrow> 'v list \<Rightarrow>
    string list \<Rightarrow> ('w, 'v obj) prog" where
  "Find L X T pk selectCols =
     noRowsP (''models: unable to select from '' @ tab T)
       (BindOne L X (Raw L (findText L T selectCols) pk))"

text \<open>\<^verbatim>\<open>Reload\<close> of a nil pointer panics at \<^verbatim>\<open>o.ID\<close>.\<close>

definition Reload :: "('v, 'q, 'd, 'w) boil \<Rightarrow> ('v, 'w) executor \<Rightarrow> table \<Rightarrow>
    (('v, 'w) model_state, unit) prog" where
  "Reload L X T = bindP (getsP receiver) (\<lambda>o'. case o' of
     None \<Rightarrow> panicP (EText ''nil pointer dereference'')
   | Some obj \<Rightarrow> bindP (onDb (Find L X T (map obj (primaryKeyColumns T)) []))
       (\<lambda>ret. modifyP (\<lambda>s. s\<lparr>receiver := Some ret\<rparr>)))"

definition existsText :: "table \<Rightarrow> string" where
  "existsText T = ''select exists(select 1 from '' @ dquoted (tab T) @ '' where '' @
     pkWhere 1 (primaryKeyColumns T) @ '' limit 1)''"

definition RowExists :: "('v, 'q, 'd, 'w) boil \<Rightarrow> ('v, 'w) executor \<Rightarrow> table \<Rightarrow> 'v list \<Rightarrow>
    ('w, bool) prog" where
  "RowExists L X T pk =
     wrapP (''models: unable to check if '' @ tab T @ '' exists'')
       (bindP (query_row X (existsText T) pk) (\<lambda>row. sumP (AsBool L row)))"

section \<open>Operations on slices\<close>

text \<open>
  A slice of pointers is a list of optional objects.  The primary keys are read before any
  statement is sent; a nil element panics there.
\<close>

fun pkeyArgs :: "('v, 'q, 'd, 'w) boil \<Rightarrow> table \<Rightarrow> 'v obj option list \<Rightarrow> ('w, 'v list) prog" where
  "pkeyArgs L T [] = returnP []"
| "pkeyArgs L T (None # os) = panicP nil_value"
| "pkeyArgs L T (Some obj # os) = bindP (pkeyArgs L T os)
     (\<lambda>args. returnP (ValuesFromMapping L obj (primaryKeyMapping L T) @ args))"

text \<open>\<^verbatim>\<open>cols\<close> in the order in which the loop visits the map.\<close>

definition UpdateAllSlice :: "('v, 'q, 'd, 'w) boil \<Rightarrow> ('v, 'w) executor \<Rightarrow> table \<Rightarrow>
    'v obj option list \<Rightarrow> (string, 'v) gomap \<Rightarrow> ('w, int) prog" where
  "UpdateAllSlice L X T os cols =
     (if length os = 0 then returnP 0
      else if length cols = 0
      then failP ''models: update all requires at least one column argument''
      else let colNames = map fst cols
           in bindP (pkeyArgs L T os) (\<lambda>pks.
              let args = map snd cols @ pks;
                  sql = sprintf (''UPDATE '' @ dquoted (tab T) @ '' SET %s WHERE %s'')
                    [SetParamNames L [LQ] [RQ] 1 colNames,
                     WhereClauseRepeated L [LQ] [RQ] (length colNames + 1) (primaryKeyColumns T)
                       (length os)]
              in rowsAffectedP (''models: unable to update all in '' @ sing T @ '' slice'')
                   (''models: unable to retrieve rows affected all in update all '' @ sing T)
                   (exec_stmt X sql args)))"

definition deleteAllText :: "('v, 'q, 'd, 'w) boil \<Rightarrow> table \<Rightarrow> nat \<Rightarrow> string" where
  "deleteAllText L T n = ''DELETE FROM '' @ dquoted (tab T) @ '' WHERE '' @
     WhereClauseRepeated L [LQ] [RQ] 1 (primaryKeyColumns T) n"

definition DeleteAllSlice :: "('v, 'q, 'd, 'w) boil \<Rightarrow> ('v, 'w) executor \<Rightarrow> table \<Rightarrow>
    'v obj option list \<Rightarrow> ('w, int) prog" where
  "DeleteAllSlice L X T os =
     (if length os = 0 then returnP 0
      else bindP (pkeyArgs L T os) (\<lambda>args.
        rowsAffectedP (''models: unable to delete all from '' @ sing T @ '' slice'')
          (''models: failed to get rows affected by deleteall for '' @ tab T)
          (exec_stmt X (deleteAllText L T (length os)) args)))"

text \<open>
  \<^verbatim>\<open>ReloadAll\<close> returns what the slice is replaced with (\<^verbatim>\<open>None\<close>: it stays as it is).  A nil
  pointer to a slice is treated like an empty slice.
\<close>

definition reloadAllText :: "('v, 'q, 'd, 'w) boil \<Rightarrow> table \<Rightarrow> nat \<Rightarrow> string" where
  "reloadAllText L T n = ''SELECT '' @ dquoted (tab T) @ ''.* FROM '' @ dquoted (tab T) @ '' WHERE '' @
     WhereClauseRepeated L [LQ] [RQ] 1 (primaryKeyColumns T) n"

definition ReloadAll :: "('v, 'q, 'd, 'w) boil \<Rightarrow> ('v, 'w) executor \<Rightarrow> table \<Rightarrow>
    'v obj option list option \<Rightarrow> ('w, 'v obj list option) prog" where
  "ReloadAll L X T slice =
     (case slice of None \<Rightarrow> returnP None | Some os \<Rightarrow>
      if length os = 0 then returnP None
      else bindP (pkeyArgs L T os) (\<lambda>args.
        bindP (wrapP (''models: unable to reload all in '' @ typeName T @ ''Slice'')
          (BindAll L X (Raw L (reloadAllText L T (length os)) args))) (\<lambda>rows. returnP (Some rows))))"

section \<open>Operations on queries\<close>

definition NewTableQuery :: "('v, 'q, 'd, 'w) boil \<Rightarrow> table \<Rightarrow> 'd list \<Rightarrow> 'q" where
  "NewTableQuery L T mods = ApplyMods L (mods @ [FromMod L (dquoted (tab T))])"

definition One :: "('v, 'q, 'd, 'w) boil \<Rightarrow> ('v, 'w) executor \<Rightarrow> table \<Rightarrow> 'q \<Rightarrow>
    ('w, 'v obj) prog" where
  "One L X T q = noRowsP (''models: failed to execute a one query for '' @ tab T)
     (BindOne L X (SetLimit L q 1))"

definition All :: "('v, 'q, 'd, 'w) boil \<Rightarrow> ('v, 'w) executor \<Rightarrow> table \<Rightarrow> 'q \<Rightarrow>
    ('w, 'v obj list) prog" where
  "All L X T q = wrapP (''models: failed to assign all query results to '' @ typeName T @ '' slice'')
     (BindAll L X q)"

definition Count :: "('v, 'q, 'd, 'w) boil \<Rightarrow> ('v, 'w) executor \<Rightarrow> table \<Rightarrow> 'q \<Rightarrow>
    ('w, int) prog" where
  "Count L X T q = wrapP (''models: failed to count '' @ tab T @ '' rows'')
     (QueryRowInt L X (SetCount L (SetSelectNone L q)))"

definition Exists :: "('v, 'q, 'd, 'w) boil \<Rightarrow> ('v, 'w) executor \<Rightarrow> table \<Rightarrow> 'q \<Rightarrow>
    ('w, bool) prog" where
  "Exists L X T q =
     bindP (wrapP (''models: failed to check if '' @ tab T @ '' exists'')
       (QueryRowInt L X (SetLimit L (SetCount L (SetSelectNone L q)) 1)))
     (\<lambda>count. returnP (count > 0))"

definition UpdateAllQuery :: "('v, 'q, 'd, 'w) boil \<Rightarrow> ('v, 'w) executor \<Rightarrow> table \<Rightarrow> 'q \<Rightarrow>
    (string, 'v) gomap \<Rightarrow> ('w, int) prog" where
  "UpdateAllQuery L X T q cols =
     rowsAffectedP (''models: unable to update all for '' @ tab T)
       (''models: unable to retrieve rows affected for '' @ tab T)
       (ExecQuery L X (SetUpdate L q cols))"

definition DeleteAllQuery :: "('v, 'q, 'd, 'w) boil \<Rightarrow> ('v, 'w) executor \<Rightarrow> table \<Rightarrow> 'q option \<Rightarrow>
    ('w, int) prog" where
  "DeleteAllQuery L X T q' = (case q' of
     None \<Rightarrow> failP (''models: no '' @ sing T @ ''Query provided for delete all'')
   | Some q \<Rightarrow> rowsAffectedP (''models: unable to delete all from '' @ tab T)
       (''models: failed to get rows affected by deleteall for '' @ tab T)
       (ExecQuery L X (SetDelete L q)))"

end
