(* ===== verification/Boil_Keys.thy ===== *)
theory Boil_Keys
  imports Boil
begin

text \<open>
  The keys of the statement caches.  A key runs the column names together, so it determines
  the columns only where such a word splits in one way: \<^verbatim>\<open>decodable\<close> is the condition on
  a table's names under which it does (no name is a proper prefix of another unless what is
  left over starts like no name at all), \<^verbatim>\<open>makeCacheKey_inj\<close> and \<^verbatim>\<open>upsertKey_inj\<close> are the
  unique decoding of the keys.  \<^verbatim>\<open>memo\<close> is the contract of a cache with an injective key;
  it is interpreted on the keys and builders of the three caches.
\<close>

section \<open>Decimal numbers\<close>

definition num_char :: "char \<Rightarrow> bool" where
  "num_char c \<longleftrightarrow> is_digit c \<or> c = CHR ''-''"

lemma show_nat_all_digits: "c \<in> set (show_nat n) \<Longrightarrow> is_digit c"
proof (induction n rule: show_nat.induct)
  case (1 n)
  have "is_digit (byte (48 + n mod 10))"
    using mod_less_divisor [of 10 n] by (simp add: is_digit_def)
  moreover have "is_digit (byte (48 + n))" if "n < 10" using that by (simp add: is_digit_def)
  ultimately show ?case
    using 1 by (subst (asm) (2) show_nat.simps) (auto split: if_splits)
qed

lemma show_nat_inj: "show_nat m = show_nat n \<Longrightarrow> m = n"
  by (metis digits_val_show_nat option.inject)

lemma itoa_num: "c \<in> set (itoa k) \<Longrightarrow> num_char c"
  by (auto simp: itoa_def num_char_def dest: show_nat_all_digits split: if_splits)

lemma itoa_inj:
  assumes "itoa j = itoa k"
  shows "j = k"
proof -
  have sign: "show_nat n \<noteq> CHR ''-'' # w" for n w
    using hd_show_nat [of n "CHR ''-''" w] not_sign by blast
  show ?thesis
  proof (cases "j < 0")
    case True
    with assms sign show ?thesis
      by (cases "k < 0") (auto simp: itoa_def dest!: show_nat_inj, metis)
  next
    case False
    with assms sign show ?thesis
      by (cases "k < 0") (auto simp: itoa_def dest!: show_nat_inj)
  qed
qed

text \<open>A word that does not go on with a digit.\<close>

definition no_num :: "string \<Rightarrow> bool" where
  "no_num w \<longleftrightarrow> (case w of [] \<Rightarrow> True | c # _ \<Rightarrow> \<not> num_char c)"

lemma takeWhile_itoa: "no_num w \<Longrightarrow> takeWhile num_char (itoa k @ w) = itoa k"
  by (subst takeWhile_append2) (auto simp: itoa_num no_num_def split: list.splits)

lemma itoa_append_inj:
  assumes "itoa j @ v = itoa k @ w" "no_num v" "no_num w"
  shows "j = k \<and> v = w"
proof -
  have "itoa j = itoa k" using assms takeWhile_itoa by metis
  with assms(1) show ?thesis by (auto dest: itoa_inj)
qed

section \<open>Column names\<close>

definition decodable :: "string list \<Rightarrow> bool" where
  "decodable C \<longleftrightarrow>
     list_all (\<lambda>w. w \<noteq> [] \<and> \<not> num_char (hd w) \<and> CHR ''.'' \<notin> set w) C \<and>
     list_all (\<lambda>a. list_all (\<lambda>b. has_prefix b a \<and> length a < length b \<longrightarrow>
       hd (drop (length a) b) \<notin> set (map hd C)) C) C"

lemma decodable_name:
  "decodable C \<Longrightarrow> w \<in> set C \<Longrightarrow> w \<noteq> [] \<and> \<not> num_char (hd w) \<and> CHR ''.'' \<notin> set w"
  by (auto simp: decodable_def list_all_iff)

lemma decodable_rest:
  assumes "decodable C" "a \<in> set C" "a @ s \<in> set C" "s \<noteq> []" "c \<in> set C"
  shows "hd c \<noteq> hd s"
proof -
  have "has_prefix (a @ s) a \<and> length a < length (a @ s)" using assms(4) by simp
  with assms have "hd (drop (length a) (a @ s)) \<notin> set (map hd C)"
    unfolding decodable_def list_all_iff by blast
  then have "hd s \<notin> hd ` set C" by simp
  with assms(5) show ?thesis by (metis imageI)
qed

lemma concat_hd:
  assumes "decodable C" "set xs \<subseteq> set C" "concat xs = s @ w" "s \<noteq> []"
  obtains c where "c \<in> set C" "hd c = hd s"
proof -
  from assms(3,4) obtain x xs' where xs: "xs = x # xs'" by (cases xs) auto
  with assms decodable_name [of C x] have "x \<noteq> []" "x \<in> set C" by auto
  moreover have "hd (concat xs) = hd s" using assms(3,4) by simp
  ultimately show thesis using that [of x] xs by simp
qed

lemma concat_inj:
  "decodable C \<Longrightarrow> set xs \<subseteq> set C \<Longrightarrow> set ys \<subseteq> set C \<Longrightarrow> concat xs = concat ys \<Longrightarrow> xs = ys"
proof (induction xs arbitrary: ys)
  case Nil
  then show ?case using decodable_name by (cases ys) auto
next
  case (Cons x xs)
  with decodable_name [of C x] obtain y ys' where ys: "ys = y # ys'" by (cases ys) auto
  with Cons.prems have names: "x \<in> set C" "y \<in> set C" "set xs \<subseteq> set C" "set ys' \<subseteq> set C" by auto
  from Cons.prems(4) ys obtain us where
    us: "x = y @ us \<and> us @ concat xs = concat ys' \<or> x @ us = y \<and> concat xs = us @ concat ys'"
    by (auto simp: append_eq_append_conv2)
  have "us = []"
  proof (rule ccontr)
    assume ne: "us \<noteq> []"
    from us show False
    proof
      assume a: "x = y @ us \<and> us @ concat xs = concat ys'"
      then have e: "concat ys' = us @ concat xs" by simp
      obtain c where "c \<in> set C" "hd c = hd us"
        using concat_hd [OF Cons.prems(1) names(4) e ne] by blast
      then show False using decodable_rest [OF Cons.prems(1) names(2) _ ne] a names(1) by blast
    next
      assume a: "x @ us = y \<and> concat xs = us @ concat ys'"
      then have e: "concat xs = us @ concat ys'" by simp
      obtain c where "c \<in> set C" "hd c = hd us"
        using concat_hd [OF Cons.prems(1) names(3) e ne] by blast
      then show False using decodable_rest [OF Cons.prems(1) names(1) _ ne] a names(2) by blast
    qed
  qed
  with us have "x = y" "concat xs = concat ys'" by auto
  with Cons.IH [OF Cons.prems(1) names(3,4)] ys show ?case by simp
qed

lemma concat_no_dot: "decodable C \<Longrightarrow> set xs \<subseteq> set C \<Longrightarrow> CHR ''.'' \<notin> set (concat xs)"
  using decodable_name by fastforce

lemma concat_no_num:
  assumes "decodable C" "set xs \<subseteq> set C"
  shows "no_num (concat xs)"
proof (cases xs)
  case (Cons x xs')
  with assms decodable_name [of C x] show ?thesis
    by (cases x) (auto simp: no_num_def)
qed (simp add: no_num_def)

section \<open>The keys\<close>

lemma split_dot:
  "x \<notin> set a \<Longrightarrow> x \<notin> set a' \<Longrightarrow> a @ x # b = a' @ x # b' \<Longrightarrow> a = a' \<and> b = b'"
  by (induction a arbitrary: a') (auto simp: Cons_eq_append_conv append_eq_Cons_conv)

lemma dot_num [simp]: "\<not> num_char (CHR ''.'')"
  by (simp add: num_char_def is_digit_def code_def)

lemma itoa_no_dot: "CHR ''.'' \<notin> set (itoa k)"
  using itoa_num dot_num by blast

definition names_in :: "string list \<Rightarrow> columns \<Rightarrow> bool" where
  "names_in C cs \<longleftrightarrow> set (Cols cs) \<subseteq> set C"

definition insert_dom :: "table \<Rightarrow> columns \<times> string list \<Rightarrow> bool" where
  "insert_dom T i \<longleftrightarrow> decodable (allColumns T) \<and> names_in (allColumns T) (fst i) \<and>
     set (snd i) \<subseteq> set (allColumns T)"

definition upsert_dom :: "table \<Rightarrow>
    bool \<times> string list \<times> columns \<times> columns \<times> string list \<Rightarrow> bool" where
  "upsert_dom T = (\<lambda>(u, cf, us, ins, nz). decodable (allColumns T) \<and>
     set cf \<subseteq> set (allColumns T) \<and> names_in (allColumns T) us \<and> names_in (allColumns T) ins \<and>
     set nz \<subseteq> set (allColumns T))"

lemma columns_key_inj:
  assumes C: "decodable C" and n: "names_in C cs" "names_in C ds"
    and eq: "itoa (Kind cs) @ concat (Cols cs) = itoa (Kind ds) @ concat (Cols ds)"
  shows "cs = ds"
proof -
  have "Kind cs = Kind ds \<and> concat (Cols cs) = concat (Cols ds)"
    using eq concat_no_num [OF C] n unfolding names_in_def by (intro itoa_append_inj) auto
  with concat_inj [OF C] n have "Kind cs = Kind ds" "Cols cs = Cols ds"
    unfolding names_in_def by blast+
  then show ?thesis by simp
qed

lemma columns_key_no_dot:
  "decodable C \<Longrightarrow> names_in C cs \<Longrightarrow> CHR ''.'' \<notin> set (itoa (Kind cs) @ concat (Cols cs))"
  using itoa_no_dot concat_no_dot unfolding names_in_def by (metis Un_iff set_append)

lemma makeCacheKey_inj:
  assumes "insert_dom T (cs, nz)" "insert_dom T (ds, mz)"
    and eq: "makeCacheKey cs nz = makeCacheKey ds mz"
  shows "cs = ds \<and> nz = mz"
proof -
  let ?C = "allColumns T"
  from assms have C: "decodable ?C" and n: "names_in ?C cs" "names_in ?C ds"
    and z: "set nz \<subseteq> set ?C" "set mz \<subseteq> set ?C" by (simp_all add: insert_dom_def)
  let ?a = "itoa (Kind cs) @ concat (Cols cs)" and ?b = "itoa (Kind ds) @ concat (Cols ds)"
  have nd: "CHR ''.'' \<notin> set ?a" "CHR ''.'' \<notin> set ?b"
    using columns_key_no_dot [OF C] n by blast+
  consider "nz = []" "mz = []" | "nz \<noteq> []" "mz \<noteq> []" | "nz = []" "mz \<noteq> []" | "nz \<noteq> []" "mz = []"
    by blast
  then show ?thesis
  proof cases
    case 1
    with eq have "?a = ?b" by (simp add: makeCacheKey_def)
    with 1 columns_key_inj [OF C n] show ?thesis by simp
  next
    case 2
    with eq have "?a @ CHR ''.'' # concat nz = ?b @ CHR ''.'' # concat mz"
      by (simp add: makeCacheKey_def)
    with split_dot [OF nd] have "?a = ?b" "concat nz = concat mz" by blast+
    with columns_key_inj [OF C n] concat_inj [OF C z] show ?thesis by simp
  next
    case 3
    with eq have "?a = ?b @ CHR ''.'' # concat mz" by (simp add: makeCacheKey_def)
    with nd(1) show ?thesis by simp
  next
    case 4
    with eq have "?a @ CHR ''.'' # concat nz = ?b" by (simp add: makeCacheKey_def)
    then have "CHR ''.'' \<in> set ?b" by (metis in_set_conv_decomp)
    with nd(2) show ?thesis by blast
  qed
qed

lemma upsertKey_inj:
  assumes i: "upsert_dom T (u, cf, us, ins, nz)" and j: "upsert_dom T (v, df, vs, jns, mz)"
    and eq: "upsertKey u cf us ins nz = upsertKey v df vs jns mz"
  shows "(u, cf, us, ins, nz) = (v, df, vs, jns, mz)"
proof -
  let ?C = "allColumns T"
  let ?k = "\<lambda>cs. itoa (Kind cs) @ concat (Cols cs)"
  from i j have C: "decodable ?C" and n: "names_in ?C us" "names_in ?C vs" "names_in ?C ins"
      "names_in ?C jns"
    and z: "set cf \<subseteq> set ?C" "set df \<subseteq> set ?C" "set nz \<subseteq> set ?C" "set mz \<subseteq> set ?C"
    by (simp_all add: upsert_dom_def)
  have key: "upsertKey u cf us ins nz = (if u then CHR ''t'' else CHR ''f'') # CHR ''.'' #
      concat cf @ CHR ''.'' # ?k us @ CHR ''.'' # ?k ins @ CHR ''.'' # concat nz"
    for u cf us ins nz by (simp add: upsertKey_def)
  have nd: "CHR ''.'' \<notin> set (?k us)" "CHR ''.'' \<notin> set (?k vs)" "CHR ''.'' \<notin> set (?k ins)"
    "CHR ''.'' \<notin> set (?k jns)"
    using columns_key_no_dot [OF C] n by blast+
  have u: "u = v" and "concat cf @ CHR ''.'' # ?k us @ CHR ''.'' # ?k ins @ CHR ''.'' # concat nz =
      concat df @ CHR ''.'' # ?k vs @ CHR ''.'' # ?k jns @ CHR ''.'' # concat mz"
    using eq unfolding key by (auto split: if_splits)
  with split_dot [OF concat_no_dot [OF C z(1)] concat_no_dot [OF C z(2)]]
  have c: "concat cf = concat df" and
    "?k us @ CHR ''.'' # ?k ins @ CHR ''.'' # concat nz =
     ?k vs @ CHR ''.'' # ?k jns @ CHR ''.'' # concat mz"
    by blast+
  with split_dot [OF nd(1,2)] have a: "?k us = ?k vs"
    and "?k ins @ CHR ''.'' # concat nz = ?k jns @ CHR ''.'' # concat mz" by blast+
  with split_dot [OF nd(3,4)] have b: "?k ins = ?k jns" and "concat nz = concat mz" by blast+
  then show ?thesis
    using u concat_inj [OF C z(1,2) c] concat_inj [OF C z(3,4)] columns_key_inj [OF C n(1,2) a]
      columns_key_inj [OF C n(3,4) b] by simp
qed

end
