(* ===== verification/Boil_Transparent.thy ===== *)
theory Boil_Transparent
  imports Boil_Cache
begin

text \<open>
  \<^verbatim>\<open>Insert\<close>, \<^verbatim>\<open>Update\<close> and \<^verbatim>\<open>Upsert\<close> share one shape around their statement
  (\<^verbatim>\<open>cachedP\<close>): look the key up, build on a miss, run, store after success.  What runs in
  between does not read the caches (\<^verbatim>\<open>cache_free\<close>), so with valid caches a call does the same
  as with empty ones; \<^verbatim>\<open>run_calls_uncached\<close> says so for any sequence of calls.
\<close>

section \<open>Programs that do not look at the caches\<close>

definition without_caches :: "('v, 'w) model_state \<Rightarrow> ('v, 'w) model_state" where
  "without_caches s = s\<lparr>tabInsertCache := [], tabUpdateCache := [], tabUpsertCache := []\<rparr>"

lemma without_caches_eq:
  "without_caches s = without_caches t \<longleftrightarrow> receiver s = receiver t \<and> database s = database t"
  by (cases s; cases t) (auto simp: without_caches_def)

lemma without_caches_simps [simp]:
  "receiver (without_caches s) = receiver s" "database (without_caches s) = database s"
  "tabInsertCache (without_caches s) = []" "tabUpdateCache (without_caches s) = []"
  "tabUpsertCache (without_caches s) = []" "without_caches (without_caches s) = without_caches s"
  by (simp_all add: without_caches_def)

definition same_caches :: "('v, 'w) model_state \<Rightarrow> ('v, 'w) model_state \<Rightarrow> bool" where
  "same_caches s t \<longleftrightarrow> tabInsertCache s = tabInsertCache t \<and>
     tabUpdateCache s = tabUpdateCache t \<and> tabUpsertCache s = tabUpsertCache t"

definition alike :: "'a res \<times> ('v, 'w) model_state \<Rightarrow> 'a res \<times> ('v, 'w) model_state \<Rightarrow> bool" where
  "alike p q \<longleftrightarrow> fst p = fst q \<and> without_caches (snd p) = without_caches (snd q)"

lemma alike_refl [simp]: "alike p p" by (simp add: alike_def)

named_theorems cache_free "programs that neither read nor write the caches"

definition cacheless :: "(('v, 'w) model_state, 'a) prog \<Rightarrow> bool" where
  "cacheless m \<longleftrightarrow> (\<forall>s t. without_caches s = without_caches t \<longrightarrow> alike (m s) (m t))"

lemma cachelessD: "cacheless m \<Longrightarrow> without_caches s = without_caches t \<Longrightarrow> alike (m s) (m t)"
  by (simp add: cacheless_def)

lemma alike_bindP:
  assumes "alike (m s) (n t)"
    and "\<And>x s' t'. m s = (Ok x, s') \<Longrightarrow> n t = (Ok x, t') \<Longrightarrow> without_caches s' = without_caches t' \<Longrightarrow>
      alike (f x s') (g x t')"
  shows "alike (bindP m f s) (bindP n g t)"
  using assms by (cases "m s"; cases "n t") (auto simp: bindP_def alike_def split: res.split)

lemma cacheless_bindP [cache_free]: "cacheless m \<Longrightarrow> (\<And>x. cacheless (f x)) \<Longrightarrow> cacheless (bindP m f)"
  unfolding cacheless_def by (metis alike_bindP)

lemma cacheless_returnP [cache_free]: "cacheless (returnP x)"
  by (simp add: cacheless_def alike_def)

lemma cacheless_errP [cache_free]: "cacheless (errP x)"
  by (simp add: cacheless_def alike_def)

lemma cacheless_panicP [cache_free]: "cacheless (panicP x)"
  by (simp add: cacheless_def alike_def)

lemma cacheless_sumP [cache_free]: "cacheless (sumP x)"
  by (cases x) (simp_all add: sumP_def cache_free)

lemma cacheless_receiver [cache_free]: "cacheless (getsP receiver)"
  by (simp add: cacheless_def alike_def without_caches_eq)

lemma cacheless_wrapP [cache_free]:
  assumes "cacheless m" shows "cacheless (wrapP msg m)"
  unfolding cacheless_def
proof (intro allI impI)
  fix s t :: "('a, 'b) model_state"
  assume "without_caches s = without_caches t"
  with assms have "alike (m s) (m t)" by (rule cachelessD)
  then show "alike (wrapP msg m s) (wrapP msg m t)"
    by (cases "m s"; cases "m t") (auto simp: wrapP_def alike_def split: res.split)
qed

lemma cacheless_tryP [cache_free]:
  assumes m: "cacheless m" and f: "\<And>x. cacheless (f x)" shows "cacheless (tryP m f)"
  unfolding cacheless_def
proof (intro allI impI)
  fix s t :: "('a, 'b) model_state"
  assume "without_caches s = without_caches t"
  with m have "alike (m s) (m t)" by (rule cachelessD)
  then obtain r s' t' where r: "m s = (r, s')" "m t = (r, t')"
    and st: "without_caches s' = without_caches t'" by (metis alike_def prod.collapse)
  show "alike (tryP m f s) (tryP m f t)"
    using r st cachelessD [OF f st]
    by (cases r) (simp_all add: tryP_def alike_def)
qed

lemma cacheless_onDb [cache_free]: "cacheless (onDb m)"
  by (auto simp: cacheless_def alike_def onDb_def without_caches_eq split: prod.split)

lemma cacheless_scanP [cache_free]: "cacheless (scanP L o' mapping row)"
  by (auto simp: cacheless_def alike_def scanP_def without_caches_eq split: prod.split option.split)

lemma cacheless_case_option [cache_free]:
  "cacheless m \<Longrightarrow> (\<And>y. cacheless (f y)) \<Longrightarrow> cacheless (case x of None \<Rightarrow> m | Some y \<Rightarrow> f y)"
  by (cases x) simp_all

lemma cacheless_case_sum [cache_free]:
  "(\<And>y. cacheless (g y)) \<Longrightarrow> (\<And>y. cacheless (f y)) \<Longrightarrow> cacheless (case x of Inl y \<Rightarrow> g y | Inr y \<Rightarrow> f y)"
  by (cases x) simp_all

lemma cacheless_if [cache_free]: "cacheless m \<Longrightarrow> cacheless n \<Longrightarrow> cacheless (if b then m else n)"
  by simp

interpretation caches_kept: step_rel same_caches
  by unfold_locales (auto simp: same_caches_def)

lemma keeps_onDb [within_rules]: "within same_caches (onDb m)"
  by (auto simp: within_def onDb_def same_caches_def split: prod.split)

lemma keeps_scanP [within_rules]: "within same_caches (scanP L o' mapping row)"
  by (auto simp: within_def scanP_def same_caches_def split: prod.split option.split)

lemma keeps_sumP [within_rules]: "within same_caches (sumP x)"
  by (cases x) (simp_all add: sumP_def within_rules)

lemma bindP_sum: "bindP (sumP (Inr x)) f = f x"
  by (simp add: sumP_def)

section \<open>The shape of a cached call\<close>

definition cachedP :: "(('v, 'w) model_state \<Rightarrow> (string, 'e) gomap) \<Rightarrow>
    ((string, 'e) gomap \<Rightarrow> ('v, 'w) model_state \<Rightarrow> ('v, 'w) model_state) \<Rightarrow> string \<Rightarrow>
    gerr + 'e \<Rightarrow> ('e \<Rightarrow> (('v, 'w) model_state, 'a) prog) \<Rightarrow> (('v, 'w) model_state, 'a) prog" where
  "cachedP get put key build body =
     bindP (getsP (\<lambda>s. map_of (get s) key)) (\<lambda>cached.
     bindP (case cached of Some c \<Rightarrow> returnP c | None \<Rightarrow> sumP build) (\<lambda>cache.
     bindP (body cache) (\<lambda>x.
     bindP (case cached of Some c \<Rightarrow> returnP ()
            | None \<Rightarrow> modifyP (\<lambda>s. put (AList.update key cache (get s)) s)) (\<lambda>_. returnP x))))"

lemma cachedP_alike:
  assumes body: "\<And>c. cacheless (body c)"
    and put: "\<And>m s. without_caches (put m s) = without_caches s"
    and hit: "\<And>e. map_of (get s) key = Some e \<Longrightarrow> build = Inr e"
    and miss: "map_of (get t) key = None"
    and st: "without_caches s = without_caches t"
  shows "alike (cachedP get put key build body s) (cachedP get put key build body t)"
proof (cases build)
  case (Inl e)
  with hit have "map_of (get s) key = None" by (cases "map_of (get s) key") auto
  with Inl miss st show ?thesis by (simp add: cachedP_def sumP_def alike_def bindP_def)
next
  case (Inr e)
  have tail: "alike (bindP (body e) (\<lambda>x. bindP (if b then returnP ()
        else modifyP (\<lambda>s. put (AList.update key e (get s)) s)) (\<lambda>_. returnP x)) s)
      (bindP (body e) (\<lambda>x. bindP (modifyP (\<lambda>s. put (AList.update key e (get s)) s))
        (\<lambda>_. returnP x)) t)" for b
    using cachelessD [OF body st] by (rule alike_bindP) (simp add: alike_def put bindP_def)
  have s: "cachedP get put key build body s = bindP (body e) (\<lambda>x. bindP (if map_of (get s) key \<noteq> None
      then returnP () else modifyP (\<lambda>s. put (AList.update key e (get s)) s)) (\<lambda>_. returnP x)) s"
  proof (cases "map_of (get s) key")
    case None
    show ?thesis unfolding cachedP_def bindP_Ok [OF getsP_apply] None Inr
      by (simp only: option.case bindP_sum simp_thms if_False)
  next
    case (Some c)
    with hit Inr have "c = e" by simp
    show ?thesis unfolding cachedP_def bindP_Ok [OF getsP_apply] Some \<open>c = e\<close>
      by (simp only: option.case bindP_return option.distinct not_False_eq_True if_True)
  qed
  have t: "cachedP get put key build body t = bindP (body e) (\<lambda>x.
      bindP (modifyP (\<lambda>s. put (AList.update key e (get s)) s)) (\<lambda>_. returnP x)) t"
    unfolding cachedP_def bindP_Ok [OF getsP_apply] miss Inr
    by (simp only: option.case bindP_sum)
  show ?thesis unfolding s t by (rule tail)
qed

text \<open>What a call leaves behind: its caches as they were, or one entry more.\<close>

lemma cachedP_cache:
  assumes body: "\<And>c. within same_caches (body c)"
    and r: "cachedP get put key build body s = (r, s')"
  shows "same_caches s s' \<or>
    (\<exists>e s1. build = Inr e \<and> same_caches s s1 \<and> s' = put (AList.update key e (get s1)) s1)"
proof -
  have kept: "same_caches s s1" if "body c s = (x, s1)" for c x s1
    using withinD' [OF body that] .
  then show ?thesis
    using r caches_kept.R_refl [of s] unfolding cachedP_def
    by (cases build; cases "map_of (get s) key")
      (auto simp: bindP_def sumP_def split: prod.splits res.splits)
qed

lemma cachedP_keeps:
  assumes body: "\<And>c. within same_caches (body c)"
    and cong: "\<And>s t. same_caches s t \<Longrightarrow> P s \<Longrightarrow> P t"
    and store: "\<And>e t. build = Inr e \<Longrightarrow> P t \<Longrightarrow> P (put (AList.update key e (get t)) t)"
    and "P s"
  shows "P (snd (cachedP get put key build body s))"
  using cachedP_cache [OF body fst_run [OF refl, of "cachedP get put key build body s"]]
proof (elim disjE exE conjE)
  assume "same_caches s (snd (cachedP get put key build body s))"
  with cong \<open>P s\<close> show ?thesis by blast
next
  fix e s1
  assume a: "build = Inr e" "same_caches s s1"
    "snd (cachedP get put key build body s) = put (AList.update key e (get s1)) s1"
  from cong [OF a(2) \<open>P s\<close>] have "P s1" .
  with store [OF a(1)] show ?thesis by (simp add: a(3))
qed

section \<open>The three cached methods\<close>

definition insert_body :: "('v, 'q, 'd, 'w) boil \<Rightarrow> ('v, 'w) executor \<Rightarrow> table \<Rightarrow> 'v obj \<Rightarrow>
    insertCache \<Rightarrow> (('v, 'w) model_state, unit) prog" where
  "insert_body L X T obj cache =
     (let vals = ValuesFromMapping L obj (valueMapping cache)
      in wrapP (''models: unable to insert into '' @ tab T)
           (if length (retMapping cache) \<noteq> 0
            then bindP (onDb (query_row X (query cache) vals)) (scanP L obj (retMapping cache))
            else bindP (onDb (exec_stmt X (query cache) vals)) (\<lambda>_. returnP ())))"

definition upsert_body :: "('v, 'q, 'd, 'w) boil \<Rightarrow> ('v, 'w) executor \<Rightarrow> table \<Rightarrow> 'v obj \<Rightarrow>
    insertCache \<Rightarrow> (('v, 'w) model_state, unit) prog" where
  "upsert_body L X T obj cache =
     (let vals = ValuesFromMapping L obj (valueMapping cache)
      in wrapP (''models: unable to upsert '' @ tab T)
           (if length (retMapping cache) \<noteq> 0
            then tryP (bindP (onDb (query_row X (query cache) vals)) (scanP L obj (retMapping cache)))
                   (\<lambda>r. case r of
                        Inr u \<Rightarrow> returnP ()
                      | Inl e \<Rightarrow> if e = ENoRows then returnP () else errP e)
            else bindP (onDb (exec_stmt X (query cache) vals)) (\<lambda>_. returnP ())))"

definition update_body :: "('v, 'q, 'd, 'w) boil \<Rightarrow> ('v, 'w) executor \<Rightarrow> table \<Rightarrow>
    updateCache \<Rightarrow> (('v, 'w) model_state, int) prog" where
  "update_body L X T cache =
     bindP (getsP receiver) (\<lambda>o'. case o' of None \<Rightarrow> panicP nil_value | Some obj \<Rightarrow>
       bindP (wrapP (''models: unable to update '' @ tab T @ '' row'')
         (onDb (exec_stmt X (uquery cache) (ValuesFromMapping L obj (uvalueMapping cache)))))
       (\<lambda>result. wrapP (''models: failed to get rows affected by update for '' @ tab T)
         (sumP result)))"

lemma case_option_bind:
  "bindP (case x of None \<Rightarrow> m | Some y \<Rightarrow> f y) g =
   (case x of None \<Rightarrow> bindP m g | Some y \<Rightarrow> bindP (f y) g)"
  by (cases x) simp_all

lemma bindP_unit: "bindP m (\<lambda>x. returnP ()) = m"
  using bindP_returnP_right [of m] by (simp add: unit_eq)

lemma cachedP_unit:
  "cachedP get put key build body =
     bindP (getsP (\<lambda>s. map_of (get s) key)) (\<lambda>cached.
     bindP (case cached of Some c \<Rightarrow> returnP c | None \<Rightarrow> sumP build) (\<lambda>cache.
     bindP (body cache) (\<lambda>u :: unit. case cached of Some c \<Rightarrow> returnP ()
       | None \<Rightarrow> modifyP (\<lambda>s. put (AList.update key cache (get s)) s))))"
proof -
  have unit: "(\<lambda>u :: unit. bindP m (\<lambda>_. returnP u)) = (\<lambda>u. m)" for m :: "(('v, 'w) model_state, unit) prog"
    using bindP_unit [of m] by (simp add: fun_eq_iff)
  show ?thesis unfolding cachedP_def unit ..
qed

lemma Insert_cached:
  "Insert L X T cs = bindP (getsP receiver) (\<lambda>o'. case o' of
     None \<Rightarrow> failP (''models: no '' @ tab T @ '' provided for insertion'')
   | Some obj \<Rightarrow> let nz = NonZeroDefaultSet L (columnsWithDefault T) obj in
       cachedP tabInsertCache (\<lambda>m s. s\<lparr>tabInsertCache := m\<rparr>) (makeCacheKey cs nz)
         (buildInsert L T cs nz) (insert_body L X T obj))"
  unfolding Insert_def cachedP_unit insert_body_def Let_def ..

lemma Upsert_cached:
  "Upsert L X T u cf us ins = bindP (getsP receiver) (\<lambda>o'. case o' of
     None \<Rightarrow> failP (''models: no '' @ tab T @ '' provided for upsert'')
   | Some obj \<Rightarrow> let nz = NonZeroDefaultSet L (columnsWithDefault T) obj in
       cachedP tabUpsertCache (\<lambda>m s. s\<lparr>tabUpsertCache := m\<rparr>) (upsertKey u cf us ins nz)
         (buildUpsert L T u cf us ins nz) (upsert_body L X T obj))"
  unfolding Upsert_def cachedP_unit upsert_body_def Let_def ..

lemma Update_cached:
  "Update L X T cs = cachedP tabUpdateCache (\<lambda>m s. s\<lparr>tabUpdateCache := m\<rparr>) (makeCacheKey cs [])
     (buildUpdate L T cs) (update_body L X T)"
  unfolding Update_def cachedP_def update_body_def Let_def bindP_assoc case_option_bind
    bindP_panic ..

lemma Insert_at:
  "receiver s = Some obj \<Longrightarrow> nz = NonZeroDefaultSet L (columnsWithDefault T) obj \<Longrightarrow>
   Insert L X T cs s = cachedP tabInsertCache (\<lambda>m s. s\<lparr>tabInsertCache := m\<rparr>) (makeCacheKey cs nz)
     (buildInsert L T cs nz) (insert_body L X T obj) s"
  unfolding Insert_cached bindP_Ok [OF getsP_apply] by (simp only: option.case Let_def)

lemma Upsert_at:
  "receiver s = Some obj \<Longrightarrow> nz = NonZeroDefaultSet L (columnsWithDefault T) obj \<Longrightarrow>
   Upsert L X T u cf us ins s = cachedP tabUpsertCache (\<lambda>m s. s\<lparr>tabUpsertCache := m\<rparr>)
     (upsertKey u cf us ins nz) (buildUpsert L T u cf us ins nz) (upsert_body L X T obj) s"
  unfolding Upsert_cached bindP_Ok [OF getsP_apply] by (simp only: option.case Let_def)

lemma insert_body_cacheless [cache_free]: "cacheless (insert_body L X T obj c)"
  unfolding insert_body_def Let_def by (intro cache_free)

lemma upsert_body_cacheless [cache_free]: "cacheless (upsert_body L X T obj c)"
  unfolding upsert_body_def Let_def by (intro cache_free)

lemma update_body_cacheless [cache_free]: "cacheless (update_body L X T c)"
  unfolding update_body_def by (intro cache_free)

lemma insert_body_keeps: "within same_caches (insert_body L X T obj c)"
  unfolding insert_body_def Let_def by (intro within_rules)

lemma upsert_body_keeps: "within same_caches (upsert_body L X T obj c)"
  unfolding upsert_body_def Let_def by (intro within_rules)

lemma update_body_keeps: "within same_caches (update_body L X T c)"
  unfolding update_body_def by (intro within_rules)

end
