(* ===== verification/Boil_Calls.thy ===== *)
theory Boil_Calls
  imports Boil_Transparent
begin

text \<open>
  Sequences of calls on the model of one table, and the statement that the caches make no
  difference to them: every result, every object and the database are those of the code that
  builds each statement anew.
\<close>

section \<open>Valid caches\<close>

definition valid_caches :: "('v, 'q, 'd, 'w) boil \<Rightarrow> table \<Rightarrow> ('v, 'w) model_state \<Rightarrow> bool" where
  "valid_caches L T s \<longleftrightarrow>
     valid_memory (insert_dom T) insert_key (insert_build L T) (tabInsertCache s) \<and>
     valid_memory (update_dom T) update_key (buildUpdate L T) (tabUpdateCache s) \<and>
     valid_memory (upsert_dom T) upsert_key (upsert_build L T) (tabUpsertCache s)"

lemma valid_caches_cong: "same_caches s t \<Longrightarrow> valid_caches L T s \<longleftrightarrow> valid_caches L T t"
  by (simp add: valid_caches_def same_caches_def)

lemma valid_without [simp]: "valid_caches L T (without_caches s)"
  by (simp add: valid_caches_def ins.valid_Nil upd.valid_Nil ups.valid_Nil)

lemma valid_after_insert:
  "valid_caches L T s \<Longrightarrow> insert_dom T (cs, nz) \<Longrightarrow> buildInsert L T cs nz = Inr e \<Longrightarrow>
   valid_caches L T (s\<lparr>tabInsertCache := AList.update (makeCacheKey cs nz) e (tabInsertCache s)\<rparr>)"
  using ins.valid_update [where i = "(cs, nz)" and L = L and T = T]
  by (simp add: valid_caches_def insert_key_def insert_build_def)

lemma valid_after_update:
  "valid_caches L T s \<Longrightarrow> update_dom T cs \<Longrightarrow> buildUpdate L T cs = Inr e \<Longrightarrow>
   valid_caches L T (s\<lparr>tabUpdateCache := AList.update (makeCacheKey cs []) e (tabUpdateCache s)\<rparr>)"
  using upd.valid_update [where i = cs and L = L and T = T]
  by (simp add: valid_caches_def update_key_def)

lemma valid_after_upsert:
  "valid_caches L T s \<Longrightarrow> upsert_dom T (u, cf, us, ins, nz) \<Longrightarrow>
   buildUpsert L T u cf us ins nz = Inr e \<Longrightarrow>
   valid_caches L T (s\<lparr>tabUpsertCache :=
     AList.update (upsertKey u cf us ins nz) e (tabUpsertCache s)\<rparr>)"
  using ups.valid_update [where i = "(u, cf, us, ins, nz)" and L = L and T = T]
  by (simp add: valid_caches_def upsert_key_def upsert_build_def)

section \<open>Calls\<close>

datatype call =
    CInsert columns
  | CUpdate columns
  | CUpsert bool "string list" columns columns

text \<open>A caller names columns of the table only.\<close>

definition call_names :: "table \<Rightarrow> call \<Rightarrow> bool" where
  "call_names T c = (case c of
     CInsert cs \<Rightarrow> names_in (allColumns T) cs
   | CUpdate cs \<Rightarrow> names_in (allColumns T) cs
   | CUpsert u cf us ins \<Rightarrow> set cf \<subseteq> set (allColumns T) \<and> names_in (allColumns T) us \<and>
       names_in (allColumns T) ins)"

definition table_names :: "table \<Rightarrow> bool" where
  "table_names T \<longleftrightarrow> decodable (allColumns T) \<and> 
     list_all (\<lambda>d. d \<in> set (allColumns T)) (columnsWithDefault T)"

text \<open>\<^verbatim>\<open>queries.NonZeroDefaultSet\<close> selects among the columns it is given.\<close>

definition selects :: "('v, 'q, 'd, 'w) boil \<Rightarrow> bool" where
  "selects L \<longleftrightarrow> (\<forall>ds obj. set (NonZeroDefaultSet L ds obj) \<subseteq> set ds)"

definition run_call :: "('v, 'q, 'd, 'w) boil \<Rightarrow> table \<Rightarrow> ('v, 'w) executor \<times> 'v obj option \<times> call \<Rightarrow>
    (('v, 'w) model_state, int) prog" where
  "run_call L T = (\<lambda>(X, o', c). bindP (modifyP (\<lambda>s. s\<lparr>receiver := o'\<rparr>)) (\<lambda>_. case c of
     CInsert cs \<Rightarrow> bindP (Insert L X T cs) (\<lambda>_. returnP 0)
   | CUpdate cs \<Rightarrow> Update L X T cs
   | CUpsert u cf us ins \<Rightarrow> bindP (Upsert L X T u cf us ins) (\<lambda>_. returnP 0)))"

text \<open>
  The results of the calls with the objects they leave, and the state after the last.
  \<^verbatim>\<open>run_uncached\<close> empties the caches before every call.
\<close>

fun run_calls :: "('v, 'q, 'd, 'w) boil \<Rightarrow> table \<Rightarrow> (('v, 'w) executor \<times> 'v obj option \<times> call) list \<Rightarrow>
    ('v, 'w) model_state \<Rightarrow> (int res \<times> 'v obj option) list \<times> ('v, 'w) model_state" where
  "run_calls L T [] s = ([], s)"
| "run_calls L T (c # cs) s =
     (let (r, s1) = run_call L T c s; (rs, s2) = run_calls L T cs s1
      in ((r, receiver s1) # rs, s2))"

fun run_uncached :: "('v, 'q, 'd, 'w) boil \<Rightarrow> table \<Rightarrow>
    (('v, 'w) executor \<times> 'v obj option \<times> call) list \<Rightarrow> 'v obj option \<times> 'w \<Rightarrow>
    (int res \<times> 'v obj option) list \<times> 'w" where
  "run_uncached L T [] (ob, w) = ([], w)"
| "run_uncached L T (c # cs) (ob, w) =
     (let (r, s1) = run_call L T c \<lparr>receiver = ob, tabInsertCache = [], tabUpdateCache = [],
                                    tabUpsertCache = [], database = w\<rparr>;
          (rs, w2) = run_uncached L T cs (receiver s1, database s1)
      in ((r, receiver s1) # rs, w2))"

section \<open>One call\<close>

lemma table_names_nz:
  "table_names T \<Longrightarrow> selects L \<Longrightarrow>
   set (NonZeroDefaultSet L (columnsWithDefault T) obj) \<subseteq> set (allColumns T)"
  unfolding table_names_def selects_def list_all_iff by blast

lemma insert_hit:
  "valid_caches L T s \<Longrightarrow> insert_dom T (cs, nz) \<Longrightarrow>
   map_of (tabInsertCache s) (makeCacheKey cs nz) = Some e \<Longrightarrow> buildInsert L T cs nz = Inr e"
  using ins.valid_lookup [of T L "tabInsertCache s" "(cs, nz)" e]
  by (simp add: valid_caches_def insert_key_def insert_build_def)

lemma update_hit:
  "valid_caches L T s \<Longrightarrow> update_dom T cs \<Longrightarrow>
   map_of (tabUpdateCache s) (makeCacheKey cs []) = Some e \<Longrightarrow> buildUpdate L T cs = Inr e"
  using upd.valid_lookup [of T L "tabUpdateCache s" cs e]
  by (simp add: valid_caches_def update_key_def)

lemma upsert_hit:
  "valid_caches L T s \<Longrightarrow> upsert_dom T (u, cf, us, ins, nz) \<Longrightarrow>
   map_of (tabUpsertCache s) (upsertKey u cf us ins nz) = Some e \<Longrightarrow>
   buildUpsert L T u cf us ins nz = Inr e"
  using ups.valid_lookup [of T L "tabUpsertCache s" "(u, cf, us, ins, nz)" e]
  by (simp add: valid_caches_def upsert_key_def upsert_build_def)

lemma insert_dom_call:
  "table_names T \<Longrightarrow> selects L \<Longrightarrow> names_in (allColumns T) cs \<Longrightarrow>
   insert_dom T (cs, NonZeroDefaultSet L (columnsWithDefault T) obj)"
  using table_names_nz [of T L obj] by (simp add: insert_dom_def table_names_def)

lemma update_dom_call: "table_names T \<Longrightarrow> names_in (allColumns T) cs \<Longrightarrow> update_dom T cs"
  by (simp add: update_dom_def insert_dom_def table_names_def)

lemma upsert_dom_call:
  "table_names T \<Longrightarrow> selects L \<Longrightarrow> call_names T (CUpsert u cf us ins) \<Longrightarrow>
   upsert_dom T (u, cf, us, ins, NonZeroDefaultSet L (columnsWithDefault T) obj)"
  using table_names_nz [of T L obj] by (simp add: upsert_dom_def table_names_def call_names_def)

lemma Insert_alike:
  assumes "valid_caches L T s" "table_names T" "selects L" "names_in (allColumns T) cs"
  shows "alike (Insert L X T cs s) (Insert L X T cs (without_caches s))"
proof (cases "receiver s")
  case None
  then show ?thesis by (simp add: Insert_def failP_def alike_def)
next
  case (Some obj)
  note dom = insert_dom_call [OF assms(2-4), of obj]
  show ?thesis
    unfolding Insert_at [OF Some refl] Insert_at [where s = "without_caches s", OF without_caches_simps(1) [THEN trans, OF Some] refl]
    by (rule cachedP_alike [OF insert_body_cacheless _ insert_hit [OF assms(1) dom]]) (simp_all add: without_caches_def)
qed

lemma Insert_valid:
  assumes "valid_caches L T s" "table_names T" "selects L" "names_in (allColumns T) cs"
  shows "valid_caches L T (snd (Insert L X T cs s))"
proof (cases "receiver s")
  case None
  with assms(1) show ?thesis by (simp add: Insert_def failP_def)
next
  case (Some obj)
  note dom = insert_dom_call [OF assms(2-4), of obj]
  show ?thesis unfolding Insert_at [OF Some refl]
    by (rule cachedP_keeps [OF insert_body_keeps])
      (simp_all add: assms(1) valid_caches_cong valid_after_insert [OF _ dom])
qed

lemma Update_alike:
  assumes "valid_caches L T s" "table_names T" "names_in (allColumns T) cs"
  shows "alike (Update L X T cs s) (Update L X T cs (without_caches s))"
proof -
  note dom = update_dom_call [OF assms(2,3)]
  show ?thesis unfolding Update_cached
    by (rule cachedP_alike [OF update_body_cacheless _ update_hit [OF assms(1) dom]]) (simp_all add: without_caches_def)
qed

lemma Update_valid:
  assumes "valid_caches L T s" "table_names T" "names_in (allColumns T) cs"
  shows "valid_caches L T (snd (Update L X T cs s))"
proof -
  note dom = update_dom_call [OF assms(2,3)]
  show ?thesis unfolding Update_cached
    by (rule cachedP_keeps [OF update_body_keeps])
      (simp_all add: assms(1) valid_caches_cong valid_after_update [OF _ dom])
qed

lemma Upsert_alike:
  assumes "valid_caches L T s" "table_names T" "selects L" "call_names T (CUpsert u cf us ins)"
  shows "alike (Upsert L X T u cf us ins s) (Upsert L X T u cf us ins (without_caches s))"
proof (cases "receiver s")
  case None
  then show ?thesis by (simp add: Upsert_def failP_def alike_def)
next
  case (Some obj)
  note dom = upsert_dom_call [OF assms(2-4), of obj]
  show ?thesis
    unfolding Upsert_at [OF Some refl] Upsert_at [where s = "without_caches s", OF without_caches_simps(1) [THEN trans, OF Some] refl]
    by (rule cachedP_alike [OF upsert_body_cacheless _ upsert_hit [OF assms(1) dom]]) (simp_all add: without_caches_def)
qed

lemma Upsert_valid:
  assumes "valid_caches L T s" "table_names T" "selects L" "call_names T (CUpsert u cf us ins)"
  shows "valid_caches L T (snd (Upsert L X T u cf us ins s))"
proof (cases "receiver s")
  case None
  with assms(1) show ?thesis by (simp add: Upsert_def failP_def)
next
  case (Some obj)
  note dom = upsert_dom_call [OF assms(2-4), of obj]
  show ?thesis unfolding Upsert_at [OF Some refl]
    by (rule cachedP_keeps [OF upsert_body_keeps])
      (simp_all add: assms(1) valid_caches_cong valid_after_upsert [OF _ dom])
qed

lemma run_call_alike:
  assumes "valid_caches L T s" "table_names T" "selects L" "call_names T c"
  shows "alike (run_call L T (X, ob, c) s) (run_call L T (X, ob, c) (without_caches s)) \<and>
    valid_caches L T (snd (run_call L T (X, ob, c) s))"
proof -
  let ?s = "s\<lparr>receiver := ob\<rparr>"
  have v: "valid_caches L T ?s"
    using assms(1) by (simp add: valid_caches_def)
  have w: "(without_caches s)\<lparr>receiver := ob\<rparr> = without_caches ?s" by (simp add: without_caches_def)
  have ret: "alike (bindP m (\<lambda>_. returnP 0) ?s) (bindP m (\<lambda>_. returnP (0 :: int)) (without_caches ?s)) \<and>
      valid_caches L T (snd (bindP m (\<lambda>_. returnP (0 :: int)) ?s))"
    if "alike (m ?s) (m (without_caches ?s))" "valid_caches L T (snd (m ?s))"
    for m :: "(('a, 'd) model_state, unit) prog"
    using that by (cases "m ?s"; cases "fst (m ?s)"; cases "m (without_caches ?s)")
      (auto simp: bindP_def alike_def)
  show ?thesis
  proof (cases c)
    case (CInsert cs)
    with Insert_alike [OF v assms(2,3)] Insert_valid [OF v assms(2,3)] assms(4) show ?thesis
      by (simp add: run_call_def w ret call_names_def)
  next
    case (CUpdate cs)
    with Update_alike [OF v assms(2)] Update_valid [OF v assms(2)] assms(4) show ?thesis
      by (simp add: run_call_def w call_names_def)
  next
    case (CUpsert u cf us ins)
    with Upsert_alike [OF v assms(2,3)] Upsert_valid [OF v assms(2,3)] assms(4) show ?thesis
      by (simp add: run_call_def w ret)
  qed
qed

section \<open>Sequences of calls\<close>

lemma without_caches_record:
  "\<lparr>receiver = receiver s, tabInsertCache = [], tabUpdateCache = [], tabUpsertCache = [],
    database = database s\<rparr> = without_caches s"
  by (cases s) (simp add: without_caches_def)

lemma run_calls_valid:
  assumes "valid_caches L T s" "table_names T" "selects L"
    "list_all (\<lambda>(X, ob, c). call_names T c) cs"
  shows "run_uncached L T cs (receiver s, database s) =
    (let (rs, s') = run_calls L T cs s in (rs, database s'))"
  using assms(1,4)
proof (induction cs arbitrary: s)
  case Nil
  then show ?case by simp
next
  case (Cons x cs)
  obtain X ob c where x: "x = (X, ob, c)" by (cases x)
  obtain r s1 where r: "run_call L T x s = (r, s1)" by fastforce
  obtain r' s1' where r': "run_call L T x (without_caches s) = (r', s1')" by fastforce
  have "alike (r, s1) (r', s1') \<and> valid_caches L T s1"
    using run_call_alike [OF Cons.prems(1) assms(2,3), of c X ob] Cons.prems(2) x r r' by simp
  then have e: "r' = r" "receiver s1' = receiver s1" "database s1' = database s1"
    and v: "valid_caches L T s1"
    by (simp_all add: alike_def without_caches_eq)
  from Cons.IH [OF v] Cons.prems(2) show ?case
    by (simp add: without_caches_record r r' e split: prod.split)
qed

end
