(* ===== verification/Boil_Tables.thy ===== *)
theory Boil_Tables
  imports Boil_Calls
begin

text \<open>
  The models of the nine tables: the column lists of each \<^verbatim>\<open>models/*.go\<close> file and its
  functions, which are those of \<^verbatim>\<open>Boil\<close> on that table.  A slice's functions carry the suffix
  \<^verbatim>\<open>Slice\<close>, a query's the suffix \<^verbatim>\<open>Query\<close>.
\<close>

section \<open>users\<close>

definition userTable :: table where
  "userTable = \<lparr>tab = ''users'', sing = ''user'', typeName = ''User'',
     allColumns =
      [''id'', ''accounts_id'', ''email'', ''first_name'', ''last_name'', ''username'',
       ''disabled'', ''properties'', ''created_at'', ''updated_at'', ''removed_at''],
     columnsWithoutDefault =
      [''accounts_id'', ''email'', ''first_name'', ''last_name'', ''username'',
       ''properties'', ''updated_at'', ''removed_at''],
     columnsWithDefault =
      [''id'', ''disabled'', ''created_at''],
     primaryKeyColumns = [''id'']\<rparr>"

definition User_One :: "('v, 'q, 'd, 'w) boil \<Rightarrow> ('v, 'w) executor \<Rightarrow> 'q \<Rightarrow> ('w, 'v obj) prog" where
  "User_One L X q = One L X userTable q"

definition User_All :: "('v, 'q, 'd, 'w) boil \<Rightarrow> ('v, 'w) executor \<Rightarrow> 'q \<Rightarrow> ('w, 'v obj list) prog" where
  "User_All L X q = All L X userTable q"

definition User_Count :: "('v, 'q, 'd, 'w) boil \<Rightarrow> ('v, 'w) executor \<Rightarrow> 'q \<Rightarrow> ('w, int) prog" where
  "User_Count L X q = Count L X userTable q"

definition User_Exists :: "('v, 'q, 'd, 'w) boil \<Rightarrow> ('v, 'w) executor \<Rightarrow> 'q \<Rightarrow> ('w, bool) prog" where
  "User_Exists L X q = Exists L X userTable q"

definition Users_query :: "('v, 'q, 'd, 'w) boil \<Rightarrow> 'd list \<Rightarrow> 'q" where
  "Users_query L mods = NewTableQuery L userTable mods"

definition FindUser :: "('v, 'q, 'd, 'w) boil \<Rightarrow> ('v, 'w) executor \<Rightarrow> 'v \<Rightarrow> string list \<Rightarrow>
    ('w, 'v obj) prog" where
  "FindUser L X iD selectCols = Find L X userTable [iD] selectCols"

definition User_Insert :: "('v, 'q, 'd, 'w) boil \<Rightarrow> ('v, 'w) executor \<Rightarrow> columns \<Rightarrow>
    (('v, 'w) model_state, unit) prog" where
  "User_Insert L X cs = Insert L X userTable cs"

definition User_Update :: "('v, 'q, 'd, 'w) boil \<Rightarrow> ('v, 'w) executor \<Rightarrow> columns \<Rightarrow>
    (('v, 'w) model_state, int) prog" where
  "User_Update L X cs = Update L X userTable cs"

definition User_UpdateAllQuery :: "('v, 'q, 'd, 'w) boil \<Rightarrow> ('v, 'w) executor \<Rightarrow> 'q \<Rightarrow>
    (string, 'v) gomap \<Rightarrow> ('w, int) prog" where
  "User_UpdateAllQuery L X q cols = UpdateAllQuery L X userTable q cols"

definition User_UpdateAllSlice :: "('v, 'q, 'd, 'w) boil \<Rightarrow> ('v, 'w) executor \<Rightarrow>
    'v obj option list \<Rightarrow> (string, 'v) gomap \<Rightarrow> ('w, int) prog" where
  "User_UpdateAllSlice L X os cols = UpdateAllSlice L X userTable os cols"

definition User_Upsert :: "('v, 'q, 'd, 'w) boil \<Rightarrow> ('v, 'w) executor \<Rightarrow> bool \<Rightarrow>
    string list \<Rightarrow> columns \<Rightarrow> columns \<Rightarrow> (('v, 'w) model_state, unit) prog" where
  "User_Upsert L X updateOnConflict conflictColumns updateColumns insertColumns = 
     Upsert L X userTable updateOnConflict conflictColumns updateColumns insertColumns"

definition User_Delete :: "('v, 'q, 'd, 'w) boil \<Rightarrow> ('v, 'w) executor \<Rightarrow> 'v obj option \<Rightarrow> ('w, int) prog" where
  "User_Delete L X ob = Delete L X userTable ob"

definition User_DeleteAllQuery :: "('v, 'q, 'd, 'w) boil \<Rightarrow> ('v, 'w) executor \<Rightarrow> 'q option \<Rightarrow>
    ('w, int) prog" where
  "User_DeleteAllQuery L X q = DeleteAllQuery L X userTable q"

definition User_DeleteAllSlice :: "('v, 'q, 'd, 'w) boil \<Rightarrow> ('v, 'w) executor \<Rightarrow>
    'v obj option list \<Rightarrow> ('w, int) prog" where
  "User_DeleteAllSlice L X os = DeleteAllSlice L X userTable os"

definition User_Reload :: "('v, 'q, 'd, 'w) boil \<Rightarrow> ('v, 'w) executor \<Rightarrow> (('v, 'w) model_state, unit) prog" where
  "User_Reload L X = Reload L X userTable"

definition User_ReloadAll :: "('v, 'q, 'd, 'w) boil \<Rightarrow> ('v, 'w) executor \<Rightarrow>
    'v obj option list option \<Rightarrow> ('w, 'v obj list option) prog" where
  "User_ReloadAll L X slice = ReloadAll L X userTable slice"

definition UserExists :: "('v, 'q, 'd, 'w) boil \<Rightarrow> ('v, 'w) executor \<Rightarrow> 'v \<Rightarrow> ('w, bool) prog" where
  "UserExists L X iD = RowExists L X userTable [iD]"

section \<open>gateways\<close>

definition gatewayTable :: table where
  "gatewayTable = \<lparr>tab = ''gateways'', sing = ''gateway'', typeName = ''Gateway'',
     allColumns =
      [''id'', ''name'', ''description'', ''url'', ''admin_url'', ''admin_password'',
       ''disabled'', ''properties'', ''created_at'', ''updated_at'', ''removed_at'',
       ''events_password'', ''type''],
     columnsWithoutDefault =
      [''name'', ''description'', ''url'', ''admin_url'', ''admin_password'',
       ''properties'', ''updated_at'', ''removed_at'', ''type''],
     columnsWithDefault =
      [''id'', ''disabled'', ''created_at'', ''events_password''],
     primaryKeyColumns = [''id'']\<rparr>"

definition Gateway_One :: "('v, 'q, 'd, 'w) boil \<Rightarrow> ('v, 'w) executor \<Rightarrow> 'q \<Rightarrow> ('w, 'v obj) prog" where
  "Gateway_One L X q = One L X gatewayTable q"

definition Gateway_All :: "('v, 'q, 'd, 'w) boil \<Rightarrow> ('v, 'w) executor \<Rightarrow> 'q \<Rightarrow> ('w, 'v obj list) prog" where
  "Gateway_All L X q = All L X gatewayTable q"

definition Gateway_Count :: "('v, 'q, 'd, 'w) boil \<Rightarrow> ('v, 'w) executor \<Rightarrow> 'q \<Rightarrow> ('w, int) prog" where
  "Gateway_Count L X q = Count L X gatewayTable q"

definition Gateway_Exists :: "('v, 'q, 'd, 'w) boil \<Rightarrow> ('v, 'w) executor \<Rightarrow> 'q \<Rightarrow> ('w, bool) prog" where
  "Gateway_Exists L X q = Exists L X gatewayTable q"

definition Gateways_query :: "('v, 'q, 'd, 'w) boil \<Rightarrow> 'd list \<Rightarrow> 'q" where
  "Gateways_query L mods = NewTableQuery L gatewayTable mods"

definition FindGateway :: "('v, 'q, 'd, 'w) boil \<Rightarrow> ('v, 'w) executor \<Rightarrow> 'v \<Rightarrow> string list \<Rightarrow>
    ('w, 'v obj) prog" where
  "FindGateway L X iD selectCols = Find L X gatewayTable [iD] selectCols"

definition Gateway_Insert :: "('v, 'q, 'd, 'w) boil \<Rightarrow> ('v, 'w) executor \<Rightarrow> columns \<Rightarrow>
    (('v, 'w) model_state, unit) prog" where
  "Gateway_Insert L X cs = Insert L X gatewayTable cs"

definition Gateway_Update :: "('v, 'q, 'd, 'w) boil \<Rightarrow> ('v, 'w) executor \<Rightarrow> columns \<Rightarrow>
    (('v, 'w) model_state, int) prog" where
  "Gateway_Update L X cs = Update L X gatewayTable cs"

definition Gateway_UpdateAllQuery :: "('v, 'q, 'd, 'w) boil \<Rightarrow> ('v, 'w) executor \<Rightarrow> 'q \<Rightarrow>
    (string, 'v) gomap \<Rightarrow> ('w, int) prog" where
  "Gateway_UpdateAllQuery L X q cols = UpdateAllQuery L X gatewayTable q cols"

definition Gateway_UpdateAllSlice :: "('v, 'q, 'd, 'w) boil \<Rightarrow> ('v, 'w) executor \<Rightarrow>
    'v obj option list \<Rightarrow> (string, 'v) gomap \<Rightarrow> ('w, int) prog" where
  "Gateway_UpdateAllSlice L X os cols = UpdateAllSlice L X gatewayTable os cols"

definition Gateway_Upsert :: "('v, 'q, 'd, 'w) boil \<Rightarrow> ('v, 'w) executor \<Rightarrow> bool \<Rightarrow>
    string list \<Rightarrow> columns \<Rightarrow> columns \<Rightarrow> (('v, 'w) model_state, unit) prog" where
  "Gateway_Upsert L X updateOnConflict conflictColumns updateColumns insertColumns = 
     Upsert L X gatewayTable updateOnConflict conflictColumns updateColumns insertColumns"

definition Gateway_Delete :: "('v, 'q, 'd, 'w) boil \<Rightarrow> ('v, 'w) executor \<Rightarrow> 'v obj option \<Rightarrow> ('w, int) prog" where
  "Gateway_Delete L X ob = Delete L X gatewayTable ob"

definition Gateway_DeleteAllQuery :: "('v, 'q, 'd, 'w) boil \<Rightarrow> ('v, 'w) executor \<Rightarrow> 'q option \<Rightarrow>
    ('w, int) prog" where
  "Gateway_DeleteAllQuery L X q = DeleteAllQuery L X gatewayTable q"

definition Gateway_DeleteAllSlice :: "('v, 'q, 'd, 'w) boil \<Rightarrow> ('v, 'w) executor \<Rightarrow>
    'v obj option list \<Rightarrow> ('w, int) prog" where
  "Gateway_DeleteAllSlice L X os = DeleteAllSlice L X gatewayTable os"

definition Gateway_Reload :: "('v, 'q, 'd, 'w) boil \<Rightarrow> ('v, 'w) executor \<Rightarrow> (('v, 'w) model_state, unit) prog" where
  "Gateway_Reload L X = Reload L X gatewayTable"

definition Gateway_ReloadAll :: "('v, 'q, 'd, 'w) boil \<Rightarrow> ('v, 'w) executor \<Rightarrow>
    'v obj option list option \<Rightarrow> ('w, 'v obj list option) prog" where
  "Gateway_ReloadAll L X slice = ReloadAll L X gatewayTable slice"

definition GatewayExists :: "('v, 'q, 'd, 'w) boil \<Rightarrow> ('v, 'w) executor \<Rightarrow> 'v \<Rightarrow> ('w, bool) prog" where
  "GatewayExists L X iD = RowExists L X gatewayTable [iD]"

section \<open>rooms\<close>

definition roomTable :: table where
  "roomTable = \<lparr>tab = ''rooms'', sing = ''room'', typeName = ''Room'',
     allColumns =
      [''id'', ''name'', ''default_gateway_id'', ''gateway_uid'', ''disabled'',
       ''properties'', ''created_at'', ''updated_at'', ''removed_at'', ''extra'',
       ''region''],
     columnsWithoutDefault =
      [''name'', ''default_gateway_id'', ''gateway_uid'', ''properties'', ''updated_at'',
       ''removed_at'', ''extra'', ''region''],
     columnsWithDefault =
      [''id'', ''disabled'', ''created_at''],
     primaryKeyColumns = [''id'']\<rparr>"

definition Room_One :: "('v, 'q, 'd, 'w) boil \<Rightarrow> ('v, 'w) executor \<Rightarrow> 'q \<Rightarrow> ('w, 'v obj) prog" where
  "Room_One L X q = One L X roomTable q"

definition Room_All :: "('v, 'q, 'd, 'w) boil \<Rightarrow> ('v, 'w) executor \<Rightarrow> 'q \<Rightarrow> ('w, 'v obj list) prog" where
  "Room_All L X q = All L X roomTable q"

definition Room_Count :: "('v, 'q, 'd, 'w) boil \<Rightarrow> ('v, 'w) executor \<Rightarrow> 'q \<Rightarrow> ('w, int) prog" where
  "Room_Count L X q = Count L X roomTable q"

definition Room_Exists :: "('v, 'q, 'd, 'w) boil \<Rightarrow> ('v, 'w) executor \<Rightarrow> 'q \<Rightarrow> ('w, bool) prog" where
  "Room_Exists L X q = Exists L X roomTable q"

definition Rooms_query :: "('v, 'q, 'd, 'w) boil \<Rightarrow> 'd list \<Rightarrow> 'q" where
  "Rooms_query L mods = NewTableQuery L roomTable mods"

definition FindRoom :: "('v, 'q, 'd, 'w) boil \<Rightarrow> ('v, 'w) executor \<Rightarrow> 'v \<Rightarrow> string list \<Rightarrow>
    ('w, 'v obj) prog" where
  "FindRoom L X iD selectCols = Find L X roomTable [iD] selectCols"

definition Room_Insert :: "('v, 'q, 'd, 'w) boil \<Rightarrow> ('v, 'w) executor \<Rightarrow> columns \<Rightarrow>
    (('v, 'w) model_state, unit) prog" where
  "Room_Insert L X cs = Insert L X roomTable cs"

definition Room_Update :: "('v, 'q, 'd, 'w) boil \<Rightarrow> ('v, 'w) executor \<Rightarrow> columns \<Rightarrow>
    (('v, 'w) model_state, int) prog" where
  "Room_Update L X cs = Update L X roomTable cs"

definition Room_UpdateAllQuery :: "('v, 'q, 'd, 'w) boil \<Rightarrow> ('v, 'w) executor \<Rightarrow> 'q \<Rightarrow>
    (string, 'v) gomap \<Rightarrow> ('w, int) prog" where
  "Room_UpdateAllQuery L X q cols = UpdateAllQuery L X roomTable q cols"

definition Room_UpdateAllSlice :: "('v, 'q, 'd, 'w) boil \<Rightarrow> ('v, 'w) executor \<Rightarrow>
    'v obj option list \<Rightarrow> (string, 'v) gomap \<Rightarrow> ('w, int) prog" where
  "Room_UpdateAllSlice L X os cols = UpdateAllSlice L X roomTable os cols"

definition Room_Upsert :: "('v, 'q, 'd, 'w) boil \<Rightarrow> ('v, 'w) executor \<Rightarrow> bool \<Rightarrow>
    string list \<Rightarrow> columns \<Rightarrow> columns \<Rightarrow> (('v, 'w) model_state, unit) prog" where
  "Room_Upsert L X updateOnConflict conflictColumns updateColumns insertColumns = 
     Upsert L X roomTable updateOnConflict conflictColumns updateColumns insertColumns"

definition Room_Delete :: "('v, 'q, 'd, 'w) boil \<Rightarrow> ('v, 'w) executor \<Rightarrow> 'v obj option \<Rightarrow> ('w, int) prog" where
  "Room_Delete L X ob = Delete L X roomTable ob"

definition Room_DeleteAllQuery :: "('v, 'q, 'd, 'w) boil \<Rightarrow> ('v, 'w) executor \<Rightarrow> 'q option \<Rightarrow>
    ('w, int) prog" where
  "Room_DeleteAllQuery L X q = DeleteAllQuery L X roomTable q"

definition Room_DeleteAllSlice :: "('v, 'q, 'd, 'w) boil \<Rightarrow> ('v, 'w) executor \<Rightarrow>
    'v obj option list \<Rightarrow> ('w, int) prog" where
  "Room_DeleteAllSlice L X os = DeleteAllSlice L X roomTable os"

definition Room_Reload :: "('v, 'q, 'd, 'w) boil \<Rightarrow> ('v, 'w) executor \<Rightarrow> (('v, 'w) model_state, unit) prog" where
  "Room_Reload L X = Reload L X roomTable"

definition Room_ReloadAll :: "('v, 'q, 'd, 'w) boil \<Rightarrow> ('v, 'w) executor \<Rightarrow>
    'v obj option list option \<Rightarrow> ('w, 'v obj list option) prog" where
  "Room_ReloadAll L X slice = ReloadAll L X roomTable slice"

definition RoomExists :: "('v, 'q, 'd, 'w) boil \<Rightarrow> ('v, 'w) executor \<Rightarrow> 'v \<Rightarrow> ('w, bool) prog" where
  "RoomExists L X iD = RowExists L X roomTable [iD]"

section \<open>sessions\<close>

definition sessionTable :: table where
  "sessionTable = \<lparr>tab = ''sessions'', sing = ''session'', typeName = ''Session'',
     allColumns =
      [''id'', ''user_id'', ''room_id'', ''gateway_id'', ''gateway_session'',
       ''gateway_handle'', ''gateway_feed'', ''display'', ''camera'', ''question'',
       ''self_test'', ''sound_test'', ''user_agent'', ''ip_address'', ''properties'',
       ''created_at'', ''updated_at'', ''removed_at'', ''extra'',
       ''gateway_handle_textroom''],
     columnsWithoutDefault =
      [''user_id'', ''room_id'', ''gateway_id'', ''gateway_session'', ''gateway_handle'',
       ''gateway_feed'', ''display'', ''user_agent'', ''ip_address'', ''properties'',
       ''updated_at'', ''removed_at'', ''extra'', ''gateway_handle_textroom''],
     columnsWithDefault =
      [''id'', ''camera'', ''question'', ''self_test'', ''sound_test'', ''created_at''],
     primaryKeyColumns = [''id'']\<rparr>"

definition Session_One :: "('v, 'q, 'd, 'w) boil \<Rightarrow> ('v, 'w) executor \<Rightarrow> 'q \<Rightarrow> ('w, 'v obj) prog" where
  "Session_One L X q = One L X sessionTable q"

definition Session_All :: "('v, 'q, 'd, 'w) boil \<Rightarrow> ('v, 'w) executor \<Rightarrow> 'q \<Rightarrow> ('w, 'v obj list) prog" where
  "Session_All L X q = All L X sessionTable q"

definition Session_Count :: "('v, 'q, 'd, 'w) boil \<Rightarrow> ('v, 'w) executor \<Rightarrow> 'q \<Rightarrow> ('w, int) prog" where
  "Session_Count L X q = Count L X sessionTable q"

definition Session_Exists :: "('v, 'q, 'd, 'w) boil \<Rightarrow> ('v, 'w) executor \<Rightarrow> 'q \<Rightarrow> ('w, bool) prog" where
  "Session_Exists L X q = Exists L X sessionTable q"

definition Sessions_query :: "('v, 'q, 'd, 'w) boil \<Rightarrow> 'd list \<Rightarrow> 'q" where
  "Sessions_query L mods = NewTableQuery L sessionTable mods"

definition FindSession :: "('v, 'q, 'd, 'w) boil \<Rightarrow> ('v, 'w) executor \<Rightarrow> 'v \<Rightarrow> string list \<Rightarrow>
    ('w, 'v obj) prog" where
  "FindSession L X iD selectCols = Find L X sessionTable [iD] selectCols"

definition Session_Insert :: "('v, 'q, 'd, 'w) boil \<Rightarrow> ('v, 'w) executor \<Rightarrow> columns \<Rightarrow>
    (('v, 'w) model_state, unit) prog" where
  "Session_Insert L X cs = Insert L X sessionTable cs"

definition Session_Update :: "('v, 'q, 'd, 'w) boil \<Rightarrow> ('v, 'w) executor \<Rightarrow> columns \<Rightarrow>
    (('v, 'w) model_state, int) prog" where
  "Session_Update L X cs = Update L X sessionTable cs"

definition Session_UpdateAllQuery :: "('v, 'q, 'd, 'w) boil \<Rightarrow> ('v, 'w) executor \<Rightarrow> 'q \<Rightarrow>
    (string, 'v) gomap \<Rightarrow> ('w, int) prog" where
  "Session_UpdateAllQuery L X q cols = UpdateAllQuery L X sessionTable q cols"

definition Session_UpdateAllSlice :: "('v, 'q, 'd, 'w) boil \<Rightarrow> ('v, 'w) executor \<Rightarrow>
    'v obj option list \<Rightarrow> (string, 'v) gomap \<Rightarrow> ('w, int) prog" where
  "Session_UpdateAllSlice L X os cols = UpdateAllSlice L X sessionTable os cols"

definition Session_Upsert :: "('v, 'q, 'd, 'w) boil \<Rightarrow> ('v, 'w) executor \<Rightarrow> bool \<Rightarrow>
    string list \<Rightarrow> columns \<Rightarrow> columns \<Rightarrow> (('v, 'w) model_state, unit) prog" where
  "Session_Upsert L X updateOnConflict conflictColumns updateColumns insertColumns = 
     Upsert L X sessionTable updateOnConflict conflictColumns updateColumns insertColumns"

definition Session_Delete :: "('v, 'q, 'd, 'w) boil \<Rightarrow> ('v, 'w) executor \<Rightarrow> 'v obj option \<Rightarrow> ('w, int) prog" where
  "Session_Delete L X ob = Delete L X sessionTable ob"

definition Session_DeleteAllQuery :: "('v, 'q, 'd, 'w) boil \<Rightarrow> ('v, 'w) executor \<Rightarrow> 'q option \<Rightarrow>
    ('w, int) prog" where
  "Session_DeleteAllQuery L X q = DeleteAllQuery L X sessionTable q"

definition Session_DeleteAllSlice :: "('v, 'q, 'd, 'w) boil \<Rightarrow> ('v, 'w) executor \<Rightarrow>
    'v obj option list \<Rightarrow> ('w, int) prog" where
  "Session_DeleteAllSlice L X os = DeleteAllSlice L X sessionTable os"

definition Session_Reload :: "('v, 'q, 'd, 'w) boil \<Rightarrow> ('v, 'w) executor \<Rightarrow> (('v, 'w) model_state, unit) prog" where
  "Session_Reload L X = Reload L X sessionTable"

definition Session_ReloadAll :: "('v, 'q, 'd, 'w) boil \<Rightarrow> ('v, 'w) executor \<Rightarrow>
    'v obj option list option \<Rightarrow> ('w, 'v obj list option) prog" where
  "Session_ReloadAll L X slice = ReloadAll L X sessionTable slice"

definition SessionExists :: "('v, 'q, 'd, 'w) boil \<Rightarrow> ('v, 'w) executor \<Rightarrow> 'v \<Rightarrow> ('w, bool) prog" where
  "SessionExists L X iD = RowExists L X sessionTable [iD]"

section \<open>composites\<close>

definition compositeTable :: table where
  "compositeTable = \<lparr>tab = ''composites'', sing = ''composite'', typeName = ''Composite'',
     allColumns =
      [''id'', ''name'', ''description''],
     columnsWithoutDefault =
      [''name'', ''description''],
     columnsWithDefault =
      [''id''],
     primaryKeyColumns = [''id'']\<rparr>"

definition Composite_One :: "('v, 'q, 'd, 'w) boil \<Rightarrow> ('v, 'w) executor \<Rightarrow> 'q \<Rightarrow> ('w, 'v obj) prog" where
  "Composite_One L X q = One L X compositeTable q"

definition Composite_All :: "('v, 'q, 'd, 'w) boil \<Rightarrow> ('v, 'w) executor \<Rightarrow> 'q \<Rightarrow> ('w, 'v obj list) prog" where
  "Composite_All L X q = All L X compositeTable q"

definition Composite_Count :: "('v, 'q, 'd, 'w) boil \<Rightarrow> ('v, 'w) executor \<Rightarrow> 'q \<Rightarrow> ('w, int) prog" where
  "Composite_Count L X q = Count L X compositeTable q"

definition Composite_Exists :: "('v, 'q, 'd, 'w) boil \<Rightarrow> ('v, 'w) executor \<Rightarrow> 'q \<Rightarrow> ('w, bool) prog" where
  "Composite_Exists L X q = Exists L X compositeTable q"

definition Composites_query :: "('v, 'q, 'd, 'w) boil \<Rightarrow> 'd list \<Rightarrow> 'q" where
  "Composites_query L mods = NewTableQuery L compositeTable mods"

definition FindComposite :: "('v, 'q, 'd, 'w) boil \<Rightarrow> ('v, 'w) executor \<Rightarrow> 'v \<Rightarrow> string list \<Rightarrow>
    ('w, 'v obj) prog" where
  "FindComposite L X iD selectCols = Find L X compositeTable [iD] selectCols"

definition Composite_Insert :: "('v, 'q, 'd, 'w) boil \<Rightarrow> ('v, 'w) executor \<Rightarrow> columns \<Rightarrow>
    (('v, 'w) model_state, unit) prog" where
  "Composite_Insert L X cs = Insert L X compositeTable cs"

definition Composite_Update :: "('v, 'q, 'd, 'w) boil \<Rightarrow> ('v, 'w) executor \<Rightarrow> columns \<Rightarrow>
    (('v, 'w) model_state, int) prog" where
  "Composite_Update L X cs = Update L X compositeTable cs"

definition Composite_UpdateAllQuery :: "('v, 'q, 'd, 'w) boil \<Rightarrow> ('v, 'w) executor \<Rightarrow> 'q \<Rightarrow>
    (string, 'v) gomap \<Rightarrow> ('w, int) prog" where
  "Composite_UpdateAllQuery L X q cols = UpdateAllQuery L X compositeTable q cols"

definition Composite_UpdateAllSlice :: "('v, 'q, 'd, 'w) boil \<Rightarrow> ('v, 'w) executor \<Rightarrow>
    'v obj option list \<Rightarrow> (string, 'v) gomap \<Rightarrow> ('w, int) prog" where
  "Composite_UpdateAllSlice L X os cols = UpdateAllSlice L X compositeTable os cols"

definition Composite_Upsert :: "('v, 'q, 'd, 'w) boil \<Rightarrow> ('v, 'w) executor \<Rightarrow> bool \<Rightarrow>
    string list \<Rightarrow> columns \<Rightarrow> columns \<Rightarrow> (('v, 'w) model_state, unit) prog" where
  "Composite_Upsert L X updateOnConflict conflictColumns updateColumns insertColumns = 
     Upsert L X compositeTable updateOnConflict conflictColumns updateColumns insertColumns"

definition Composite_Delete :: "('v, 'q, 'd, 'w) boil \<Rightarrow> ('v, 'w) executor \<Rightarrow> 'v obj option \<Rightarrow> ('w, int) prog" where
  "Composite_Delete L X ob = Delete L X compositeTable ob"

definition Composite_DeleteAllQuery :: "('v, 'q, 'd, 'w) boil \<Rightarrow> ('v, 'w) executor \<Rightarrow> 'q option \<Rightarrow>
    ('w, int) prog" where
  "Composite_DeleteAllQuery L X q = DeleteAllQuery L X compositeTable q"

definition Composite_DeleteAllSlice :: "('v, 'q, 'd, 'w) boil \<Rightarrow> ('v, 'w) executor \<Rightarrow>
    'v obj option list \<Rightarrow> ('w, int) prog" where
  "Composite_DeleteAllSlice L X os = DeleteAllSlice L X compositeTable os"

definition Composite_Reload :: "('v, 'q, 'd, 'w) boil \<Rightarrow> ('v, 'w) executor \<Rightarrow> (('v, 'w) model_state, unit) prog" where
  "Composite_Reload L X = Reload L X compositeTable"

definition Composite_ReloadAll :: "('v, 'q, 'd, 'w) boil \<Rightarrow> ('v, 'w) executor \<Rightarrow>
    'v obj option list option \<Rightarrow> ('w, 'v obj list option) prog" where
  "Composite_ReloadAll L X slice = ReloadAll L X compositeTable slice"

definition CompositeExists :: "('v, 'q, 'd, 'w) boil \<Rightarrow> ('v, 'w) executor \<Rightarrow> 'v \<Rightarrow> ('w, bool) prog" where
  "CompositeExists L X iD = RowExists L X compositeTable [iD]"

section \<open>composites_rooms\<close>

definition compositesRoomTable :: table where
  "compositesRoomTable = \<lparr>tab = ''composites_rooms'', sing = ''compositesRoom'', typeName = ''CompositesRoom'',
     allColumns =
      [''composite_id'', ''room_id'', ''gateway_id'', ''position''],
     columnsWithoutDefault =
      [''composite_id'', ''room_id'', ''gateway_id''],
     columnsWithDefault =
      [''position''],
     primaryKeyColumns = [''composite_id'', ''room_id'', ''gateway_id'', ''position'']\<rparr>"

definition CompositesRoom_One :: "('v, 'q, 'd, 'w) boil \<Rightarrow> ('v, 'w) executor \<Rightarrow> 'q \<Rightarrow> ('w, 'v obj) prog" where
  "CompositesRoom_One L X q = One L X compositesRoomTable q"

definition CompositesRoom_All :: "('v, 'q, 'd, 'w) boil \<Rightarrow> ('v, 'w) executor \<Rightarrow> 'q \<Rightarrow> ('w, 'v obj list) prog" where
  "CompositesRoom_All L X q = All L X compositesRoomTable q"

definition CompositesRoom_Count :: "('v, 'q, 'd, 'w) boil \<Rightarrow> ('v, 'w) executor \<Rightarrow> 'q \<Rightarrow> ('w, int) prog" where
  "CompositesRoom_Count L X q = Count L X compositesRoomTable q"

definition CompositesRoom_Exists :: "('v, 'q, 'd, 'w) boil \<Rightarrow> ('v, 'w) executor \<Rightarrow> 'q \<Rightarrow> ('w, bool) prog" where
  "CompositesRoom_Exists L X q = Exists L X compositesRoomTable q"

definition CompositesRooms_query :: "('v, 'q, 'd, 'w) boil \<Rightarrow> 'd list \<Rightarrow> 'q" where
  "CompositesRooms_query L mods = NewTableQuery L compositesRoomTable mods"

definition FindCompositesRoom :: "('v, 'q, 'd, 'w) boil \<Rightarrow> ('v, 'w) executor \<Rightarrow> 'v \<Rightarrow> 'v \<Rightarrow> 'v \<Rightarrow> 'v \<Rightarrow> string list \<Rightarrow>
    ('w, 'v obj) prog" where
  "FindCompositesRoom L X compositeID roomID gatewayID position selectCols = Find L X compositesRoomTable [compositeID, roomID, gatewayID, position] selectCols"

definition CompositesRoom_Insert :: "('v, 'q, 'd, 'w) boil \<Rightarrow> ('v, 'w) executor \<Rightarrow> columns \<Rightarrow>
    (('v, 'w) model_state, unit) prog" where
  "CompositesRoom_Insert L X cs = Insert L X compositesRoomTable cs"

definition CompositesRoom_Update :: "('v, 'q, 'd, 'w) boil \<Rightarrow> ('v, 'w) executor \<Rightarrow> columns \<Rightarrow>
    (('v, 'w) model_state, int) prog" where
  "CompositesRoom_Update L X cs = Update L X compositesRoomTable cs"

definition CompositesRoom_UpdateAllQuery :: "('v, 'q, 'd, 'w) boil \<Rightarrow> ('v, 'w) executor \<Rightarrow> 'q \<Rightarrow>
    (string, 'v) gomap \<Rightarrow> ('w, int) prog" where
  "CompositesRoom_UpdateAllQuery L X q cols = UpdateAllQuery L X compositesRoomTable q cols"

definition CompositesRoom_UpdateAllSlice :: "('v, 'q, 'd, 'w) boil \<Rightarrow> ('v, 'w) executor \<Rightarrow>
    'v obj option list \<Rightarrow> (string, 'v) gomap \<Rightarrow> ('w, int) prog" where
  "CompositesRoom_UpdateAllSlice L X os cols = UpdateAllSlice L X compositesRoomTable os cols"

definition CompositesRoom_Upsert :: "('v, 'q, 'd, 'w) boil \<Rightarrow> ('v, 'w) executor \<Rightarrow> bool \<Rightarrow>
    string list \<Rightarrow> columns \<Rightarrow> columns \<Rightarrow> (('v, 'w) model_state, unit) prog" where
  "CompositesRoom_Upsert L X updateOnConflict conflictColumns updateColumns insertColumns = 
     Upsert L X compositesRoomTable updateOnConflict conflictColumns updateColumns insertColumns"

definition CompositesRoom_Delete :: "('v, 'q, 'd, 'w) boil \<Rightarrow> ('v, 'w) executor \<Rightarrow> 'v obj option \<Rightarrow> ('w, int) prog" where
  "CompositesRoom_Delete L X ob = Delete L X compositesRoomTable ob"

definition CompositesRoom_DeleteAllQuery :: "('v, 'q, 'd, 'w) boil \<Rightarrow> ('v, 'w) executor \<Rightarrow> 'q option \<Rightarrow>
    ('w, int) prog" where
  "CompositesRoom_DeleteAllQuery L X q = DeleteAllQuery L X compositesRoomTable q"

definition CompositesRoom_DeleteAllSlice :: "('v, 'q, 'd, 'w) boil \<Rightarrow> ('v, 'w) executor \<Rightarrow>
    'v obj option list \<Rightarrow> ('w, int) prog" where
  "CompositesRoom_DeleteAllSlice L X os = DeleteAllSlice L X compositesRoomTable os"

definition CompositesRoom_Reload :: "('v, 'q, 'd, 'w) boil \<Rightarrow> ('v, 'w) executor \<Rightarrow> (('v, 'w) model_state, unit) prog" where
  "CompositesRoom_Reload L X = Reload L X compositesRoomTable"

definition CompositesRoom_ReloadAll :: "('v, 'q, 'd, 'w) boil \<Rightarrow> ('v, 'w) executor \<Rightarrow>
    'v obj option list option \<Rightarrow> ('w, 'v obj list option) prog" where
  "CompositesRoom_ReloadAll L X slice = ReloadAll L X compositesRoomTable slice"

definition CompositesRoomExists :: "('v, 'q, 'd, 'w) boil \<Rightarrow> ('v, 'w) executor \<Rightarrow> 'v \<Rightarrow> 'v \<Rightarrow> 'v \<Rightarrow> 'v \<Rightarrow> ('w, bool) prog" where
  "CompositesRoomExists L X compositeID roomID gatewayID position = RowExists L X compositesRoomTable [compositeID, roomID, gatewayID, position]"

section \<open>room_statistics\<close>

definition roomStatisticTable :: table where
  "roomStatisticTable = \<lparr>tab = ''room_statistics'', sing = ''roomStatistic'', typeName = ''RoomStatistic'',
     allColumns =
      [''room_id'', ''on_air''],
     columnsWithoutDefault =
      [''room_id''],
     columnsWithDefault =
      [''on_air''],
     primaryKeyColumns = [''room_id'']\<rparr>"

definition RoomStatistic_One :: "('v, 'q, 'd, 'w) boil \<Rightarrow> ('v, 'w) executor \<Rightarrow> 'q \<Rightarrow> ('w, 'v obj) prog" where
  "RoomStatistic_One L X q = One L X roomStatisticTable q"

definition RoomStatistic_All :: "('v, 'q, 'd, 'w) boil \<Rightarrow> ('v, 'w) executor \<Rightarrow> 'q \<Rightarrow> ('w, 'v obj list) prog" where
  "RoomStatistic_All L X q = All L X roomStatisticTable q"

definition RoomStatistic_Count :: "('v, 'q, 'd, 'w) boil \<Rightarrow> ('v, 'w) executor \<Rightarrow> 'q \<Rightarrow> ('w, int) prog" where
  "RoomStatistic_Count L X q = Count L X roomStatisticTable q"

definition RoomStatistic_Exists :: "('v, 'q, 'd, 'w) boil \<Rightarrow> ('v, 'w) executor \<Rightarrow> 'q \<Rightarrow> ('w, bool) prog" where
  "RoomStatistic_Exists L X q = Exists L X roomStatisticTable q"

definition RoomStatistics_query :: "('v, 'q, 'd, 'w) boil \<Rightarrow> 'd list \<Rightarrow> 'q" where
  "RoomStatistics_query L mods = NewTableQuery L roomStatisticTable mods"

definition FindRoomStatistic :: "('v, 'q, 'd, 'w) boil \<Rightarrow> ('v, 'w) executor \<Rightarrow> 'v \<Rightarrow> string list \<Rightarrow>
    ('w, 'v obj) prog" where
  "FindRoomStatistic L X roomID selectCols = Find L X roomStatisticTable [roomID] selectCols"

definition RoomStatistic_Insert :: "('v, 'q, 'd, 'w) boil \<Rightarrow> ('v, 'w) executor \<Rightarrow> columns \<Rightarrow>
    (('v, 'w) model_state, unit) prog" where
  "RoomStatistic_Insert L X cs = Insert L X roomStatisticTable cs"

definition RoomStatistic_Update :: "('v, 'q, 'd, 'w) boil \<Rightarrow> ('v, 'w) executor \<Rightarrow> columns \<Rightarrow>
    (('v, 'w) model_state, int) prog" where
  "RoomStatistic_Update L X cs = Update L X roomStatisticTable cs"

definition RoomStatistic_UpdateAllQuery :: "('v, 'q, 'd, 'w) boil \<Rightarrow> ('v, 'w) executor \<Rightarrow> 'q \<Rightarrow>
    (string, 'v) gomap \<Rightarrow> ('w, int) prog" where
  "RoomStatistic_UpdateAllQuery L X q cols = UpdateAllQuery L X roomStatisticTable q cols"

definition RoomStatistic_UpdateAllSlice :: "('v, 'q, 'd, 'w) boil \<Rightarrow> ('v, 'w) executor \<Rightarrow>
    'v obj option list \<Rightarrow> (string, 'v) gomap \<Rightarrow> ('w, int) prog" where
  "RoomStatistic_UpdateAllSlice L X os cols = UpdateAllSlice L X roomStatisticTable os cols"

definition RoomStatistic_Upsert :: "('v, 'q, 'd, 'w) boil \<Rightarrow> ('v, 'w) executor \<Rightarrow> bool \<Rightarrow>
    string list \<Rightarrow> columns \<Rightarrow> columns \<Rightarrow> (('v, 'w) model_state, unit) prog" where
  "RoomStatistic_Upsert L X updateOnConflict conflictColumns updateColumns insertColumns = 
     Upsert L X roomStatisticTable updateOnConflict conflictColumns updateColumns insertColumns"

definition RoomStatistic_Delete :: "('v, 'q, 'd, 'w) boil \<Rightarrow> ('v, 'w) executor \<Rightarrow> 'v obj option \<Rightarrow> ('w, int) prog" where
  "RoomStatistic_Delete L X ob = Delete L X roomStatisticTable ob"

definition RoomStatistic_DeleteAllQuery :: "('v, 'q, 'd, 'w) boil \<Rightarrow> ('v, 'w) executor \<Rightarrow> 'q option \<Rightarrow>
    ('w, int) prog" where
  "RoomStatistic_DeleteAllQuery L X q = DeleteAllQuery L X roomStatisticTable q"

definition RoomStatistic_DeleteAllSlice :: "('v, 'q, 'd, 'w) boil \<Rightarrow> ('v, 'w) executor \<Rightarrow>
    'v obj option list \<Rightarrow> ('w, int) prog" where
  "RoomStatistic_DeleteAllSlice L X os = DeleteAllSlice L X roomStatisticTable os"

definition RoomStatistic_Reload :: "('v, 'q, 'd, 'w) boil \<Rightarrow> ('v, 'w) executor \<Rightarrow> (('v, 'w) model_state, unit) prog" where
  "RoomStatistic_Reload L X = Reload L X roomStatisticTable"

definition RoomStatistic_ReloadAll :: "('v, 'q, 'd, 'w) boil \<Rightarrow> ('v, 'w) executor \<Rightarrow>
    'v obj option list option \<Rightarrow> ('w, 'v obj list option) prog" where
  "RoomStatistic_ReloadAll L X slice = ReloadAll L X roomStatisticTable slice"

definition RoomStatisticExists :: "('v, 'q, 'd, 'w) boil \<Rightarrow> ('v, 'w) executor \<Rightarrow> 'v \<Rightarrow> ('w, bool) prog" where
  "RoomStatisticExists L X roomID = RowExists L X roomStatisticTable [roomID]"

section \<open>dynamic_config\<close>

definition dynamicConfigTable :: table where
  "dynamicConfigTable = \<lparr>tab = ''dynamic_config'', sing = ''dynamicConfig'', typeName = ''DynamicConfig'',
     allColumns =
      [''id'', ''key'', ''value'', ''updated_at''],
     columnsWithoutDefault =
      [''key'', ''value'', ''updated_at''],
     columnsWithDefault =
      [''id''],
     primaryKeyColumns = [''id'']\<rparr>"

definition DynamicConfig_One :: "('v, 'q, 'd, 'w) boil \<Rightarrow> ('v, 'w) executor \<Rightarrow> 'q \<Rightarrow> ('w, 'v obj) prog" where
  "DynamicConfig_One L X q = One L X dynamicConfigTable q"

definition DynamicConfig_All :: "('v, 'q, 'd, 'w) boil \<Rightarrow> ('v, 'w) executor \<Rightarrow> 'q \<Rightarrow> ('w, 'v obj list) prog" where
  "DynamicConfig_All L X q = All L X dynamicConfigTable q"

definition DynamicConfig_Count :: "('v, 'q, 'd, 'w) boil \<Rightarrow> ('v, 'w) executor \<Rightarrow> 'q \<Rightarrow> ('w, int) prog" where
  "DynamicConfig_Count L X q = Count L X dynamicConfigTable q"

definition DynamicConfig_Exists :: "('v, 'q, 'd, 'w) boil \<Rightarrow> ('v, 'w) executor \<Rightarrow> 'q \<Rightarrow> ('w, bool) prog" where
  "DynamicConfig_Exists L X q = Exists L X dynamicConfigTable q"

definition DynamicConfigs_query :: "('v, 'q, 'd, 'w) boil \<Rightarrow> 'd list \<Rightarrow> 'q" where
  "DynamicConfigs_query L mods = NewTableQuery L dynamicConfigTable mods"

definition FindDynamicConfig :: "('v, 'q, 'd, 'w) boil \<Rightarrow> ('v, 'w) executor \<Rightarrow> 'v \<Rightarrow> string list \<Rightarrow>
    ('w, 'v obj) prog" where
  "FindDynamicConfig L X iD selectCols = Find L X dynamicConfigTable [iD] selectCols"

definition DynamicConfig_Insert :: "('v, 'q, 'd, 'w) boil \<Rightarrow> ('v, 'w) executor \<Rightarrow> columns \<Rightarrow>
    (('v, 'w) model_state, unit) prog" where
  "DynamicConfig_Insert L X cs = Insert L X dynamicConfigTable cs"

definition DynamicConfig_Update :: "('v, 'q, 'd, 'w) boil \<Rightarrow> ('v, 'w) executor \<Rightarrow> columns \<Rightarrow>
    (('v, 'w) model_state, int) prog" where
  "DynamicConfig_Update L X cs = Update L X dynamicConfigTable cs"

definition DynamicConfig_UpdateAllQuery :: "('v, 'q, 'd, 'w) boil \<Rightarrow> ('v, 'w) executor \<Rightarrow> 'q \<Rightarrow>
    (string, 'v) gomap \<Rightarrow> ('w, int) prog" where
  "DynamicConfig_UpdateAllQuery L X q cols = UpdateAllQuery L X dynamicConfigTable q cols"

definition DynamicConfig_UpdateAllSlice :: "('v, 'q, 'd, 'w) boil \<Rightarrow> ('v, 'w) executor \<Rightarrow>
    'v obj option list \<Rightarrow> (string, 'v) gomap \<Rightarrow> ('w, int) prog" where
  "DynamicConfig_UpdateAllSlice L X os cols = UpdateAllSlice L X dynamicConfigTable os cols"

definition DynamicConfig_Upsert :: "('v, 'q, 'd, 'w) boil \<Rightarrow> ('v, 'w) executor \<Rightarrow> bool \<Rightarrow>
    string list \<Rightarrow> columns \<Rightarrow> columns \<Rightarrow> (('v, 'w) model_state, unit) prog" where
  "DynamicConfig_Upsert L X updateOnConflict conflictColumns updateColumns insertColumns = 
     Upsert L X dynamicConfigTable updateOnConflict conflictColumns updateColumns insertColumns"

definition DynamicConfig_Delete :: "('v, 'q, 'd, 'w) boil \<Rightarrow> ('v, 'w) executor \<Rightarrow> 'v obj option \<Rightarrow> ('w, int) prog" where
  "DynamicConfig_Delete L X ob = Delete L X dynamicConfigTable ob"

definition DynamicConfig_DeleteAllQuery :: "('v, 'q, 'd, 'w) boil \<Rightarrow> ('v, 'w) executor \<Rightarrow> 'q option \<Rightarrow>
    ('w, int) prog" where
  "DynamicConfig_DeleteAllQuery L X q = DeleteAllQuery L X dynamicConfigTable q"

definition DynamicConfig_DeleteAllSlice :: "('v, 'q, 'd, 'w) boil \<Rightarrow> ('v, 'w) executor \<Rightarrow>
    'v obj option list \<Rightarrow> ('w, int) prog" where
  "DynamicConfig_DeleteAllSlice L X os = DeleteAllSlice L X dynamicConfigTable os"

definition DynamicConfig_Reload :: "('v, 'q, 'd, 'w) boil \<Rightarrow> ('v, 'w) executor \<Rightarrow> (('v, 'w) model_state, unit) prog" where
  "DynamicConfig_Reload L X = Reload L X dynamicConfigTable"

definition DynamicConfig_ReloadAll :: "('v, 'q, 'd, 'w) boil \<Rightarrow> ('v, 'w) executor \<Rightarrow>
    'v obj option list option \<Rightarrow> ('w, 'v obj list option) prog" where
  "DynamicConfig_ReloadAll L X slice = ReloadAll L X dynamicConfigTable slice"

definition DynamicConfigExists :: "('v, 'q, 'd, 'w) boil \<Rightarrow> ('v, 'w) executor \<Rightarrow> 'v \<Rightarrow> ('w, bool) prog" where
  "DynamicConfigExists L X iD = RowExists L X dynamicConfigTable [iD]"

section \<open>schema_migrations\<close>

definition schemaMigrationTable :: table where
  "schemaMigrationTable = \<lparr>tab = ''schema_migrations'', sing = ''schemaMigration'', typeName = ''SchemaMigration'',
     allColumns =
      [''version'', ''dirty''],
     columnsWithoutDefault =
      [''version'', ''dirty''],
     columnsWithDefault =
      [],
     primaryKeyColumns = [''version'']\<rparr>"

definition SchemaMigration_One :: "('v, 'q, 'd, 'w) boil \<Rightarrow> ('v, 'w) executor \<Rightarrow> 'q \<Rightarrow> ('w, 'v obj) prog" where
  "SchemaMigration_One L X q = One L X schemaMigrationTable q"

definition SchemaMigration_All :: "('v, 'q, 'd, 'w) boil \<Rightarrow> ('v, 'w) executor \<Rightarrow> 'q \<Rightarrow> ('w, 'v obj list) prog" where
  "SchemaMigration_All L X q = All L X schemaMigrationTable q"

definition SchemaMigration_Count :: "('v, 'q, 'd, 'w) boil \<Rightarrow> ('v, 'w) executor \<Rightarrow> 'q \<Rightarrow> ('w, int) prog" where
  "SchemaMigration_Count L X q = Count L X schemaMigrationTable q"

definition SchemaMigration_Exists :: "('v, 'q, 'd, 'w) boil \<Rightarrow> ('v, 'w) executor \<Rightarrow> 'q \<Rightarrow> ('w, bool) prog" where
  "SchemaMigration_Exists L X q = Exists L X schemaMigrationTable q"

definition SchemaMigrations_query :: "('v, 'q, 'd, 'w) boil \<Rightarrow> 'd list \<Rightarrow> 'q" where
  "SchemaMigrations_query L mods = NewTableQuery L schemaMigrationTable mods"

definition FindSchemaMigration :: "('v, 'q, 'd, 'w) boil \<Rightarrow> ('v, 'w) executor \<Rightarrow> 'v \<Rightarrow> string list \<Rightarrow>
    ('w, 'v obj) prog" where
  "FindSchemaMigration L X version selectCols = Find L X schemaMigrationTable [version] selectCols"

definition SchemaMigration_Insert :: "('v, 'q, 'd, 'w) boil \<Rightarrow> ('v, 'w) executor \<Rightarrow> columns \<Rightarrow>
    (('v, 'w) model_state, unit) prog" where
  "SchemaMigration_Insert L X cs = Insert L X schemaMigrationTable cs"

definition SchemaMigration_Update :: "('v, 'q, 'd, 'w) boil \<Rightarrow> ('v, 'w) executor \<Rightarrow> columns \<Rightarrow>
    (('v, 'w) model_state, int) prog" where
  "SchemaMigration_Update L X cs = Update L X schemaMigrationTable cs"

definition SchemaMigration_UpdateAllQuery :: "('v, 'q, 'd, 'w) boil \<Rightarrow> ('v, 'w) executor \<Rightarrow> 'q \<Rightarrow>
    (string, 'v) gomap \<Rightarrow> ('w, int) prog" where
  "SchemaMigration_UpdateAllQuery L X q cols = UpdateAllQuery L X schemaMigrationTable q cols"

definition SchemaMigration_UpdateAllSlice :: "('v, 'q, 'd, 'w) boil \<Rightarrow> ('v, 'w) executor \<Rightarrow>
    'v obj option list \<Rightarrow> (string, 'v) gomap \<Rightarrow> ('w, int) prog" where
  "SchemaMigration_UpdateAllSlice L X os cols = UpdateAllSlice L X schemaMigrationTable os cols"

definition SchemaMigration_Upsert :: "('v, 'q, 'd, 'w) boil \<Rightarrow> ('v, 'w) executor \<Rightarrow> bool \<Rightarrow>
    string list \<Rightarrow> columns \<Rightarrow> columns \<Rightarrow> (('v, 'w) model_state, unit) prog" where
  "SchemaMigration_Upsert L X updateOnConflict conflictColumns updateColumns insertColumns = 
     Upsert L X schemaMigrationTable updateOnConflict conflictColumns updateColumns insertColumns"

definition SchemaMigration_Delete :: "('v, 'q, 'd, 'w) boil \<Rightarrow> ('v, 'w) executor \<Rightarrow> 'v obj option \<Rightarrow> ('w, int) prog" where
  "SchemaMigration_Delete L X ob = Delete L X schemaMigrationTable ob"

definition SchemaMigration_DeleteAllQuery :: "('v, 'q, 'd, 'w) boil \<Rightarrow> ('v, 'w) executor \<Rightarrow> 'q option \<Rightarrow>
    ('w, int) prog" where
  "SchemaMigration_DeleteAllQuery L X q = DeleteAllQuery L X schemaMigrationTable q"

definition SchemaMigration_DeleteAllSlice :: "('v, 'q, 'd, 'w) boil \<Rightarrow> ('v, 'w) executor \<Rightarrow>
    'v obj option list \<Rightarrow> ('w, int) prog" where
  "SchemaMigration_DeleteAllSlice L X os = DeleteAllSlice L X schemaMigrationTable os"

definition SchemaMigration_Reload :: "('v, 'q, 'd, 'w) boil \<Rightarrow> ('v, 'w) executor \<Rightarrow> (('v, 'w) model_state, unit) prog" where
  "SchemaMigration_Reload L X = Reload L X schemaMigrationTable"

definition SchemaMigration_ReloadAll :: "('v, 'q, 'd, 'w) boil \<Rightarrow> ('v, 'w) executor \<Rightarrow>
    'v obj option list option \<Rightarrow> ('w, 'v obj list option) prog" where
  "SchemaMigration_ReloadAll L X slice = ReloadAll L X schemaMigrationTable slice"

definition SchemaMigrationExists :: "('v, 'q, 'd, 'w) boil \<Rightarrow> ('v, 'w) executor \<Rightarrow> 'v \<Rightarrow> ('w, bool) prog" where
  "SchemaMigrationExists L X version = RowExists L X schemaMigrationTable [version]"

end
