(* ===== verification/Boil_Rel.thy ===== *)
theory Boil_Rel
  imports Boil_Tables
begin

text \<open>
  Relationships between the models (\<^verbatim>\<open>Load*\<close>, \<^verbatim>\<open>Add*\<close>, \<^verbatim>\<open>Set*\<close>, \<^verbatim>\<open>Remove*\<close> and the
  queries of a related table in \<^verbatim>\<open>models/*.go\<close>).  The objects live in a store: a pointer is an
  index into \<^verbatim>\<open>nodes\<close>, a node has the columns of its struct and its \<^verbatim>\<open>R\<close> (\<^verbatim>\<open>None\<close> before it
  is first set; a relation to one object is a list of at most one pointer).  A \<^verbatim>\<open>relation\<close> holds
  the names a template was expanded with.  The slices passed in are values with non-nil
  pointers.
\<close>

section \<open>The store\<close>

record 'v node =
  columnsOf :: "'v obj"
  relR :: "(string \<Rightarrow> nat list) option"

record caches =
  cInsert :: "(string, insertCache) gomap"
  cUpdate :: "(string, updateCache) gomap"
  cUpsert :: "(string, insertCache) gomap"

record ('v, 'w) graph =
  nodes :: "'v node list"
  tabCaches :: "string \<Rightarrow> caches"
  gdb :: 'w

definition getField :: "nat \<Rightarrow> string \<Rightarrow> ('v, 'w) graph \<Rightarrow> 'v" where
  "getField p c s = columnsOf (nodes s ! p) c"

definition onNode :: "nat \<Rightarrow> ('v node \<Rightarrow> 'v node) \<Rightarrow> ('v, 'w) graph \<Rightarrow> ('v, 'w) graph" where
  "onNode p f s = s\<lparr>nodes := (nodes s)[p := f (nodes s ! p)]\<rparr>"

definition setField :: "nat \<Rightarrow> string \<Rightarrow> 'v \<Rightarrow> ('v, 'w) graph \<Rightarrow> ('v, 'w) graph" where
  "setField p c v = onNode p (\<lambda>n. n\<lparr>columnsOf := (columnsOf n)(c := v)\<rparr>)"

definition initR :: "nat \<Rightarrow> ('v, 'w) graph \<Rightarrow> ('v, 'w) graph" where
  "initR p = onNode p (\<lambda>n. case relR n of None \<Rightarrow> n\<lparr>relR := Some (\<lambda>_. [])\<rparr> | Some r \<Rightarrow> n)"

definition relOf :: "nat \<Rightarrow> string \<Rightarrow> ('v, 'w) graph \<Rightarrow> nat list" where
  "relOf p name s = (case relR (nodes s ! p) of None \<Rightarrow> [] | Some r \<Rightarrow> r name)"

text \<open>\<^verbatim>\<open>if o.R == nil { o.R = &userR{X: ps} } else { o.R.X = ps }\<close>, and with \<^verbatim>\<open>append\<close>.\<close>

definition setRel :: "nat \<Rightarrow> string \<Rightarrow> nat list \<Rightarrow> ('v, 'w) graph \<Rightarrow> ('v, 'w) graph" where
  "setRel p name ps = onNode p (\<lambda>n. n\<lparr>relR := Some (\<lambda>m. if m = name then ps
     else case relR n of None \<Rightarrow> [] | Some r \<Rightarrow> r m)\<rparr>)"

definition appendRel :: "nat \<Rightarrow> string \<Rightarrow> nat list \<Rightarrow> ('v, 'w) graph \<Rightarrow> ('v, 'w) graph" where
  "appendRel p name ps s = setRel p name (relOf p name s @ ps) s"

definition allocAll :: "'v obj list \<Rightarrow> (('v, 'w) graph, nat list) prog" where
  "allocAll os = (\<lambda>s. (Ok [length (nodes s)..<length (nodes s) + length os],
     s\<lparr>nodes := nodes s @ map (\<lambda>ob. \<lparr>columnsOf = ob, relR = None\<rparr>) os\<rparr>))"

definition onGdb :: "('w, 'a) prog \<Rightarrow> (('v, 'w) graph, 'a) prog" where
  "onGdb m = (\<lambda>s. case m (gdb s) of (r, w) \<Rightarrow> (r, s\<lparr>gdb := w\<rparr>))"

text \<open>A method of \<^verbatim>\<open>Boil\<close> with the object at \<^verbatim>\<open>p\<close> as its receiver.\<close>

definition onModel :: "table \<Rightarrow> nat \<Rightarrow> (('v, 'w) model_state, 'a) prog \<Rightarrow>
    (('v, 'w) graph, 'a) prog" where
  "onModel T p m = (\<lambda>s. let c = tabCaches s (tab T) in
     case m \<lparr>receiver = Some (columnsOf (nodes s ! p)), tabInsertCache = cInsert c,
              tabUpdateCache = cUpdate c, tabUpsertCache = cUpsert c, database = gdb s\<rparr> of
       (r, t) \<Rightarrow> (r, (onNode p (\<lambda>n. case receiver t of None \<Rightarrow> n | Some ob \<Rightarrow> n\<lparr>columnsOf := ob\<rparr>) s)
          \<lparr>tabCaches := (tabCaches s)(tab T := \<lparr>cInsert = tabInsertCache t,
             cUpdate = tabUpdateCache t, cUpsert = tabUpsertCache t\<rparr>), gdb := database t\<rparr>))"

section \<open>What the relationships take from SQLBoiler\<close>

text \<open>What a query's \<^verbatim>\<open>Bind\<close>, \<^verbatim>\<open>Close\<close> and \<^verbatim>\<open>Err\<close> return.\<close>

record 'v rows =
  bound :: "gerr + 'v obj list"
  closeErr :: "gerr option"
  rowsErr :: "gerr option"

record ('v, 'q, 'd, 'w) loading =
  WhereMod :: "string \<Rightarrow> 'v \<Rightarrow> 'd"
  WhereInMod :: "string \<Rightarrow> 'v list \<Rightarrow> 'd"
  SetFrom :: "'q \<Rightarrow> string \<Rightarrow> 'q"
  GetSelect :: "'q \<Rightarrow> string list"
  SetSelect :: "'q \<Rightarrow> string list \<Rightarrow> 'q"
  RunQuery :: "('v, 'w) executor \<Rightarrow> 'q \<Rightarrow> ('w, 'v rows) prog"
  EqualV :: "'v \<Rightarrow> 'v \<Rightarrow> bool"
  IsNil :: "'v \<Rightarrow> bool"
  AssignV :: "'v \<Rightarrow> 'v"
  NullV :: 'v
  Infer :: columns
  Whitelist :: "string list \<Rightarrow> columns"

text \<open>
  \<^verbatim>\<open>rel\<close> and \<^verbatim>\<open>backRel\<close> are the fields of the two \<^verbatim>\<open>R\<close> structs, \<^verbatim>\<open>localCol\<close> and
  \<^verbatim>\<open>foreignCol\<close> the columns that are compared, \<^verbatim>\<open>viaEqual\<close> whether the code compares with
  \<^verbatim>\<open>queries.Equal\<close> and assigns with \<^verbatim>\<open>queries.Assign\<close> (a nullable key) or with \<^verbatim>\<open>==\<close> and
  \<^verbatim>\<open>=\<close>, \<^verbatim>\<open>backMany\<close> whether the other side of a relation to one object is a slice.
\<close>

record relation =
  rel :: string
  backRel :: string
  localTable :: table
  foreignTable :: table
  localCol :: string
  foreignCol :: string
  viaEqual :: bool
  backMany :: bool

definition sameKey :: "('v, 'q, 'd, 'w) loading \<Rightarrow> relation \<Rightarrow> 'v \<Rightarrow> 'v \<Rightarrow> bool" where
  "sameKey K r a b = (if viaEqual r then EqualV K a b else a = b)"

definition assigned :: "('v, 'q, 'd, 'w) loading \<Rightarrow> relation \<Rightarrow> 'v \<Rightarrow> 'v" where
  "assigned K r v = (if viaEqual r then AssignV K v else v)"

section \<open>Queries of a related table\<close>

definition queryMany :: "('v, 'q, 'd, 'w) boil \<Rightarrow> ('v, 'q, 'd, 'w) loading \<Rightarrow> relation \<Rightarrow> 'v obj \<Rightarrow>
    'd list \<Rightarrow> 'q" where
  "queryMany L K r ob mods =
     (let F = foreignTable r;
          queryMods = mods @ [WhereMod K (dquoted (tab F) @ ''.'' @ dquoted (foreignCol r) @ ''=?'')
                                (ob (localCol r))];
          q = SetFrom K (NewTableQuery L F queryMods) (dquoted (tab F))
      in if length (GetSelect K q) = 0 then SetSelect K q [dquoted (tab F) @ ''.*''] else q)"

definition queryOne :: "('v, 'q, 'd, 'w) boil \<Rightarrow> ('v, 'q, 'd, 'w) loading \<Rightarrow> relation \<Rightarrow> 'v obj \<Rightarrow>
    'd list \<Rightarrow> 'q" where
  "queryOne L K r ob mods =
     (let F = foreignTable r;
          queryMods = [WhereMod K (dquoted (foreignCol r) @ '' = ?'') (ob (localCol r))] @ mods
      in SetFrom K (NewTableQuery L F queryMods) (dquoted (tab F)))"

section \<open>Eager loading\<close>

text \<open>
  The arguments of the \<^verbatim>\<open>in\<close> clause: each object's key once; \<^verbatim>\<open>skipNil\<close> when the key is a
  nullable column of the object itself.  Every object gets its \<^verbatim>\<open>R\<close>.
\<close>

fun loadArgs :: "('v, 'q, 'd, 'w) loading \<Rightarrow> relation \<Rightarrow> bool \<Rightarrow> nat list \<Rightarrow> 'v list \<Rightarrow>
    (('v, 'w) graph, 'v list) prog" where
  "loadArgs K r skipNil [] args = returnP args"
| "loadArgs K r skipNil (p # ps) args =
     bindP (modifyP (initR p)) (\<lambda>_.
     bindP (getsP (getField p (localCol r))) (\<lambda>v.
     if list_ex (\<lambda>a. sameKey K r a v) args then loadArgs K r skipNil ps args
     else if skipNil \<and> IsNil K v then loadArgs K r skipNil ps args
     else loadArgs K r skipNil ps (args @ [v])))"

definition errorP :: "string \<Rightarrow> gerr option \<Rightarrow> ('s, unit) prog" where
  "errorP msg e = (case e of None \<Rightarrow> returnP () | Some e \<Rightarrow> errP (EWrap msg e))"

definition fetch :: "('v, 'q, 'd, 'w) boil \<Rightarrow> ('v, 'q, 'd, 'w) loading \<Rightarrow> ('v, 'w) executor \<Rightarrow>
    relation \<Rightarrow> string \<Rightarrow> string \<Rightarrow> ('q \<Rightarrow> 'q) option \<Rightarrow> 'v list \<Rightarrow> (('v, 'w) graph, nat list) prog" where
  "fetch L K X r what results mods args =
     (let F = foreignTable r;
          q = ApplyMods L [FromMod L (tab F),
                WhereInMod K (tab F @ ''.'' @ foreignCol r @ '' in ?'') args];
          q = (case mods of None \<Rightarrow> q | Some m \<Rightarrow> m q)
      in bindP (wrapP (''failed to eager load '' @ what) (onGdb (RunQuery K X q))) (\<lambda>rows.
         bindP (wrapP (''failed to bind eager loaded slice '' @ what) (sumP (bound rows))) (\<lambda>os.
         bindP (errorP (''failed to close results '' @ results @ '' '' @ tab F) (closeErr rows)) (\<lambda>_.
         bindP (errorP (''error occurred during iteration of eager loaded relations for '' @ tab F)
           (rowsErr rows)) (\<lambda>_. allocAll os)))))"

text \<open>A relation to many: each foreign object goes to the first object with its key.\<close>

fun attachMany :: "('v, 'q, 'd, 'w) loading \<Rightarrow> relation \<Rightarrow> nat list \<Rightarrow> nat list \<Rightarrow>
    ('v, 'w) graph \<Rightarrow> ('v, 'w) graph" where
  "attachMany K r ps [] s = s"
| "attachMany K r ps (f # fs) s = attachMany K r ps fs
     (case find (\<lambda>p. sameKey K r (getField p (localCol r) s) (getField f (foreignCol r) s)) ps of
        None \<Rightarrow> s
      | Some p \<Rightarrow> setRel f (backRel r) [p] (appendRel p (rel r) [f] s))"

definition LoadMany :: "('v, 'q, 'd, 'w) boil \<Rightarrow> ('v, 'q, 'd, 'w) loading \<Rightarrow> ('v, 'w) executor \<Rightarrow>
    relation \<Rightarrow> bool \<Rightarrow> nat list \<Rightarrow> ('q \<Rightarrow> 'q) option \<Rightarrow> (('v, 'w) graph, unit) prog" where
  "LoadMany L K X r singular ps mods =
     bindP (loadArgs K r False ps []) (\<lambda>args.
     if length args = 0 then returnP ()
     else bindP (fetch L K X r (tab (foreignTable r)) ''in eager load on'' mods args) (\<lambda>fs.
       if singular
       then bindP (modifyP (setRel (hd ps) (rel r) fs))
              (\<lambda>_. modifyP (fold (\<lambda>f. setRel f (backRel r) [hd ps]) fs))
       else modifyP (attachMany K r ps fs)))"

text \<open>A relation to one: each object takes the first foreign object with its key.\<close>

definition attachBack :: "relation \<Rightarrow> nat \<Rightarrow> nat \<Rightarrow> ('v, 'w) graph \<Rightarrow> ('v, 'w) graph" where
  "attachBack r f p = (if backMany r then appendRel f (backRel r) [p] else setRel f (backRel r) [p])"

fun attachOne :: "('v, 'q, 'd, 'w) loading \<Rightarrow> relation \<Rightarrow> nat list \<Rightarrow> nat list \<Rightarrow>
    ('v, 'w) graph \<Rightarrow> ('v, 'w) graph" where
  "attachOne K r [] fs s = s"
| "attachOne K r (p # ps) fs s = attachOne K r ps fs
     (case find (\<lambda>f. sameKey K r (getField p (localCol r) s) (getField f (foreignCol r) s)) fs of
        None \<Rightarrow> s
      | Some f \<Rightarrow> attachBack r f p (setRel p (rel r) [f] s))"

definition LoadOne :: "('v, 'q, 'd, 'w) boil \<Rightarrow> ('v, 'q, 'd, 'w) loading \<Rightarrow> ('v, 'w) executor \<Rightarrow>
    relation \<Rightarrow> bool \<Rightarrow> nat list \<Rightarrow> ('q \<Rightarrow> 'q) option \<Rightarrow> (('v, 'w) graph, unit) prog" where
  "LoadOne L K X r singular ps mods =
     bindP (loadArgs K r (viaEqual r) ps []) (\<lambda>args.
     if length args = 0 then returnP ()
     else bindP (fetch L K X r (typeName (foreignTable r)) ''of eager load for'' mods args) (\<lambda>fs.
       if length fs = 0 then returnP ()
       else if singular
       then bindP (modifyP (setRel (hd ps) (rel r) [hd fs]))
              (\<lambda>_. modifyP (attachBack r (hd fs) (hd ps)))
       else modifyP (attachOne K r ps fs)))"

section \<open>Changing a relationship\<close>

definition relUpdateText :: "('v, 'q, 'd, 'w) boil \<Rightarrow> table \<Rightarrow> string \<Rightarrow> string" where
  "relUpdateText L T col = sprintf (''UPDATE '' @ dquoted (tab T) @ '' SET %s WHERE %s'')
     [SetParamNames L [CHR 0x22] [CHR 0x22] 1 [col],
      WhereClause L [CHR 0x22] [CHR 0x22] 2 (primaryKeyColumns T)]"

definition keyOf :: "table \<Rightarrow> nat \<Rightarrow> ('v, 'w) graph \<Rightarrow> 'v list" where
  "keyOf T p s = map (\<lambda>c. getField p c s) (primaryKeyColumns T)"

definition addForeign :: "('v, 'q, 'd, 'w) boil \<Rightarrow> ('v, 'q, 'd, 'w) loading \<Rightarrow> ('v, 'w) executor \<Rightarrow>
    relation \<Rightarrow> nat \<Rightarrow> bool \<Rightarrow> nat \<Rightarrow> (('v, 'w) graph, unit) prog" where
  "addForeign L K X r p ins f =
     bindP (getsP (getField p (localCol r))) (\<lambda>v.
     if ins then
       bindP (modifyP (setField f (foreignCol r) (assigned K r v)))
         (\<lambda>_. wrapP ''failed to insert into foreign table''
            (onModel (foreignTable r) f (Insert L X (foreignTable r) (Infer K))))
     else
       bindP (getsP (keyOf (foreignTable r) f)) (\<lambda>key.
       bindP (wrapP ''failed to update foreign table''
         (onGdb (exec_stmt X (relUpdateText L (foreignTable r) (foreignCol r)) (v # key))))
         (\<lambda>_. modifyP (setField f (foreignCol r) (assigned K r v)))))"

definition AddMany :: "('v, 'q, 'd, 'w) boil \<Rightarrow> ('v, 'q, 'd, 'w) loading \<Rightarrow> ('v, 'w) executor \<Rightarrow>
    relation \<Rightarrow> nat \<Rightarrow> bool \<Rightarrow> nat list \<Rightarrow> (('v, 'w) graph, unit) prog" where
  "AddMany L K X r p ins related =
     bindP (foreachP related (addForeign L K X r p ins)) (\<lambda>_.
     bindP (modifyP (appendRel p (rel r) related))
       (\<lambda>_. modifyP (fold (\<lambda>f. setRel f (backRel r) [p]) related)))"

text \<open>\<^verbatim>\<open>SetRoomStatistic\<close>: a relation to one object that holds the key.\<close>

definition SetChild :: "('v, 'q, 'd, 'w) boil \<Rightarrow> ('v, 'q, 'd, 'w) loading \<Rightarrow> ('v, 'w) executor \<Rightarrow>
    relation \<Rightarrow> nat \<Rightarrow> bool \<Rightarrow> nat \<Rightarrow> (('v, 'w) graph, unit) prog" where
  "SetChild L K X r p ins f =
     bindP (addForeign L K X r p ins f) (\<lambda>_.
     bindP (modifyP (setRel p (rel r) [f])) (\<lambda>_. modifyP (setRel f (backRel r) [p])))"

definition SetOne :: "('v, 'q, 'd, 'w) boil \<Rightarrow> ('v, 'q, 'd, 'w) loading \<Rightarrow> ('v, 'w) executor \<Rightarrow>
    relation \<Rightarrow> nat \<Rightarrow> bool \<Rightarrow> nat \<Rightarrow> (('v, 'w) graph, unit) prog" where
  "SetOne L K X r p ins f =
     bindP (if ins then wrapP ''failed to insert into foreign table''
              (onModel (foreignTable r) f (Insert L X (foreignTable r) (Infer K)))
            else returnP ()) (\<lambda>_.
     bindP (getsP (getField f (foreignCol r))) (\<lambda>v.
     bindP (getsP (keyOf (localTable r) p)) (\<lambda>key.
     bindP (wrapP ''failed to update local table''
       (onGdb (exec_stmt X (relUpdateText L (localTable r) (localCol r)) (v # key)))) (\<lambda>_.
     bindP (modifyP (setField p (localCol r) (assigned K r v))) (\<lambda>_.
     bindP (modifyP (setRel p (rel r) [f])) (\<lambda>_. modifyP (attachBack r f p)))))))"

text \<open>The element at \<^verbatim>\<open>i\<close> is overwritten with the last one and the slice cut by one.\<close>

definition swapRemove :: "nat \<Rightarrow> 'a list \<Rightarrow> 'a list" where
  "swapRemove i xs =
     (let ln = length xs
      in take (ln - 1) (if ln > 1 \<and> i < ln - 1 then xs[i := xs ! (ln - 1)] else xs))"

fun firstIndex :: "('a \<Rightarrow> bool) \<Rightarrow> 'a list \<Rightarrow> nat option" where
  "firstIndex P [] = None"
| "firstIndex P (x # xs) = (if P x then Some 0 else map_option Suc (firstIndex P xs))"

definition removeFirst :: "('a \<Rightarrow> bool) \<Rightarrow> 'a list \<Rightarrow> 'a list" where
  "removeFirst P xs = (case firstIndex P xs of None \<Rightarrow> xs | Some i \<Rightarrow> swapRemove i xs)"

text \<open>
  \<^verbatim>\<open>RemoveGateway\<close> and \<^verbatim>\<open>RemoveRoom\<close>: the loop over the other side's slice skips the elements
  whose key is equal to the object's, which has just been set to null.
\<close>

definition RemoveOne :: "('v, 'q, 'd, 'w) boil \<Rightarrow> ('v, 'q, 'd, 'w) loading \<Rightarrow> ('v, 'w) executor \<Rightarrow>
    relation \<Rightarrow> nat \<Rightarrow> nat option \<Rightarrow> (('v, 'w) graph, unit) prog" where
  "RemoveOne L K X r p related =
     bindP (modifyP (setField p (localCol r) (NullV K))) (\<lambda>_.
     bindP (wrapP ''failed to update local table''
       (onModel (localTable r) p (Update L X (localTable r) (Whitelist K [localCol r])))) (\<lambda>_.
     modifyP (\<lambda>s.
       (let s1 = (case relR (nodes s ! p) of None \<Rightarrow> s | Some _ \<Rightarrow> setRel p (rel r) [] s)
        in case related of None \<Rightarrow> s1 | Some f \<Rightarrow>
           (case relR (nodes s1 ! f) of None \<Rightarrow> s1
            | Some _ \<Rightarrow> setRel f (backRel r)
                (removeFirst (\<lambda>q. \<not> EqualV K (getField p (localCol r) s1) (getField q (localCol r) s1))
                  (relOf f (backRel r) s1)) s1)))))"

definition dropBack :: "relation \<Rightarrow> nat \<Rightarrow> ('v, 'w) graph \<Rightarrow> ('v, 'w) graph" where
  "dropBack r f s = (case relR (nodes s ! f) of None \<Rightarrow> s | Some _ \<Rightarrow> setRel f (backRel r) [] s)"

definition SetMany :: "('v, 'q, 'd, 'w) boil \<Rightarrow> ('v, 'q, 'd, 'w) loading \<Rightarrow> ('v, 'w) executor \<Rightarrow>
    relation \<Rightarrow> nat \<Rightarrow> bool \<Rightarrow> nat list \<Rightarrow> (('v, 'w) graph, unit) prog" where
  "SetMany L K X r p ins related =
     bindP (getsP (getField p (localCol r))) (\<lambda>v.
     bindP (wrapP ''failed to remove relationships before set''
       (onGdb (exec_stmt X (''update '' @ dquoted (tab (foreignTable r)) @ '' set '' @
          dquoted (foreignCol r) @ '' = null where '' @ dquoted (foreignCol r) @ '' = $1'') [v]))) (\<lambda>_.
     bindP (modifyP (\<lambda>s. case relR (nodes s ! p) of None \<Rightarrow> s
       | Some _ \<Rightarrow> setRel p (rel r) []
           (fold (\<lambda>f t. dropBack r f (setField f (foreignCol r) (NullV K) t))
             (relOf p (rel r) s) s)))
       (\<lambda>_. AddMany L K X r p ins related)))"

definition removeForeign :: "('v, 'q, 'd, 'w) boil \<Rightarrow> ('v, 'q, 'd, 'w) loading \<Rightarrow>
    ('v, 'w) executor \<Rightarrow> relation \<Rightarrow> nat \<Rightarrow> (('v, 'w) graph, unit) prog" where
  "removeForeign L K X r f =
     bindP (modifyP (setField f (foreignCol r) (NullV K))) (\<lambda>_.
     bindP (modifyP (dropBack r f)) (\<lambda>_.
     bindP (onModel (foreignTable r) f (Update L X (foreignTable r) (Whitelist K [foreignCol r])))
       (\<lambda>_. returnP ())))"

definition RemoveMany :: "('v, 'q, 'd, 'w) boil \<Rightarrow> ('v, 'q, 'd, 'w) loading \<Rightarrow> ('v, 'w) executor \<Rightarrow>
    relation \<Rightarrow> nat \<Rightarrow> nat list \<Rightarrow> (('v, 'w) graph, unit) prog" where
  "RemoveMany L K X r p related =
     bindP (foreachP related (removeForeign L K X r)) (\<lambda>_.
     modifyP (\<lambda>s. case relR (nodes s ! p) of None \<Rightarrow> s
       | Some _ \<Rightarrow> setRel p (rel r)
           (fold (\<lambda>f xs. removeFirst (\<lambda>q. q = f) xs) related (relOf p (rel r) s)) s))"

end
