(* ===== verification/Boil_Relations.thy ===== *)
theory Boil_Relations
  imports Boil_Rel
begin

text \<open>
  The sixteen relationships between the tables, as the foreign keys of the schema give them, and
  their functions in \<^verbatim>\<open>models/*.go\<close>.
\<close>

section \<open>composites\<close>

definition composite_CompositesRooms_rel :: relation where
  "composite_CompositesRooms_rel = \<lparr>rel = ''CompositesRooms'', backRel = ''Composite'', localTable = compositeTable,
     foreignTable = compositesRoomTable, localCol = ''id'', foreignCol = ''composite_id'',
     viaEqual = False, backMany = False\<rparr>"

definition Composite_CompositesRooms :: "('v, 'q, 'd, 'w) boil \<Rightarrow> ('v, 'q, 'd, 'w) loading \<Rightarrow> 'v obj \<Rightarrow>
    'd list \<Rightarrow> 'q" where
  "Composite_CompositesRooms L K ob mods = queryMany L K composite_CompositesRooms_rel ob mods"

definition Composite_LoadCompositesRooms :: "('v, 'q, 'd, 'w) boil \<Rightarrow> ('v, 'q, 'd, 'w) loading \<Rightarrow>
    ('v, 'w) executor \<Rightarrow> bool \<Rightarrow> nat list \<Rightarrow> ('q \<Rightarrow> 'q) option \<Rightarrow> (('v, 'w) graph, unit) prog" where
  "Composite_LoadCompositesRooms L K X singular ps mods = LoadMany L K X composite_CompositesRooms_rel singular ps mods"

definition Composite_AddCompositesRooms :: "('v, 'q, 'd, 'w) boil \<Rightarrow> ('v, 'q, 'd, 'w) loading \<Rightarrow>
    ('v, 'w) executor \<Rightarrow> nat \<Rightarrow> bool \<Rightarrow> nat list \<Rightarrow> (('v, 'w) graph, unit) prog" where
  "Composite_AddCompositesRooms L K X p ins related = AddMany L K X composite_CompositesRooms_rel p ins related"

section \<open>composites_rooms\<close>

definition compositesRoom_Composite_rel :: relation where
  "compositesRoom_Composite_rel = \<lparr>rel = ''Composite'', backRel = ''CompositesRooms'', localTable = compositesRoomTable,
     foreignTable = compositeTable, localCol = ''composite_id'', foreignCol = ''id'',
     viaEqual = False, backMany = True\<rparr>"

definition CompositesRoom_Composite :: "('v, 'q, 'd, 'w) boil \<Rightarrow> ('v, 'q, 'd, 'w) loading \<Rightarrow> 'v obj \<Rightarrow>
    'd list \<Rightarrow> 'q" where
  "CompositesRoom_Composite L K ob mods = queryOne L K compositesRoom_Composite_rel ob mods"

definition CompositesRoom_LoadComposite :: "('v, 'q, 'd, 'w) boil \<Rightarrow> ('v, 'q, 'd, 'w) loading \<Rightarrow>
    ('v, 'w) executor \<Rightarrow> bool \<Rightarrow> nat list \<Rightarrow> ('q \<Rightarrow> 'q) option \<Rightarrow> (('v, 'w) graph, unit) prog" where
  "CompositesRoom_LoadComposite L K X singular ps mods = LoadOne L K X compositesRoom_Composite_rel singular ps mods"

definition CompositesRoom_SetComposite :: "('v, 'q, 'd, 'w) boil \<Rightarrow> ('v, 'q, 'd, 'w) loading \<Rightarrow>
    ('v, 'w) executor \<Rightarrow> nat \<Rightarrow> bool \<Rightarrow> nat \<Rightarrow> (('v, 'w) graph, unit) prog" where
  "CompositesRoom_SetComposite L K X p ins related = SetOne L K X compositesRoom_Composite_rel p ins related"

definition compositesRoom_Gateway_rel :: relation where
  "compositesRoom_Gateway_rel = \<lparr>rel = ''Gateway'', backRel = ''CompositesRooms'', localTable = compositesRoomTable,
     foreignTable = gatewayTable, localCol = ''gateway_id'', foreignCol = ''id'',
     viaEqual = False, backMany = True\<rparr>"

definition CompositesRoom_Gateway :: "('v, 'q, 'd, 'w) boil \<Rightarrow> ('v, 'q, 'd, 'w) loading \<Rightarrow> 'v obj \<Rightarrow>
    'd list \<Rightarrow> 'q" where
  "CompositesRoom_Gateway L K ob mods = queryOne L K compositesRoom_Gateway_rel ob mods"

definition CompositesRoom_LoadGateway :: "('v, 'q, 'd, 'w) boil \<Rightarrow> ('v, 'q, 'd, 'w) loading \<Rightarrow>
    ('v, 'w) executor \<Rightarrow> bool \<Rightarrow> nat list \<Rightarrow> ('q \<Rightarrow> 'q) option \<Rightarrow> (('v, 'w) graph, unit) prog" where
  "CompositesRoom_LoadGateway L K X singular ps mods = LoadOne L K X compositesRoom_Gateway_rel singular ps mods"

definition CompositesRoom_SetGateway :: "('v, 'q, 'd, 'w) boil \<Rightarrow> ('v, 'q, 'd, 'w) loading \<Rightarrow>
    ('v, 'w) executor \<Rightarrow> nat \<Rightarrow> bool \<Rightarrow> nat \<Rightarrow> (('v, 'w) graph, unit) prog" where
  "CompositesRoom_SetGateway L K X p ins related = SetOne L K X compositesRoom_Gateway_rel p ins related"

definition compositesRoom_Room_rel :: relation where
  "compositesRoom_Room_rel = \<lparr>rel = ''Room'', backRel = ''CompositesRooms'', localTable = compositesRoomTable,
     foreignTable = roomTable, localCol = ''room_id'', foreignCol = ''id'',
     viaEqual = False, backMany = True\<rparr>"

definition CompositesRoom_Room :: "('v, 'q, 'd, 'w) boil \<Rightarrow> ('v, 'q, 'd, 'w) loading \<Rightarrow> 'v obj \<Rightarrow>
    'd list \<Rightarrow> 'q" where
  "CompositesRoom_Room L K ob mods = queryOne L K compositesRoom_Room_rel ob mods"

definition CompositesRoom_LoadRoom :: "('v, 'q, 'd, 'w) boil \<Rightarrow> ('v, 'q, 'd, 'w) loading \<Rightarrow>
    ('v, 'w) executor \<Rightarrow> bool \<Rightarrow> nat list \<Rightarrow> ('q \<Rightarrow> 'q) option \<Rightarrow> (('v, 'w) graph, unit) prog" where
  "CompositesRoom_LoadRoom L K X singular ps mods = LoadOne L K X compositesRoom_Room_rel singular ps mods"

definition CompositesRoom_SetRoom :: "('v, 'q, 'd, 'w) boil \<Rightarrow> ('v, 'q, 'd, 'w) loading \<Rightarrow>
    ('v, 'w) executor \<Rightarrow> nat \<Rightarrow> bool \<Rightarrow> nat \<Rightarrow> (('v, 'w) graph, unit) prog" where
  "CompositesRoom_SetRoom L K X p ins related = SetOne L K X compositesRoom_Room_rel p ins related"

section \<open>gateways\<close>

definition gateway_CompositesRooms_rel :: relation where
  "gateway_CompositesRooms_rel = \<lparr>rel = ''CompositesRooms'', backRel = ''Gateway'', localTable = gatewayTable,
     foreignTable = compositesRoomTable, localCol = ''id'', foreignCol = ''gateway_id'',
     viaEqual = False, backMany = False\<rparr>"

definition Gateway_CompositesRooms :: "('v, 'q, 'd, 'w) boil \<Rightarrow> ('v, 'q, 'd, 'w) loading \<Rightarrow> 'v obj \<Rightarrow>
    'd list \<Rightarrow> 'q" where
  "Gateway_CompositesRooms L K ob mods = queryMany L K gateway_CompositesRooms_rel ob mods"

definition Gateway_LoadCompositesRooms :: "('v, 'q, 'd, 'w) boil \<Rightarrow> ('v, 'q, 'd, 'w) loading \<Rightarrow>
    ('v, 'w) executor \<Rightarrow> bool \<Rightarrow> nat list \<Rightarrow> ('q \<Rightarrow> 'q) option \<Rightarrow> (('v, 'w) graph, unit) prog" where
  "Gateway_LoadCompositesRooms L K X singular ps mods = LoadMany L K X gateway_CompositesRooms_rel singular ps mods"

definition Gateway_AddCompositesRooms :: "('v, 'q, 'd, 'w) boil \<Rightarrow> ('v, 'q, 'd, 'w) loading \<Rightarrow>
    ('v, 'w) executor \<Rightarrow> nat \<Rightarrow> bool \<Rightarrow> nat list \<Rightarrow> (('v, 'w) graph, unit) prog" where
  "Gateway_AddCompositesRooms L K X p ins related = AddMany L K X gateway_CompositesRooms_rel p ins related"

definition gateway_DefaultGatewayRooms_rel :: relation where
  "gateway_DefaultGatewayRooms_rel = \<lparr>rel = ''DefaultGatewayRooms'', backRel = ''DefaultGateway'', localTable = gatewayTable,
     foreignTable = roomTable, localCol = ''id'', foreignCol = ''default_gateway_id'',
     viaEqual = False, backMany = False\<rparr>"

definition Gateway_DefaultGatewayRooms :: "('v, 'q, 'd, 'w) boil \<Rightarrow> ('v, 'q, 'd, 'w) loading \<Rightarrow> 'v obj \<Rightarrow>
    'd list \<Rightarrow> 'q" where
  "Gateway_DefaultGatewayRooms L K ob mods = queryMany L K gateway_DefaultGatewayRooms_rel ob mods"

definition Gateway_LoadDefaultGatewayRooms :: "('v, 'q, 'd, 'w) boil \<Rightarrow> ('v, 'q, 'd, 'w) loading \<Rightarrow>
    ('v, 'w) executor \<Rightarrow> bool \<Rightarrow> nat list \<Rightarrow> ('q \<Rightarrow> 'q) option \<Rightarrow> (('v, 'w) graph, unit) prog" where
  "Gateway_LoadDefaultGatewayRooms L K X singular ps mods = LoadMany L K X gateway_DefaultGatewayRooms_rel singular ps mods"

definition Gateway_AddDefaultGatewayRooms :: "('v, 'q, 'd, 'w) boil \<Rightarrow> ('v, 'q, 'd, 'w) loading \<Rightarrow>
    ('v, 'w) executor \<Rightarrow> nat \<Rightarrow> bool \<Rightarrow> nat list \<Rightarrow> (('v, 'w) graph, unit) prog" where
  "Gateway_AddDefaultGatewayRooms L K X p ins related = AddMany L K X gateway_DefaultGatewayRooms_rel p ins related"

definition gateway_Sessions_rel :: relation where
  "gateway_Sessions_rel = \<lparr>rel = ''Sessions'', backRel = ''Gateway'', localTable = gatewayTable,
     foreignTable = sessionTable, localCol = ''id'', foreignCol = ''gateway_id'',
     viaEqual = True, backMany = False\<rparr>"

definition Gateway_Sessions :: "('v, 'q, 'd, 'w) boil \<Rightarrow> ('v, 'q, 'd, 'w) loading \<Rightarrow> 'v obj \<Rightarrow>
    'd list \<Rightarrow> 'q" where
  "Gateway_Sessions L K ob mods = queryMany L K gateway_Sessions_rel ob mods"

definition Gateway_LoadSessions :: "('v, 'q, 'd, 'w) boil \<Rightarrow> ('v, 'q, 'd, 'w) loading \<Rightarrow>
    ('v, 'w) executor \<Rightarrow> bool \<Rightarrow> nat list \<Rightarrow> ('q \<Rightarrow> 'q) option \<Rightarrow> (('v, 'w) graph, unit) prog" where
  "Gateway_LoadSessions L K X singular ps mods = LoadMany L K X gateway_Sessions_rel singular ps mods"

definition Gateway_AddSessions :: "('v, 'q, 'd, 'w) boil \<Rightarrow> ('v, 'q, 'd, 'w) loading \<Rightarrow>
    ('v, 'w) executor \<Rightarrow> nat \<Rightarrow> bool \<Rightarrow> nat list \<Rightarrow> (('v, 'w) graph, unit) prog" where
  "Gateway_AddSessions L K X p ins related = AddMany L K X gateway_Sessions_rel p ins related"

definition Gateway_SetSessions :: "('v, 'q, 'd, 'w) boil \<Rightarrow> ('v, 'q, 'd, 'w) loading \<Rightarrow>
    ('v, 'w) executor \<Rightarrow> nat \<Rightarrow> bool \<Rightarrow> nat list \<Rightarrow> (('v, 'w) graph, unit) prog" where
  "Gateway_SetSessions L K X p ins related = SetMany L K X gateway_Sessions_rel p ins related"

definition Gateway_RemoveSessions :: "('v, 'q, 'd, 'w) boil \<Rightarrow> ('v, 'q, 'd, 'w) loading \<Rightarrow>
    ('v, 'w) executor \<Rightarrow> nat \<Rightarrow> nat list \<Rightarrow> (('v, 'w) graph, unit) prog" where
  "Gateway_RemoveSessions L K X p related = RemoveMany L K X gateway_Sessions_rel p related"

section \<open>rooms\<close>

definition room_DefaultGateway_rel :: relation where
  "room_DefaultGateway_rel = \<lparr>rel = ''DefaultGateway'', backRel = ''DefaultGatewayRooms'', localTable = roomTable,
     foreignTable = gatewayTable, localCol = ''default_gateway_id'', foreignCol = ''id'',
     viaEqual = False, backMany = True\<rparr>"

definition Room_DefaultGateway :: "('v, 'q, 'd, 'w) boil \<Rightarrow> ('v, 'q, 'd, 'w) loading \<Rightarrow> 'v obj \<Rightarrow>
    'd list \<Rightarrow> 'q" where
  "Room_DefaultGateway L K ob mods = queryOne L K room_DefaultGateway_rel ob mods"

definition Room_LoadDefaultGateway :: "('v, 'q, 'd, 'w) boil \<Rightarrow> ('v, 'q, 'd, 'w) loading \<Rightarrow>
    ('v, 'w) executor \<Rightarrow> bool \<Rightarrow> nat list \<Rightarrow> ('q \<Rightarrow> 'q) option \<Rightarrow> (('v, 'w) graph, unit) prog" where
  "Room_LoadDefaultGateway L K X singular ps mods = LoadOne L K X room_DefaultGateway_rel singular ps mods"

definition Room_SetDefaultGateway :: "('v, 'q, 'd, 'w) boil \<Rightarrow> ('v, 'q, 'd, 'w) loading \<Rightarrow>
    ('v, 'w) executor \<Rightarrow> nat \<Rightarrow> bool \<Rightarrow> nat \<Rightarrow> (('v, 'w) graph, unit) prog" where
  "Room_SetDefaultGateway L K X p ins related = SetOne L K X room_DefaultGateway_rel p ins related"

definition room_RoomStatistic_rel :: relation where
  "room_RoomStatistic_rel = \<lparr>rel = ''RoomStatistic'', backRel = ''Room'', localTable = roomTable,
     foreignTable = roomStatisticTable, localCol = ''id'', foreignCol = ''room_id'',
     viaEqual = False, backMany = False\<rparr>"

definition Room_RoomStatistic :: "('v, 'q, 'd, 'w) boil \<Rightarrow> ('v, 'q, 'd, 'w) loading \<Rightarrow> 'v obj \<Rightarrow>
    'd list \<Rightarrow> 'q" where
  "Room_RoomStatistic L K ob mods = queryOne L K room_RoomStatistic_rel ob mods"

definition Room_LoadRoomStatistic :: "('v, 'q, 'd, 'w) boil \<Rightarrow> ('v, 'q, 'd, 'w) loading \<Rightarrow>
    ('v, 'w) executor \<Rightarrow> bool \<Rightarrow> nat list \<Rightarrow> ('q \<Rightarrow> 'q) option \<Rightarrow> (('v, 'w) graph, unit) prog" where
  "Room_LoadRoomStatistic L K X singular ps mods = LoadOne L K X room_RoomStatistic_rel singular ps mods"

definition Room_SetRoomStatistic :: "('v, 'q, 'd, 'w) boil \<Rightarrow> ('v, 'q, 'd, 'w) loading \<Rightarrow>
    ('v, 'w) executor \<Rightarrow> nat \<Rightarrow> bool \<Rightarrow> nat \<Rightarrow> (('v, 'w) graph, unit) prog" where
  "Room_SetRoomStatistic L K X p ins related = SetChild L K X room_RoomStatistic_rel p ins related"

definition room_CompositesRooms_rel :: relation where
  "room_CompositesRooms_rel = \<lparr>rel = ''CompositesRooms'', backRel = ''Room'', localTable = roomTable,
     foreignTable = compositesRoomTable, localCol = ''id'', foreignCol = ''room_id'',
     viaEqual = False, backMany = False\<rparr>"

definition Room_CompositesRooms :: "('v, 'q, 'd, 'w) boil \<Rightarrow> ('v, 'q, 'd, 'w) loading \<Rightarrow> 'v obj \<Rightarrow>
    'd list \<Rightarrow> 'q" where
  "Room_CompositesRooms L K ob mods = queryMany L K room_CompositesRooms_rel ob mods"

definition Room_LoadCompositesRooms :: "('v, 'q, 'd, 'w) boil \<Rightarrow> ('v, 'q, 'd, 'w) loading \<Rightarrow>
    ('v, 'w) executor \<Rightarrow> bool \<Rightarrow> nat list \<Rightarrow> ('q \<Rightarrow> 'q) option \<Rightarrow> (('v, 'w) graph, unit) prog" where
  "Room_LoadCompositesRooms L K X singular ps mods = LoadMany L K X room_CompositesRooms_rel singular ps mods"

definition Room_AddCompositesRooms :: "('v, 'q, 'd, 'w) boil \<Rightarrow> ('v, 'q, 'd, 'w) loading \<Rightarrow>
    ('v, 'w) executor \<Rightarrow> nat \<Rightarrow> bool \<Rightarrow> nat list \<Rightarrow> (('v, 'w) graph, unit) prog" where
  "Room_AddCompositesRooms L K X p ins related = AddMany L K X room_CompositesRooms_rel p ins related"

definition room_Sessions_rel :: relation where
  "room_Sessions_rel = \<lparr>rel = ''Sessions'', backRel = ''Room'', localTable = roomTable,
     foreignTable = sessionTable, localCol = ''id'', foreignCol = ''room_id'',
     viaEqual = True, backMany = False\<rparr>"

definition Room_Sessions :: "('v, 'q, 'd, 'w) boil \<Rightarrow> ('v, 'q, 'd, 'w) loading \<Rightarrow> 'v obj \<Rightarrow>
    'd list \<Rightarrow> 'q" where
  "Room_Sessions L K ob mods = queryMany L K room_Sessions_rel ob mods"

definition Room_LoadSessions :: "('v, 'q, 'd, 'w) boil \<Rightarrow> ('v, 'q, 'd, 'w) loading \<Rightarrow>
    ('v, 'w) executor \<Rightarrow> bool \<Rightarrow> nat list \<Rightarrow> ('q \<Rightarrow> 'q) option \<Rightarrow> (('v, 'w) graph, unit) prog" where
  "Room_LoadSessions L K X singular ps mods = LoadMany L K X room_Sessions_rel singular ps mods"

definition Room_AddSessions :: "('v, 'q, 'd, 'w) boil \<Rightarrow> ('v, 'q, 'd, 'w) loading \<Rightarrow>
    ('v, 'w) executor \<Rightarrow> nat \<Rightarrow> bool \<Rightarrow> nat list \<Rightarrow> (('v, 'w) graph, unit) prog" where
  "Room_AddSessions L K X p ins related = AddMany L K X room_Sessions_rel p ins related"

definition Room_SetSessions :: "('v, 'q, 'd, 'w) boil \<Rightarrow> ('v, 'q, 'd, 'w) loading \<Rightarrow>
    ('v, 'w) executor \<Rightarrow> nat \<Rightarrow> bool \<Rightarrow> nat list \<Rightarrow> (('v, 'w) graph, unit) prog" where
  "Room_SetSessions L K X p ins related = SetMany L K X room_Sessions_rel p ins related"

definition Room_RemoveSessions :: "('v, 'q, 'd, 'w) boil \<Rightarrow> ('v, 'q, 'd, 'w) loading \<Rightarrow>
    ('v, 'w) executor \<Rightarrow> nat \<Rightarrow> nat list \<Rightarrow> (('v, 'w) graph, unit) prog" where
  "Room_RemoveSessions L K X p related = RemoveMany L K X room_Sessions_rel p related"

section \<open>room_statistics\<close>

definition roomStatistic_Room_rel :: relation where
  "roomStatistic_Room_rel = \<lparr>rel = ''Room'', backRel = ''RoomStatistic'', localTable = roomStatisticTable,
     foreignTable = roomTable, localCol = ''room_id'', foreignCol = ''id'',
     viaEqual = False, backMany = False\<rparr>"

definition RoomStatistic_Room :: "('v, 'q, 'd, 'w) boil \<Rightarrow> ('v, 'q, 'd, 'w) loading \<Rightarrow> 'v obj \<Rightarrow>
    'd list \<Rightarrow> 'q" where
  "RoomStatistic_Room L K ob mods = queryOne L K roomStatistic_Room_rel ob mods"

definition RoomStatistic_LoadRoom :: "('v, 'q, 'd, 'w) boil \<Rightarrow> ('v, 'q, 'd, 'w) loading \<Rightarrow>
    ('v, 'w) executor \<Rightarrow> bool \<Rightarrow> nat list \<Rightarrow> ('q \<Rightarrow> 'q) option \<Rightarrow> (('v, 'w) graph, unit) prog" where
  "RoomStatistic_LoadRoom L K X singular ps mods = LoadOne L K X roomStatistic_Room_rel singular ps mods"

definition RoomStatistic_SetRoom :: "('v, 'q, 'd, 'w) boil \<Rightarrow> ('v, 'q, 'd, 'w) loading \<Rightarrow>
    ('v, 'w) executor \<Rightarrow> nat \<Rightarrow> bool \<Rightarrow> nat \<Rightarrow> (('v, 'w) graph, unit) prog" where
  "RoomStatistic_SetRoom L K X p ins related = SetOne L K X roomStatistic_Room_rel p ins related"

section \<open>sessions\<close>

definition session_Gateway_rel :: relation where
  "session_Gateway_rel = \<lparr>rel = ''Gateway'', backRel = ''Sessions'', localTable = sessionTable,
     foreignTable = gatewayTable, localCol = ''gateway_id'', foreignCol = ''id'',
     viaEqual = True, backMany = True\<rparr>"

definition Session_Gateway :: "('v, 'q, 'd, 'w) boil \<Rightarrow> ('v, 'q, 'd, 'w) loading \<Rightarrow> 'v obj \<Rightarrow>
    'd list \<Rightarrow> 'q" where
  "Session_Gateway L K ob mods = queryOne L K session_Gateway_rel ob mods"

definition Session_LoadGateway :: "('v, 'q, 'd, 'w) boil \<Rightarrow> ('v, 'q, 'd, 'w) loading \<Rightarrow>
    ('v, 'w) executor \<Rightarrow> bool \<Rightarrow> nat list \<Rightarrow> ('q \<Rightarrow> 'q) option \<Rightarrow> (('v, 'w) graph, unit) prog" where
  "Session_LoadGateway L K X singular ps mods = LoadOne L K X session_Gateway_rel singular ps mods"

definition Session_SetGateway :: "('v, 'q, 'd, 'w) boil \<Rightarrow> ('v, 'q, 'd, 'w) loading \<Rightarrow>
    ('v, 'w) executor \<Rightarrow> nat \<Rightarrow> bool \<Rightarrow> nat \<Rightarrow> (('v, 'w) graph, unit) prog" where
  "Session_SetGateway L K X p ins related = SetOne L K X session_Gateway_rel p ins related"

definition Session_RemoveGateway :: "('v, 'q, 'd, 'w) boil \<Rightarrow> ('v, 'q, 'd, 'w) loading \<Rightarrow>
    ('v, 'w) executor \<Rightarrow> nat \<Rightarrow> nat option \<Rightarrow> (('v, 'w) graph, unit) prog" where
  "Session_RemoveGateway L K X p related = RemoveOne L K X session_Gateway_rel p related"

definition session_Room_rel :: relation where
  "session_Room_rel = \<lparr>rel = ''Room'', backRel = ''Sessions'', localTable = sessionTable,
     foreignTable = roomTable, localCol = ''room_id'', foreignCol = ''id'',
     viaEqual = True, backMany = True\<rparr>"

definition Session_Room :: "('v, 'q, 'd, 'w) boil \<Rightarrow> ('v, 'q, 'd, 'w) loading \<Rightarrow> 'v obj \<Rightarrow>
    'd list \<Rightarrow> 'q" where
  "Session_Room L K ob mods = queryOne L K session_Room_rel ob mods"

definition Session_LoadRoom :: "('v, 'q, 'd, 'w) boil \<Rightarrow> ('v, 'q, 'd, 'w) loading \<Rightarrow>
    ('v, 'w) executor \<Rightarrow> bool \<Rightarrow> nat list \<Rightarrow> ('q \<Rightarrow> 'q) option \<Rightarrow> (('v, 'w) graph, unit) prog" where
  "Session_LoadRoom L K X singular ps mods = LoadOne L K X session_Room_rel singular ps mods"

definition Session_SetRoom :: "('v, 'q, 'd, 'w) boil \<Rightarrow> ('v, 'q, 'd, 'w) loading \<Rightarrow>
    ('v, 'w) executor \<Rightarrow> nat \<Rightarrow> bool \<Rightarrow> nat \<Rightarrow> (('v, 'w) graph, unit) prog" where
  "Session_SetRoom L K X p ins related = SetOne L K X session_Room_rel p ins related"

definition Session_RemoveRoom :: "('v, 'q, 'd, 'w) boil \<Rightarrow> ('v, 'q, 'd, 'w) loading \<Rightarrow>
    ('v, 'w) executor \<Rightarrow> nat \<Rightarrow> nat option \<Rightarrow> (('v, 'w) graph, unit) prog" where
  "Session_RemoveRoom L K X p related = RemoveOne L K X session_Room_rel p related"

definition session_User_rel :: relation where
  "session_User_rel = \<lparr>rel = ''User'', backRel = ''Sessions'', localTable = sessionTable,
     foreignTable = userTable, localCol = ''user_id'', foreignCol = ''id'',
     viaEqual = False, backMany = True\<rparr>"

definition Session_User :: "('v, 'q, 'd, 'w) boil \<Rightarrow> ('v, 'q, 'd, 'w) loading \<Rightarrow> 'v obj \<Rightarrow>
    'd list \<Rightarrow> 'q" where
  "Session_User L K ob mods = queryOne L K session_User_rel ob mods"

definition Session_LoadUser :: "('v, 'q, 'd, 'w) boil \<Rightarrow> ('v, 'q, 'd, 'w) loading \<Rightarrow>
    ('v, 'w) executor \<Rightarrow> bool \<Rightarrow> nat list \<Rightarrow> ('q \<Rightarrow> 'q) option \<Rightarrow> (('v, 'w) graph, unit) prog" where
  "Session_LoadUser L K X singular ps mods = LoadOne L K X session_User_rel singular ps mods"

definition Session_SetUser :: "('v, 'q, 'd, 'w) boil \<Rightarrow> ('v, 'q, 'd, 'w) loading \<Rightarrow>
    ('v, 'w) executor \<Rightarrow> nat \<Rightarrow> bool \<Rightarrow> nat \<Rightarrow> (('v, 'w) graph, unit) prog" where
  "Session_SetUser L K X p ins related = SetOne L K X session_User_rel p ins related"

section \<open>users\<close>

definition user_Sessions_rel :: relation where
  "user_Sessions_rel = \<lparr>rel = ''Sessions'', backRel = ''User'', localTable = userTable,
     foreignTable = sessionTable, localCol = ''id'', foreignCol = ''user_id'',
     viaEqual = False, backMany = False\<rparr>"

definition User_Sessions :: "('v, 'q, 'd, 'w) boil \<Rightarrow> ('v, 'q, 'd, 'w) loading \<Rightarrow> 'v obj \<Rightarrow>
    'd list \<Rightarrow> 'q" where
  "User_Sessions L K ob mods = queryMany L K user_Sessions_rel ob mods"

definition User_LoadSessions :: "('v, 'q, 'd, 'w) boil \<Rightarrow> ('v, 'q, 'd, 'w) loading \<Rightarrow>
    ('v, 'w) executor \<Rightarrow> bool \<Rightarrow> nat list \<Rightarrow> ('q \<Rightarrow> 'q) option \<Rightarrow> (('v, 'w) graph, unit) prog" where
  "User_LoadSessions L K X singular ps mods = LoadMany L K X user_Sessions_rel singular ps mods"

definition User_AddSessions :: "('v, 'q, 'd, 'w) boil \<Rightarrow> ('v, 'q, 'd, 'w) loading \<Rightarrow>
    ('v, 'w) executor \<Rightarrow> nat \<Rightarrow> bool \<Rightarrow> nat list \<Rightarrow> (('v, 'w) graph, unit) prog" where
  "User_AddSessions L K X p ins related = AddMany L K X user_Sessions_rel p ins related"

end
