(* ===== verification/Boil_Rel_Laws.thy ===== *)
theory Boil_Rel_Laws
  imports Boil_Relations "HOL-Library.Multiset"
begin

text \<open>
  Laws of the relationships: what the store operations change, how an eager load of a relation
  to many distributes the rows it read, and what \<^verbatim>\<open>RemoveGateway\<close> and \<^verbatim>\<open>RemoveRoom\<close> take out
  of the other side's slice.
\<close>

section \<open>The store\<close>

lemma onNode_length [simp]: "length (nodes (onNode p f s)) = length (nodes s)"
  by (simp add: onNode_def)

lemma onNode_same: "p < length (nodes s) \<Longrightarrow> nodes (onNode p f s) ! p = f (nodes s ! p)"
  by (simp add: onNode_def)

lemma onNode_other: "q \<noteq> p \<Longrightarrow> nodes (onNode p f s) ! q = nodes s ! q"
  by (simp add: onNode_def)

lemma onNode_out: "\<not> p < length (nodes s) \<Longrightarrow> nodes (onNode p f s) = nodes s"
  by (simp add: onNode_def list_update_beyond)

lemma getField_onNode:
  "(\<And>n. columnsOf (f n) = columnsOf n) \<Longrightarrow> getField q c (onNode p f s) = getField q c s"
  by (cases "q = p"; cases "p < length (nodes s)")
    (simp_all add: getField_def onNode_same onNode_other onNode_out)

lemma getField_setRel [simp]: "getField q c (setRel p name ps s) = getField q c s"
  unfolding setRel_def by (rule getField_onNode) simp

lemma getField_appendRel [simp]: "getField q c (appendRel p name ps s) = getField q c s"
  by (simp add: appendRel_def)

lemma getField_initR [simp]: "getField q c (initR p s) = getField q c s"
  unfolding initR_def by (rule getField_onNode) (simp split: option.split)

lemma setRel_length [simp]: "length (nodes (setRel p name ps s)) = length (nodes s)"
  "length (nodes (appendRel p name ps s)) = length (nodes s)"
  "length (nodes (initR p s)) = length (nodes s)"
  by (simp_all add: setRel_def appendRel_def initR_def)

lemma relOf_setRel:
  "p < length (nodes s) \<Longrightarrow>
   relOf q m (setRel p name ps s) = (if q = p \<and> m = name then ps else relOf q m s)"
  by (cases "q = p") (simp_all add: relOf_def setRel_def onNode_same onNode_other)

lemma relOf_appendRel:
  "p < length (nodes s) \<Longrightarrow>
   relOf q m (appendRel p name ps s) =
     (if q = p \<and> m = name then relOf q m s @ ps else relOf q m s)"
  by (simp add: appendRel_def relOf_setRel)

lemma relOf_initR [simp]: "relOf q m (initR p s) = relOf q m s"
  by (cases "q = p"; cases "p < length (nodes s)")
    (simp_all add: relOf_def initR_def onNode_same onNode_other onNode_out split: option.split)

section \<open>Loading a relation to many\<close>

definition ownsRow :: "('v, 'q, 'd, 'w) loading \<Rightarrow> relation \<Rightarrow> ('v, 'w) graph \<Rightarrow> nat \<Rightarrow> nat \<Rightarrow> bool" where
  "ownsRow K r s p f \<longleftrightarrow> sameKey K r (getField p (localCol r) s) (getField f (foreignCol r) s)"

lemma find_unique:
  assumes "\<And>q. q \<in> set ps \<Longrightarrow> P q \<Longrightarrow> q = p" "p \<in> set ps" "P p"
  shows "find P ps = Some p"
proof (cases "find P ps")
  case None
  with assms(2,3) show ?thesis by (simp add: find_None_all)
next
  case (Some q)
  with assms(1) show ?thesis by (auto dest: find_Some_in)
qed

lemma attachMany_length [simp]: "length (nodes (attachMany K r ps fs s)) = length (nodes s)"
  by (induction fs arbitrary: s) (simp_all split: option.split)

lemma attachMany_field [simp]: "getField q c (attachMany K r ps fs s) = getField q c s"
  by (induction fs arbitrary: s) (simp_all split: option.split)

lemma ownsRow_cong:
  "(\<And>q c. getField q c s' = getField q c s) \<Longrightarrow> ownsRow K r s' = ownsRow K r s"
  by (intro ext) (simp add: ownsRow_def)

lemma attachMany_rels:
  assumes "set ps \<subseteq> {..<length (nodes s)}" "set fs \<subseteq> {..<length (nodes s)}"
    and "set ps \<inter> set fs = {}"
    and "\<And>p q f. p \<in> set ps \<Longrightarrow> q \<in> set ps \<Longrightarrow> ownsRow K r s p f \<Longrightarrow> ownsRow K r s q f \<Longrightarrow> p = q"
    and "p \<in> set ps"
  shows "relOf p (rel r) (attachMany K r ps fs s) = relOf p (rel r) s @ filter (ownsRow K r s p) fs \<and>
    (\<forall>g. g \<notin> set ps \<longrightarrow> g \<notin> set fs \<longrightarrow>
       relOf g (backRel r) (attachMany K r ps fs s) = relOf g (backRel r) s) \<and>
    (\<forall>f \<in> set fs. ownsRow K r s p f \<longrightarrow> relOf f (backRel r) (attachMany K r ps fs s) = [p])"
  using assms
proof (induction fs arbitrary: s)
  case Nil
  then show ?case by simp
next
  case (Cons f fs)
  let ?own = "\<lambda>q. ownsRow K r s q f"
  let ?s = "case find ?own ps of None \<Rightarrow> s
    | Some q \<Rightarrow> setRel f (backRel r) [q] (appendRel q (rel r) [f] s)"
  have step: "attachMany K r ps (f # fs) s = attachMany K r ps fs ?s"
    by (simp add: ownsRow_def)
  have field: "getField q c ?s = getField q c s" for q c by (simp split: option.split)
  then have own: "ownsRow K r ?s = ownsRow K r s" by (rule ownsRow_cong)
  have len: "length (nodes ?s) = length (nodes s)" by (simp split: option.split)
  have IH: "relOf p (rel r) (attachMany K r ps fs ?s) = relOf p (rel r) ?s @ filter (ownsRow K r s p) fs \<and>
    (\<forall>g. g \<notin> set ps \<longrightarrow> g \<notin> set fs \<longrightarrow>
       relOf g (backRel r) (attachMany K r ps fs ?s) = relOf g (backRel r) ?s) \<and>
    (\<forall>f \<in> set fs. ownsRow K r s p f \<longrightarrow> relOf f (backRel r) (attachMany K r ps fs ?s) = [p])"
    using Cons.IH [of ?s] Cons.prems unfolding own len by auto
  have f: "f < length (nodes s)" "f \<notin> set ps" and p: "p < length (nodes s)" "p \<noteq> f"
    using Cons.prems by auto
  show ?case
  proof (cases "find ?own ps")
    case None
    then have "\<not> ?own p" using Cons.prems(5) by (simp add: find_None_iff)
    with IH None show ?thesis unfolding step by simp
  next
    case (Some q)
    then have q: "q \<in> set ps" "?own q" by (auto dest: find_Some_in)
    with Cons.prems(1) have ql: "q < length (nodes s)" "q \<noteq> f" using f by auto
    have s1: "?s = setRel f (backRel r) [q] (appendRel q (rel r) [f] s)" using Some by simp
    have rp: "relOf p (rel r) ?s = relOf p (rel r) s @ (if ?own p then [f] else [])"
      unfolding s1 using p f ql q Cons.prems(4) [OF Cons.prems(5) q(1)]
      by (auto simp: relOf_setRel relOf_appendRel)
    have rg: "relOf g (backRel r) ?s = (if g = f then [q] else relOf g (backRel r) s)"
      if "g \<notin> set ps" for g
      unfolding s1 using that f ql q by (auto simp: relOf_setRel relOf_appendRel)
    have rf: "relOf f (backRel r) (attachMany K r ps fs ?s) = [p]" if "?own p"
    proof (cases "f \<in> set fs")
      case True
      with IH that show ?thesis by blast
    next
      case False
      with IH f(2) rg [OF f(2)] Cons.prems(4) [OF Cons.prems(5) q(1) that q(2)] show ?thesis by simp
    qed
    show ?thesis unfolding step using IH rp rg rf by auto
  qed
qed

lemma loadArgs_keeps:
  "loadArgs K r sk ps args s = (res, s') \<Longrightarrow>
   length (nodes s') = length (nodes s) \<and> (\<forall>q c. getField q c s' = getField q c s) \<and>
   (\<forall>q m. relOf q m s' = relOf q m s) \<and> (\<exists>v. res = Ok v)"
  by (induction ps arbitrary: args s) (auto simp: bindP_def split: if_splits)

lemma loadArgs_grow: "loadArgs K r False ps args s = (Ok vs, s') \<Longrightarrow> length args \<le> length vs"
  by (induction ps arbitrary: args s) (fastforce simp: bindP_def split: if_splits)+

lemma loadArgs_Nil:
  assumes "loadArgs K r False ps args s = (Ok [], s')" shows "ps = []"
proof (cases ps)
  case (Cons p ps')
  show ?thesis
  proof (cases "list_ex (\<lambda>a. sameKey K r a (getField p (localCol r) s)) args")
    case True
    then have "args \<noteq> []" by auto
    with loadArgs_grow [OF assms] show ?thesis by simp
  next
    case False
    with assms Cons have "loadArgs K r False ps' (args @ [getField p (localCol r) s]) (initR p s) = (Ok [], s')"
      by (simp add: bindP_def)
    from loadArgs_grow [OF this] show ?thesis by simp
  qed
qed

lemma onGdb_nodes: "onGdb m s = (res, s') \<Longrightarrow> nodes s' = nodes s"
  by (auto simp: onGdb_def split: prod.splits)

lemma onGdb_wrap_nodes: "wrapP msg (onGdb m) s = (Ok x, s') \<Longrightarrow> nodes s' = nodes s"
  by (simp add: onGdb_nodes)

lemma sumP_Ok: "sumP x s = (Ok y, s') \<longleftrightarrow> x = Inr y \<and> s' = s"
  by (cases x) (auto simp: sumP_def)

lemma errorP_Ok: "errorP msg e s = (Ok y, s') \<longleftrightarrow> e = None \<and> s' = s"
  by (cases e) (auto simp: errorP_def)

lemma fetch_Ok:
  assumes "fetch L K X r what results mods args s = (Ok fs, s')"
  obtains new where "nodes s' = nodes s @ new" "fs = [length (nodes s)..<length (nodes s')]"
    "\<forall>n \<in> set new. relR n = None"
  using assms by (fastforce simp: fetch_def Let_def bindP_Ok_iff sumP_Ok errorP_Ok allocAll_def
      dest: onGdb_nodes)

lemma LoadMany_distributes:
  assumes run: "LoadMany L K X r False ps mods s = (Ok (), s')"
    and ps: "set ps \<subseteq> {..<length (nodes s)}" and p: "p \<in> set ps"
    and keys: "\<And>p q v. p \<in> set ps \<Longrightarrow> q \<in> set ps \<Longrightarrow> sameKey K r (getField p (localCol r) s) v \<Longrightarrow>
      sameKey K r (getField q (localCol r) s) v \<Longrightarrow> p = q"
  shows "relOf p (rel r) s' = relOf p (rel r) s @
      filter (ownsRow K r s' p) [length (nodes s)..<length (nodes s')] \<and>
    (\<forall>f \<in> {length (nodes s)..<length (nodes s')}. ownsRow K r s' p f \<longrightarrow>
       relOf f (backRel r) s' = [p])"
proof -
  obtain args s1 where a: "loadArgs K r False ps [] s = (Ok args, s1)"
    using run by (auto simp: LoadMany_def bindP_Ok_iff)
  note k1 = loadArgs_keeps [OF a]
  have "args \<noteq> []" using loadArgs_Nil [of K r ps "[]" s s1] a p by auto
  with run a obtain fs s2 where f: "fetch L K X r (tab (foreignTable r)) ''in eager load on'' mods args s1 =
      (Ok fs, s2)" and s': "s' = attachMany K r ps fs s2"
    by (auto simp: LoadMany_def bindP_Ok_iff)
  from fetch_Ok [OF f] obtain new where n: "nodes s2 = nodes s1 @ new"
    and fs: "fs = [length (nodes s1)..<length (nodes s2)]" by blast
  have old: "getField q c s2 = getField q c s \<and> relOf q m s2 = relOf q m s"
    if "q < length (nodes s)" for q c m
    using that n k1 by (auto simp: getField_def relOf_def nth_append)
  have own: "ownsRow K r s' = ownsRow K r s2" unfolding s' by (rule ownsRow_cong) simp
  have one: "a = b" if "a \<in> set ps" "b \<in> set ps" "ownsRow K r s2 a f" "ownsRow K r s2 b f" for a b f
  proof -
    have "getField a (localCol r) s2 = getField a (localCol r) s"
      "getField b (localCol r) s2 = getField b (localCol r) s"
      using that(1,2) ps old by auto
    with that keys [of a b "getField f (foreignCol r) s2"] show ?thesis by (simp add: ownsRow_def)
  qed
  have "relOf p (rel r) s' = relOf p (rel r) s2 @ filter (ownsRow K r s2 p) fs \<and>
    (\<forall>f \<in> set fs. ownsRow K r s2 p f \<longrightarrow> relOf f (backRel r) s' = [p])"
    unfolding s'
  proof (rule conjI [OF attachMany_rels [THEN conjunct1] attachMany_rels [THEN conjunct2, THEN conjunct2]])
  qed (use ps p k1 n fs in \<open>auto dest: one\<close>)
  then show ?thesis using own fs old k1 ps p s' by auto
qed

section \<open>Removing from a slice\<close>

lemma mset_swapRemove:
  assumes "i < length xs" shows "mset (swapRemove i xs) = mset xs - {#xs ! i#}"
proof -
  from assms obtain ys z where xs: "xs = ys @ [z]" by (cases xs rule: rev_cases) auto
  show ?thesis
  proof (cases "i < length ys")
    case True
    then have "swapRemove i xs = ys[i := z]" by (simp add: swapRemove_def xs list_update_append)
    moreover have "ys ! i \<in># mset ys" using True by simp
    ultimately show ?thesis using True xs by (simp add: mset_update nth_append)
  next
    case False
    with assms xs have "i = length ys" by simp
    then show ?thesis by (simp add: swapRemove_def xs)
  qed
qed

lemma firstIndex_Some:
  "firstIndex P xs = Some i \<Longrightarrow> i < length xs \<and> P (xs ! i) \<and> find P xs = Some (xs ! i)"
  by (induction xs arbitrary: i) (auto split: if_splits)

lemma firstIndex_None: "firstIndex P xs = None \<longleftrightarrow> find P xs = None"
  by (induction xs) auto

lemma mset_removeFirst:
  "mset (removeFirst P xs) = (case find P xs of None \<Rightarrow> mset xs | Some x \<Rightarrow> mset xs - {#x#})"
proof (cases "firstIndex P xs")
  case None
  then have "find P xs = None" by (simp add: firstIndex_None)
  with None show ?thesis by (simp add: removeFirst_def)
next
  case (Some i)
  with firstIndex_Some [OF Some] show ?thesis by (simp add: removeFirst_def mset_swapRemove)
qed

section \<open>RemoveGateway and RemoveRoom\<close>

definition same_receiver :: "('v, 'w) model_state \<Rightarrow> ('v, 'w) model_state \<Rightarrow> bool" where
  "same_receiver s t \<longleftrightarrow> receiver t = receiver s"

interpretation receiver_kept: step_rel same_receiver
  by unfold_locales (simp_all add: same_receiver_def)

lemma receiver_onDb [within_rules]: "within same_receiver (onDb m)"
  by (auto simp: within_def onDb_def same_receiver_def split: prod.split)

lemma receiver_sumP [within_rules]: "within same_receiver (sumP x)"
  by (cases x) (simp_all add: sumP_def within_rules)

lemma receiver_store [within_rules]:
  "within same_receiver (modifyP (\<lambda>s. s\<lparr>tabUpdateCache := f s\<rparr>))"
  by (simp add: within_def same_receiver_def)

lemma Update_receiver: "Update L X T cs s = (res, s') \<Longrightarrow> receiver s' = receiver s"
proof -
  have "within same_receiver (Update L X T cs)"
    unfolding Update_def Let_def by (intro within_rules)
  then show "Update L X T cs s = (res, s') \<Longrightarrow> receiver s' = receiver s"
    using withinD' same_receiver_def by metis
qed

lemma onModel_Update_nodes:
  "onModel T p (Update L X T cs) s = (res, s') \<Longrightarrow> nodes s' = nodes s"
  by (auto simp: onModel_def Let_def onNode_def split: prod.splits dest!: Update_receiver)

lemma setField_length [simp]: "length (nodes (setField p c v s)) = length (nodes s)"
  by (simp add: setField_def)

lemma relOf_setField [simp]: "relOf q m (setField p c v s) = relOf q m s"
  by (cases "q = p"; cases "p < length (nodes s)")
    (simp_all add: relOf_def setField_def onNode_same onNode_other onNode_out)

lemma getField_setField:
  "p < length (nodes s) \<Longrightarrow>
   getField q d (setField p c v s) = (if q = p \<and> d = c then v else getField q d s)"
  by (cases "q = p") (simp_all add: getField_def setField_def onNode_same onNode_other)

lemma relR_setField [simp]: "relR (nodes (setField p c v s) ! q) = relR (nodes s ! q)"
  by (cases "q = p"; cases "p < length (nodes s)")
    (simp_all add: setField_def onNode_same onNode_other onNode_out)

lemma relR_setRel: "p < length (nodes s) \<Longrightarrow> q \<noteq> p \<Longrightarrow> relR (nodes (setRel p m v s) ! q) = relR (nodes s ! q)"
  by (simp add: setRel_def onNode_other)

text \<open>
  What the call leaves in the other side's slice: it loses the first object whose key is not
  equal to null, and keeps every object whose key is.
\<close>

lemma RemoveOne_slice:
  assumes run: "RemoveOne L K X r p (Some f) s = (Ok (), s')"
    and pf: "p < length (nodes s)" "f < length (nodes s)" "p \<noteq> f"
    and R: "relR (nodes s ! f) \<noteq> None"
  shows "mset (relOf f (backRel r) s') = mset (relOf f (backRel r) s) -
    (case find (\<lambda>q. \<not> EqualV K (NullV K)
              (if q = p then NullV K else getField q (localCol r) s)) (relOf f (backRel r) s) of
       None \<Rightarrow> {#} | Some q \<Rightarrow> {#q#})"
proof -
  let ?s0 = "setField p (localCol r) (NullV K) s"
  obtain n s1 where u: "onModel (localTable r) p (Update L X (localTable r) (Whitelist K [localCol r])) ?s0 =
      (Ok n, s1)"
    and s': "s' = (let s2 = (case relR (nodes s1 ! p) of None \<Rightarrow> s1 | Some _ \<Rightarrow> setRel p (rel r) [] s1)
        in case relR (nodes s2 ! f) of None \<Rightarrow> s2
            | Some _ \<Rightarrow> setRel f (backRel r)
                (removeFirst (\<lambda>q. \<not> EqualV K (getField p (localCol r) s2) (getField q (localCol r) s2))
                  (relOf f (backRel r) s2)) s2)"
    using run by (auto simp: RemoveOne_def bindP_Ok_iff)
  note n = onModel_Update_nodes [OF u]
  define s2 where "s2 = (case relR (nodes s1 ! p) of None \<Rightarrow> s1 | Some _ \<Rightarrow> setRel p (rel r) [] s1)"
  have len: "length (nodes s1) = length (nodes s)" using n by simp
  have field: "getField q c s2 = (if q = p \<and> c = localCol r then NullV K else getField q c s)" for q c
  proof -
    have "getField q c s2 = getField q c s1" by (simp add: s2_def split: option.split)
    also have "\<dots> = getField q c ?s0" by (simp add: getField_def n)
    finally show ?thesis using pf(1) by (simp add: getField_setField)
  qed
  have rels: "relOf f (backRel r) s2 = relOf f (backRel r) s" "relR (nodes s2 ! f) \<noteq> None"
    "length (nodes s2) = length (nodes s)"
  proof -
    have "relOf f (backRel r) s1 = relOf f (backRel r) ?s0" by (simp add: relOf_def n)
    moreover have "relR (nodes s1 ! f) \<noteq> None" using R by (simp add: n)
    ultimately show "relOf f (backRel r) s2 = relOf f (backRel r) s" "relR (nodes s2 ! f) \<noteq> None"
      "length (nodes s2) = length (nodes s)"
      using pf len by (auto simp: s2_def relOf_setRel relR_setRel split: option.split)
  qed
  from rels(2) s' have "s' = setRel f (backRel r)
      (removeFirst (\<lambda>q. \<not> EqualV K (getField p (localCol r) s2) (getField q (localCol r) s2))
        (relOf f (backRel r) s2)) s2"
    by (auto simp: s2_def [symmetric] Let_def)
  then have "mset (relOf f (backRel r) s') = mset (removeFirst (\<lambda>q. \<not> EqualV K (NullV K)
      (if q = p then NullV K else getField q (localCol r) s)) (relOf f (backRel r) s))"
    using pf rels by (simp add: relOf_setRel field)
  then show ?thesis by (simp add: mset_removeFirst split: option.split)
qed

end
