(* ===== verification/Boil_Laws.thy ===== *)
theory Boil_Laws
  imports Boil_Tables
begin

text \<open>
  Two facts about the statements of all nine tables: the caches are transparent, and every
  statement numbers its placeholders from 1 to the number of arguments that are bound to it.
  What the second needs to know about SQLBoiler is \<^verbatim>\<open>mangles\<close>: the documented results
  of \<^verbatim>\<open>strmangle\<close>, and that a mapping has one field per column and a value per field.
\<close>

definition model_tables :: "table list" where
  "model_tables = [userTable, gatewayTable, roomTable, sessionTable, compositeTable,
     compositesRoomTable, roomStatisticTable, dynamicConfigTable, schemaMigrationTable]"

lemmas table_defs = userTable_def gatewayTable_def roomTable_def sessionTable_def
  compositeTable_def compositesRoomTable_def roomStatisticTable_def dynamicConfigTable_def
  schemaMigrationTable_def

lemma model_tables_names: "list_all table_names model_tables"
  by code_simp

text \<open>Names that the formats and the numbering below can be trusted with.\<close>

definition plain_name :: "string \<Rightarrow> bool" where
  "plain_name s \<longleftrightarrow> CHR ''%'' \<notin> set s \<and> CHR ''$'' \<notin> set s"

definition plain_table :: "table \<Rightarrow> bool" where
  "plain_table T \<longleftrightarrow> plain_name (tab T) \<and> list_all plain_name (allColumns T) \<and>
     list_all (\<lambda>c. c \<in> set (allColumns T)) (primaryKeyColumns T) \<and> primaryKeyColumns T \<noteq> []"

lemma model_tables_plain: "list_all plain_table model_tables"
  by code_simp


section \<open>Formats\<close>

lemma sprintf_char [simp]: "c \<noteq> CHR ''%'' \<Longrightarrow> sprintf (c # f) as = c # sprintf f as"
  by (cases f) auto

lemma sprintf_lit [simp]: "CHR ''%'' \<notin> set a \<Longrightarrow> sprintf (a @ f) as = a @ sprintf f as"
  by (induction a) auto

lemma set_Join: "set (strings_Join xs sep) \<subseteq> \<Union> (set ` set xs) \<union> set sep"
  by (induction xs sep rule: strings_Join.induct) auto

lemma plain_Join:
  assumes "list_all plain_name xs" "plain_name sep"
  shows "plain_name (strings_Join xs sep)"
proof -
  from assms(1) have "\<forall>x \<in> set xs. CHR ''%'' \<notin> set x \<and> CHR ''$'' \<notin> set x"
    by (simp add: plain_name_def list_all_iff)
  with assms(2) set_Join [of xs sep] show ?thesis unfolding plain_name_def by blast
qed

section \<open>Placeholders\<close>

text \<open>The numbers of the placeholders of a statement, in the order of its text.\<close>

fun params :: "string \<Rightarrow> nat option list" where
  "params [] = []"
| "params (c # cs) =
     (if c = CHR ''$'' then digits_val 0 (takeWhile is_digit cs) # params cs else params cs)"

definition from_to :: "nat \<Rightarrow> nat \<Rightarrow> nat option list" where
  "from_to i j = map Some [i..<j]"

lemma from_to_split: "i \<le> j \<Longrightarrow> j \<le> k \<Longrightarrow> from_to i j @ from_to j k = from_to i k"
  unfolding from_to_def by (metis map_append upt_add_eq_append le_Suc_ex)

definition no_digit :: "string \<Rightarrow> bool" where
  "no_digit w \<longleftrightarrow> (case w of [] \<Rightarrow> True | c # _ \<Rightarrow> \<not> is_digit c)"

lemma takeWhile_no_digit:
  "no_digit b \<Longrightarrow> takeWhile is_digit (a @ b) = takeWhile is_digit a"
  by (induction a) (auto simp: no_digit_def split: list.splits)

lemma params_break: "no_digit b \<Longrightarrow> params (a @ b) = params a @ params b"
  by (induction a) (auto simp: takeWhile_no_digit)

lemma params_free [simp]: "CHR ''$'' \<notin> set a \<Longrightarrow> params (a @ b) = params b"
  by (induction a) auto

lemma params_free' [simp]: "CHR ''$'' \<notin> set a \<Longrightarrow> params a = []"
  using params_free [of a "[]"] by simp

lemma no_digit_Cons [simp]: "no_digit (c # cs) \<longleftrightarrow> \<not> is_digit c" "no_digit []"
  by (simp_all add: no_digit_def)

definition mangles :: "('v, 'q, 'd, 'w) boil \<Rightarrow> bool" where
  "mangles L \<longleftrightarrow>
     (\<forall>n > 0. params (Placeholders L True n 1 1) = from_to 1 (Suc n) \<and>
        CHR ''%'' \<notin> set (Placeholders L True n 1 1)) \<and>
     (\<forall>k cols. list_all plain_name cols \<longrightarrow>
        params (SetParamNames L [LQ] [RQ] k cols) = from_to k (k + length cols)) \<and>
     (\<forall>k cols. list_all plain_name cols \<longrightarrow>
        params (WhereClause L [LQ] [RQ] k cols) = from_to k (k + length cols)) \<and>
     (\<forall>k cols n. list_all plain_name cols \<longrightarrow>
        params (WhereClauseRepeated L [LQ] [RQ] k cols n) = from_to k (k + length cols * n)) \<and>
     (\<forall>s. plain_name s \<longrightarrow> plain_name (IdentQuote L LQ RQ s)) \<and>
     (\<forall>ss. IdentQuoteSlice L LQ RQ ss = map (IdentQuote L LQ RQ) ss)"

definition maps_fields :: "('v, 'q, 'd, 'w) boil \<Rightarrow> bool" where
  "maps_fields L \<longleftrightarrow>
     (\<forall>t cols m. BindMapping L t cols = Inr m \<longrightarrow> length m = length cols) \<and>
     (\<forall>obj m. length (ValuesFromMapping L obj m) = length m)"

text \<open>\<^verbatim>\<open>selects\<close> for the column sets: they come from the columns given or the ones the set names.\<close>

definition selects_columns :: "('v, 'q, 'd, 'w) boil \<Rightarrow> bool" where
  "selects_columns L \<longleftrightarrow>
     (\<forall>cs al wd wo nz wl ret. InsertColumnSet L cs al wd wo nz = (wl, ret) \<longrightarrow>
        set wl \<union> set ret \<subseteq> set (Cols cs) \<union> set al \<union> set wd \<union> set wo \<union> set nz) \<and>
     (\<forall>cs al pk. set (UpdateColumnSet L cs al pk) \<subseteq> set (Cols cs) \<union> set al)"

lemma update_numbered:
  assumes L: "mangles L" and T: "plain_name t" and cols: "list_all plain_name wl"
    and w: "params wh = from_to (length wl + 1) k" "length wl + 1 \<le> k"
  shows "params (sprintf (''UPDATE '' @ dquoted t @ '' SET %s WHERE %s'')
    [SetParamNames L [LQ] [RQ] 1 wl, wh]) = from_to 1 k"
proof -
  let ?set = "SetParamNames L [LQ] [RQ] 1 wl"
  have "params (?set @ '' WHERE '' @ wh) = from_to 1 (1 + length wl) @ from_to (length wl + 1) k"
    using L cols w(1) by (subst params_break) (auto simp: mangles_def is_digit_def code_def)
  also have "\<dots> = from_to 1 k" using w(2) from_to_split [of 1 "length wl + 1" k] by simp
  finally show ?thesis using T by (simp add: dquoted_def plain_name_def)
qed


text \<open>A table whose names are plain, and column sets within it.\<close>

definition within_table :: "table \<Rightarrow> bool" where
  "within_table T \<longleftrightarrow> set (columnsWithDefault T) \<union> set (columnsWithoutDefault T) \<subseteq> set (allColumns T)"

lemma model_tables_within: "list_all within_table model_tables"
  by (simp add: model_tables_def within_table_def table_defs)

lemma plain_columns:
  "plain_table T \<Longrightarrow> set cols \<subseteq> set (allColumns T) \<Longrightarrow> list_all plain_name cols"
  by (auto simp: plain_table_def list_all_iff)

lemma plain_literals [simp]: "plain_name (dquoted '','')" "plain_name '', ''"
  by (simp_all add: plain_name_def dquoted_def)

lemma insert_columns:
  assumes "selects_columns L" "within_table T" "names_in (allColumns T) cs"
    and "set nz \<subseteq> set (allColumns T)"
    and "InsertColumnSet L cs (allColumns T) (columnsWithDefault T) (columnsWithoutDefault T) nz = (wl, ret)"
  shows "set wl \<subseteq> set (allColumns T)" "set ret \<subseteq> set (allColumns T)"
proof -
  have "set wl \<union> set ret \<subseteq> set (Cols cs) \<union> set (allColumns T) \<union> set (columnsWithDefault T) \<union>
      set (columnsWithoutDefault T) \<union> set nz"
    using assms(1,5) unfolding selects_columns_def by blast
  also have "\<dots> \<subseteq> set (allColumns T)"
    using assms(2-4) unfolding within_table_def names_in_def by blast
  finally show "set wl \<subseteq> set (allColumns T)" "set ret \<subseteq> set (allColumns T)" by blast+
qed

lemma update_columns:
  assumes "selects_columns L" "names_in (allColumns T) cs"
  shows "set (UpdateColumnSet L cs (allColumns T) pk) \<subseteq> set (allColumns T)"
proof -
  have "set (UpdateColumnSet L cs (allColumns T) pk) \<subseteq> set (Cols cs) \<union> set (allColumns T)"
    using assms(1) unfolding selects_columns_def by blast
  with assms(2) show ?thesis unfolding names_in_def by blast
qed

lemma buildInsert_numbered:
  assumes L: "mangles L" "maps_fields L" "selects_columns L"
    and T: "plain_table T" "within_table T" and dom: "insert_dom T (cs, nz)"
    and b: "buildInsert L T cs nz = Inr e"
  shows "params (query e) = from_to 1 (Suc (length (valueMapping e)))"
proof -
  obtain wl ret where i: "InsertColumnSet L cs (allColumns T) (columnsWithDefault T)
      (columnsWithoutDefault T) nz = (wl, ret)" by fastforce
  from b obtain vm rm where vm: "BindMapping L (typeName T) wl = Inr vm"
    and rm: "BindMapping L (typeName T) ret = Inr rm" and e: "valueMapping e = vm"
    by (auto simp: buildInsert_def i bindSum_def Let_def split: sum.splits)
  have p: "list_all plain_name wl" "list_all plain_name ret"
    using insert_columns [OF L(3) T(2) _ _ i] dom T(1) by (auto simp: insert_dom_def plain_columns)
  have j: "plain_name (strings_Join wl (dquoted '',''))" "plain_name (strings_Join ret (dquoted '',''))"
    using p by (simp_all add: plain_Join)
  have t: "CHR ''%'' \<notin> set (tab T)" "CHR ''$'' \<notin> set (tab T)"
    using T(1) by (simp_all add: plain_table_def plain_name_def)
  define R where "R = (if length rm \<noteq> 0
    then sprintf ('' RETURNING '' @ dquoted ''%s'') [strings_Join ret (dquoted '','')] else [])"
  have R: "CHR ''$'' \<notin> set R" using j(2) by (simp add: R_def dquoted_def plain_name_def)
  have n: "length vm = length wl" using L(2) vm by (simp add: maps_fields_def)
  show ?thesis
  proof (cases wl)
    case Nil
    with b i vm rm have "query e = ''INSERT INTO '' @ dquoted (tab T) @ '' DEFAULT VALUES'' @ R"
      using t by (auto simp: buildInsert_def bindSum_def R_def dquoted_def)
    with t R n Nil e show ?thesis by (simp add: dquoted_def from_to_def)
  next
    case (Cons c wl')
    define P where "P = Placeholders L True (length wl) 1 1"
    have P: "params P = from_to 1 (Suc (length wl))" "CHR ''%'' \<notin> set P"
      using L(1) Cons by (auto simp: mangles_def P_def)
    have "query e = ''INSERT INTO '' @ dquoted (tab T) @ '' ('' @ dquoted (strings_Join wl (dquoted '','')) @
        '') VALUES ('' @ P @ '')'' @ R"
      using b i vm rm t j P(2) Cons
      by (auto simp: buildInsert_def bindSum_def R_def P_def dquoted_def plain_name_def UseIndexPlaceholders_def)
    moreover have "params (P @ '')'' @ R) = params P"
      using R by (subst params_break) (simp_all add: is_digit_def code_def)
    ultimately show ?thesis using t j P(1) n e by (simp add: dquoted_def plain_name_def)
  qed
qed

lemma buildUpdate_numbered:
  assumes L: "mangles L" "maps_fields L" "selects_columns L"
    and T: "plain_table T" and dom: "update_dom T cs" and b: "buildUpdate L T cs = Inr e"
  shows "params (uquery e) = from_to 1 (Suc (length (uvalueMapping e)))"
proof -
  define wl where "wl = UpdateColumnSet L cs (allColumns T) (primaryKeyColumns T)"
  from b obtain m where m: "BindMapping L (typeName T) (wl @ primaryKeyColumns T) = Inr m"
    and e: "e = \<lparr>uquery = sprintf (''UPDATE '' @ dquoted (tab T) @ '' SET %s WHERE %s'')
        [SetParamNames L [LQ] [RQ] 1 wl, WhereClause L [LQ] [RQ] (length wl + 1) (primaryKeyColumns T)],
        uvalueMapping = m\<rparr>"
    by (auto simp: buildUpdate_def wl_def bindSum_def Let_def split: sum.splits if_splits)
  have "set wl \<subseteq> set (allColumns T)"
    using dom unfolding wl_def
    by (intro update_columns [OF L(3)]) (simp add: update_dom_def insert_dom_def)
  then have p: "list_all plain_name wl" "list_all plain_name (primaryKeyColumns T)"
    using T by (auto simp: plain_columns plain_table_def list_all_iff)
  have "length m = length wl + length (primaryKeyColumns T)"
    using L(2) m by (simp add: maps_fields_def)
  moreover have "params (uquery e) = from_to 1 (length wl + 1 + length (primaryKeyColumns T))"
    using L(1) p T unfolding e updateCache.simps
    by (intro update_numbered) (auto simp: mangles_def plain_table_def)
  ultimately show ?thesis by (simp add: e)
qed

lemma excludedSet_free:
  "list_all (\<lambda>v. plain_name (quote v)) vs \<Longrightarrow> CHR ''$'' \<notin> set (excludedSet quote i vs)"
  by (induction vs arbitrary: i) (auto simp: plain_name_def)

lemma buildUpsert_numbered:
  assumes L: "mangles L" "maps_fields L" "selects_columns L"
    and T: "plain_table T" "within_table T" and dom: "upsert_dom T (u, cf, us, is, nz)"
    and b: "buildUpsert L T u cf us is nz = Inr e"
  shows "params (query e) = from_to 1 (Suc (length (valueMapping e)))"
proof -
  let ?q = "IdentQuote L LQ RQ"
  obtain wl ret where i: "InsertColumnSet L is (allColumns T) (columnsWithDefault T)
      (columnsWithoutDefault T) nz = (wl, ret)" by fastforce
  define up where "up = UpdateColumnSet L us (allColumns T) (primaryKeyColumns T)"
  define con where "con = (if length cf = 0 then primaryKeyColumns T else cf)"
  from b obtain vm where vm: "BindMapping L (typeName T) wl = Inr vm" and e: "valueMapping e = vm"
    and q: "query e = buildUpsertQueryPostgres L (dquoted (tab T)) u ret up con wl"
    by (auto simp: buildUpsert_def i bindSum_def Let_def up_def con_def split: sum.splits if_splits)
  have s: "set wl \<subseteq> set (allColumns T)" "set ret \<subseteq> set (allColumns T)"
    using insert_columns [OF L(3) T(2) _ _ i] dom by (auto simp: upsert_dom_def)
  moreover have "set up \<subseteq> set (allColumns T)"
    using dom unfolding up_def by (intro update_columns [OF L(3)]) (simp add: upsert_dom_def)
  moreover have "set con \<subseteq> set (allColumns T)"
    using dom T(1) by (auto simp: con_def upsert_dom_def plain_table_def list_all_iff)
  ultimately have p: "list_all plain_name wl" "list_all plain_name ret" "list_all plain_name up"
    "list_all plain_name con"
    using T(1) by (simp_all add: plain_columns)
  have qp: "list_all plain_name (map ?q xs)" if "list_all plain_name xs" for xs
    using that L(1) by (simp add: mangles_def list_all_iff)
  have sl: "IdentQuoteSlice L LQ RQ xs = map ?q xs" for xs using L(1) by (simp add: mangles_def)
  have n: "length vm = length wl" using L(2) vm by (simp add: maps_fields_def)
  have t: "CHR ''%'' \<notin> set (tab T)" "CHR ''$'' \<notin> set (tab T)"
    using T(1) by (simp_all add: plain_table_def plain_name_def)
  define C where "C = (if \<not> u \<or> length up = 0 then ''DO NOTHING''
    else ''('' @ strings_Join (map ?q con) '', '' @ '') DO UPDATE SET '' @ excludedSet ?q 0 up) @
      (if length (map ?q ret) \<noteq> 0 then '' RETURNING '' @ strings_Join (map ?q ret) '', '' else [])"
  have "CHR ''$'' \<notin> set (excludedSet ?q 0 up)"
    using qp [OF p(3)] by (intro excludedSet_free) (simp add: list_all_iff)
  then have C: "CHR ''$'' \<notin> set C"
    using plain_Join [OF qp [OF p(4)], of "'', ''"] plain_Join [OF qp [OF p(2)], of "'', ''"]
    by (auto simp: C_def plain_name_def)
  show ?thesis
  proof (cases wl)
    case Nil
    then have "query e = ''INSERT INTO '' @ dquoted (tab T) @ '' DEFAULT VALUES ON CONFLICT '' @ C"
      by (simp add: q buildUpsertQueryPostgres_def sl C_def)
    with t C n Nil e show ?thesis by (simp add: dquoted_def from_to_def)
  next
    case (Cons c wl')
    define P where "P = Placeholders L True (length wl) 1 1"
    have P: "params P = from_to 1 (Suc (length wl))"
      using L(1) Cons by (auto simp: mangles_def P_def)
    define J where "J = strings_Join (map ?q wl) '', ''"
    have J: "CHR ''$'' \<notin> set J"
      using plain_Join [OF qp [OF p(1)], of "'', ''"] by (simp add: J_def plain_name_def)
    have "query e = ''INSERT INTO '' @ dquoted (tab T) @ '' ('' @ J @ '') VALUES ('' @ P @
        '') ON CONFLICT '' @ C"
      using Cons by (simp add: q buildUpsertQueryPostgres_def sl C_def P_def J_def
        UseIndexPlaceholders_def Let_def)
    moreover have "params (P @ '') ON CONFLICT '' @ C) = params P"
      using C by (subst params_break) (simp_all add: is_digit_def code_def)
    ultimately show ?thesis using t J P n e by (simp add: dquoted_def)
  qed
qed

end
