(* ===== verification/Boil_Checked.thy ===== *)
theory Boil_Checked
  imports Boil_Laws
begin

text \<open>
  The properties of the statement layer.  \<^verbatim>\<open>checked X\<close> is the executor \<^verbatim>\<open>X\<close> behind a
  driver that panics on a statement whose placeholders are not exactly 1 to the number of its
  arguments; that no operation can tell it from \<^verbatim>\<open>X\<close> says that every statement is well
  numbered.
\<close>

definition well_numbered :: "string \<Rightarrow> 'v list \<Rightarrow> bool" where
  "well_numbered t vs \<longleftrightarrow> params t = from_to 1 (Suc (length vs))"

definition checked :: "('v, 'w) executor \<Rightarrow> ('v, 'w) executor" where
  "checked X = \<lparr>exec_stmt = (\<lambda>t vs. if well_numbered t vs then exec_stmt X t vs
                              else panicP (EText ''bind message'')),
               query_row = (\<lambda>t vs. if well_numbered t vs then query_row X t vs
                              else panicP (EText ''bind message''))\<rparr>"

lemma checked_numbered [simp]:
  "well_numbered t vs \<Longrightarrow> exec_stmt (checked X) t vs = exec_stmt X t vs"
  "well_numbered t vs \<Longrightarrow> query_row (checked X) t vs = query_row X t vs"
  by (simp_all add: checked_def)

section \<open>The cached methods\<close>

lemma cachedP_body_cong:
  assumes "\<And>c. map_of (get s) key = Some c \<Longrightarrow> build = Inr c"
    and "\<And>c. build = Inr c \<Longrightarrow> body c = body' c"
  shows "cachedP get put key build body s = cachedP get put key build body' s"
proof (cases "map_of (get s) key")
  case None
  with assms(2) show ?thesis unfolding cachedP_def bindP_Ok [OF getsP_apply] None option.case
    by (cases build) (simp_all add: sumP_def)
next
  case (Some c)
  with assms have "body c = body' c" by blast
  then show ?thesis unfolding cachedP_def bindP_Ok [OF getsP_apply] Some option.case by simp
qed

lemma values_numbered:
  "maps_fields L \<Longrightarrow> params t = from_to 1 (Suc (length m)) \<Longrightarrow>
   well_numbered t (ValuesFromMapping L obj m)"
  by (simp add: well_numbered_def maps_fields_def)

lemma run_call_checked:
  assumes L: "mangles L" "maps_fields L" "selects_columns L" "selects L"
    and T: "plain_table T" "within_table T" "table_names T"
    and v: "valid_caches L T s" and c: "call_names T c"
  shows "run_call L T (checked X, ob, c) s = run_call L T (X, ob, c) s"
proof -
  let ?s = "s\<lparr>receiver := ob\<rparr>"
  have v': "valid_caches L T ?s" using v by (simp add: valid_caches_def)
  show ?thesis
  proof (cases c)
    case (CInsert cs)
    with c have cs: "names_in (allColumns T) cs" by (simp add: call_names_def)
    have "Insert L (checked X) T cs ?s = Insert L X T cs ?s"
    proof (cases ob)
      case (Some obj)
      then have o': "receiver ?s = Some obj" by simp
      note dom = insert_dom_call [OF T(3) L(4) cs, of obj]
      show ?thesis unfolding Insert_at [OF o' refl]
        by (rule cachedP_body_cong [OF insert_hit [OF v' dom]])
          (simp_all add: insert_body_def Let_def values_numbered [OF L(2)]
            buildInsert_numbered [OF L(1-3) T(1,2) dom])
    qed (simp add: Insert_def)
    with CInsert show ?thesis by (simp add: run_call_def bindP_def)
  next
    case (CUpdate cs)
    with c have cs: "names_in (allColumns T) cs" by (simp add: call_names_def)
    note dom = update_dom_call [OF T(3) cs]
    have "Update L (checked X) T cs ?s = Update L X T cs ?s"
      unfolding Update_cached
      by (rule cachedP_body_cong [OF update_hit [OF v' dom]])
        (simp_all add: update_body_def values_numbered [OF L(2)]
          buildUpdate_numbered [OF L(1-3) T(1) dom] cong: option.case_cong)
    with CUpdate show ?thesis by (simp add: run_call_def)
  next
    case (CUpsert u cf us ins)
    with c have cs: "call_names T (CUpsert u cf us ins)" by simp
    have "Upsert L (checked X) T u cf us ins ?s = Upsert L X T u cf us ins ?s"
    proof (cases ob)
      case (Some obj)
      then have o': "receiver ?s = Some obj" by simp
      note dom = upsert_dom_call [OF T(3) L(4) cs, of obj]
      show ?thesis unfolding Upsert_at [OF o' refl]
        by (rule cachedP_body_cong [OF upsert_hit [OF v' dom]])
          (simp_all add: upsert_body_def Let_def values_numbered [OF L(2)]
            buildUpsert_numbered [OF L(1-3) T(1,2) dom])
    qed (simp add: Upsert_def)
    with CUpsert show ?thesis by (simp add: run_call_def bindP_def)
  qed
qed

lemma run_calls_checked:
  assumes L: "mangles L" "maps_fields L" "selects_columns L" "selects L"
    and T: "plain_table T" "within_table T" "table_names T"
    and v: "valid_caches L T s" and c: "list_all (\<lambda>(X, ob, c). call_names T c) cs"
  shows "run_calls L T (map (\<lambda>(X, ob, c). (checked X, ob, c)) cs) s = run_calls L T cs s"
  using v c
proof (induction cs arbitrary: s)
  case (Cons x cs)
  obtain X ob c where x: "x = (X, ob, c)" by (cases x)
  with Cons.prems have c: "call_names T c" by simp
  obtain r s1 where r: "run_call L T (X, ob, c) s = (r, s1)" by fastforce
  then have "run_call L T (checked X, ob, c) s = (r, s1)"
    using run_call_checked [OF L T Cons.prems(1) c] by simp
  moreover have "valid_caches L T s1"
    using run_call_alike [OF Cons.prems(1) T(3) L(4) c, of X ob] r by simp
  ultimately show ?case using Cons.IH [of s1] Cons.prems(2) by (simp add: x r)
qed simp

section \<open>Statements on primary keys\<close>

lemma plain_pk: "plain_table T \<Longrightarrow> list_all plain_name (primaryKeyColumns T)"
  by (auto simp: plain_table_def list_all_iff)

lemma digit_literals [simp]: "\<not> is_digit (CHR '' '')" "\<not> is_digit (CHR '','')" "\<not> is_digit (CHR '')'')"
  by (simp_all add: is_digit_def code_def)

lemma itoa_digits: "\<forall>c \<in> set (itoa (int n)). is_digit c"
  using show_nat_all_digits by (auto simp: itoa_def)

lemma params_dollar:
  assumes "no_digit b"
  shows "params (CHR ''$'' # itoa (int n) @ b) = Some n # params b"
proof -
  have "takeWhile is_digit (itoa (int n) @ b) = itoa (int n)"
    using assms itoa_digits by (subst takeWhile_append2) (auto simp: no_digit_def split: list.splits)
  moreover have "CHR ''$'' \<notin> set (itoa (int n))"
    using itoa_digits [of n] by (auto simp: is_digit_def code_def)
  ultimately show ?thesis by (simp add: itoa_def digits_val_show_nat)
qed

lemma params_pkWhere:
  "list_all plain_name cs \<Longrightarrow> no_digit b \<Longrightarrow>
   params (pkWhere i cs @ b) = from_to i (i + length cs) @ params b"
proof (induction i cs rule: pkWhere.induct)
  case (2 i c)
  then show ?case
    using params_dollar [of b i] by (simp add: dquoted_def plain_name_def from_to_def)
next
  case (3 i c d cs)
  have "params (pkWhere (Suc i) (d # cs) @ b) = from_to (Suc i) (Suc i + length (d # cs)) @ params b"
    using 3 by simp
  moreover have "from_to i (i + length (c # d # cs)) = Some i # from_to (Suc i) (Suc i + length (d # cs))"
    unfolding from_to_def by (subst upt_conv_Cons) simp_all
  ultimately show ?case
    using 3(2) params_dollar [of "'' AND '' @ pkWhere (Suc i) (d # cs) @ b" i]
    by (simp add: dquoted_def plain_name_def)
qed (simp add: from_to_def)

lemma pkeyArgs_length:
  assumes "maps_fields L" "BindMapping L (typeName T) (primaryKeyColumns T) = Inr m"
  shows "pkeyArgs L T os w = (Ok args, w') \<Longrightarrow> length args = length (primaryKeyColumns T) * length os"
  using assms by (induction L T os arbitrary: args w w' rule: pkeyArgs.induct)
    (auto simp: bindP_Ok_iff maps_fields_def primaryKeyMapping_def)


lemma plain_pkWhere: "list_all plain_name cs \<Longrightarrow> CHR ''%'' \<notin> set (pkWhere i cs)"
proof (induction i cs rule: pkWhere.induct)
  have p: "CHR ''%'' \<notin> set (itoa (int n))" for n
    using itoa_digits [of n] by (auto simp: is_digit_def code_def)
  {
    case (2 i c)
    with p show ?case by (simp add: dquoted_def plain_name_def)
  next
    case (3 i c d cs)
    with p show ?case by (simp add: dquoted_def plain_name_def)
  }
qed simp

lemma pkWhere_numbered:
  assumes "plain_table T" "CHR ''$'' \<notin> set a" "no_digit b" "params b = []"
    and "length vs = length (primaryKeyColumns T)"
  shows "well_numbered (a @ pkWhere 1 (primaryKeyColumns T) @ b) vs"
  using assms plain_pk [OF assms(1)] by (simp add: well_numbered_def params_pkWhere)

lemma repeated_numbered:
  assumes "mangles L" "plain_table T" "CHR ''$'' \<notin> set a"
    and "length vs = length (primaryKeyColumns T) * n"
  shows "well_numbered (a @ WhereClauseRepeated L [LQ] [RQ] 1 (primaryKeyColumns T) n) vs"
  using assms plain_pk [OF assms(2)] by (simp add: well_numbered_def mangles_def)

lemma tab_plain: "plain_table T \<Longrightarrow> CHR ''$'' \<notin> set (dquoted (tab T)) \<and> CHR ''%'' \<notin> set (dquoted (tab T))"
  by (simp add: plain_table_def plain_name_def dquoted_def)

text \<open>The arguments of a slice operation, when it gets as far as its statement.\<close>

lemma pkeyArgs_bind_cong:
  assumes "\<And>args. length args = length (primaryKeyColumns T) * length os \<Longrightarrow> f args = g args"
    and "maps_fields L" "BindMapping L (typeName T) (primaryKeyColumns T) = Inr m"
  shows "bindP (pkeyArgs L T os) f = bindP (pkeyArgs L T os) g"
proof (rule ext)
  fix w
  obtain r w' where r: "pkeyArgs L T os w = (r, w')" by fastforce
  show "bindP (pkeyArgs L T os) f w = bindP (pkeyArgs L T os) g w"
  proof (cases r)
    case (Ok args)
    with r pkeyArgs_length [OF assms(2,3)] have "f args = g args" by (intro assms(1)) blast
    with Ok r show ?thesis by simp
  qed (use r in simp_all)
qed

lemma Delete_checked:
  assumes "plain_table T" "maps_fields L" "BindMapping L (typeName T) (primaryKeyColumns T) = Inr m"
  shows "Delete L (checked X) T ob = Delete L X T ob"
proof (cases ob)
  case (Some obj)
  have "length (ValuesFromMapping L obj (primaryKeyMapping L T)) = length (primaryKeyColumns T)"
    using assms(2,3) by (simp add: maps_fields_def primaryKeyMapping_def)
  then have "well_numbered (deleteText T) (ValuesFromMapping L obj (primaryKeyMapping L T))"
    using pkWhere_numbered [OF assms(1), of "''DELETE FROM '' @ dquoted (tab T) @ '' WHERE ''" "[]"]
      tab_plain [OF assms(1)] by (simp add: deleteText_def)
  with Some show ?thesis by (simp add: Delete_def Let_def)
qed (simp add: Delete_def)

lemma RowExists_checked:
  assumes "plain_table T" "length pk = length (primaryKeyColumns T)"
  shows "RowExists L (checked X) T pk = RowExists L X T pk"
proof -
  have "well_numbered (existsText T) pk"
    using pkWhere_numbered [OF assms(1) _ _ _ assms(2),
        of "''select exists(select 1 from '' @ dquoted (tab T) @ '' where ''" "'' limit 1)''"]
      tab_plain [OF assms(1)] by (simp add: existsText_def)
  then show ?thesis by (simp add: RowExists_def)
qed

lemma DeleteAllSlice_checked:
  assumes "plain_table T" "mangles L" "maps_fields L"
    and "BindMapping L (typeName T) (primaryKeyColumns T) = Inr m"
  shows "DeleteAllSlice L (checked X) T os = DeleteAllSlice L X T os"
proof -
  have "exec_stmt (checked X) (deleteAllText L T (length os)) args =
      exec_stmt X (deleteAllText L T (length os)) args"
    if "length args = length (primaryKeyColumns T) * length os" for args
    using repeated_numbered [OF assms(2,1) _ that, of "''DELETE FROM '' @ dquoted (tab T) @ '' WHERE ''"]
      tab_plain [OF assms(1)] by (intro checked_numbered) (simp add: deleteAllText_def)
  then show ?thesis unfolding DeleteAllSlice_def
    by (intro if_cong refl pkeyArgs_bind_cong [OF _ assms(3,4)]) simp
qed

lemma UpdateAllSlice_checked:
  assumes T: "plain_table T" and L: "mangles L" "maps_fields L"
    and "BindMapping L (typeName T) (primaryKeyColumns T) = Inr m"
    and cols: "fst ` set cols \<subseteq> set (allColumns T)"
  shows "UpdateAllSlice L (checked X) T os cols = UpdateAllSlice L X T os cols"
proof -
  let ?n = "length os" and ?names = "map fst cols"
  let ?t = "sprintf (''UPDATE '' @ dquoted (tab T) @ '' SET %s WHERE %s'')
    [SetParamNames L [LQ] [RQ] 1 ?names,
     WhereClauseRepeated L [LQ] [RQ] (length ?names + 1) (primaryKeyColumns T) ?n]"
  have "list_all plain_name ?names" using plain_columns [OF T, of ?names] cols by simp
  then have "params ?t = from_to 1 (length ?names + 1 + length (primaryKeyColumns T) * ?n)"
    using L(1) T plain_pk [OF T] by (intro update_numbered) (simp_all add: mangles_def plain_table_def)
  then have "exec_stmt (checked X) ?t (map snd cols @ args) = exec_stmt X ?t (map snd cols @ args)"
    if "length args = length (primaryKeyColumns T) * ?n" for args
    using that by (intro checked_numbered) (simp add: well_numbered_def)
  then show ?thesis unfolding UpdateAllSlice_def Let_def
    by (intro if_cong refl pkeyArgs_bind_cong [OF _ L(2) assms(4)]) simp
qed

lemma findText_numbered:
  assumes T: "plain_table T" and L: "mangles L" and cols: "list_all plain_name selectCols"
    and pk: "length pk = length (primaryKeyColumns T)"
  shows "well_numbered (findText L T selectCols) pk"
proof -
  define sel where "sel = (if length selectCols > 0
    then strings_Join (IdentQuoteSlice L LQ RQ selectCols) '','' else ''*'')"
  have "list_all plain_name (IdentQuoteSlice L LQ RQ selectCols)"
    using L cols by (simp add: mangles_def list_all_iff)
  then have sel: "CHR ''$'' \<notin> set sel"
    using plain_Join [of "IdentQuoteSlice L LQ RQ selectCols" "'',''"]
    by (simp add: sel_def plain_name_def)
  have "findText L T selectCols = (''select '' @ sel @ '' from '' @ dquoted (tab T) @ '' where '') @
      pkWhere 1 (primaryKeyColumns T) @ []"
    using tab_plain [OF T] plain_pkWhere [OF plain_pk [OF T], of 1]
      sprintf_lit [of "pkWhere 1 (primaryKeyColumns T)" "[]" "[]"]
    by (simp add: findText_def sel_def)
  moreover have "CHR ''$'' \<notin> set (''select '' @ sel @ '' from '' @ dquoted (tab T) @ '' where '')"
    using sel tab_plain [OF T] by simp
  ultimately show ?thesis using pkWhere_numbered [OF T _ _ _ pk] by (metis no_digit_Cons(2) params.simps(1))
qed

end
