(* ===== verification/Boil_Spec.thy ===== *)
theory Boil_Spec
  imports Boil_Checked
begin

text \<open>
  What the statement layer promises for the nine tables, and a small library and executor on
  which the promises are tried: the sample quotes and numbers like \<^verbatim>\<open>strmangle\<close>, its values
  are strings, its database the list of the statements it was sent.
\<close>

section \<open>A sample library\<close>

type_synonym sample_world = "(string \<times> string list) list"

definition sample_columns :: "string list" where
  "sample_columns = allColumns sessionTable"

definition sample_index :: "string \<Rightarrow> nat" where
  "sample_index c = length (takeWhile (\<lambda>d. d \<noteq> c) sample_columns)"

definition sample_param :: "nat \<Rightarrow> string" where
  "sample_param i = CHR ''$'' # itoa (int i)"

fun sample_set :: "string \<Rightarrow> string \<Rightarrow> nat \<Rightarrow> string list \<Rightarrow> string" where
  "sample_set lq rq k [] = []"
| "sample_set lq rq k [c] = lq @ c @ rq @ ''='' @ sample_param k"
| "sample_set lq rq k (c # d # cs) =
     lq @ c @ rq @ ''='' @ sample_param k @ '','' @ sample_set lq rq (Suc k) (d # cs)"

fun sample_repeat :: "nat \<Rightarrow> string list \<Rightarrow> nat \<Rightarrow> string" where
  "sample_repeat k cols 0 = []"
| "sample_repeat k cols (Suc n) =
     ''('' @ pkWhere k cols @ '')'' @ (if n = 0 then [] else '' OR '') @
     sample_repeat (k + length cols) cols n"

fun sample_places :: "nat \<Rightarrow> nat \<Rightarrow> string" where
  "sample_places k 0 = []"
| "sample_places k (Suc n) =
     sample_param k @ (if n = 0 then [] else '','') @ sample_places (Suc k) n"

definition sample_boil :: "(string, string \<times> string list, string, sample_world) boil" where
  "sample_boil = \<lparr>
     InsertColumnSet = (\<lambda>cs al wd wo nz.
       if Kind cs = 0 then (wo @ nz, filter (\<lambda>d. d \<notin> set nz) wd)
       else (Cols cs, filter (\<lambda>d. d \<notin> set (Cols cs)) wd)),
     UpdateColumnSet = (\<lambda>cs al pk. if Kind cs = 0 then filter (\<lambda>c. c \<notin> set pk) al else Cols cs),
     NonZeroDefaultSet = (\<lambda>ds obj. filter (\<lambda>d. obj d \<noteq> []) ds),
     BindMapping = (\<lambda>t cols. if list_all (\<lambda>c. c \<in> set sample_columns) cols
       then Inr (map sample_index cols) else Inl (EText ''no such field'')),
     ValuesFromMapping = (\<lambda>obj m. map (\<lambda>i. obj (sample_columns ! i)) m),
     ScanFields = (\<lambda>obj m row. (None, fold (\<lambda>(i, v) o'. o'(sample_columns ! i := v)) (zip m row) obj)),
     Placeholders = (\<lambda>ix n k g. sample_places k n),
     SetParamNames = sample_set,
     WhereClause = (\<lambda>lq rq. pkWhere),
     WhereClauseRepeated = (\<lambda>lq rq. sample_repeat),
     IdentQuote = (\<lambda>lq rq s. lq # s @ [rq]),
     IdentQuoteSlice = (\<lambda>lq rq. map (\<lambda>s. lq # s @ [rq])),
     ApplyMods = (\<lambda>ms. (concat ms, [])),
     FromMod = (\<lambda>t. ''select * from '' @ t),
     Raw = Pair,
     SetLimit = (\<lambda>(t, vs) n. (t @ '' limit '' @ itoa n, vs)),
     SetSelectNone = (\<lambda>q. q),
     SetCount = (\<lambda>q. q),
     SetUpdate = (\<lambda>(t, vs) m. (''update '' @ t, map snd m @ vs)),
     SetDelete = (\<lambda>(t, vs). (''delete '' @ t, vs)),
     BindOne = (\<lambda>X (t, vs). bindP (query_row X t vs) (\<lambda>row. returnP (\<lambda>c. []))),
     BindAll = (\<lambda>X (t, vs). bindP (query_row X t vs) (\<lambda>row. returnP [])),
     QueryRowInt = (\<lambda>X (t, vs). bindP (query_row X t vs) (\<lambda>row. returnP (int (length row)))),
     ExecQuery = (\<lambda>X (t, vs). exec_stmt X t vs),
     AsBool = (\<lambda>row. Inr (row \<noteq> []))\<rparr>"

text \<open>An executor that records the statements; a query returns the row it is made with.\<close>

definition sample_exec :: "string list \<Rightarrow> (string, sample_world) executor" where
  "sample_exec row = \<lparr>exec_stmt = (\<lambda>t vs w. (Ok (Inr 1), w @ [(t, vs)])),
                     query_row = (\<lambda>t vs w. (Ok row, w @ [(t, vs)]))\<rparr>"

lemma params_param: "no_digit b \<Longrightarrow> params (sample_param i @ b) = Some i # params b"
  using params_dollar [of b i] by (simp add: sample_param_def)

lemma params_one: "params (sample_param i) = [Some i]"
  using params_param [of "[]" i] by simp

lemma from_to_Cons: "i < j \<Longrightarrow> from_to i j = Some i # from_to (Suc i) j"
  by (simp add: from_to_def upt_conv_Cons)

lemma from_to_same [simp]: "from_to i i = []"
  by (simp add: from_to_def)

lemma sample_places_params: "params (sample_places k n) = from_to k (k + n)"
proof (induction n arbitrary: k)
  case (Suc n)
  then show ?case by (cases n) (simp_all add: params_param params_one from_to_Cons)
qed simp

lemma sample_places_free: "CHR ''%'' \<notin> set (sample_places k n)"
proof (induction n arbitrary: k)
  case (Suc n)
  have "CHR ''%'' \<notin> set (sample_param k)"
    using itoa_digits [of k] by (auto simp: sample_param_def is_digit_def code_def)
  with Suc show ?case by simp
qed simp

lemma sample_set_params:
  "list_all plain_name cols \<Longrightarrow> params (sample_set [LQ] [RQ] k cols) = from_to k (k + length cols)"
  by (induction "[LQ]" "[RQ]" k cols rule: sample_set.induct)
    (simp_all add: LQ_def RQ_def plain_name_def params_param params_one from_to_Cons)

lemma sample_repeat_params:
  "list_all plain_name cols \<Longrightarrow> params (sample_repeat k cols n) = from_to k (k + length cols * n)"
proof (induction n arbitrary: k)
  case (Suc n)
  then have "params (pkWhere k cols @ '')'' @ (if n = 0 then [] else '' OR '') @
      sample_repeat (k + length cols) cols n) =
      from_to k (k + length cols) @ from_to (k + length cols) (k + length cols + length cols * n)"
    by (subst params_pkWhere) simp_all
  then show ?case using from_to_split [of k "k + length cols" "k + length cols + length cols * n"]
    by (simp add: algebra_simps)
qed simp

lemma sample_where_params:
  "list_all plain_name cols \<Longrightarrow> params (pkWhere k cols) = from_to k (k + length cols)"
  using params_pkWhere [of cols "[]" k] by simp

lemma sample_mangles: "mangles sample_boil"
proof -
  have q: "plain_name (LQ # s @ [RQ])" if "plain_name s" for s
    using that by (simp add: plain_name_def LQ_def RQ_def)
  show ?thesis unfolding mangles_def
    by (intro conjI allI impI)
      (simp_all add: sample_boil_def sample_places_params sample_places_free sample_set_params
        sample_where_params sample_repeat_params q)
qed

lemma sample_maps_fields: "maps_fields sample_boil"
  by (auto simp: maps_fields_def sample_boil_def split: if_splits)

lemma sample_selects: "selects sample_boil"
  by (auto simp: selects_def sample_boil_def)

lemma sample_selects_columns: "selects_columns sample_boil"
  unfolding selects_columns_def by (auto simp: sample_boil_def split: if_splits)


definition sample_object :: "string obj" where
  "sample_object = (\<lambda>c. if c = ''id'' then ''7'' else if c = ''user_id'' then ''3'' else [])"

definition handle_columns :: columns where
  "handle_columns = \<lparr>Kind = 1, Cols = [''gateway_handle'']\<rparr>"

definition textroom_columns :: columns where
  "textroom_columns = \<lparr>Kind = 1, Cols = [''gateway_handle_textroom'']\<rparr>"

definition infer_columns :: columns where
  "infer_columns = \<lparr>Kind = 0, Cols = []\<rparr>"

definition sample_calls :: "((string, sample_world) executor \<times> string obj option \<times> call) list" where
  "sample_calls =
     [(sample_exec [], Some sample_object, CUpdate handle_columns),
      (sample_exec [], Some sample_object, CUpdate textroom_columns),
      (sample_exec [''1''], Some sample_object, CInsert infer_columns),
      (sample_exec [''1''], Some sample_object, CUpsert True [''id''] handle_columns infer_columns),
      (sample_exec [], None, CInsert infer_columns),
      (sample_exec [], Some sample_object, CUpdate handle_columns)]"

definition sample_model :: "(string, sample_world) model_state" where
  "sample_model = \<lparr>receiver = None, tabInsertCache = [], tabUpdateCache = [],
     tabUpsertCache = [], database = []\<rparr>"

lemma sample_calls_named: "list_all (\<lambda>(X, ob, c). call_names sessionTable c) sample_calls"
  by (simp add: sample_calls_def call_names_def names_in_def handle_columns_def
    textroom_columns_def infer_columns_def sessionTable_def)

lemma session_model: "sessionTable \<in> set model_tables"
  by (simp add: model_tables_def)

lemma model_table_facts:
  "T \<in> set model_tables \<Longrightarrow> table_names T" "T \<in> set model_tables \<Longrightarrow> plain_table T"
  "T \<in> set model_tables \<Longrightarrow> within_table T"
  using model_tables_names model_tables_plain model_tables_within by (simp_all add: list_all_iff)

section \<open>The caches\<close>

text \<open>
  C19. Whatever the calls of \<^verbatim>\<open>Insert\<close>, \<^verbatim>\<open>Update\<close> and \<^verbatim>\<open>Upsert\<close> on one of the nine tables,
  their order, their objects and their executors, a model that starts with empty caches returns
  the same results and errors, fills in the same objects and leaves the same database as one
  that builds every statement anew: a cached statement is never used for other columns than its
  own, though the keys run the column names together.
\<close>

theorem model_calls_uncached:
  assumes "T \<in> set model_tables" and "selects L"
    and "list_all (\<lambda>(X, ob, c). call_names T c) cs"
    and "tabInsertCache s = []" "tabUpdateCache s = []" "tabUpsertCache s = []"
  shows "run_uncached L T cs (receiver s, database s) =
    (let (rs, s') = run_calls L T cs s in (rs, database s'))"
proof -
  have "valid_caches L T s"
    using assms(4-6) by (simp add: valid_caches_def ins.valid_Nil upd.valid_Nil ups.valid_Nil)
  with assms(1-3) show ?thesis by (intro run_calls_valid) (simp_all add: model_table_facts)
qed

theorem model_calls_uncached_witness:
  "run_uncached sample_boil sessionTable sample_calls (None, []) =
    (let (rs, s') = run_calls sample_boil sessionTable sample_calls sample_model
     in (rs, database s'))"
  using model_calls_uncached [OF session_model sample_selects sample_calls_named, of sample_model]
  by (simp add: sample_model_def)

text \<open>
  C20. Goroutines may look up, build and store in any interleaving of the lock sections: the
  statement a call of \<^verbatim>\<open>Insert\<close>, \<^verbatim>\<open>Update\<close> or \<^verbatim>\<open>Upsert\<close> holds, found or built, is the one
  its own columns give.
\<close>

theorem raced_statements:
  assumes "(race (insert_dom T) insert_key (insert_build L T))\<^sup>*\<^sup>* ([], []) i"
    and "(race (update_dom T) update_key (buildUpdate L T))\<^sup>*\<^sup>* ([], []) u"
    and "(race (upsert_dom T) upsert_key (upsert_build L T))\<^sup>*\<^sup>* ([], []) p"
  shows "(\<forall>cs nz b e. Holding (cs, nz) b e \<in> set (snd i) \<longrightarrow> buildInsert L T cs nz = Inr e) \<and>
    (\<forall>cs b e. Holding cs b e \<in> set (snd u) \<longrightarrow> buildUpdate L T cs = Inr e) \<and>
    (\<forall>f cf us is nz b e. Holding (f, cf, us, is, nz) b e \<in> set (snd p) \<longrightarrow>
       buildUpsert L T f cf us is nz = Inr e)"
  using ins.race_reach [OF assms(1)] upd.race_reach [OF assms(2)] ups.race_reach [OF assms(3)]
  by (fastforce simp: list_all_iff insert_build_def upsert_build_def)

lemma race_two:
  assumes "ok a" "build a = Inr e"
  shows "(race ok key build)\<^sup>*\<^sup>* ([], []) ([(key a, e)], [Done, Holding a True e])"
proof -
  let ?r = "race ok key build"
  have "?r ([], []) ([], [Called a])"
    using race.call [where ok = ok and i = a and m = "[]" and ps = "[]"] assms(1) by simp
  moreover have "?r ([], [Called a]) ([], [Holding a False e])"
    using race.miss [where n = 0 and ps = "[Called a]" and m = "[]" and i = a] assms by simp
  moreover have "?r ([], [Holding a False e]) ([(key a, e)], [Done])"
    using race.store [where n = 0 and ps = "[Holding a False e]" and m = "[]"] by simp
  moreover have "?r ([(key a, e)], [Done]) ([(key a, e)], [Done, Called a])"
    using race.call [where ok = ok and i = a and m = "[(key a, e)]" and ps = "[Done]"] assms(1) by simp
  moreover have "?r ([(key a, e)], [Done, Called a]) ([(key a, e)], [Done, Holding a True e])"
    using race.hit [where n = 1 and ps = "[Done, Called a]" and m = "[(key a, e)]" and i = a] by simp
  ultimately show ?thesis by (meson converse_rtranclp_into_rtranclp rtranclp.rtrancl_refl)
qed

definition sample_upsert :: "bool \<times> string list \<times> columns \<times> columns \<times> string list" where
  "sample_upsert = (True, [''id''], handle_columns, handle_columns, [''id''])"

lemma sample_doms:
  "insert_dom sessionTable (handle_columns, [''id''])" "update_dom sessionTable handle_columns"
  "upsert_dom sessionTable sample_upsert"
  using model_table_facts(1) [OF session_model]
  by (simp_all add: insert_dom_def update_dom_def upsert_dom_def sample_upsert_def table_names_def
      names_in_def handle_columns_def sessionTable_def)

lemma sample_built:
  "\<exists>e. insert_build sample_boil sessionTable (handle_columns, [''id'']) = Inr e"
  "\<exists>e. buildUpdate sample_boil sessionTable handle_columns = Inr e"
  "\<exists>e. upsert_build sample_boil sessionTable sample_upsert = Inr e"
  by (simp_all add: insert_build_def buildInsert_def buildUpdate_def upsert_build_def buildUpsert_def
      sample_upsert_def sample_boil_def bindSum_def Let_def handle_columns_def sample_columns_def
      sessionTable_def)

theorem raced_statements_witness:
  "\<exists>ei eu ep.
     (\<forall>cs nz b e. Holding (cs, nz) b e \<in> set [Done, Holding (handle_columns, [''id'']) True ei] \<longrightarrow>
        buildInsert sample_boil sessionTable cs nz = Inr e) \<and>
     (\<forall>cs b e. Holding cs b e \<in> set [Done, Holding handle_columns True eu] \<longrightarrow>
        buildUpdate sample_boil sessionTable cs = Inr e) \<and>
     (\<forall>f cf us is nz b e. Holding (f, cf, us, is, nz) b e \<in> set [Done, Holding sample_upsert True ep] \<longrightarrow>
        buildUpsert sample_boil sessionTable f cf us is nz = Inr e)"
proof -
  from sample_built obtain ei eu ep where
    b: "insert_build sample_boil sessionTable (handle_columns, [''id'']) = Inr ei"
    "buildUpdate sample_boil sessionTable handle_columns = Inr eu"
    "upsert_build sample_boil sessionTable sample_upsert = Inr ep"
    by blast
  note two = race_two [where ok = "insert_dom sessionTable" and a = "(handle_columns, [''id''])" and
      key = insert_key and build = "insert_build sample_boil sessionTable", OF sample_doms(1) b(1)]
    race_two [where ok = "update_dom sessionTable" and a = handle_columns and key = update_key
      and build = "buildUpdate sample_boil sessionTable", OF sample_doms(2) b(2)]
    race_two [where ok = "upsert_dom sessionTable" and a = sample_upsert and key = upsert_key
      and build = "upsert_build sample_boil sessionTable", OF sample_doms(3) b(3)]
  from raced_statements [OF two] show ?thesis unfolding snd_conv by blast
qed

section \<open>Placeholders\<close>





end
