(* ===== verification/Boil_Rel_Spec.thy ===== *)
theory Boil_Rel_Spec
  imports Boil_Rel_Laws Boil_Spec
begin

text \<open>
  What two groups of relationship functions do, stated on \<^verbatim>\<open>models/rooms.go\<close> and
  \<^verbatim>\<open>models/sessions.go\<close>, with a small store on which the statements are tried.
\<close>

definition sample_loading :: "string obj list \<Rightarrow>
    (string, string \<times> string list, string, sample_world) loading" where
  "sample_loading found = \<lparr>
     WhereMod = (\<lambda>c v. '' where '' @ c), WhereInMod = (\<lambda>c vs. '' where '' @ c),
     SetFrom = (\<lambda>q t. q), GetSelect = (\<lambda>q. []), SetSelect = (\<lambda>q cs. q),
     RunQuery = (\<lambda>X (t, vs) w. (Ok \<lparr>bound = Inr found, closeErr = None, rowsErr = None\<rparr>, w @ [(t, vs)])),
     EqualV = (\<lambda>a b. a = b), IsNil = (\<lambda>v. v = []), AssignV = (\<lambda>v. v), NullV = [],
     Infer = infer_columns, Whitelist = (\<lambda>cs. \<lparr>Kind = 1, Cols = cs\<rparr>)\<rparr>"

definition sample_row :: "string \<Rightarrow> string \<Rightarrow> string \<Rightarrow> string obj" where
  "sample_row i c v = (\<lambda>x. if x = ''id'' then i else if x = c then v else [])"

definition no_caches :: "string \<Rightarrow> caches" where
  "no_caches = (\<lambda>_. \<lparr>cInsert = [], cUpdate = [], cUpsert = []\<rparr>)"

definition two_rooms :: "(string, sample_world) graph" where
  "two_rooms = \<lparr>nodes = [\<lparr>columnsOf = sample_row ''1'' [] [], relR = None\<rparr>,
                         \<lparr>columnsOf = sample_row ''2'' [] [], relR = None\<rparr>],
               tabCaches = no_caches, gdb = []\<rparr>"

definition three_sessions :: "string obj list" where
  "three_sessions = [sample_row ''7'' ''room_id'' ''1'', sample_row ''8'' ''room_id'' ''2'',
     sample_row ''9'' ''room_id'' ''1'']"

text \<open>
  C23. \<^verbatim>\<open>LoadSessions\<close> of a slice of rooms with distinct keys gives every room, behind what it
  had, exactly the sessions read whose \<^verbatim>\<open>room_id\<close> is the room's, in the order they were read,
  and makes each of these sessions point back to the room: the nested loops with their
  \<^verbatim>\<open>break\<close> are a grouping by key.
\<close>

theorem LoadSessions_groups:
  assumes "Room_LoadSessions L K X False ps mods s = (Ok (), s')"
    and "set ps \<subseteq> {..<length (nodes s)}" and "p \<in> set ps"
    and "\<forall>a \<in> set ps. \<forall>b \<in> set ps. \<forall>v. EqualV K (getField a ''id'' s) v \<longrightarrow>
      EqualV K (getField b ''id'' s) v \<longrightarrow> a = b"
  shows "relOf p ''Sessions'' s' = relOf p ''Sessions'' s @
      filter (\<lambda>f. EqualV K (getField p ''id'' s') (getField f ''room_id'' s'))
        [length (nodes s)..<length (nodes s')] \<and>
    (\<forall>f \<in> {length (nodes s)..<length (nodes s')}.
       EqualV K (getField p ''id'' s') (getField f ''room_id'' s') \<longrightarrow> relOf f ''Room'' s' = [p])"
proof -
  have own: "ownsRow K room_Sessions_rel t a f \<longleftrightarrow>
      EqualV K (getField a ''id'' t) (getField f ''room_id'' t)" for t a f
    by (simp add: ownsRow_def sameKey_def room_Sessions_rel_def)
  have names: "rel room_Sessions_rel = ''Sessions''" "backRel room_Sessions_rel = ''Room''"
    by (simp_all add: room_Sessions_rel_def)
  have "a = b" if "a \<in> set ps" "b \<in> set ps"
    "sameKey K room_Sessions_rel (getField a (localCol room_Sessions_rel) s) v"
    "sameKey K room_Sessions_rel (getField b (localCol room_Sessions_rel) s) v" for a b v
    using that assms(4) by (simp add: sameKey_def room_Sessions_rel_def)
  from LoadMany_distributes [OF assms(1) [unfolded Room_LoadSessions_def] assms(2,3) this]
  show ?thesis unfolding own names .
qed

theorem LoadSessions_groups_witness:
  "relOf 0 ''Sessions'' (snd (Room_LoadSessions sample_boil (sample_loading three_sessions)
     (sample_exec []) False [0, 1] None two_rooms)) = [2, 4]"
proof -
  let ?p = "Room_LoadSessions sample_boil (sample_loading three_sessions) (sample_exec []) False
    [0, 1] None two_rooms"
  have run: "?p = (Ok (), snd ?p)" by (rule fst_run) code_simp
  have len: "length (nodes two_rooms) = 2" "length (nodes (snd ?p)) = 5" by code_simp+
  have "relOf 0 ''Sessions'' (snd ?p) = relOf 0 ''Sessions'' two_rooms @
      filter (\<lambda>f. EqualV (sample_loading three_sessions) (getField 0 ''id'' (snd ?p))
          (getField f ''room_id'' (snd ?p))) [length (nodes two_rooms)..<length (nodes (snd ?p))]"
    by (rule LoadSessions_groups [OF run, THEN conjunct1])
      (auto simp: two_rooms_def getField_def sample_row_def sample_loading_def less_Suc_eq)
  also have "\<dots> = [2, 4]" unfolding len by code_simp
  finally show ?thesis .
qed

text \<open>
  C33. \<^verbatim>\<open>RemoveGateway\<close> takes the wrong session out of the gateway's loaded slice: the session
  that is removed from the gateway stays in it, and another one, which is still attached, is
  dropped, whenever the slice holds a session whose gateway is not null.
\<close>

theorem RemoveGateway_drops_another:
  assumes "Session_RemoveGateway L K X p (Some g) s = (Ok (), s')"
    and "p < length (nodes s)" "g < length (nodes s)" "p \<noteq> g" "relR (nodes s ! g) \<noteq> None"
    and "EqualV K (NullV K) (NullV K)"
    and "q \<in> set (relOf g ''Sessions'' s)" "q \<noteq> p"
    and "\<not> EqualV K (NullV K) (getField q ''gateway_id'' s)"
  shows "count (mset (relOf g ''Sessions'' s')) p = count (mset (relOf g ''Sessions'' s)) p \<and>
    (\<exists>x \<in> set (relOf g ''Sessions'' s). x \<noteq> p \<and> \<not> EqualV K (NullV K) (getField x ''gateway_id'' s) \<and>
       mset (relOf g ''Sessions'' s') = mset (relOf g ''Sessions'' s) - {#x#})"
proof -
  let ?P = "\<lambda>q. \<not> EqualV K (NullV K) (if q = p then NullV K else getField q ''gateway_id'' s)"
  let ?xs = "relOf g ''Sessions'' s"
  have slice: "mset (relOf g ''Sessions'' s') = mset ?xs -
      (case find ?P ?xs of None \<Rightarrow> {#} | Some q \<Rightarrow> {#q#})"
    using RemoveOne_slice [OF assms(1) [unfolded Session_RemoveGateway_def] assms(2-5)]
    by (simp add: session_Gateway_rel_def)
  have "find ?P ?xs \<noteq> None" using assms(7-9) by (auto simp: find_None_all)
  then obtain x where x: "find ?P ?xs = Some x" by blast
  from find_Some_in [OF this] assms(6) have "x \<in> set ?xs" "x \<noteq> p"
    "\<not> EqualV K (NullV K) (getField x ''gateway_id'' s)" by (auto split: if_splits)
  with slice x show ?thesis by auto
qed

definition attached_sessions :: "(string, sample_world) graph" where
  "attached_sessions = \<lparr>nodes =
      [\<lparr>columnsOf = sample_row ''7'' ''gateway_id'' ''1'', relR = None\<rparr>,
       \<lparr>columnsOf = sample_row ''8'' ''gateway_id'' ''1'', relR = None\<rparr>,
       \<lparr>columnsOf = sample_row ''1'' [] [], relR = Some (\<lambda>m. if m = ''Sessions'' then [0, 1] else [])\<rparr>],
     tabCaches = no_caches, gdb = []\<rparr>"

theorem RemoveGateway_drops_another_witness:
  "mset (relOf 2 ''Sessions'' (snd (Session_RemoveGateway sample_boil (sample_loading [])
     (sample_exec []) 0 (Some 2) attached_sessions))) = {#0#}"
proof -
  let ?p = "Session_RemoveGateway sample_boil (sample_loading []) (sample_exec []) 0 (Some 2)
    attached_sessions"
  have run: "?p = (Ok (), snd ?p)" by (rule fst_run) code_simp
  have xs: "relOf 2 ''Sessions'' attached_sessions = [0, 1]"
    by (simp add: relOf_def attached_sessions_def)
  have "\<exists>x \<in> set (relOf 2 ''Sessions'' attached_sessions). x \<noteq> 0 \<and>
      mset (relOf 2 ''Sessions'' (snd ?p)) = mset (relOf 2 ''Sessions'' attached_sessions) - {#x#}"
    using RemoveGateway_drops_another [OF run, of 1]
    by (auto simp: xs attached_sessions_def getField_def sample_row_def sample_loading_def relOf_def)
  then show ?thesis unfolding xs by auto
qed

end
