(* ===== verification/Request_Log.thy ===== *)
theory Request_Log
  imports Middleware
begin

text \<open>
  The request log (\<^verbatim>\<open>middleware/logging.go\<close>): the line written and the duration observed for a
  request.  The request's context is the pointer the middleware behind it has filled in by then;
  here it is handed over together with the response, its size and the time it took, as
  \<^verbatim>\<open>hlog.AccessHandler\<close> hands over the latter.  The request identifier, the caller and the time
  stamp \<^verbatim>\<open>zerolog\<close> adds are left out.
\<close>

record log_line =
  ll_method :: string
  ll_path :: string
  ll_status :: int
  ll_size :: int
  ll_duration :: int
  ll_ip :: "string option"
  ll_user :: "string option"
  ll_params :: "json option"

text \<open>The labels of \<^verbatim>\<open>RequestDurationHistogram\<close>: method, route, status.\<close>

type_synonym duration_labels = "string \<times> string \<times> string"

definition access_line :: "string \<Rightarrow> request \<Rightarrow> request_context option \<Rightarrow> json \<Rightarrow> int \<Rightarrow> int \<Rightarrow> int \<Rightarrow>
    log_line" where
  "access_line escapedPath r ctx params status sz d =
     \<lparr>ll_method = rq_method r, ll_path = escapedPath, ll_status = status, ll_size = sz,
      ll_duration = d,
      ll_ip = map_option rc_ip ctx,
      ll_user = (case ctx of None \<Rightarrow> None | Some c \<Rightarrow> map_option ic_sub (rc_id_claims c)),
      ll_params = (if ctx \<noteq> None \<and> status \<ge> 400 then Some params else None)\<rparr>"

definition route_label :: "string \<Rightarrow> request_context option \<Rightarrow> string" where
  "route_label escapedPath ctx = (case ctx of
     None \<Rightarrow> escapedPath
   | Some c \<Rightarrow> if rc_route_name c \<noteq> [] then rc_route_name c else ''any'')"

definition duration_of :: "string \<Rightarrow> request \<Rightarrow> request_context option \<Rightarrow> int \<Rightarrow> duration_labels" where
  "duration_of escapedPath r ctx status = (rq_method r, route_label escapedPath ctx, itoa status)"

text \<open>\<^verbatim>\<open>WithLabelValues(...).Observe(duration.Seconds())\<close>; durations are nanoseconds.\<close>

definition observe :: "duration_labels \<Rightarrow> int \<Rightarrow> (duration_labels, int list) gomap \<Rightarrow>
    (duration_labels, int list) gomap" where
  "observe k d h = AList.update k ((case map_of h k of None \<Rightarrow> [] | Some ds \<Rightarrow> ds) @ [d]) h"

record served =
  sv_response :: response
  sv_size :: int
  sv_duration :: int
  sv_context :: "request_context option"
  sv_params :: json

record request_log =
  rl_lines :: "log_line list"
  rl_durations :: "(duration_labels, int list) gomap"

definition LoggingMiddleware :: "(string \<Rightarrow> string) \<Rightarrow> (request \<Rightarrow> 'w \<Rightarrow> served \<times> 'w) \<Rightarrow> request \<Rightarrow>
    request_log \<times> 'w \<Rightarrow> response \<times> (request_log \<times> 'w)" where
  "LoggingMiddleware escape next' r = (\<lambda>(l, w). case next' r w of (v, w') \<Rightarrow>
     (let p = escape (rq_path r); status = rp_code (sv_response v)
      in (sv_response v,
          \<lparr>rl_lines = rl_lines l @ [access_line p r (sv_context v) (sv_params v) status (sv_size v)
                       (sv_duration v)],
           rl_durations = observe (duration_of p r (sv_context v) status) (sv_duration v)
                            (rl_durations l)\<rparr>, w')))"

text \<open>
  With a context the path of the request is never a label: whatever clients ask for, the route
  label is a route's template or \<^verbatim>\<open>any\<close>.
\<close>

lemma route_label_context:
  "ctx = Some c \<Longrightarrow> rc_route_name c \<in> insert [] (set templates) \<Longrightarrow>
   route_label p ctx \<in> insert ''any'' (set templates)"
  by (auto simp: route_label_def)

lemma LoggingMiddleware_transparent:
  "(case LoggingMiddleware escape next' r (l, w) of (resp, l', w') \<Rightarrow> (resp, w')) =
   (case next' r w of (v, w') \<Rightarrow> (sv_response v, w'))"
  by (simp add: LoggingMiddleware_def Let_def split: prod.split)

lemma LoggingMiddleware_one_line:
  "length (rl_lines (fst (snd (LoggingMiddleware escape next' r (l, w))))) = Suc (length (rl_lines l))"
  by (simp add: LoggingMiddleware_def Let_def split: prod.split)

end
