(* ===== verification/Spec2Isabelle.thy ===== *)
theory Spec2Isabelle
  imports Config_View Pages Deployment Lifecycle Presence_Spec Boil_Rel_Spec
    Janus_Config Request_Log
begin

text \<open>
  A model of gxydb-api, the backend of a video conference: a Go server that keeps gateways, rooms,
  users and their sessions in a PostgreSQL database, is told by WebRTC gateways (Janus) what their
  users do, is asked by the clients for rooms, groups, composites and configuration, and lets
  administrators edit rooms and settings, which it passes on to the gateways.

  \<^bold>\<open>How the program is put together.\<close>  A request goes through the chain of \<^verbatim>\<open>api/app.go\<close>
  (context, recovery, client address, CORS, authentication, minimal permission, router) to a
  handler of \<^verbatim>\<open>api/api_v1.go\<close>, \<^verbatim>\<open>api/api_v2.go\<close> or \<^verbatim>\<open>api/api_admin.go\<close>.  Handlers read the
  caches of \<^verbatim>\<open>api/cache.go\<close> and the tables (\<^verbatim>\<open>models/\<close>), write inside transactions
  (\<^verbatim>\<open>pkg/sqlutil/tx.go\<close>), and hand messages of gateways to the session manager
  (\<^verbatim>\<open>api/session.go\<close>) and to the service protocol (\<^verbatim>\<open>api/service_protocol.go\<close>, which counts in
  \<^verbatim>\<open>domain/room_statistics.go\<close>).  Besides requests, the process reloads caches, closes stale
  sessions, synchronises the tokens of the gateways (\<^verbatim>\<open>domain/gateways.go\<close>) and collects statistics
  (\<^verbatim>\<open>instrumentation/\<close>) on timers, and reads MQTT messages.  Its configuration is read once from the
  environment of the process (\<^verbatim>\<open>common/config.go\<close>).

  \<^bold>\<open>State and effects.\<close>  A piece of code that touches state is a program \<^verbatim>\<open>'a go\<close>, a function
  from a \<^verbatim>\<open>world\<close> to an outcome (\<^verbatim>\<open>Ok\<close>, \<^verbatim>\<open>Err\<close>, \<^verbatim>\<open>Panic\<close>) and a world (theories
  \<^verbatim>\<open>Prelude\<close> and \<^verbatim>\<open>World\<close>).  A world holds the tables, the caches, the registry of admin clients,
  the configuration, the log of calls made to gateways, and the environment: the instant, the
  statements of the connection that fail, the answers of gateways, random numbers, entries the ARC
  cache drops.  All of these are inputs; no theorem assumes that they are benign unless it
  says so (\<^verbatim>\<open>healthy\<close>: no statement fails).  A rollback restores the tables and nothing else.

  \<^bold>\<open>Theories.\<close>
  \<^item> \<^verbatim>\<open>Prelude\<close>: outcomes, programs and their combinators, error values and the walk of
    \<^verbatim>\<open>errors.As\<close>, JSON values, Go maps; the locale \<^verbatim>\<open>step_rel\<close> carries any reflexive and transitive
    relation on worlds through the combinators.
  \<^item> \<^verbatim>\<open>Go_Std\<close>, \<^verbatim>\<open>Go_Json\<close>, \<^verbatim>\<open>Go_Net\<close>, \<^verbatim>\<open>Go_Time\<close>, \<^verbatim>\<open>Go_Duration\<close>: what the code uses of the
    standard library: \<^verbatim>\<open>strconv\<close>, \<^verbatim>\<open>strings\<close>, base64, \<^verbatim>\<open>encoding/json\<close>, addresses and masks,
    RFC 3339 instants, \<^verbatim>\<open>time.ParseDuration\<close>.
  \<^item> \<^verbatim>\<open>Schema\<close>, \<^verbatim>\<open>Schema_Laws\<close>: the rows and the statements the handlers send, by their effect, with the constraints of
    the migrations (\<^verbatim>\<open>schema_ok\<close>: keys, uniqueness, references, sequences), and that every
    statement keeps them.
  \<^item> \<^verbatim>\<open>Boil\<close>, \<^verbatim>\<open>Boil_Tables\<close>: the functions SQLBoiler generated in \<^verbatim>\<open>models/\<close> at the level of the
    text they send: one definition per template function, over a record of the names and column
    lists it was expanded with, and its instance for each of the nine tables.  An object is a
    function from column names to values; the state is the object, the three statement caches
    and the database behind the executor.
  \<^item> \<^verbatim>\<open>Boil_Keys\<close>, \<^verbatim>\<open>Boil_Cache\<close>, \<^verbatim>\<open>Boil_Transparent\<close>, \<^verbatim>\<open>Boil_Calls\<close>: the statement caches.  Their
    keys decode uniquely on the column names of a table; \<^verbatim>\<open>memo\<close> is the contract of a cache with
    an injective key, interpreted on the three of them; programs that do not look at the caches.
  \<^item> \<^verbatim>\<open>Boil_Laws\<close>, \<^verbatim>\<open>Boil_Checked\<close>, \<^verbatim>\<open>Boil_Spec\<close>: formats, the numbers of the placeholders of a
    statement, and the properties of the statement layer with a sample library.
  \<^item> \<^verbatim>\<open>Boil_Rel\<close>, \<^verbatim>\<open>Boil_Relations\<close>, \<^verbatim>\<open>Boil_Rel_Laws\<close>, \<^verbatim>\<open>Boil_Rel_Spec\<close>: the sixteen relationships:
    eager loading, \<^verbatim>\<open>Add\<close>, \<^verbatim>\<open>Set\<close>, \<^verbatim>\<open>Remove\<close> and the queries of a related table, on a store of
    objects with their \<^verbatim>\<open>R\<close> structs.
  \<^item> \<^verbatim>\<open>Config\<close>, \<^verbatim>\<open>Config_Env\<close>, \<^verbatim>\<open>World\<close>, \<^verbatim>\<open>Samples\<close>: the configuration of \<^verbatim>\<open>common/\<close> and its reading
    from the environment; the world; the small database of the witnesses.
  \<^item> \<^verbatim>\<open>Sqlutil\<close>, \<^verbatim>\<open>Crypt\<close>: \<^verbatim>\<open>InTx\<close>; encryption of secrets, identifiers.
  \<^item> \<^verbatim>\<open>Gateway_Tokens\<close>, \<^verbatim>\<open>Token_Sync\<close>: tokens of gateways, registry, observers, synchronisation.
  \<^item> \<^verbatim>\<open>Cache\<close>, \<^verbatim>\<open>Cache_Laws\<close>: the caches; the contract of a keyed cache is the locale
    \<^verbatim>\<open>keyed_cache\<close>, interpreted on each of them (\<^verbatim>\<open>lossy_cache\<close> on the ARC cache of users).
  \<^item> \<^verbatim>\<open>Session\<close>, \<^verbatim>\<open>Session_Laws\<close>, \<^verbatim>\<open>Session_Close\<close>, \<^verbatim>\<open>Session_Phantom\<close>: the session manager and the
    periodic cleaner.
  \<^item> \<^verbatim>\<open>Presence\<close>, \<^verbatim>\<open>Presence_Spec\<close>: the abstract state of the session manager (who is where), the
    invariant of the user cache under rollbacks, and the simulation of a small specification.
  \<^item> \<^verbatim>\<open>Room_Stats\<close>, \<^verbatim>\<open>Room_Stats_Race\<close>: statistics, service messages, and concurrent calls of
    \<^verbatim>\<open>OnAir\<close> as an interleaving of their reads and writes.
  \<^item> \<^verbatim>\<open>Http\<close>, \<^verbatim>\<open>Middleware\<close>, \<^verbatim>\<open>Middleware_Laws\<close>: requests, responses, errors, bodies
    (\<^verbatim>\<open>pkg/httputil\<close>) and the chain (\<^verbatim>\<open>middleware/\<close>).
  \<^item> \<^verbatim>\<open>Admin_Params\<close>, \<^verbatim>\<open>Api_Admin\<close>, \<^verbatim>\<open>Pages\<close>, \<^verbatim>\<open>Admin_Rooms\<close>: the admin API.
  \<^item> \<^verbatim>\<open>Api_Types\<close>, \<^verbatim>\<open>Api_V1\<close>, \<^verbatim>\<open>Room_View\<close>, \<^verbatim>\<open>Config_View\<close>: the client API.
  \<^item> \<^verbatim>\<open>App\<close>, \<^verbatim>\<open>Handler_Rules\<close>, \<^verbatim>\<open>App_Laws\<close>, \<^verbatim>\<open>App_Answers\<close>, \<^verbatim>\<open>App_Access\<close>, \<^verbatim>\<open>Handler_Success\<close>:
    the routes, the chain, the events of the process, and what holds of all of them.
  \<^item> \<^verbatim>\<open>Deployment\<close>: from the environment of the process to the answers of the server.
  \<^item> \<^verbatim>\<open>Metrics\<close>: the collector of statistics; the goroutines of a pass over the gateways, the timer
    and the receiving loop are the step relation \<^verbatim>\<open>collect_step\<close>.
  \<^item> \<^verbatim>\<open>Lifecycle\<close>: the services a configuration starts, their tickers and goroutines, \<^verbatim>\<open>Shutdown\<close>: the
    step relation \<^verbatim>\<open>process_step\<close>, in which everything the process does interleaves, and the
    invariant of the tables over it.
  \<^item> \<^verbatim>\<open>Request_Log\<close>, \<^verbatim>\<open>Janus_Config\<close>: the request log (\<^verbatim>\<open>middleware/logging.go\<close>) and the command
    that writes configuration files of a gateway (\<^verbatim>\<open>cmd/janus_config.go\<close>).

  \<^bold>\<open>What the theorems show.\<close>
  \<^item> Access: no admin handler works for a caller without its roles, no request that fails
    authentication has an effect, whom authentication lets through; a server whose environment
    leaves the checks on keeps them on.
  \<^item> Configuration: which environments are refused, what a configuration that was read satisfies,
    and that every setting can be given.
  \<^item> Invariants: nothing the process does from its start on breaks a constraint of the schema; every request is
    answered; reading routes change nothing; a transaction is all or nothing in the tables.
  \<^item> Statements: the caches of the statements make no difference to any sequence of calls, nor to
    goroutines that race for them; every statement has as many placeholders as arguments, in
    order; an eager load groups the rows by key; \<^verbatim>\<open>RemoveGateway\<close> drops the wrong session.
  \<^item> Sessions: entering leaves exactly one open session, leaving closes all, an update reopens,
    the cleaner closes exactly the stale ones; a user that a rollback leaves in the cache; over any
    sequence of messages the manager refines a map from accounts to places.
  \<^item> Metrics: the gauge of participants agrees with the list of groups; a pass over the gateways
    ends, and what a timeout leaves behind.
  \<^item> Life of the process: when \<^verbatim>\<open>Shutdown\<close> hangs and when it gets through, and a row that lets a
    goroutine end the process.
  \<^item> Tokens: a synchronisation leaves on the gateway the tokens of the database; the active token
    is the one created last; the gateways that are never synchronised.
  \<^item> Caches: a reload mirrors the table; a failed reload of tokens empties part of the cache.
  \<^item> Admin API: creating and deleting rooms with the gateways, the orphan a failing gateway leaves,
    dynamic settings, pages that partition a list.
  \<^item> Client API: the configuration as a function of the tables, users of a room counted by the
    database and by the handler, the composites a deleted room breaks.
  \<^item> Statistics: a call counts one up to the bound of the column, and interleaved calls lose some.
  \<^item> Configuration files: the files \<^verbatim>\<open>janus-config\<close> writes determine the rooms they were made of.

  \<^bold>\<open>Bounds and fuel.\<close>  The JSON reader takes as fuel twice the length of the text plus two, and two
  nested calls consume at least one character, so the fuel is never what stops it; nesting is
  unbounded where Go stops at ten thousand levels.  \<^verbatim>\<open>int\<close> and \<^verbatim>\<open>int64\<close> of Go wrap around at 64 bits where the code computes
  with values of a request (\<^verbatim>\<open>wrap64\<close>), columns are bounded where the schema bounds them
  (\<^verbatim>\<open>int4\<close> of the statistics, lengths of texts); keys and instants are unbounded integers, the
  latter in nanoseconds.  A handler reads one instant of the clock.  Every definition is total: no
  loop of the program needs fuel besides the reader of JSON.

  \<^bold>\<open>Parameters.\<close>  AES-GCM, bcrypt, the validity of an admin URL, regular expressions and the text of
  an \<^verbatim>\<open>ORDER BY\<close> of the database (\<^verbatim>\<open>ext\<close>); the token verifier, \<^verbatim>\<open>gorilla/mux\<close>, \<^verbatim>\<open>rs/cors\<close>, the
  parsers of \<^verbatim>\<open>janus-go\<close>, the page of metrics (\<^verbatim>\<open>deps\<close>); the packages of SQLBoiler and the executor
  of statements (\<^verbatim>\<open>boil\<close>, \<^verbatim>\<open>loading\<close>, \<^verbatim>\<open>executor\<close>).  A theorem names what it assumes of them,
  and its witness instantiates them.

  \<^bold>\<open>Two types that disagree.\<close>  The packages \<^verbatim>\<open>api\<close> and \<^verbatim>\<open>models\<close> of this commit disagree on
  \<^verbatim>\<open>rooms.gateway_uid\<close> and \<^verbatim>\<open>sessions.gateway_feed\<close>, which are strings for the handlers and integers
  for the rows, so the tree does not compile as it is.  The model follows the handlers, and in \<^verbatim>\<open>Janus_Config\<close>,
  which prints the rows, the rows.

  \<^bold>\<open>Not modelled.\<close>  Log lines other than the request log, which is not composed into the chain of
  \<^verbatim>\<open>App\<close>; locks (an operation of a cache
  is one step); goroutines and tickers are steps that interleave (\<^verbatim>\<open>Lifecycle\<close>, \<^verbatim>\<open>Metrics\<close>), each
  handler and each pass being one step; the connection to the database, the broker and the gateways;
  how the database reads the text of a statement (the effects of the statements the handlers send are
  those of \<^verbatim>\<open>Schema\<close>), the where helpers of \<^verbatim>\<open>models/\<close>, which only call \<^verbatim>\<open>qmhelper\<close>, aliasing of
  the slices passed to the relationship functions; headers of answers; the command line
  besides \<^verbatim>\<open>janus-config\<close>; test support.
\<close>

end
